(* ===== verification/Prelude.thy ===== *)
theory Prelude
  imports Main "HOL-Library.Word" "HOL-Library.Signed_Division"
begin

text \<open>
  Shared vocabulary of the development: the machine integers of the Go code, SQL tables as lists
  of rows with the three statement shapes the repositories use (select one, update where, count),
  and the arithmetic of sums over tables that the accounting proofs need.
\<close>

section \<open>Machine integers\<close>

text \<open>
  A Go \<open>int64\<close> (and a PostgreSQL \<open>BIGINT\<close>) is a 64-bit word read as two's complement by \<open>sint\<close>;
  \<open>int\<close> is 64 bits wide on the platforms the server runs on.
\<close>

type_synonym int64 = "64 word"

named_theorems int64_simps \<open>reading of 64-bit arithmetic as integer arithmetic\<close>

definition int64_ok :: "int \<Rightarrow> bool" where
  "int64_ok i \<longleftrightarrow> - (2 ^ 63) \<le> i \<and> i < 2 ^ 63"

lemma sint_int64_ok [simp, intro]: "int64_ok (sint (x :: int64))"
  using sint_greater_eq [of x] sint_less [of x] by (simp add: int64_ok_def)

lemma sint_word_of_int64 [int64_simps]: "int64_ok i \<Longrightarrow> sint (word_of_int i :: int64) = i"
  by (simp add: int64_ok_def signed_take_bit_int_eq_self sint_sbintrunc')

lemma sint64_le: "sint (x :: int64) < 9223372036854775808"
  using sint_int64_ok [of x] by (simp add: int64_ok_def)

lemma sint64_ge: "- 9223372036854775808 \<le> sint (x :: int64)"
  using sint_int64_ok [of x] by (simp add: int64_ok_def)

lemma word_of_int_sint64 [simp]: "(word_of_int (sint x) :: int64) = x"
  by simp

lemma sint_add64 [int64_simps]:
  "int64_ok (sint x + sint y) \<Longrightarrow> sint (x + y :: int64) = sint x + sint y"
  using sint_word_of_int64 [of "sint x + sint y"] by (metis wi_hom_add word_of_int_sint64)

lemma sint_minus64 [int64_simps]:
  assumes "sint (x :: int64) \<noteq> - (2 ^ 63)"
  shows "sint (- x) = - sint x"
proof -
  have "int64_ok (- sint x)"
    using assms sint64_le [of x] sint64_ge [of x] by (simp add: int64_ok_def)
  then show ?thesis
    using sint_word_of_int64 [of "- sint x"] by (metis wi_hom_neg word_of_int_sint64)
qed

lemma sint_minus64_pos: "0 \<le> sint (x :: int64) \<Longrightarrow> sint (- x) = - sint x"
  by (rule sint_minus64) simp

lemma sint_sub64 [int64_simps]:
  "int64_ok (sint x - sint y) \<Longrightarrow> sint (x - y :: int64) = sint x - sint y"
  using sint_word_of_int64 [of "sint x - sint y"] by (metis wi_hom_sub word_of_int_sint64)

text \<open>Go's \<open>/\<close> and \<open>%\<close> truncate towards zero.\<close>

definition go_div :: "int64 \<Rightarrow> int64 \<Rightarrow> int64" where
  "go_div a b = word_of_int (sint a sdiv sint b)"

definition go_mod :: "int64 \<Rightarrow> int64 \<Rightarrow> int64" where
  "go_mod a b = word_of_int (sint a smod sint b)"

lemma go_div_pos:
  assumes "0 \<le> sint x" and "0 < sint y"
  shows "sint (go_div x y) = sint x div sint y"
proof -
  have "sint x sdiv sint y = sint x div sint y"
    using assms by (cases "sint x = 0") (simp_all add: signed_divide_int_def)
  moreover have "0 \<le> sint x div sint y" "sint x div sint y \<le> sint x"
    using assms zdiv_mono2 [of "sint x" 1 "sint y"] by (simp_all add: pos_imp_zdiv_nonneg_iff)
  then have "int64_ok (sint x div sint y)"
    using sint64_le [of x] by (simp add: int64_ok_def)
  ultimately show ?thesis by (simp add: go_div_def int64_simps)
qed

lemma go_mod_pos:
  assumes "0 \<le> sint x" and "0 < sint y"
  shows "sint (go_mod x y) = sint x mod sint y"
proof -
  have "sint x smod sint y = sint x mod sint y"
    using assms by (cases "sint x = 0") (simp_all add: signed_modulo_int_def signed_divide_int_def minus_div_mult_eq_mod)
  moreover have "0 \<le> sint x mod sint y" "sint x mod sint y < sint y" using assms by auto
  then have "int64_ok (sint x mod sint y)"
    using sint64_le [of y] by (simp add: int64_ok_def)
  ultimately show ?thesis by (simp add: go_mod_def int64_simps)
qed

section \<open>Tables\<close>

text \<open>
  A table is the list of its rows in insertion order. \<open>UPDATE t SET \<dots> WHERE P\<close> is \<open>upd_where\<close>,
  \<open>SELECT \<dots> WHERE key = k\<close> is \<open>find\<close>, \<open>SELECT COUNT\<close> and \<open>RowsAffected\<close> are \<open>count_where\<close>.
\<close>

definition upd_where :: "('r \<Rightarrow> bool) \<Rightarrow> ('r \<Rightarrow> 'r) \<Rightarrow> 'r list \<Rightarrow> 'r list" where
  "upd_where P f rs = map (\<lambda>r. if P r then f r else r) rs"

definition count_where :: "('r \<Rightarrow> bool) \<Rightarrow> 'r list \<Rightarrow> nat" where
  "count_where P rs = length (filter P rs)"

lemma upd_where_Nil [simp]: "upd_where P f [] = []"
  by (simp add: upd_where_def)

lemma upd_where_Cons [simp]:
  "upd_where P f (r # rs) = (if P r then f r else r) # upd_where P f rs"
  by (simp add: upd_where_def)

lemma length_upd_where [simp]: "length (upd_where P f rs) = length rs"
  by (simp add: upd_where_def)

lemma upd_where_append [simp]: "upd_where P f (xs @ ys) = upd_where P f xs @ upd_where P f ys"
  by (simp add: upd_where_def)

lemma map_upd_where: "(\<And>r. g (f r) = g r) \<Longrightarrow> map g (upd_where P f rs) = map g rs"
  by (simp add: upd_where_def)

lemma upd_where_idle: "\<forall>r \<in> set rs. \<not> P r \<Longrightarrow> upd_where P f rs = rs"
  by (induction rs) auto

lemma set_upd_where: "set (upd_where P f rs) = (\<lambda>r. if P r then f r else r) ` set rs"
  by (simp add: upd_where_def)

lemma find_Some_in: "find P rs = Some r \<Longrightarrow> r \<in> set rs \<and> P r"
  by (metis find_Some_iff in_set_conv_nth)

lemma find_exists: "r \<in> set rs \<Longrightarrow> P r \<Longrightarrow> \<exists>r'. find P rs = Some r'"
  by (metis find_None_iff not_Some_eq)

lemma find_append: "find P (xs @ ys) = (case find P xs of Some r \<Rightarrow> Some r | None \<Rightarrow> find P ys)"
  by (induction xs) auto

lemma find_key_unique:
  "distinct (map k rs) \<Longrightarrow> r \<in> set rs \<Longrightarrow> find (\<lambda>x. k x = k r) rs = Some r"
  by (induction rs) (auto simp: image_iff)

lemma find_upd_where:
  "(\<And>r. Q (f r) = Q r) \<Longrightarrow>
   find Q (upd_where P f rs) = map_option (\<lambda>r. if P r then f r else r) (find Q rs)"
  by (induction rs) auto

lemma count_where_0 [simp]: "count_where P rs = 0 \<longleftrightarrow> (\<forall>r \<in> set rs. \<not> P r)"
  by (simp add: count_where_def filter_empty_conv)

section \<open>Sums over tables\<close>

definition sum_by :: "('r \<Rightarrow> int) \<Rightarrow> 'r list \<Rightarrow> int" where
  "sum_by f rs = sum_list (map f rs)"

lemma sum_by_Nil [simp]: "sum_by f [] = 0"
  by (simp add: sum_by_def)

lemma sum_by_Cons [simp]: "sum_by f (r # rs) = f r + sum_by f rs"
  by (simp add: sum_by_def)

lemma sum_by_append [simp]: "sum_by f (xs @ ys) = sum_by f xs + sum_by f ys"
  by (simp add: sum_by_def)

lemma sum_by_cong: "(\<And>r. r \<in> set rs \<Longrightarrow> f r = g r) \<Longrightarrow> sum_by f rs = sum_by g rs"
  unfolding sum_by_def by (rule arg_cong [where f = sum_list], rule map_cong) auto

lemma sum_by_nonneg: "(\<And>r. r \<in> set rs \<Longrightarrow> 0 \<le> f r) \<Longrightarrow> 0 \<le> sum_by f rs"
  unfolding sum_by_def by (rule sum_list_nonneg) auto

lemma sum_by_add: "sum_by (\<lambda>r. f r + g r) rs = sum_by f rs + sum_by g rs"
  by (induction rs) auto

lemma sum_by_upd_where_idle:
  "(\<And>r. f (g r) = f r) \<Longrightarrow> sum_by f (upd_where P g rs) = sum_by f rs"
  by (induction rs) auto

text \<open>Updating the one row with a given key moves the sum by the change of that row.\<close>

lemma sum_by_upd_key:
  assumes "distinct (map k rs)" and "r \<in> set rs"
  shows "sum_by f (upd_where (\<lambda>x. k x = k r) g rs) = sum_by f rs - f r + f (g r)"
  using assms
proof (induction rs)
  case Nil
  then show ?case by simp
next
  case (Cons x xs)
  show ?case
  proof (cases "k x = k r")
    case True
    with Cons.prems have "x = r" by (auto simp: image_iff)
    moreover have "upd_where (\<lambda>x. k x = k r) g xs = xs"
      using Cons.prems(1) True by (intro upd_where_idle) (auto simp: image_iff)
    ultimately show ?thesis by simp
  next
    case False
    with Cons show ?thesis by auto
  qed
qed

text \<open>Summing each row's own share of another table gives the whole of it.\<close>

lemma sum_by_partition:
  assumes "distinct (map k rs)" and "\<forall>e \<in> set es. owner e \<in> k ` set rs"
  shows "sum_by (\<lambda>r. sum_by f (filter (\<lambda>e. owner e = k r) es)) rs = sum_by f es"
  using assms(2)
proof (induction es)
  case Nil
  then show ?case by (induction rs) auto
next
  case (Cons e es)
  from Cons.prems obtain r where r: "r \<in> set rs" "owner e = k r" by auto
  have one: "sum_by (\<lambda>r'. if owner e = k r' then f e else 0) rs = f e"
    using assms(1) r
  proof (induction rs)
    case Nil
    then show ?case by simp
  next
    case (Cons x xs)
    show ?case
    proof (cases "owner e = k x")
      case True
      with Cons.prems have "\<forall>y \<in> set xs. owner e \<noteq> k y" by (auto simp: image_iff)
      then have "sum_by (\<lambda>r'. if owner e = k r' then f e else 0) xs = sum_by (\<lambda>_. 0) xs"
        by (intro sum_by_cong) auto
      also have "\<dots> = 0" by (induction xs) auto
      finally show ?thesis using True by simp
    next
      case False
      with Cons show ?thesis by auto
    qed
  qed
  have "sum_by (\<lambda>r'. sum_by f (filter (\<lambda>e'. owner e' = k r') (e # es))) rs =
        sum_by (\<lambda>r'. (if owner e = k r' then f e else 0)
                      + sum_by f (filter (\<lambda>e'. owner e' = k r') es)) rs"
    by (intro sum_by_cong) auto
  with one Cons show ?case by (simp add: sum_by_add)
qed

end
