(* ===== verification/GoStd.thy ===== *)
theory GoStd
  imports Prelude "HOL-Library.Char_ord" "HOL-Library.List_Lexorder" "HOL-Library.Sublist"
begin

text \<open>
  The parts of Go's standard library that the server computes with: decimal formatting and parsing
  of integers (\<open>strconv\<close>, \<open>fmt\<close>), string trimming and comparison (\<open>strings\<close>), and instants
  (\<open>time\<close>). A Go string is its list of bytes, so \<open>length\<close> is Go's \<open>len\<close> and the list order of
  the library is Go's \<open><\<close> on strings.
\<close>

section \<open>Decimal numbers\<close>

definition digit :: "nat \<Rightarrow> char" where
  "digit n = char_of (48 + n)"

fun show_nat :: "nat \<Rightarrow> string" where
  "show_nat n = (if n < 10 then [digit n] else show_nat (n div 10) @ [digit (n mod 10)])"

declare show_nat.simps [simp del]

definition show_int :: "int \<Rightarrow> string" where
  "show_int i = (if i < 0 then CHR ''-'' # show_nat (nat (- i)) else show_nat (nat i))"

text \<open>\<open>strconv.FormatInt(n, 10)\<close> and the verb \<open>%d\<close>.\<close>

definition FormatInt :: "int64 \<Rightarrow> string" where
  "FormatInt x = show_int (sint x)"

text \<open>The verb \<open>%02d\<close>: padded with zeros to two characters, the sign counted.\<close>

definition fmt_02d :: "int64 \<Rightarrow> string" where
  "fmt_02d x =
    (if sint x < 0
     then CHR ''-'' # (let ds = show_nat (nat (- sint x)) in replicate (1 - length ds) CHR ''0'' @ ds)
     else (let ds = show_nat (nat (sint x)) in replicate (2 - length ds) CHR ''0'' @ ds))"

definition digit_val :: "char \<Rightarrow> nat option" where
  "digit_val c = (let n = of_char c :: nat in if 48 \<le> n \<and> n \<le> 57 then Some (n - 48) else None)"

fun parse_digits :: "nat \<Rightarrow> string \<Rightarrow> nat option" where
  "parse_digits acc [] = Some acc"
| "parse_digits acc (c # cs) =
     (case digit_val c of None \<Rightarrow> None | Some d \<Rightarrow> parse_digits (10 * acc + d) cs)"

text \<open>\<open>strconv.ParseInt(s, 10, 64)\<close>, which \<open>strconv.Atoi\<close> is too; \<open>None\<close> is its error.\<close>

definition ParseInt :: "string \<Rightarrow> int64 option" where
  "ParseInt s =
    (let (neg, ds) = (case s of
         [] \<Rightarrow> (False, [])
       | c # r \<Rightarrow> if c = CHR ''-'' then (True, r) else if c = CHR ''+'' then (False, r) else (False, s))
     in if ds = [] then None
        else case parse_digits 0 ds of
          None \<Rightarrow> None
        | Some n \<Rightarrow> (let i = (if neg then - int n else int n)
                    in if int64_ok i then Some (word_of_int i) else None))"

text \<open>
  The value of \<open>strconv.Atoi\<close> when its error is ignored: zero for a text that is no number, the nearest number for
  one that is too large. The digits are read from the left, and an overflow ends the reading.
\<close>

fun uint_digits :: "nat \<Rightarrow> string \<Rightarrow> nat option" where
  "uint_digits acc [] = Some acc"
| "uint_digits acc (c # cs) =
     (case digit_val c of
        None \<Rightarrow> None
      | Some d \<Rightarrow> if 2 ^ 64 \<le> 10 * acc + d then Some (2 ^ 64 - 1) else uint_digits (10 * acc + d) cs)"

definition Atoi_value :: "string \<Rightarrow> int64" where
  "Atoi_value s =
    (let (neg, ds) = (case s of
         [] \<Rightarrow> (False, [])
       | c # r \<Rightarrow> if c = CHR ''-'' then (True, r) else if c = CHR ''+'' then (False, r) else (False, s))
     in if ds = [] then 0
        else case uint_digits 0 ds of
          None \<Rightarrow> 0
        | Some n \<Rightarrow> if neg then word_of_int (- int (min n (2 ^ 63))) else word_of_int (int (min n (2 ^ 63 - 1))))"

lemma digit_0: "digit 0 = CHR ''0''"
  by code_simp

lemma digit_val_digit [simp]: "d < 10 \<Longrightarrow> digit_val (digit d) = Some d"
  by (simp add: digit_val_def digit_def Let_def)

lemma digit_inject: "a < 10 \<Longrightarrow> b < 10 \<Longrightarrow> digit a = digit b \<longleftrightarrow> a = b"
  by (metis digit_val_digit option.inject)

lemma parse_digits_append:
  "parse_digits acc (xs @ ys) = (case parse_digits acc xs of None \<Rightarrow> None | Some a \<Rightarrow> parse_digits a ys)"
  by (induction acc xs rule: parse_digits.induct) (auto split: option.splits)

lemma show_nat_nonempty [simp]: "show_nat n \<noteq> []"
  by (subst show_nat.simps) simp

lemma parse_show_nat [simp]: "parse_digits 0 (show_nat n) = Some n"
proof (induction n rule: show_nat.induct)
  case (1 n)
  show ?case
  proof (cases "n < 10")
    case True
    then show ?thesis by (subst show_nat.simps) simp
  next
    case False
    with 1 have "parse_digits 0 (show_nat (n div 10)) = Some (n div 10)" by simp
    with False show ?thesis
      by (subst show_nat.simps) (simp add: parse_digits_append)
  qed
qed

lemma show_nat_inject [simp]: "show_nat m = show_nat n \<longleftrightarrow> m = n"
  by (metis option.inject parse_show_nat)

lemma show_nat_digits: "c \<in> set (show_nat n) \<Longrightarrow> 48 \<le> (of_char c :: nat) \<and> of_char c \<le> (57 :: nat)"
proof (induction n rule: show_nat.induct)
  case (1 n)
  have dig: "48 \<le> (of_char (digit d) :: nat) \<and> of_char (digit d) \<le> (57 :: nat)" if "d < 10" for d
    using that by (simp add: digit_def)
  show ?case
  proof (cases "n < 10")
    case True
    with "1.prems" dig [of n] show ?thesis by (subst (asm) show_nat.simps) simp
  next
    case False
    with "1.prems" have "c \<in> set (show_nat (n div 10)) \<or> c = digit (n mod 10)"
      by (subst (asm) show_nat.simps) auto
    with False "1.IH" dig [of "n mod 10"] show ?thesis by auto
  qed
qed

lemma show_nat_no_char: "of_char c < (48 :: nat) \<Longrightarrow> c \<notin> set (show_nat n)"
  using show_nat_digits by fastforce

lemma show_nat_hd_ne: "of_char c < (48 :: nat) \<Longrightarrow> show_nat n \<noteq> c # r"
  using show_nat_no_char [of c n] by auto

lemma show_nat_lt10: "n < 10 \<Longrightarrow> show_nat n = [digit n]"
  by (subst show_nat.simps) simp

lemma show_nat_lt100: "10 \<le> n \<Longrightarrow> n < 100 \<Longrightarrow> show_nat n = [digit (n div 10), digit (n mod 10)]"
  by (subst show_nat.simps) (simp add: show_nat_lt10)

lemma ParseInt_show_int: "int64_ok i \<Longrightarrow> ParseInt (show_int i) = Some (word_of_int i)"
proof (cases "i < 0")
  case True
  moreover assume "int64_ok i"
  ultimately show ?thesis by (simp add: ParseInt_def show_int_def)
next
  case False
  assume ok: "int64_ok i"
  obtain c r where cr: "show_nat (nat i) = c # r" by (cases "show_nat (nat i)") auto
  have "c \<noteq> CHR ''-''" "c \<noteq> CHR ''+''"
    using show_nat_hd_ne [of "CHR ''-''" "nat i" r] show_nat_hd_ne [of "CHR ''+''" "nat i" r] cr by auto
  moreover have "parse_digits 0 (c # r) = Some (nat i)" using parse_show_nat [of "nat i"] cr by simp
  ultimately show ?thesis using False ok cr by (simp add: ParseInt_def show_int_def del: parse_digits.simps)
qed

lemma ParseInt_FormatInt [simp]: "ParseInt (FormatInt x) = Some x"
  by (simp add: FormatInt_def ParseInt_show_int)

lemma FormatInt_inject [simp]: "FormatInt x = FormatInt y \<longleftrightarrow> x = y"
  by (metis ParseInt_FormatInt option.inject)

lemma fmt_02d_small:
  assumes "0 \<le> sint x" and "sint x < 100"
  shows "fmt_02d x = [digit (nat (sint x) div 10), digit (nat (sint x) mod 10)]"
proof (cases "sint x < 10")
  case True
  with assms show ?thesis by (simp add: fmt_02d_def show_nat_lt10 digit_0 Let_def)
next
  case False
  then have "10 \<le> nat (sint x)" "nat (sint x) < 100" using assms by auto
  with assms show ?thesis by (simp add: fmt_02d_def show_nat_lt100 Let_def)
qed

section \<open>White space\<close>

text \<open>
  \<open>strings.TrimSpace\<close> removes the code points of \<open>unicode.IsSpace\<close> at both ends; each is listed by
  its UTF-8 bytes. No such byte string starts or ends inside another one, so removing a leading
  (trailing) listed byte string is removing the first (last) rune.
\<close>

definition space_runes :: "string list" where
  "space_runes =
    [[CHR 0x09], [CHR 0x0A], [CHR 0x0B], [CHR 0x0C], [CHR 0x0D], [CHR 0x20],
     [CHR 0xC2, CHR 0x85], [CHR 0xC2, CHR 0xA0], [CHR 0xE1, CHR 0x9A, CHR 0x80],
     [CHR 0xE2, CHR 0x80, CHR 0x80], [CHR 0xE2, CHR 0x80, CHR 0x81], [CHR 0xE2, CHR 0x80, CHR 0x82],
     [CHR 0xE2, CHR 0x80, CHR 0x83], [CHR 0xE2, CHR 0x80, CHR 0x84], [CHR 0xE2, CHR 0x80, CHR 0x85],
     [CHR 0xE2, CHR 0x80, CHR 0x86], [CHR 0xE2, CHR 0x80, CHR 0x87], [CHR 0xE2, CHR 0x80, CHR 0x88],
     [CHR 0xE2, CHR 0x80, CHR 0x89], [CHR 0xE2, CHR 0x80, CHR 0x8A], [CHR 0xE2, CHR 0x80, CHR 0xA8],
     [CHR 0xE2, CHR 0x80, CHR 0xA9], [CHR 0xE2, CHR 0x80, CHR 0xAF], [CHR 0xE2, CHR 0x81, CHR 0x9F],
     [CHR 0xE3, CHR 0x80, CHR 0x80]]"

function trim_left :: "string list \<Rightarrow> string \<Rightarrow> string" where
  "trim_left R s =
    (case find (\<lambda>p. prefix p s) R of
       None \<Rightarrow> s
     | Some p \<Rightarrow> if s = [] then [] else trim_left R (drop (max 1 (length p)) s))"
  by pat_completeness auto
termination
  by (relation "measure (\<lambda>(R, s). length s)") auto

declare trim_left.simps [simp del]

definition TrimSpace :: "string \<Rightarrow> string" where
  "TrimSpace s = rev (trim_left (map rev space_runes) (rev (trim_left space_runes s)))"

lemma length_trim_left: "length (trim_left R s) \<le> length s"
proof (induction R s rule: trim_left.induct)
  case (1 R s)
  show ?case
  proof (cases "find (\<lambda>p. prefix p s) R")
    case None
    then show ?thesis by (simp add: trim_left.simps [of R s])
  next
    case (Some p)
    show ?thesis
    proof (cases "s = []")
      case True
      with Some show ?thesis by (simp add: trim_left.simps [of R "[]"])
    next
      case False
      with 1 Some have "length (trim_left R (drop (max 1 (length p)) s)) \<le> length s"
        by fastforce
      with False Some show ?thesis by (simp add: trim_left.simps [of R s])
    qed
  qed
qed

lemma length_TrimSpace: "length (TrimSpace s) \<le> length s"
proof -
  have "length (TrimSpace s) \<le> length (trim_left space_runes s)"
    using length_trim_left [of "map rev space_runes" "rev (trim_left space_runes s)"]
    by (simp add: TrimSpace_def del: rev_map)
  also have "\<dots> \<le> length s" by (rule length_trim_left)
  finally show ?thesis .
qed

lemma trim_left_id: "find (\<lambda>p. prefix p s) R = None \<Longrightarrow> trim_left R s = s"
  by (simp add: trim_left.simps [of R s])

section \<open>Comparison and splitting\<close>

text \<open>\<open>strings.SplitN(s, sep, 2)\<close> with a one-byte separator: the parts around its first occurrence.\<close>

fun SplitN2 :: "char \<Rightarrow> string \<Rightarrow> string list" where
  "SplitN2 sep [] = [[]]"
| "SplitN2 sep (c # cs) =
     (if c = sep then [[], cs]
      else case SplitN2 sep cs of [] \<Rightarrow> [[c]] | p # ps \<Rightarrow> (c # p) # ps)"

definition ascii_lower :: "char \<Rightarrow> char" where
  "ascii_lower c = (let n = of_char c :: nat in if 65 \<le> n \<and> n \<le> 90 then char_of (n + 32) else c)"

section \<open>Instants\<close>

text \<open>
  A \<open>time.Time\<close> is the number of nanoseconds since the Unix epoch; a \<open>time.Duration\<close> is an \<open>int64\<close>
  number of nanoseconds, so that a product of a duration with a second wraps as it does in Go.
\<close>

type_synonym gotime = int

definition Unix :: "gotime \<Rightarrow> int" where
  "Unix t = t div 1000000000"

definition second :: int64 where
  "second = 1000000000"

definition time_Add :: "gotime \<Rightarrow> int64 \<Rightarrow> gotime" where
  "time_Add t d = t + sint d"

end
