(* ===== verification/Currency.thy ===== *)
theory Currency
  imports GoStd
begin

text \<open>
  Display of amounts. \<open>Format\<close> is \<open>currency.Format\<close>; \<open>itoa\<close>, \<open>padLeft\<close> and \<open>formatBalance\<close> are the
  second formatter, which the auth package carries in \<open>models.go\<close>; \<open>search_display\<close> is the format
  string of the wallet search. Cents are \<open>int64\<close>, negation wraps and division truncates as in Go.
\<close>

definition Format :: "int64 \<Rightarrow> string \<Rightarrow> string" where
  "Format cents symbol =
    (let sign = (if sint cents < 0 then ''-'' else '''');
         cents = (if sint cents < 0 then - cents else cents)
     in sign @ symbol @ '' '' @ FormatInt (go_div cents 100) @ ''.'' @ fmt_02d (go_mod cents 100))"

definition search_display :: "int64 \<Rightarrow> string" where
  "search_display balanceCents =
    ''DD$ '' @ FormatInt (go_div balanceCents 100) @ ''.'' @ fmt_02d (go_mod balanceCents 100)"

text \<open>
  The digit loop of \<open>itoa\<close> fills a buffer from its end; the accumulator is the filled tail. It runs
  while \<open>n > 0\<close>, and the smallest \<open>int64\<close> is its own negation.
\<close>

function itoa_loop :: "int64 \<Rightarrow> string \<Rightarrow> string" where
  "itoa_loop n buf =
    (if 0 < sint n
     then itoa_loop (go_div n 10) (char_of (48 + nat (sint (go_mod n 10))) # buf)
     else buf)"
  by pat_completeness auto
termination
proof (relation "measure (\<lambda>(n, _). nat (sint n))")
  show "((go_div n 10, char_of (48 + nat (sint (go_mod n 10))) # buf), n, buf)
      \<in> measure (\<lambda>(n, _). nat (sint n))" if "0 < sint n" for n :: int64 and buf
    using that by (simp add: go_div_pos)
qed simp

declare itoa_loop.simps [simp del]

definition itoa :: "int64 \<Rightarrow> string" where
  "itoa n =
    (if n = 0 then ''0''
     else let neg = sint n < 0;
              n = (if neg then - n else n);
              buf = itoa_loop n ''''
          in if neg then CHR ''-'' # buf else buf)"

function padLeft :: "string \<Rightarrow> nat \<Rightarrow> char \<Rightarrow> string" where
  "padLeft s n pad = (if length s < n then padLeft (pad # s) n pad else s)"
  by pat_completeness auto
termination
  by (relation "measure (\<lambda>(s, n, _). n - length s)") auto

declare padLeft.simps [simp del]

definition formatBalance :: "int64 \<Rightarrow> string \<Rightarrow> string" where
  "formatBalance cents currency =
    (let whole = go_div cents 100;
         frac = go_mod cents 100;
         frac = (if sint frac < 0 then - frac else frac)
     in (currency @ '' '') @ (itoa whole @ ''.'' @ padLeft (itoa frac) 2 CHR ''0''))"

section \<open>What the formatters print\<close>

text \<open>The specification: sign, symbol, whole units, and the cents on exactly two digits.\<close>

definition display_spec :: "int \<Rightarrow> string \<Rightarrow> string" where
  "display_spec i symbol =
    (if i < 0 then ''-'' else '''') @ symbol @ '' '' @ show_nat (nat \<bar>i\<bar> div 100) @ ''.'' @
    [digit (nat \<bar>i\<bar> mod 100 div 10), digit (nat \<bar>i\<bar> mod 10)]"

lemma format_tail:
  assumes "0 \<le> sint x"
  shows "FormatInt (go_div x 100) @ ''.'' @ fmt_02d (go_mod x 100) =
    show_nat (nat (sint x) div 100) @ ''.'' @ [digit (nat (sint x) mod 100 div 10), digit (nat (sint x) mod 10)]"
proof -
  have m: "sint (go_mod x 100) = sint x mod 100" and d: "sint (go_div x 100) = sint x div 100"
    using assms by (simp_all add: go_mod_pos go_div_pos)
  have "FormatInt (go_div x 100) = show_nat (nat (sint x) div 100)"
    using assms d by (simp add: FormatInt_def show_int_def nat_div_distrib pos_imp_zdiv_nonneg_iff)
  moreover have "fmt_02d (go_mod x 100) = [digit (nat (sint x) mod 100 div 10), digit (nat (sint x) mod 10)]"
    using m assms by (subst fmt_02d_small) (auto simp: nat_mod_distrib mod_mod_cancel)
  ultimately show ?thesis by simp
qed

lemma Format_spec: "sint c \<noteq> - (2 ^ 63) \<Longrightarrow> Format c symbol = display_spec (sint c) symbol"
  using format_tail [of c] format_tail [of "- c"] sint_minus64 [of c]
  by (auto simp: Format_def display_spec_def Let_def)

lemma two_digits: "(k :: nat) = 100 * (k div 100) + (10 * (k mod 100 div 10) + k mod 10)"
proof -
  have "k mod 100 = 10 * (k mod 100 div 10) + k mod 100 mod 10" by (metis mult_div_mod_eq)
  moreover have "k mod 100 mod 10 = k mod 10" by (simp add: mod_mod_cancel)
  moreover have "k = 100 * (k div 100) + k mod 100" by (metis mult_div_mod_eq)
  ultimately show ?thesis by linarith
qed

lemma display_tail_inject:
  assumes "show_nat (m div 100) @ ''.'' @ [digit (m mod 100 div 10), digit (m mod 10)] =
           show_nat (n div 100) @ ''.'' @ [digit (n mod 100 div 10), digit (n mod 10)]"
  shows "m = n"
proof -
  from assms have eq: "show_nat (m div 100) = show_nat (n div 100)"
    and tl: "digit (m mod 100 div 10) = digit (n mod 100 div 10)" "digit (m mod 10) = digit (n mod 10)"
    by auto
  have "m div 100 = n div 100" using eq by simp
  moreover have "m mod 100 div 10 = n mod 100 div 10"
    using tl(1) by (subst (asm) digit_inject) (auto simp: less_mult_imp_div_less)
  moreover have "m mod 10 = n mod 10"
    using tl(2) by (subst (asm) digit_inject) auto
  moreover note two_digits
  ultimately show ?thesis by metis
qed

lemma itoa_loop_show: "0 < sint n \<Longrightarrow> itoa_loop n buf = show_nat (nat (sint n)) @ buf"
proof (induction n buf rule: itoa_loop.induct)
  case (1 n buf)
  let ?q = "go_div n 10" and ?c = "char_of (48 + nat (sint (go_mod n 10)))"
  have q: "sint ?q = sint n div 10" and r: "?c = digit (nat (sint n) mod 10)"
    using "1.prems" by (simp_all add: go_div_pos go_mod_pos digit_def nat_mod_distrib)
  show ?case
  proof (cases "sint n < 10")
    case True
    with q have "sint ?q = 0" using "1.prems" by simp
    then have "itoa_loop ?q (?c # buf) = ?c # buf" by (subst itoa_loop.simps) simp
    with True "1.prems" r show ?thesis by (simp add: itoa_loop.simps [of n] show_nat_lt10)
  next
    case False
    with q have "0 < sint ?q" by simp
    with "1.IH" "1.prems" have "itoa_loop ?q (?c # buf) = show_nat (nat (sint n div 10)) @ ?c # buf"
      using q by simp
    with False "1.prems" r show ?thesis
      by (simp add: itoa_loop.simps [of n] show_nat.simps [of "nat (sint n)"] nat_div_distrib)
  qed
qed

lemma itoa_show: "sint n \<noteq> - (2 ^ 63) \<Longrightarrow> itoa n = show_int (sint n)"
proof (cases "n = 0")
  case True
  then show ?thesis by (simp add: itoa_def show_int_def show_nat_lt10 digit_0)
next
  case False
  assume min: "sint n \<noteq> - (2 ^ 63)"
  from False have "sint n \<noteq> 0" by (metis signed_eq_0_iff)
  then show ?thesis
    using itoa_loop_show [of n "''''"] itoa_loop_show [of "- n" "''''"] sint_minus64 [OF min] False
    by (auto simp: itoa_def show_int_def Let_def)
qed

lemma padLeft_2:
  assumes "k < 100"
  shows "padLeft (show_nat k) 2 CHR ''0'' = [digit (k div 10), digit (k mod 10)]"
proof (cases "k < 10")
  case True
  then show ?thesis
    by (simp add: show_nat_lt10 padLeft.simps [of "[digit k]"] padLeft.simps [of "[CHR ''0'', digit k]"] digit_0)
next
  case False
  then show ?thesis using assms
    by (simp add: show_nat_lt100 padLeft.simps [of "[digit (k div 10), digit (k mod 10)]"])
qed

text \<open>On the balances a wallet can have, the two formatters agree.\<close>

lemma formatBalance_nonneg:
  assumes "0 \<le> sint c"
  shows "formatBalance c symbol = display_spec (sint c) symbol"
proof -
  have w: "sint (go_div c 100) = sint c div 100" and f: "sint (go_mod c 100) = sint c mod 100"
    using assms by (simp_all add: go_div_pos go_mod_pos)
  have "itoa (go_div c 100) = show_nat (nat (sint c) div 100)"
    using w assms by (subst itoa_show) (auto simp: show_int_def nat_div_distrib pos_imp_zdiv_neg_iff)
  moreover have "itoa (go_mod c 100) = show_nat (nat (sint c) mod 100)"
    using f assms by (subst itoa_show) (auto simp: show_int_def nat_mod_distrib)
  moreover have "\<not> sint (go_mod c 100) < 0" using f by simp
  ultimately show ?thesis
    using assms by (simp add: formatBalance_def Let_def padLeft_2 display_spec_def mod_mod_cancel)
qed

lemma search_display_nonneg:
  "0 \<le> sint c \<Longrightarrow> search_display c = display_spec (sint c) ''DD$''"
  using format_tail [of c] by (simp add: search_display_def display_spec_def)

lemma sint_min64: "sint (- 9223372036854775808 :: int64) = - (2 ^ 63)"
  by simp

end
