(* ===== verification/Errors.thy ===== *)
theory Errors
  imports Prelude
begin

text \<open>
  Errors as values, and the shape of a Go function that performs effects. Each package's sentinel
  errors (\<open>var Err\<dots> = errors.New(\<dots>)\<close>) are a datatype of their own; a Go \<open>error\<close> is one of
  them, an error of the database driver, an error made on the spot, or a wrapped error
  (\<open>fmt.Errorf\<close> with the verb \<open>%w\<close>), which \<open>errors.Is\<close> looks through.
\<close>

section \<open>Sentinel errors of the packages\<close>

datatype ledger_error =
    ErrInsufficientFunds | ErrWalletFrozen | ErrWalletNotFound | ErrSelfTransfer | ErrAmountZero
  | ErrIdempotentReplay

datatype payment_error =
    ErrSelfPayment | ErrAmountZero | ErrReferenceTooLong | ErrTransactionNotFound | ErrAccessDenied
  | ErrMissingIdempotencyKey

datatype wallet_error = ErrWalletNotFound | ErrAccessDenied | ErrAlreadyExists

datatype admin_error = ErrAmountTooLarge | ErrAmountZero | ErrReasonTooShort | ErrMissingIdempotencyKey

datatype auth_error =
    ErrEmailTaken | ErrInvalidCredentials | ErrAccountLocked | ErrAccountInactive | ErrTokenInvalid
  | ErrTokenRevoked | ErrWeakPassword | ErrInvalidEmail | ErrNameTooShort

datatype merchant_error =
    ErrMerchantNotFound | ErrMerchantAlreadyExists | ErrMerchantInactive | ErrPaymentRequestNotFound
  | ErrPaymentRequestExpired | ErrPaymentRequestAlreadyPaid | ErrPaymentRequestCancelled
  | ErrAmountZero | ErrDescriptionTooLong | ErrReferenceTooLong | ErrNotMerchant | ErrSelfPayment

text \<open>
  \<open>NoRows\<close> is \<open>pgx.ErrNoRows\<close>, \<open>PgError c\<close> a \<open>*pgconn.PgError\<close> with code \<open>c\<close>, \<open>Driver\<close> any other
  failure of a database or Redis call (lost connection, timeout), \<open>Errorf m\<close> an error without a
  sentinel.
\<close>

datatype gerror =
    Ledger ledger_error
  | Payment payment_error
  | Wallet wallet_error
  | Admin admin_error
  | Auth auth_error
  | Merchant merchant_error
  | NoRows
  | PgError string
  | Driver
  | Errorf string
  | Wrap string gerror

fun errors_Is :: "gerror \<Rightarrow> gerror \<Rightarrow> bool" where
  "errors_Is (Wrap m e) t = (Wrap m e = t \<or> errors_Is e t)"
| "errors_Is e t = (e = t)"

text \<open>
  \<open>database.IsUniqueViolation\<close>: \<open>errors.As\<close> to a \<open>PgError\<close>, then its code.
\<close>

fun IsUniqueViolation :: "gerror \<Rightarrow> bool" where
  "IsUniqueViolation (Wrap m e) = IsUniqueViolation e"
| "IsUniqueViolation (PgError c) = (c = ''23505'')"
| "IsUniqueViolation _ = False"

lemma errors_Is_refl [simp]: "errors_Is e e"
  by (cases e) auto

section \<open>Effects\<close>

text \<open>
  A function that may fail and works on the state \<open>'s\<close> returns its error or its value, with the
  state after the call. \<open>bind_io\<close> is \<open>x, err := m; if err != nil { return err }\<close>, \<open>catch_io\<close> the
  same with a handler for the error, \<open>wrap_io\<close> returns the error wrapped.
\<close>

type_synonym ('s, 'a) io = "'s \<Rightarrow> (gerror + 'a) \<times> 's"

definition ret :: "'a \<Rightarrow> ('s, 'a) io" where
  "ret a s = (Inr a, s)"

definition throw :: "gerror \<Rightarrow> ('s, 'a) io" where
  "throw e s = (Inl e, s)"

definition catch_io :: "('s, 'a) io \<Rightarrow> (gerror \<Rightarrow> ('s, 'b) io) \<Rightarrow> ('a \<Rightarrow> ('s, 'b) io) \<Rightarrow> ('s, 'b) io" where
  "catch_io m h k s = (case m s of (Inl e, s') \<Rightarrow> h e s' | (Inr a, s') \<Rightarrow> k a s')"

definition bind_io :: "('s, 'a) io \<Rightarrow> ('a \<Rightarrow> ('s, 'b) io) \<Rightarrow> ('s, 'b) io" where
  "bind_io m k = catch_io m throw k"

definition wrap_io :: "string \<Rightarrow> ('s, 'a) io \<Rightarrow> ('s, 'a) io" where
  "wrap_io msg m = catch_io m (\<lambda>e. throw (Wrap msg e)) ret"

text \<open>\<open>_ = m\<close>: the call's error is dropped (fire and forget).\<close>

definition ignore_io :: "('s, 'a) io \<Rightarrow> ('s, 'b) io \<Rightarrow> ('s, 'b) io" where
  "ignore_io m k s = k (snd (m s))"

definition get_io :: "('s \<Rightarrow> 'a) \<Rightarrow> ('s, 'a) io" where
  "get_io f s = (Inr (f s), s)"

subsection \<open>Running and inverting effects\<close>

named_theorems io_run \<open>evaluation of an effect on a state\<close>
named_theorems io_eq \<open>inversion of the outcome of an effect\<close>

lemma ret_run [io_run]: "ret a s = (Inr a, s)"
  by (simp add: ret_def)

lemma throw_run [io_run]: "throw e s = (Inl e, s)"
  by (simp add: throw_def)

lemma bind_io_run [io_run]:
  "bind_io m k s = (case m s of (Inl e, s') \<Rightarrow> (Inl e, s') | (Inr a, s') \<Rightarrow> k a s')"
  by (auto simp: bind_io_def catch_io_def throw_def split: sum.splits prod.splits)

lemma catch_io_run [io_run]:
  "catch_io m h k s = (case m s of (Inl e, s') \<Rightarrow> h e s' | (Inr a, s') \<Rightarrow> k a s')"
  by (simp add: catch_io_def)

lemma wrap_io_run [io_run]:
  "wrap_io msg m s = (case m s of (Inl e, s') \<Rightarrow> (Inl (Wrap msg e), s') | (Inr a, s') \<Rightarrow> (Inr a, s'))"
  by (auto simp: wrap_io_def catch_io_def throw_def ret_def split: sum.splits prod.splits)

lemma get_io_run [io_run]: "get_io f s = (Inr (f s), s)"
  by (simp add: get_io_def)

lemma ignore_io_run [io_run]: "ignore_io m k s = k (snd (m s))"
  by (simp add: ignore_io_def)

lemma ret_eq [io_eq]: "ret a s = (x, t) \<longleftrightarrow> x = Inr a \<and> t = s"
  by (auto simp: ret_def)

lemma throw_eq [io_eq]: "throw e s = (x, t) \<longleftrightarrow> x = Inl e \<and> t = s"
  by (auto simp: throw_def)

lemma catch_io_eq [io_eq]:
  "catch_io m h k s = (x, t) \<longleftrightarrow>
    (\<exists>e s'. m s = (Inl e, s') \<and> h e s' = (x, t)) \<or> (\<exists>a s'. m s = (Inr a, s') \<and> k a s' = (x, t))"
  by (auto simp: catch_io_def split: prod.splits sum.splits)

lemma bind_io_eq [io_eq]:
  "bind_io m k s = (x, t) \<longleftrightarrow>
    (\<exists>e. m s = (Inl e, t) \<and> x = Inl e) \<or> (\<exists>a s'. m s = (Inr a, s') \<and> k a s' = (x, t))"
  by (auto simp: bind_io_def io_eq)

lemma wrap_io_eq [io_eq]:
  "wrap_io msg m s = (x, t) \<longleftrightarrow>
    (\<exists>e. m s = (Inl e, t) \<and> x = Inl (Wrap msg e)) \<or> (\<exists>a. m s = (Inr a, t) \<and> x = Inr a)"
  by (auto simp: wrap_io_def io_eq)

lemma bind_ret [simp]: "bind_io (ret a) k = k a"
  by (rule ext) (simp add: io_run)

lemma bind_throw [simp]: "bind_io (throw e) k = throw e"
  by (rule ext) (simp add: io_run)

subsection \<open>What an effect keeps, and what it establishes\<close>

text \<open>
  \<open>keeps I m\<close>: \<open>m\<close> ends in a state of \<open>I\<close> when started in one, on success and on failure.
  \<open>gives I m Q\<close>: started in \<open>I\<close>, a success of \<open>m\<close> ends in \<open>Q\<close> of the value.
\<close>

definition keeps :: "('s \<Rightarrow> bool) \<Rightarrow> ('s, 'a) io \<Rightarrow> bool" where
  "keeps I m \<longleftrightarrow> (\<forall>s. I s \<longrightarrow> I (snd (m s)))"

definition gives :: "('s \<Rightarrow> bool) \<Rightarrow> ('s, 'a) io \<Rightarrow> ('a \<Rightarrow> 's \<Rightarrow> bool) \<Rightarrow> bool" where
  "gives I m Q \<longleftrightarrow> (\<forall>s a s'. I s \<longrightarrow> m s = (Inr a, s') \<longrightarrow> Q a s')"

named_theorems keeps_intros \<open>rules that show an effect keeps an invariant\<close>

lemma keepsD: "keeps I m \<Longrightarrow> I s \<Longrightarrow> m s = (x, s') \<Longrightarrow> I s'"
  by (auto simp: keeps_def dest: spec [of _ s])

lemma keeps_ret [keeps_intros]: "keeps I (ret a)"
  by (simp add: keeps_def ret_def)

lemma keeps_throw [keeps_intros]: "keeps I (throw e)"
  by (simp add: keeps_def throw_def)

lemma keeps_get [keeps_intros]: "keeps I (get_io f)"
  by (simp add: keeps_def get_io_def)

lemma keeps_catch [keeps_intros]:
  assumes "keeps I m" and "\<And>e. keeps I (h e)" and "\<And>a. keeps I (k a)"
  shows "keeps I (catch_io m h k)"
  using assms by (auto simp: keeps_def catch_io_def split: prod.splits sum.splits)

lemma keeps_bind [keeps_intros]:
  assumes "keeps I m" and "\<And>a. keeps I (k a)"
  shows "keeps I (bind_io m k)"
  unfolding bind_io_def using assms by (intro keeps_catch keeps_throw)

lemma keeps_wrap [keeps_intros]: "keeps I m \<Longrightarrow> keeps I (wrap_io msg m)"
  unfolding wrap_io_def by (intro keeps_catch keeps_throw keeps_ret)

lemma keeps_ignore [keeps_intros]:
  "keeps I m \<Longrightarrow> keeps I k \<Longrightarrow> keeps I (ignore_io m k)"
  by (simp add: keeps_def ignore_io_def)

lemma keeps_if [keeps_intros]:
  "(b \<Longrightarrow> keeps I m) \<Longrightarrow> (\<not> b \<Longrightarrow> keeps I k) \<Longrightarrow> keeps I (if b then m else k)"
  by simp

lemma keeps_case_option [keeps_intros]:
  "keeps I n \<Longrightarrow> (\<And>a. keeps I (f a)) \<Longrightarrow> keeps I (case x of None \<Rightarrow> n | Some a \<Rightarrow> f a)"
  by (cases x) auto

lemma keeps_case_sum [keeps_intros]:
  "(\<And>e. keeps I (l e)) \<Longrightarrow> (\<And>a. keeps I (r a)) \<Longrightarrow> keeps I (case x of Inl e \<Rightarrow> l e | Inr a \<Rightarrow> r a)"
  by (cases x) auto

lemma keeps_case_prod [keeps_intros]:
  "(\<And>a b. keeps I (f a b)) \<Longrightarrow> keeps I (case x of (a, b) \<Rightarrow> f a b)"
  by (cases x) auto

end
