(* ===== verification/Database.thy ===== *)
theory Database
  imports GoStd Errors
begin

text \<open>
  The state the server works on, and what a call of an external service does to it. The PostgreSQL
  schema (\<open>backend/migrations\<close>) is a record of tables, each a list of rows in insertion order. A
  repository method is one SQL statement over these tables; \<open>sql\<close> runs it the way the driver does:
  the call may fail before the statement runs, the statement may be rejected by a constraint (and
  then changes nothing), or its effect may stand while the reply is lost. \<open>with_tx\<close> is the bracket
  \<open>BeginTx \<dots> defer Rollback \<dots> Commit\<close> of the ledger.
\<close>

section \<open>Identifiers\<close>

text \<open>A \<open>uuid.UUID\<close>: 16 bytes, read as one number.\<close>

datatype uuid = UUID (uuid_bits: "128 word")

instantiation uuid :: linorder
begin

definition less_eq_uuid :: "uuid \<Rightarrow> uuid \<Rightarrow> bool" where
  "less_eq_uuid a b \<longleftrightarrow> uuid_bits a \<le> uuid_bits b"

definition less_uuid :: "uuid \<Rightarrow> uuid \<Rightarrow> bool" where
  "less_uuid a b \<longleftrightarrow> uuid_bits a < uuid_bits b"

instance
  by standard (auto simp: less_eq_uuid_def less_uuid_def intro: uuid.expand)

end

definition uuid_Nil :: uuid where
  "uuid_Nil = UUID 0"

section \<open>JSON and cached values\<close>

text \<open>
  JSON values. A marshalled value is kept as its tree, with the members of an object in the order of
  the struct; an absent member is Go's zero value when decoded.
\<close>

datatype json = JNull | JBool bool | JInt int64 | JStr string | JObj "(string \<times> json) list" | JArr "json list"

text \<open>What the code stores in Redis: text, or marshalled JSON.\<close>

datatype redis_value = RText string | RJson json

section \<open>Rows\<close>

text \<open>Go's \<open>TransactionType\<close>, \<open>TransactionStatus\<close>, \<open>EntryType\<close>; the label is the Go string.\<close>

datatype TransactionType = TypeTransfer | TypeIssuance | TypePayment | TypeRefund | TypeFee

primrec type_label :: "TransactionType \<Rightarrow> string" where
  "type_label TypeTransfer = ''TRANSFER''"
| "type_label TypeIssuance = ''ISSUANCE''"
| "type_label TypePayment = ''PAYMENT''"
| "type_label TypeRefund = ''REFUND''"
| "type_label TypeFee = ''FEE''"

datatype TransactionStatus = StatusPending | StatusConfirmed | StatusSettled | StatusFailed | StatusRefunded

primrec status_label :: "TransactionStatus \<Rightarrow> string" where
  "status_label StatusPending = ''PENDING''"
| "status_label StatusConfirmed = ''CONFIRMED''"
| "status_label StatusSettled = ''SETTLED''"
| "status_label StatusFailed = ''FAILED''"
| "status_label StatusRefunded = ''REFUNDED''"

datatype EntryType = EntryDebit | EntryCredit

text \<open>The labels of the SQL enums \<open>transaction_type\<close> and \<open>transaction_status\<close>.\<close>

definition sql_transaction_types :: "string list" where
  "sql_transaction_types = [''ISSUANCE'', ''TRANSFER'', ''PAYMENT'', ''REFUND'', ''ADJUSTMENT'']"

definition sql_transaction_statuses :: "string list" where
  "sql_transaction_statuses = [''PENDING'', ''CONFIRMED'', ''SETTLED'', ''FAILED'', ''REFUNDED'']"

record user =
  u_ID :: uuid
  u_Email :: string
  u_PasswordHash :: string
  u_FullName :: string
  u_Role :: string
  u_IsActive :: bool
  u_KYCStatus :: string
  u_FailedLogins :: nat
  u_LockedUntil :: "gotime option"
  u_LastLoginAt :: "gotime option"
  u_CreatedAt :: gotime
  u_UpdatedAt :: gotime
  u_deleted_at :: "gotime option"

record wallet =
  w_ID :: uuid
  w_UserID :: uuid
  w_Currency :: string
  w_Balance :: int64
  w_IsFrozen :: bool
  w_FrozenReason :: "string option"
  w_FrozenBy :: "uuid option"
  w_FrozenAt :: "gotime option"
  w_CreatedAt :: gotime
  w_UpdatedAt :: gotime
  w_deleted_at :: "gotime option"

record transaction =
  t_ID :: uuid
  t_IdempotencyKey :: "string option"
  t_Type :: TransactionType
  t_Status :: TransactionStatus
  t_SenderWalletID :: "uuid option"
  t_ReceiverWalletID :: "uuid option"
  t_AmountCents :: int64
  t_FeeCents :: int64
  t_Reference :: "string option"
  t_Signature :: string
  t_FailureReason :: "string option"
  t_ParentTransactionID :: "uuid option"
  t_CreatedAt :: gotime
  t_ConfirmedAt :: "gotime option"
  t_SettledAt :: "gotime option"

record ledger_entry =
  le_ID :: uuid
  le_WalletID :: uuid
  le_TransactionID :: uuid
  le_EntryType :: EntryType
  le_AmountCents :: int64
  le_BalanceAfter :: int64
  le_CreatedAt :: gotime

record issuance =
  is_ID :: uuid
  is_AdminID :: uuid
  is_WalletID :: uuid
  is_TransactionID :: uuid
  is_AmountCents :: int64
  is_Reason :: string
  is_IPAddress :: "string option"

datatype PaymentRequestStatus = PRPending | PRPaid | PRExpired | PRCancelled

record merchant =
  m_ID :: uuid
  m_UserID :: uuid
  m_BusinessName :: string
  m_BusinessType :: "string option"
  m_WebhookURL :: "string option"
  m_APIKeyHash :: string
  m_APIKeyPrefix :: string
  m_IsActive :: bool
  m_CreatedAt :: gotime
  m_UpdatedAt :: gotime

record payment_request =
  pr_ID :: uuid
  pr_MerchantID :: uuid
  pr_AmountCents :: int64
  pr_Currency :: string
  pr_Reference :: "string option"
  pr_Description :: "string option"
  pr_QRPayload :: string
  pr_Status :: PaymentRequestStatus
  pr_PaidByWalletID :: "uuid option"
  pr_TransactionID :: "uuid option"
  pr_ExpiresAt :: gotime
  pr_CreatedAt :: gotime
  pr_PaidAt :: "gotime option"

record session =
  s_ID :: uuid
  s_UserID :: uuid
  s_TokenHash :: string
  s_UserAgent :: string
  s_IPAddress :: string
  s_IsRevoked :: bool
  s_ExpiresAt :: gotime
  s_CreatedAt :: gotime
  s_LastUsedAt :: gotime

text \<open>One row of \<open>audit_logs\<close>; the serial number is the row's position, the metadata JSON is kept as
  its list of members.\<close>

record audit_entry =
  a_ActorID :: "uuid option"
  a_ActorRole :: "string option"
  a_Action :: string
  a_ResourceType :: "string option"
  a_ResourceID :: "uuid option"
  a_IPAddress :: "string option"
  a_UserAgent :: "string option"
  a_RequestID :: "string option"
  a_Metadata :: "(string \<times> json) list"
  a_Success :: bool
  a_ErrorCode :: "string option"
  a_CreatedAt :: gotime

record database =
  users :: "user list"
  wallets :: "wallet list"
  transactions :: "transaction list"
  ledger_entries :: "ledger_entry list"
  cbdc_issuance :: "issuance list"
  merchants :: "merchant list"
  payment_requests :: "payment_request list"
  sessions :: "session list"
  audit_logs :: "audit_entry list"

definition empty_db :: database where
  "empty_db = \<lparr>users = [], wallets = [], transactions = [], ledger_entries = [], cbdc_issuance = [],
     merchants = [], payment_requests = [], sessions = [], audit_logs = []\<rparr>"

section \<open>The world and its environment\<close>

text \<open>
  \<open>websocket.Event\<close> and its payloads. \<open>ev_Timestamp\<close> is \<open>None\<close> for the zero time of an event whose
  \<open>Timestamp\<close> is not set.
\<close>

record PaymentEventPayload =
  pe_TransactionID :: string
  pe_Direction :: string
  pe_AmountCents :: int64
  pe_AmountDisplay :: string
  pe_CounterpartyName :: "string option"
  pe_Reference :: "string option"
  pe_NewBalanceCents :: int64
  pe_NewBalanceDisplay :: string

record IssuanceEventPayload =
  ie_TransactionID :: string
  ie_AmountCents :: int64
  ie_AmountDisplay :: string
  ie_Reason :: string
  ie_NewBalanceCents :: int64
  ie_NewBalanceDisplay :: string

datatype event_payload = PaymentPayload PaymentEventPayload | IssuancePayload IssuanceEventPayload

datatype event_type = TypePaymentSent | TypePaymentReceived | TypeIssuanceReceived

record event =
  ev_Type :: event_type
  ev_WalletID :: string
  ev_Payload :: event_payload
  ev_Timestamp :: "gotime option"

text \<open>The call \<open>fireWebhook\<close> makes: the URL and the members of its JSON body.\<close>

record webhook =
  wh_URL :: string
  wh_PaymentRequestID :: string
  wh_TransactionID :: string
  wh_AmountCents :: int64
  wh_Timestamp :: gotime

text \<open>
  The database, the Redis key space (value and expiry instant of each key), the events handed to
  the WebSocket hub, the webhook calls made, and the number of calls to external services so far.
\<close>

record world =
  w_db :: database
  w_redis :: "string \<rightharpoonup> redis_value \<times> gotime option"
  w_events :: "(uuid \<times> event) list"
  w_webhooks :: "webhook list"
  w_calls :: nat

datatype fault = Up | Down | LostReply

text \<open>
  What the process is surrounded by, indexed by the number of the service call: the clock, the fate
  of the call, the UUID that \<open>uuid_generate_v4()\<close> draws and the bytes \<open>crypto/rand\<close> returns (or its
  error). \<open>inet_ok\<close> is PostgreSQL's cast of a text to \<open>inet\<close>; \<open>uuid_String\<close> and \<open>uuid_Parse\<close> are the methods of \<open>github.com/google/uuid\<close>.
\<close>

record env =
  clock :: "nat \<Rightarrow> gotime"
  fate :: "nat \<Rightarrow> fault"
  draw_uuid :: "nat \<Rightarrow> uuid"
  draw_bytes :: "nat \<Rightarrow> string option"
  uuid_String :: "uuid \<Rightarrow> string"
  uuid_Parse :: "string \<Rightarrow> uuid option"
  inet_ok :: "string \<Rightarrow> bool"

text \<open>
  The documented behaviour of the UUID package the code relies on: the text form determines the
  UUID, and parsing undoes printing.
\<close>

definition uuid_lib_ok :: "env \<Rightarrow> bool" where
  "uuid_lib_ok E \<longleftrightarrow> (\<forall>u. uuid_Parse E (uuid_String E u) = Some u)"

lemma uuid_String_inject: "uuid_lib_ok E \<Longrightarrow> uuid_String E a = uuid_String E b \<longleftrightarrow> a = b"
  unfolding uuid_lib_ok_def by (metis option.inject)

text \<open>\<open>time.Now()\<close> does not count as a service call: it reads the clock of the moment.\<close>

definition now :: "env \<Rightarrow> world \<Rightarrow> gotime" where
  "now E w = clock E (w_calls w)"

section \<open>SQL statements and transactions\<close>

text \<open>
  A statement reads a fresh UUID, the value of \<open>NOW()\<close> and the tables, and is rejected or returns a
  value and the new tables. Inside a transaction \<open>NOW()\<close> is the start of the transaction.
\<close>

type_synonym 'a statement = "uuid \<Rightarrow> gotime \<Rightarrow> database \<Rightarrow> gerror + 'a \<times> database"

text \<open>
  PostgreSQL counts the characters of a \<open>VARCHAR\<close>: the bytes that do not continue a UTF-8 sequence.
\<close>

definition char_count :: "string \<Rightarrow> nat" where
  "char_count s = length (filter (\<lambda>c. \<not> (128 \<le> (of_char c :: nat) \<and> of_char c < (192 :: nat))) s)"

lemma char_count_le: "char_count s \<le> length s"
  by (simp add: char_count_def)

definition fits :: "nat \<Rightarrow> string option \<Rightarrow> bool" where
  "fits n s = (case s of None \<Rightarrow> True | Some s \<Rightarrow> char_count s \<le> n)"

definition sql ::
    "env \<Rightarrow> gotime option \<Rightarrow> 'a statement \<Rightarrow> (world, 'a) io" where
  "sql E tx q w =
    (let n = w_calls w;
         t = (case tx of Some t \<Rightarrow> t | None \<Rightarrow> clock E n);
         w1 = w\<lparr>w_calls := Suc n\<rparr>
     in case fate E n of
          Up \<Rightarrow> (case q (draw_uuid E n) t (w_db w) of
                   Inl e \<Rightarrow> (Inl e, w1)
                 | Inr (a, d) \<Rightarrow> (Inr a, w1\<lparr>w_db := d\<rparr>))
        | Down \<Rightarrow> (Inl Driver, w1)
        | LostReply \<Rightarrow> (case q (draw_uuid E n) t (w_db w) of
                   Inl e \<Rightarrow> (Inl Driver, w1)
                 | Inr (a, d) \<Rightarrow> (Inl Driver, w1\<lparr>w_db := d\<rparr>)))"

text \<open>
  \<open>BeginTx\<close>; the body; on an error of the body the deferred \<open>Rollback\<close> restores the tables;
  otherwise \<open>Commit\<close>, which may be refused (nothing is applied) or applied with its reply lost.
\<close>

definition with_tx ::
    "env \<Rightarrow> string \<Rightarrow> string \<Rightarrow> (gotime \<Rightarrow> (world, 'a) io) \<Rightarrow> (world, 'a) io" where
  "with_tx E begin_msg commit_msg body w =
    (let n = w_calls w; w1 = w\<lparr>w_calls := Suc n\<rparr>
     in case fate E n of
          Up \<Rightarrow>
            (case body (clock E n) w1 of
               (Inl e, w2) \<Rightarrow> (Inl e, w2\<lparr>w_db := w_db w\<rparr>)
             | (Inr a, w2) \<Rightarrow>
                 (let w3 = w2\<lparr>w_calls := Suc (w_calls w2)\<rparr>
                  in case fate E (w_calls w2) of
                       Up \<Rightarrow> (Inr a, w3)
                     | Down \<Rightarrow> (Inl (Wrap commit_msg Driver), w3\<lparr>w_db := w_db w\<rparr>)
                     | LostReply \<Rightarrow> (Inl (Wrap commit_msg Driver), w3)))
        | _ \<Rightarrow> (Inl (Wrap begin_msg Driver), w1))"

subsection \<open>Their outcomes\<close>

lemma sql_Inr [io_eq]:
  "sql E tx q w = (Inr a, w') \<longleftrightarrow>
    fate E (w_calls w) = Up \<and>
    (\<exists>d. q (draw_uuid E (w_calls w)) (case tx of Some t \<Rightarrow> t | None \<Rightarrow> clock E (w_calls w)) (w_db w)
           = Inr (a, d) \<and> w' = w\<lparr>w_calls := Suc (w_calls w), w_db := d\<rparr>)"
  by (auto simp: sql_def Let_def split: fault.splits sum.splits prod.splits)

lemma sql_keeps:
  assumes "\<And>w u t a d. I w \<Longrightarrow> q u t (w_db w) = Inr (a, d) \<Longrightarrow> I (w\<lparr>w_calls := Suc (w_calls w), w_db := d\<rparr>)"
    and "\<And>w. I w \<Longrightarrow> I (w\<lparr>w_calls := Suc (w_calls w)\<rparr>)"
  shows "keeps I (sql E tx q)"
  using assms by (auto simp: keeps_def sql_def Let_def split: fault.splits sum.splits prod.splits)

text \<open>A statement that only reads: nothing but the call counter moves.\<close>

definition reads :: "'a statement \<Rightarrow> bool" where
  "reads q \<longleftrightarrow> (\<forall>u t d a d'. q u t d = Inr (a, d') \<longrightarrow> d' = d)"

text \<open>A statement that leaves a part of the tables alone, and what its run then keeps.\<close>

definition leaves :: "(database \<Rightarrow> 'p) \<Rightarrow> 'a statement \<Rightarrow> bool" where
  "leaves f q \<longleftrightarrow> (\<forall>u t d a d'. q u t d = Inr (a, d') \<longrightarrow> f d' = f d)"

named_theorems leaves_intros \<open>statements and the tables they leave alone\<close>

lemma sql_leaves: "leaves f q \<Longrightarrow> f (w_db (snd (sql E tx q w))) = f (w_db w)"
  by (auto simp: sql_def leaves_def Let_def split: fault.splits sum.splits prod.splits)

lemma keeps_sql [keeps_intros]: "leaves f q \<Longrightarrow> keeps (\<lambda>w. P (f (w_db w))) (sql E tx q)"
  by (simp add: keeps_def sql_leaves)

lemma sql_reads_db: "reads q \<Longrightarrow> w_db (snd (sql E tx q w)) = w_db w"
  by (auto simp: sql_def reads_def Let_def split: fault.splits sum.splits prod.splits)

lemma sql_frame:
  "w_redis (snd (sql E tx q w)) = w_redis w"
  "w_events (snd (sql E tx q w)) = w_events w"
  "w_webhooks (snd (sql E tx q w)) = w_webhooks w"
  by (auto simp: sql_def Let_def split: fault.splits sum.splits prod.splits)

text \<open>
  Atomicity of a transaction, whatever the body does and whatever fails: the tables at the end are
  those at the start or those a successful body left.
\<close>

lemma with_tx_atomic:
  "w_db (snd (with_tx E bm cm body w)) = w_db w \<or>
   (\<exists>a w2. body (clock E (w_calls w)) (w\<lparr>w_calls := Suc (w_calls w)\<rparr>) = (Inr a, w2) \<and>
      w_db (snd (with_tx E bm cm body w)) = w_db w2)"
  by (auto simp: with_tx_def Let_def split: fault.splits sum.splits prod.splits)

lemma with_tx_Inr [io_eq]:
  "with_tx E bm cm body w = (Inr a, w') \<longleftrightarrow>
    fate E (w_calls w) = Up \<and>
    (\<exists>w2. body (clock E (w_calls w)) (w\<lparr>w_calls := Suc (w_calls w)\<rparr>) = (Inr a, w2) \<and>
       fate E (w_calls w2) = Up \<and> w' = w2\<lparr>w_calls := Suc (w_calls w2)\<rparr>)"
  by (auto simp: with_tx_def Let_def split: fault.splits sum.splits prod.splits)

lemma with_tx_body_error:
  assumes "body (clock E (w_calls w)) (w\<lparr>w_calls := Suc (w_calls w)\<rparr>) = (Inl e, w2)"
    and "fate E (w_calls w) = Up"
  shows "with_tx E bm cm body w = (Inl e, w2\<lparr>w_db := w_db w\<rparr>)"
  using assms by (simp add: with_tx_def Let_def)

text \<open>An effect that only reads the tables, whatever fails.\<close>

definition read_only :: "(world, 'a) io \<Rightarrow> bool" where
  "read_only m \<longleftrightarrow> (\<forall>d. keeps (\<lambda>w. w_db w = d) m)"

lemma read_onlyD: "read_only m \<Longrightarrow> w_db (snd (m w)) = w_db w"
  by (simp add: read_only_def keeps_def)

named_theorems read_intros \<open>effects that only read the tables\<close>

lemma read_only_basic [read_intros]:
  "read_only (ret a)" "read_only (throw e)" "read_only (get_io f)"
  "read_only m \<Longrightarrow> (\<And>a. read_only (k a)) \<Longrightarrow> read_only (bind_io m k)"
  "read_only m \<Longrightarrow> (\<And>e. read_only (h e)) \<Longrightarrow> (\<And>a. read_only (k a)) \<Longrightarrow> read_only (catch_io m h k)"
  "read_only m \<Longrightarrow> read_only (wrap_io msg m)"
  by (auto simp: read_only_def intro!: keeps_intros)

lemma read_only_cases [read_intros]:
  "read_only n \<Longrightarrow> (\<And>a. read_only (f a)) \<Longrightarrow> read_only (case x of None \<Rightarrow> n | Some a \<Rightarrow> f a)"
  "(\<And>a b. read_only (g a b)) \<Longrightarrow> read_only (case y of (a, b) \<Rightarrow> g a b)"
  "(c \<Longrightarrow> read_only m) \<Longrightarrow> (\<not> c \<Longrightarrow> read_only k) \<Longrightarrow> read_only (if c then m else k)"
  by (auto split: option.splits prod.splits)

lemma read_only_sql [read_intros]: "reads q \<Longrightarrow> read_only (sql E tx q)"
  by (simp add: read_only_def keeps_def sql_reads_db)

end
