(* ===== verification/Ledger.thy ===== *)
theory Ledger
  imports Database
begin

text \<open>
  The double-entry engine: \<open>internal/ledger/repository.go\<close> as statements over the tables, then
  \<open>Service.Transfer\<close> and \<open>Service.Issue\<close> of \<open>internal/ledger/service.go\<close>, step by step.
\<close>

section \<open>Parameters and results\<close>

record ledger_wallet =
  lw_ID :: uuid
  lw_UserID :: uuid
  lw_Balance :: int64
  lw_IsFrozen :: bool
  lw_Currency :: string

text \<open>\<open>TxnType\<close> is \<open>None\<close> for the empty string of the Go struct.\<close>

record TransferParams =
  tp_SenderWalletID :: uuid
  tp_ReceiverWalletID :: uuid
  tp_AmountCents :: int64
  tp_Reference :: string
  tp_IdempotencyKey :: string
  tp_Signature :: string
  tp_TxnType :: "TransactionType option"

record TransferResult =
  tr_Transaction :: transaction
  tr_SenderBalance :: int64
  tr_ReceiverBalance :: int64

record IssueParams =
  ip_AdminID :: uuid
  ip_WalletID :: uuid
  ip_AmountCents :: int64
  ip_Reason :: string
  ip_IdempotencyKey :: string
  ip_Signature :: string
  ip_IPAddress :: string

record IssueResult =
  ir_IssuanceID :: uuid
  ir_Transaction :: transaction
  ir_NewBalance :: int64

record CreateTransactionParams =
  ct_IdempotencyKey :: "string option"
  ct_Type :: TransactionType
  ct_SenderWalletID :: "uuid option"
  ct_ReceiverWalletID :: "uuid option"
  ct_AmountCents :: int64
  ct_Reference :: "string option"
  ct_Signature :: string
  ct_ParentTransactionID :: "uuid option"

section \<open>The repository\<close>

text \<open>\<open>SELECT \<dots> FROM wallets WHERE id = $1 AND deleted_at IS NULL FOR UPDATE\<close>\<close>

definition live_wallet :: "uuid \<Rightarrow> database \<Rightarrow> wallet option" where
  "live_wallet walletID d = find (\<lambda>w. w_ID w = walletID \<and> w_deleted_at w = None) (wallets d)"

definition select_wallet :: "uuid \<Rightarrow> ledger_wallet statement" where
  "select_wallet walletID u t d =
    (case live_wallet walletID d of
       None \<Rightarrow> Inl NoRows
     | Some w \<Rightarrow> Inr (\<lparr>lw_ID = w_ID w, lw_UserID = w_UserID w, lw_Balance = w_Balance w,
                       lw_IsFrozen = w_IsFrozen w, lw_Currency = w_Currency w\<rparr>, d))"

definition GetWalletForUpdate ::
    "env \<Rightarrow> gotime \<Rightarrow> uuid \<Rightarrow> (world, ledger_wallet) io" where
  "GetWalletForUpdate E tx walletID =
    catch_io (sql E (Some tx) (select_wallet walletID))
      (\<lambda>err. if errors_Is err NoRows then throw (Ledger ledger_error.ErrWalletNotFound)
             else throw (Wrap (''lock wallet '' @ uuid_String E walletID) err))
      ret"

definition known_wallet :: "database \<Rightarrow> uuid option \<Rightarrow> bool" where
  "known_wallet d x = (case x of None \<Rightarrow> True | Some walletID \<Rightarrow> walletID \<in> w_ID ` set (wallets d))"

text \<open>
  The constraints of \<open>transactions\<close> in the order they are checked: enum label, lengths, checks,
  unique keys (a \<open>NULL\<close> never clashes), foreign keys.
\<close>

definition insert_transaction :: "CreateTransactionParams \<Rightarrow> transaction statement" where
  "insert_transaction p u t d =
    (if type_label (ct_Type p) \<notin> set sql_transaction_types then Inl (PgError ''22P02'')
     else if \<not> (fits 128 (ct_IdempotencyKey p) \<and> fits 256 (ct_Reference p) \<and> fits 128 (Some (ct_Signature p)))
     then Inl (PgError ''22001'')
     else if sint (ct_AmountCents p) \<le> 0 \<or>
        (ct_SenderWalletID p \<noteq> None \<and> ct_SenderWalletID p = ct_ReceiverWalletID p)
     then Inl (PgError ''23514'')
     else if u \<in> t_ID ` set (transactions d) \<or>
        (ct_SenderWalletID p \<noteq> None \<and> ct_IdempotencyKey p \<noteq> None \<and>
         (\<exists>x \<in> set (transactions d). t_SenderWalletID x = ct_SenderWalletID p \<and>
                                        t_IdempotencyKey x = ct_IdempotencyKey p))
     then Inl (PgError ''23505'')
     else if \<not> known_wallet d (ct_SenderWalletID p) \<or> \<not> known_wallet d (ct_ReceiverWalletID p)
     then Inl (PgError ''23503'')
     else
       (let row = \<lparr>t_ID = u, t_IdempotencyKey = ct_IdempotencyKey p, t_Type = ct_Type p,
            t_Status = StatusPending, t_SenderWalletID = ct_SenderWalletID p,
            t_ReceiverWalletID = ct_ReceiverWalletID p, t_AmountCents = ct_AmountCents p,
            t_FeeCents = 0, t_Reference = ct_Reference p, t_Signature = ct_Signature p,
            t_FailureReason = None, t_ParentTransactionID = ct_ParentTransactionID p,
            t_CreatedAt = t, t_ConfirmedAt = None, t_SettledAt = None\<rparr>
        in Inr (row, d\<lparr>transactions := transactions d @ [row]\<rparr>)))"

definition CreateTransaction ::
    "env \<Rightarrow> gotime \<Rightarrow> CreateTransactionParams \<Rightarrow> (world, transaction) io" where
  "CreateTransaction E tx p =
    wrap_io ''create transaction'' (sql E (Some tx) (insert_transaction p))"

definition insert_entry :: "uuid \<Rightarrow> uuid \<Rightarrow> EntryType \<Rightarrow> int64 \<Rightarrow> int64 \<Rightarrow> ledger_entry statement" where
  "insert_entry walletID txnID entryType amountCents balanceAfter u t d =
    (if sint amountCents \<le> 0 \<or> sint balanceAfter < 0 then Inl (PgError ''23514'')
     else if u \<in> le_ID ` set (ledger_entries d) then Inl (PgError ''23505'')
     else if walletID \<notin> w_ID ` set (wallets d) \<or> txnID \<notin> t_ID ` set (transactions d)
     then Inl (PgError ''23503'')
     else
       (let row = \<lparr>le_ID = u, le_WalletID = walletID, le_TransactionID = txnID, le_EntryType = entryType,
            le_AmountCents = amountCents, le_BalanceAfter = balanceAfter, le_CreatedAt = t\<rparr>
        in Inr (row, d\<lparr>ledger_entries := ledger_entries d @ [row]\<rparr>)))"

definition CreateLedgerEntry ::
    "env \<Rightarrow> gotime \<Rightarrow> uuid \<Rightarrow> uuid \<Rightarrow> EntryType \<Rightarrow> int64 \<Rightarrow> int64 \<Rightarrow> (world, ledger_entry) io" where
  "CreateLedgerEntry E tx walletID txnID entryType amountCents balanceAfter =
    wrap_io ''create ledger entry''
      (sql E (Some tx) (insert_entry walletID txnID entryType amountCents balanceAfter))"

text \<open>
  \<open>UPDATE wallets SET balance = balance + $2 \<dots> WHERE id = $1 RETURNING balance\<close>: \<open>BIGINT\<close> overflow is
  an error, not a wrap-around, and the check \<open>balance >= 0\<close> rejects an overdraft.
\<close>

definition add_balance :: "int64 \<Rightarrow> gotime \<Rightarrow> wallet \<Rightarrow> wallet" where
  "add_balance delta t w = w\<lparr>w_Balance := w_Balance w + delta, w_UpdatedAt := t\<rparr>"

definition update_balance :: "uuid \<Rightarrow> int64 \<Rightarrow> int64 statement" where
  "update_balance walletID delta u t d =
    (case find (\<lambda>w. w_ID w = walletID) (wallets d) of
       None \<Rightarrow> Inl NoRows
     | Some w \<Rightarrow>
         (let b = sint (w_Balance w) + sint delta
          in if \<not> int64_ok b then Inl (PgError ''22003'')
             else if b < 0 then Inl (PgError ''23514'')
             else Inr (w_Balance w + delta,
                       d\<lparr>wallets := upd_where (\<lambda>w. w_ID w = walletID) (add_balance delta t) (wallets d)\<rparr>)))"

definition UpdateWalletBalance ::
    "env \<Rightarrow> gotime \<Rightarrow> uuid \<Rightarrow> int64 \<Rightarrow> (world, int64) io" where
  "UpdateWalletBalance E tx walletID delta =
    wrap_io (''update balance wallet '' @ uuid_String E walletID @ '' delta '' @ FormatInt delta)
      (sql E (Some tx) (update_balance walletID delta))"

definition settle :: "gotime \<Rightarrow> transaction \<Rightarrow> transaction" where
  "settle t x = x\<lparr>t_Status := StatusSettled, t_ConfirmedAt := Some t, t_SettledAt := Some t\<rparr>"

definition update_settled :: "uuid \<Rightarrow> unit statement" where
  "update_settled txnID u t d =
    Inr ((), d\<lparr>transactions := upd_where (\<lambda>x. t_ID x = txnID) (settle t) (transactions d)\<rparr>)"

definition SettleTransaction :: "env \<Rightarrow> gotime \<Rightarrow> uuid \<Rightarrow> (world, unit) io" where
  "SettleTransaction E tx txnID =
    wrap_io (''settle transaction '' @ uuid_String E txnID) (sql E (Some tx) (update_settled txnID))"

definition insert_issuance ::
    "env \<Rightarrow> uuid \<Rightarrow> uuid \<Rightarrow> uuid \<Rightarrow> int64 \<Rightarrow> string \<Rightarrow> string option \<Rightarrow> uuid statement" where
  "insert_issuance E adminID walletID txnID amountCents reason ip u t d =
    (if ip \<noteq> None \<and> \<not> inet_ok E (the ip) then Inl (PgError ''22P02'')
     else if sint amountCents \<le> 0 \<or> 100000000 < sint amountCents then Inl (PgError ''23514'')
     else if u \<in> is_ID ` set (cbdc_issuance d) then Inl (PgError ''23505'')
     else if adminID \<notin> u_ID ` set (users d) \<or> walletID \<notin> w_ID ` set (wallets d) \<or>
        txnID \<notin> t_ID ` set (transactions d)
     then Inl (PgError ''23503'')
     else Inr (u, d\<lparr>cbdc_issuance := cbdc_issuance d @
            [\<lparr>is_ID = u, is_AdminID = adminID, is_WalletID = walletID, is_TransactionID = txnID,
              is_AmountCents = amountCents, is_Reason = reason, is_IPAddress = ip\<rparr>]\<rparr>))"

definition InsertIssuanceRecord ::
    "env \<Rightarrow> gotime \<Rightarrow> uuid \<Rightarrow> uuid \<Rightarrow> uuid \<Rightarrow> int64 \<Rightarrow> string \<Rightarrow> string \<Rightarrow> (world, uuid) io" where
  "InsertIssuanceRecord E tx adminID walletID txnID amountCents reason ipAddress =
    (let ipParam = (if ipAddress \<noteq> '''' then Some ipAddress else None)
     in wrap_io ''insert issuance record''
          (sql E (Some tx) (insert_issuance E adminID walletID txnID amountCents reason ipParam)))"

definition select_by_key :: "uuid \<Rightarrow> string \<Rightarrow> transaction statement" where
  "select_by_key senderWalletID key u t d =
    (case find (\<lambda>x. t_SenderWalletID x = Some senderWalletID \<and> t_IdempotencyKey x = Some key) (transactions d) of
       None \<Rightarrow> Inl NoRows
     | Some x \<Rightarrow> Inr (x, d))"

definition GetTransactionByIdempotencyKey ::
    "env \<Rightarrow> uuid \<Rightarrow> string \<Rightarrow> (world, transaction) io" where
  "GetTransactionByIdempotencyKey E senderWalletID key = sql E None (select_by_key senderWalletID key)"

section \<open>The service\<close>

definition orderedLockIDs :: "env \<Rightarrow> uuid \<Rightarrow> uuid \<Rightarrow> uuid \<times> uuid" where
  "orderedLockIDs E a b =
    (let aStr = uuid_String E a; bStr = uuid_String E b
     in if aStr < bStr then (a, b) else (b, a))"

text \<open>The body of the database transaction of \<open>Transfer\<close>: locks, checks, and the five writes.\<close>

definition nonempty :: "string \<Rightarrow> string option" where
  "nonempty s = (if s \<noteq> '''' then Some s else None)"

definition transfer_writes ::
    "env \<Rightarrow> TransferParams \<Rightarrow> TransactionType \<Rightarrow> gotime \<Rightarrow> (world, TransferResult \<times> gerror option) io" where
  "transfer_writes E p txnType tx =
    bind_io (CreateTransaction E tx
        \<lparr>ct_IdempotencyKey = nonempty (tp_IdempotencyKey p), ct_Type = txnType,
         ct_SenderWalletID = Some (tp_SenderWalletID p), ct_ReceiverWalletID = Some (tp_ReceiverWalletID p),
         ct_AmountCents = tp_AmountCents p, ct_Reference = nonempty (tp_Reference p),
         ct_Signature = tp_Signature p, ct_ParentTransactionID = None\<rparr>) (\<lambda>txn.
    bind_io (wrap_io ''debit sender''
        (UpdateWalletBalance E tx (tp_SenderWalletID p) (- tp_AmountCents p))) (\<lambda>senderNewBalance.
    bind_io (wrap_io ''sender ledger entry''
        (CreateLedgerEntry E tx (tp_SenderWalletID p) (t_ID txn) EntryDebit (tp_AmountCents p) senderNewBalance)) (\<lambda>_.
    bind_io (wrap_io ''credit receiver''
        (UpdateWalletBalance E tx (tp_ReceiverWalletID p) (tp_AmountCents p))) (\<lambda>receiverNewBalance.
    bind_io (wrap_io ''receiver ledger entry''
        (CreateLedgerEntry E tx (tp_ReceiverWalletID p) (t_ID txn) EntryCredit (tp_AmountCents p) receiverNewBalance)) (\<lambda>_.
    bind_io (SettleTransaction E tx (t_ID txn)) (\<lambda>_.
    ret (\<lparr>tr_Transaction = txn\<lparr>t_Status := StatusSettled\<rparr>, tr_SenderBalance = senderNewBalance,
          tr_ReceiverBalance = receiverNewBalance\<rparr>, None)))))))"

definition transfer_tx ::
    "env \<Rightarrow> TransferParams \<Rightarrow> TransactionType \<Rightarrow> gotime \<Rightarrow> (world, TransferResult \<times> gerror option) io" where
  "transfer_tx E p txnType tx =
    (let (first, second) = orderedLockIDs E (tp_SenderWalletID p) (tp_ReceiverWalletID p) in
     bind_io (GetWalletForUpdate E tx first) (\<lambda>firstWallet.
     bind_io (GetWalletForUpdate E tx second) (\<lambda>secondWallet.
       let (senderWallet, receiverWallet) =
             (if lw_ID firstWallet = tp_SenderWalletID p then (firstWallet, secondWallet)
              else (secondWallet, firstWallet))
       in if lw_IsFrozen senderWallet then throw (Ledger ErrWalletFrozen)
          else if lw_IsFrozen receiverWallet then throw (Ledger ErrWalletFrozen)
          else if sint (lw_Balance senderWallet) < sint (tp_AmountCents p)
          then throw (Ledger ErrInsufficientFunds)
          else transfer_writes E p txnType tx)))"

text \<open>
  \<open>Transfer\<close> returns a result next to the error \<open>ErrIdempotentReplay\<close>, so the value of the effect
  is the pair of both; any other error comes without a result.
\<close>

definition Transfer ::
    "env \<Rightarrow> TransferParams \<Rightarrow> (world, TransferResult \<times> gerror option) io" where
  "Transfer E p =
    (if sint (tp_AmountCents p) \<le> 0 then throw (Ledger ledger_error.ErrAmountZero)
     else if tp_SenderWalletID p = tp_ReceiverWalletID p then throw (Ledger ErrSelfTransfer)
     else
       (let txnType = (case tp_TxnType p of None \<Rightarrow> TypeTransfer | Some ty \<Rightarrow> ty);
            run = with_tx E ''begin transaction'' ''commit transfer'' (transfer_tx E p txnType)
        in if tp_IdempotencyKey p \<noteq> '''' then
             catch_io (GetTransactionByIdempotencyKey E (tp_SenderWalletID p) (tp_IdempotencyKey p))
               (\<lambda>err. if \<not> errors_Is err NoRows then throw (Wrap ''idempotency check'' err) else run)
               (\<lambda>existing. ret (\<lparr>tr_Transaction = existing, tr_SenderBalance = 0, tr_ReceiverBalance = 0\<rparr>,
                                Some (Ledger ErrIdempotentReplay)))
           else run))"

definition issue_tx :: "env \<Rightarrow> IssueParams \<Rightarrow> gotime \<Rightarrow> (world, IssueResult) io" where
  "issue_tx E p tx =
    bind_io (GetWalletForUpdate E tx (ip_WalletID p)) (\<lambda>receiverWallet.
    if lw_IsFrozen receiverWallet then throw (Ledger ErrWalletFrozen) else
    bind_io (CreateTransaction E tx
        \<lparr>ct_IdempotencyKey = None, ct_Type = TypeIssuance, ct_SenderWalletID = None,
         ct_ReceiverWalletID = Some (ip_WalletID p), ct_AmountCents = ip_AmountCents p, ct_Reference = None,
         ct_Signature = ip_Signature p, ct_ParentTransactionID = None\<rparr>) (\<lambda>txn.
    bind_io (wrap_io ''credit wallet''
        (UpdateWalletBalance E tx (ip_WalletID p) (ip_AmountCents p))) (\<lambda>newBalance.
    bind_io (wrap_io ''issuance ledger entry''
        (CreateLedgerEntry E tx (ip_WalletID p) (t_ID txn) EntryCredit (ip_AmountCents p) newBalance)) (\<lambda>_.
    bind_io (SettleTransaction E tx (t_ID txn)) (\<lambda>_.
    bind_io (InsertIssuanceRecord E tx (ip_AdminID p) (ip_WalletID p) (t_ID txn) (ip_AmountCents p)
        (ip_Reason p) (ip_IPAddress p)) (\<lambda>issuanceID.
    ret \<lparr>ir_IssuanceID = issuanceID, ir_Transaction = txn\<lparr>t_Status := StatusSettled\<rparr>,
         ir_NewBalance = newBalance\<rparr>))))))"

definition Issue :: "env \<Rightarrow> IssueParams \<Rightarrow> (world, IssueResult) io" where
  "Issue E p =
    (if sint (ip_AmountCents p) \<le> 0 then throw (Ledger ledger_error.ErrAmountZero)
     else with_tx E ''begin issuance tx'' ''commit issuance'' (issue_tx E p))"

end
