(* ===== verification/Ledger_Inv.thy ===== *)
theory Ledger_Inv
  imports Ledger
begin

text \<open>
  The books: what the tables of the ledger satisfy after every committed transaction, and the proofs
  that \<open>Transfer\<close> and \<open>Issue\<close> keep it, whatever call fails on the way.
\<close>

section \<open>The books balance\<close>

definition signed_amount :: "ledger_entry \<Rightarrow> int" where
  "signed_amount e =
    (case le_EntryType e of EntryCredit \<Rightarrow> sint (le_AmountCents e) | EntryDebit \<Rightarrow> - sint (le_AmountCents e))"

text \<open>The true balance of a wallet: the sum of its ledger entries.\<close>

definition entry_sum :: "database \<Rightarrow> uuid \<Rightarrow> int" where
  "entry_sum d w = sum_by signed_amount (filter (\<lambda>e. le_WalletID e = w) (ledger_entries d))"

definition entries_of :: "database \<Rightarrow> uuid \<Rightarrow> ledger_entry list" where
  "entries_of d t = filter (\<lambda>e. le_TransactionID e = t) (ledger_entries d)"

definition posted :: "EntryType \<Rightarrow> uuid option \<Rightarrow> int64 \<Rightarrow> ledger_entry \<Rightarrow> bool" where
  "posted ty w amt e \<longleftrightarrow> le_EntryType e = ty \<and> Some (le_WalletID e) = w \<and> le_AmountCents e = amt"

text \<open>
  A transaction is booked when its entries are a debit of the sender and a credit of the receiver,
  both of its amount; an issuance, which has no sender, has the credit alone.
\<close>

definition balanced :: "transaction \<Rightarrow> ledger_entry list \<Rightarrow> bool" where
  "balanced x es =
    (case t_SenderWalletID x of
       None \<Rightarrow> (case es of [e] \<Rightarrow> posted EntryCredit (t_ReceiverWalletID x) (t_AmountCents x) e | _ \<Rightarrow> False)
     | Some s \<Rightarrow>
         (case es of
            [e, f] \<Rightarrow> posted EntryDebit (Some s) (t_AmountCents x) e \<and>
                      posted EntryCredit (t_ReceiverWalletID x) (t_AmountCents x) f
          | _ \<Rightarrow> False))"

definition booked :: "database \<Rightarrow> transaction \<Rightarrow> bool" where
  "booked d x \<longleftrightarrow> t_Status x = StatusSettled \<and> balanced x (entries_of d (t_ID x))"

text \<open>\<open>balance_after\<close> is the running balance of its wallet.\<close>

fun running :: "(uuid \<Rightarrow> int) \<Rightarrow> ledger_entry list \<Rightarrow> bool" where
  "running b [] = True"
| "running b (e # es) =
     (sint (le_BalanceAfter e) = b (le_WalletID e) + signed_amount e \<and>
      running (b(le_WalletID e := b (le_WalletID e) + signed_amount e)) es)"

definition money_supply :: "database \<Rightarrow> int" where
  "money_supply d = sum_by (\<lambda>w. sint (w_Balance w)) (wallets d)"

definition minted :: "database \<Rightarrow> int" where
  "minted d = sum_by (\<lambda>i. sint (is_AmountCents i)) (cbdc_issuance d)"

definition keyed :: "transaction \<Rightarrow> (uuid \<times> string) option" where
  "keyed x = (case (t_SenderWalletID x, t_IdempotencyKey x) of
                (Some s, Some k) \<Rightarrow> Some (s, k) | _ \<Rightarrow> None)"

text \<open>
  The accounts: every entry belongs to a wallet, no balance is negative, each balance is the sum of
  the wallet's entries and each entry carries the running balance. The journal: transaction numbers
  and idempotency keys are unique, each transaction is booked and no entry is without a transaction.
  The books: both, and the money in circulation is the money that was issued.
\<close>

definition accounts :: "database \<Rightarrow> bool" where
  "accounts d \<longleftrightarrow>
     distinct (map w_ID (wallets d)) \<and>
     (\<forall>e \<in> set (ledger_entries d). le_WalletID e \<in> w_ID ` set (wallets d)) \<and>
     (\<forall>w \<in> set (wallets d). 0 \<le> sint (w_Balance w) \<and> sint (w_Balance w) = entry_sum d (w_ID w)) \<and>
     running (\<lambda>_. 0) (ledger_entries d)"

definition keys :: "database \<Rightarrow> (uuid \<times> string) option list" where
  "keys d = filter (\<lambda>k. k \<noteq> None) (map keyed (transactions d))"

definition journal :: "database \<Rightarrow> bool" where
  "journal d \<longleftrightarrow>
     distinct (map t_ID (transactions d)) \<and> distinct (keys d) \<and>
     (\<forall>e \<in> set (ledger_entries d). le_TransactionID e \<in> t_ID ` set (transactions d)) \<and>
     (\<forall>x \<in> set (transactions d). booked d x)"

definition books :: "database \<Rightarrow> bool" where
  "books d \<longleftrightarrow> accounts d \<and> journal d \<and> money_supply d = minted d"

lemma books_empty: "books empty_db"
  by (simp add: books_def accounts_def journal_def keys_def empty_db_def money_supply_def minted_def)

section \<open>How the tables change\<close>

text \<open>
  Posting: a new transaction row with its entries. \<open>post\<close> adds one entry and moves the balance of
  its wallet; \<open>add_txn\<close> appends the row.
\<close>

definition entry_delta :: "ledger_entry \<Rightarrow> int64" where
  "entry_delta e = (case le_EntryType e of EntryCredit \<Rightarrow> le_AmountCents e | EntryDebit \<Rightarrow> - le_AmountCents e)"

definition post :: "ledger_entry \<Rightarrow> database \<Rightarrow> database" where
  "post e d = d\<lparr>wallets := upd_where (\<lambda>w. w_ID w = le_WalletID e) (add_balance (entry_delta e) (le_CreatedAt e)) (wallets d),
                ledger_entries := ledger_entries d @ [e]\<rparr>"

text \<open>
  An entry can be posted: its wallet exists, the amount is positive, the new balance is in range and
  is the entry's \<open>balance_after\<close>.
\<close>

definition postable :: "ledger_entry \<Rightarrow> database \<Rightarrow> bool" where
  "postable e d \<longleftrightarrow>
     0 < sint (le_AmountCents e) \<and>
     (\<exists>w \<in> set (wallets d). w_ID w = le_WalletID e \<and>
        0 \<le> sint (w_Balance w) + signed_amount e \<and>
        int64_ok (sint (w_Balance w) + signed_amount e) \<and>
        sint (le_BalanceAfter e) = sint (w_Balance w) + signed_amount e)"

lemma sint_entry_delta: "0 < sint (le_AmountCents e) \<Longrightarrow> sint (entry_delta e) = signed_amount e"
  by (auto simp: entry_delta_def signed_amount_def sint_minus64_pos split: EntryType.splits)

lemma add_balance_fields [simp]:
  "w_ID (add_balance x t w) = w_ID w" "w_UserID (add_balance x t w) = w_UserID w"
  "w_deleted_at (add_balance x t w) = w_deleted_at w" "w_IsFrozen (add_balance x t w) = w_IsFrozen w"
  "w_Balance (add_balance x t w) = w_Balance w + x" "w_Currency (add_balance x t w) = w_Currency w"
  by (simp_all add: add_balance_def)

lemma post_fields [simp]:
  "transactions (post e d) = transactions d" "cbdc_issuance (post e d) = cbdc_issuance d"
  "users (post e d) = users d" "merchants (post e d) = merchants d"
  "payment_requests (post e d) = payment_requests d" "sessions (post e d) = sessions d"
  "audit_logs (post e d) = audit_logs d"
  "ledger_entries (post e d) = ledger_entries d @ [e]"
  by (simp_all add: post_def)

lemma map_w_ID_post [simp]: "map w_ID (wallets (post e d)) = map w_ID (wallets d)"
  by (simp add: post_def map_upd_where)

lemma w_ID_post_set [simp]: "w_ID ` set (wallets (post e d)) = w_ID ` set (wallets d)"
  by (metis map_w_ID_post list.set_map)

lemma running_append:
  "running b (es @ [e]) \<longleftrightarrow>
     running b es \<and>
     sint (le_BalanceAfter e) =
       b (le_WalletID e) + sum_by signed_amount (filter (\<lambda>x. le_WalletID x = le_WalletID e) es) + signed_amount e"
  by (induction es arbitrary: b) auto

lemma entry_sum_post:
  "entry_sum (post e d) w = entry_sum d w + (if le_WalletID e = w then signed_amount e else 0)"
  by (simp add: entry_sum_def)

lemma post_balance:
  assumes "postable e d" and "distinct (map w_ID (wallets d))" and "w \<in> set (wallets d)" "w_ID w = le_WalletID e"
  shows "sint (w_Balance w + entry_delta e) = sint (w_Balance w) + signed_amount e"
    and "0 \<le> sint (w_Balance w) + signed_amount e"
    and "sint (le_BalanceAfter e) = sint (w_Balance w) + signed_amount e"
proof -
  from assms(1) obtain v where v: "v \<in> set (wallets d)" "w_ID v = le_WalletID e"
    "0 \<le> sint (w_Balance v) + signed_amount e" "int64_ok (sint (w_Balance v) + signed_amount e)"
    "sint (le_BalanceAfter e) = sint (w_Balance v) + signed_amount e" and pos: "0 < sint (le_AmountCents e)"
    by (auto simp: postable_def)
  from v(1,2) assms(2-4) have "v = w" by (metis (no_types, lifting) distinct_map inj_onD)
  with v pos show "sint (w_Balance w + entry_delta e) = sint (w_Balance w) + signed_amount e"
    and "0 \<le> sint (w_Balance w) + signed_amount e"
    and "sint (le_BalanceAfter e) = sint (w_Balance w) + signed_amount e"
    by (simp_all add: sint_entry_delta int64_simps)
qed

lemma accounts_post:
  assumes "accounts d" and "postable e d"
  shows "accounts (post e d)"
proof -
  have dist: "distinct (map w_ID (wallets d))" using assms(1) by (simp add: accounts_def)
  from assms(2) obtain v where v: "v \<in> set (wallets d)" "w_ID v = le_WalletID e"
    by (auto simp: postable_def)
  have "0 \<le> sint (w_Balance w) \<and> sint (w_Balance w) = entry_sum (post e d) (w_ID w)"
    if w: "w \<in> set (wallets (post e d))" for w
  proof -
    from w obtain w0 where w0: "w0 \<in> set (wallets d)"
      and eq: "w = (if w_ID w0 = le_WalletID e then add_balance (entry_delta e) (le_CreatedAt e) w0 else w0)"
      by (auto simp: post_def set_upd_where)
    from assms(1) w0 have "0 \<le> sint (w_Balance w0)" "sint (w_Balance w0) = entry_sum d (w_ID w0)"
      by (auto simp: accounts_def)
    then show ?thesis
      using eq post_balance [OF assms(2) dist w0] by (auto simp: entry_sum_post)
  qed
  moreover have "running (\<lambda>_. 0) (ledger_entries d @ [e])"
    using assms(1) v post_balance(3) [OF assms(2) dist v]
    by (auto simp: running_append accounts_def entry_sum_def)
  moreover from v have "le_WalletID e \<in> w_ID ` set (wallets d)" by force
  then have "\<forall>x \<in> set (ledger_entries d @ [e]). le_WalletID x \<in> w_ID ` set (wallets d)"
    using assms(1) by (auto simp: accounts_def)
  ultimately show ?thesis
    using dist unfolding accounts_def post_fields map_w_ID_post w_ID_post_set by blast
qed

lemma money_supply_post:
  assumes "postable e d" and "distinct (map w_ID (wallets d))"
  shows "money_supply (post e d) = money_supply d + signed_amount e"
proof -
  from assms(1) obtain v where v: "v \<in> set (wallets d)" "w_ID v = le_WalletID e"
    by (auto simp: postable_def)
  then show ?thesis
    using sum_by_upd_key [OF assms(2) v(1), of "\<lambda>w. sint (w_Balance w)" "add_balance (entry_delta e) (le_CreatedAt e)"]
      post_balance(1) [OF assms v]
    by (simp add: money_supply_def post_def)
qed

section \<open>What a successful call writes\<close>

text \<open>\<open>enter x es\<close>: the transaction row \<open>x\<close> with its entries \<open>es\<close>, posted in order.\<close>

definition enter :: "transaction \<Rightarrow> ledger_entry list \<Rightarrow> database \<Rightarrow> database" where
  "enter x es d = fold post es (d\<lparr>transactions := transactions d @ [x]\<rparr>)"

text \<open>The row an insert makes and the entry a posting makes.\<close>

definition txn_row :: "CreateTransactionParams \<Rightarrow> uuid \<Rightarrow> gotime \<Rightarrow> transaction" where
  "txn_row p u t = \<lparr>t_ID = u, t_IdempotencyKey = ct_IdempotencyKey p, t_Type = ct_Type p,
     t_Status = StatusPending, t_SenderWalletID = ct_SenderWalletID p,
     t_ReceiverWalletID = ct_ReceiverWalletID p, t_AmountCents = ct_AmountCents p,
     t_FeeCents = 0, t_Reference = ct_Reference p, t_Signature = ct_Signature p,
     t_FailureReason = None, t_ParentTransactionID = ct_ParentTransactionID p,
     t_CreatedAt = t, t_ConfirmedAt = None, t_SettledAt = None\<rparr>"

definition clashes :: "CreateTransactionParams \<Rightarrow> database \<Rightarrow> bool" where
  "clashes p d \<longleftrightarrow> ct_SenderWalletID p \<noteq> None \<and> ct_IdempotencyKey p \<noteq> None \<and>
     (\<exists>x \<in> set (transactions d). t_SenderWalletID x = ct_SenderWalletID p \<and>
                                    t_IdempotencyKey x = ct_IdempotencyKey p)"

lemma insert_transaction_Inr:
  "insert_transaction p u t d = Inr (x, d') \<Longrightarrow>
     x = txn_row p u t \<and> d' = d\<lparr>transactions := transactions d @ [x]\<rparr> \<and>
     u \<notin> t_ID ` set (transactions d) \<and> \<not> clashes p d \<and> 0 < sint (ct_AmountCents p)"
  by (auto simp: insert_transaction_def txn_row_def clashes_def Let_def split: if_splits)

lemma posting:
  assumes upd: "update_balance walletID delta u t d = Inr (b, d1)"
    and ins: "insert_entry walletID txnID ty amt b u' t d1 = Inr (e, d2)"
    and delta: "delta = (case ty of EntryCredit \<Rightarrow> amt | EntryDebit \<Rightarrow> - amt)"
  shows "d2 = post e d" and "postable e d" and "posted ty (Some walletID) amt e"
    and "le_TransactionID e = txnID" and "le_BalanceAfter e = b"
proof -
  from upd obtain w where w: "w \<in> set (wallets d)" "w_ID w = walletID"
    and ok: "int64_ok (sint (w_Balance w) + sint delta)" "0 \<le> sint (w_Balance w) + sint delta"
    and b: "b = w_Balance w + delta"
    and d1: "d1 = d\<lparr>wallets := upd_where (\<lambda>w. w_ID w = walletID) (add_balance delta t) (wallets d)\<rparr>"
    by (auto simp: update_balance_def Let_def split: option.splits if_splits dest!: find_Some_in)
  from ins have amt: "0 < sint amt"
    and e: "e = \<lparr>le_ID = u', le_WalletID = walletID, le_TransactionID = txnID, le_EntryType = ty,
        le_AmountCents = amt, le_BalanceAfter = b, le_CreatedAt = t\<rparr>"
    and d2: "d2 = d1\<lparr>ledger_entries := ledger_entries d1 @ [e]\<rparr>"
    by (auto simp: insert_entry_def Let_def split: if_splits)
  have sgn: "sint delta = signed_amount e" "entry_delta e = delta"
    using amt delta by (auto simp: signed_amount_def entry_delta_def e sint_minus64_pos split: EntryType.splits)
  have "sint b = sint (w_Balance w) + sint delta" using ok b by (simp add: int64_simps)
  then show "postable e d"
    unfolding postable_def using w ok amt by (auto simp: sgn e intro!: bexI [of _ w])
  show "d2 = post e d" by (simp add: d2 post_def d1 sgn) (simp add: e)
  show "posted ty (Some walletID) amt e" "le_TransactionID e = txnID" "le_BalanceAfter e = b"
    by (simp_all add: posted_def e)
qed

text \<open>A list of entries that can be posted one after the other.\<close>

fun postable_all :: "ledger_entry list \<Rightarrow> database \<Rightarrow> bool" where
  "postable_all [] d \<longleftrightarrow> True"
| "postable_all (e # es) d \<longleftrightarrow> postable e d \<and> postable_all es (post e d)"

lemma fold_post_fields [simp]:
  "transactions (fold post es d) = transactions d" "cbdc_issuance (fold post es d) = cbdc_issuance d"
  "ledger_entries (fold post es d) = ledger_entries d @ es" "users (fold post es d) = users d"
  "merchants (fold post es d) = merchants d" "payment_requests (fold post es d) = payment_requests d"
  "sessions (fold post es d) = sessions d" "audit_logs (fold post es d) = audit_logs d"
  "map w_ID (wallets (fold post es d)) = map w_ID (wallets d)"
  by (induction es arbitrary: d) (simp_all del: map_eq_conv)

lemma accounts_fold_post: "accounts d \<Longrightarrow> postable_all es d \<Longrightarrow> accounts (fold post es d)"
  by (induction es arbitrary: d) (auto intro: accounts_post)

lemma money_supply_fold_post:
  "accounts d \<Longrightarrow> postable_all es d \<Longrightarrow>
   money_supply (fold post es d) = money_supply d + sum_by signed_amount es"
proof (induction es arbitrary: d)
  case Nil
  then show ?case by simp
next
  case (Cons e es)
  then have "money_supply (post e d) = money_supply d + signed_amount e"
    by (intro money_supply_post) (auto simp: accounts_def)
  with Cons show ?case by (simp add: accounts_post)
qed

lemma accounts_transactions [simp]: "accounts (d\<lparr>transactions := xs\<rparr>) = accounts d"
  by (simp add: accounts_def entry_sum_def)

lemma entry_sum_balanced:
  "balanced x es \<Longrightarrow>
   sum_by signed_amount es = (case t_SenderWalletID x of None \<Rightarrow> sint (t_AmountCents x) | Some _ \<Rightarrow> 0)"
  by (auto simp: balanced_def posted_def signed_amount_def split: option.splits list.splits)

text \<open>Entering a booked transaction keeps accounts and journal.\<close>

lemma enter_accounts:
  "accounts d \<Longrightarrow> postable_all es (d\<lparr>transactions := transactions d @ [x]\<rparr>) \<Longrightarrow> accounts (enter x es d)"
  by (simp add: enter_def accounts_fold_post)

lemma enter_supply:
  assumes "accounts d" and "postable_all es (d\<lparr>transactions := transactions d @ [x]\<rparr>)" and "balanced x es"
  shows "money_supply (enter x es d) =
    money_supply d + (case t_SenderWalletID x of None \<Rightarrow> sint (t_AmountCents x) | Some _ \<Rightarrow> 0)"
  using money_supply_fold_post [OF _ assms(2)] assms(1) entry_sum_balanced [OF assms(3)]
  by (simp add: enter_def) (simp add: money_supply_def)

lemma enter_journal:
  assumes "journal d" and x: "t_ID x \<notin> t_ID ` set (transactions d)" "t_Status x = StatusSettled"
    and key: "keyed x \<notin> set (keys d)"
    and es: "balanced x es" "\<forall>e \<in> set es. le_TransactionID e = t_ID x"
  shows "journal (enter x es d)"
proof -
  let ?d = "enter x es d"
  have e1: "entries_of ?d (t_ID y) = entries_of d (t_ID y)" if "y \<in> set (transactions d)" for y
  proof -
    from that x(1) have "t_ID y \<noteq> t_ID x" by (metis image_eqI)
    with es(2) show ?thesis by (auto simp: entries_of_def enter_def filter_empty_conv)
  qed
  have "filter (\<lambda>e. le_TransactionID e = t_ID x) (ledger_entries d) = []"
    using assms(1) x(1) unfolding journal_def filter_empty_conv by metis
  moreover have "filter (\<lambda>e. le_TransactionID e = t_ID x) es = es"
    using es(2) by simp
  ultimately have e2: "entries_of ?d (t_ID x) = es"
    by (simp add: entries_of_def enter_def)
  have "booked ?d y" if "y \<in> set (transactions ?d)" for y
    using that assms(1) e1 e2 x es by (auto simp: enter_def journal_def booked_def)
  then show ?thesis
    using assms by (auto simp: journal_def enter_def keys_def)
qed

section \<open>A successful transfer, a successful issuance\<close>

definition transfer_row :: "TransferParams \<Rightarrow> TransactionType \<Rightarrow> CreateTransactionParams" where
  "transfer_row p ty = \<lparr>ct_IdempotencyKey = nonempty (tp_IdempotencyKey p), ct_Type = ty,
     ct_SenderWalletID = Some (tp_SenderWalletID p), ct_ReceiverWalletID = Some (tp_ReceiverWalletID p),
     ct_AmountCents = tp_AmountCents p, ct_Reference = nonempty (tp_Reference p),
     ct_Signature = tp_Signature p, ct_ParentTransactionID = None\<rparr>"

lemma settle_appended:
  "x0 = x \<Longrightarrow> t_ID x \<notin> t_ID ` set (transactions d) \<Longrightarrow>
   upd_where (\<lambda>y. t_ID y = t_ID x) (settle t) (transactions d @ [x0]) = transactions d @ [settle t x]"
  by (simp, rule upd_where_idle) (metis image_eqI)

lemma fold_post_transactions:
  "(fold post es (d\<lparr>transactions := xs\<rparr>))\<lparr>transactions := ys\<rparr> = fold post es (d\<lparr>transactions := ys\<rparr>)"
proof (induction es arbitrary: d)
  case Nil
  then show ?case by simp
next
  case (Cons e es)
  have "post e (d\<lparr>transactions := xs\<rparr>) = (post e d)\<lparr>transactions := xs\<rparr>" for xs
    by (simp add: post_def)
  with Cons show ?case by simp
qed

lemma settle_enter:
  assumes "t_ID x \<notin> t_ID ` set (transactions d)"
    and "d' = fold post es (d\<lparr>transactions := transactions d @ [x]\<rparr>)"
  shows "d'\<lparr>transactions := upd_where (\<lambda>y. t_ID y = t_ID x) (settle t) (transactions d')\<rparr> = enter (settle t x) es d"
proof -
  have "transactions d' = transactions d @ [x]" using assms(2) by simp
  then show ?thesis
    using assms settle_appended [OF refl assms(1), of t]
      fold_post_transactions [where es = es and d = d and xs = "transactions d @ [x]"]
    by (simp add: enter_def del: upd_where_append)
qed

lemma postable_all_transactions:
  "postable_all es (d\<lparr>transactions := xs\<rparr>) = postable_all es d"
proof (induction es arbitrary: d)
  case Nil
  then show ?case by simp
next
  case (Cons e es)
  have "post e (d\<lparr>transactions := xs\<rparr>) = (post e d)\<lparr>transactions := xs\<rparr>" "postable e (d\<lparr>transactions := xs\<rparr>) = postable e d"
    by (simp_all add: post_def postable_def)
  with Cons show ?case by simp
qed

lemma SettleTransaction_Inr:
  "SettleTransaction E tx txnID w = (Inr a, w') \<Longrightarrow>
     w_db w' = (w_db w)\<lparr>transactions := upd_where (\<lambda>x. t_ID x = txnID) (settle tx) (transactions (w_db w))\<rparr>"
  by (auto simp: SettleTransaction_def io_eq update_settled_def)

text \<open>
  What \<open>transfer_writes\<close> did when it returned a result: one settled row and its two entries were
  entered, and the result carries the balances the entries record.
\<close>

lemma transfer_writes_Inr:
  assumes "transfer_writes E p ty tx w = (Inr (r, err), w')"
  obtains u e f where
    "err = None" "u \<notin> t_ID ` set (transactions (w_db w))" "\<not> clashes (transfer_row p ty) (w_db w)"
    "w_db w' = enter (settle tx (txn_row (transfer_row p ty) u tx)) [e, f] (w_db w)"
    "postable_all [e, f] (w_db w)"
    "posted EntryDebit (Some (tp_SenderWalletID p)) (tp_AmountCents p) e" "le_TransactionID e = u"
    "posted EntryCredit (Some (tp_ReceiverWalletID p)) (tp_AmountCents p) f" "le_TransactionID f = u"
    "tr_SenderBalance r = le_BalanceAfter e" "tr_ReceiverBalance r = le_BalanceAfter f"
    "tr_Transaction r = (txn_row (transfer_row p ty) u tx)\<lparr>t_Status := StatusSettled\<rparr>"
proof -
  let ?d = "w_db w"
  from assms obtain u x d1 b1 d2 u1 u2 e d3 u3 b2 d4 u4 f d5 where
      x: "insert_transaction (transfer_row p ty) u tx ?d = Inr (x, d1)"
    and b1: "update_balance (tp_SenderWalletID p) (- tp_AmountCents p) u1 tx d1 = Inr (b1, d2)"
    and e: "insert_entry (tp_SenderWalletID p) (t_ID x) EntryDebit (tp_AmountCents p) b1 u2 tx d2 = Inr (e, d3)"
    and b2: "update_balance (tp_ReceiverWalletID p) (tp_AmountCents p) u3 tx d3 = Inr (b2, d4)"
    and f: "insert_entry (tp_ReceiverWalletID p) (t_ID x) EntryCredit (tp_AmountCents p) b2 u4 tx d4 = Inr (f, d5)"
    and w': "w_db w' = d5\<lparr>transactions := upd_where (\<lambda>y. t_ID y = t_ID x) (settle tx) (transactions d5)\<rparr>"
    and r: "err = None" "r = \<lparr>tr_Transaction = x\<lparr>t_Status := StatusSettled\<rparr>,
        tr_SenderBalance = b1, tr_ReceiverBalance = b2\<rparr>"
    unfolding transfer_writes_def transfer_row_def [symmetric]
    by (auto simp: io_eq CreateTransaction_def UpdateWalletBalance_def CreateLedgerEntry_def
        dest!: SettleTransaction_Inr)
  note x = insert_transaction_Inr [OF x]
  note pe = posting [OF b1 e] and pf = posting [OF b2 f]
  have "d5 = fold post [e, f] (?d\<lparr>transactions := transactions ?d @ [x]\<rparr>)"
    using x pe(1) pf(1) by simp
  then have "w_db w' = enter (settle tx x) [e, f] ?d"
    unfolding w' using x by (intro settle_enter) (auto simp: txn_row_def)
  moreover have "postable_all [e, f] (?d\<lparr>transactions := transactions ?d @ [x]\<rparr>)"
    using pe(1,2) pf(2) x by simp
  then have "postable_all [e, f] ?d" by (simp only: postable_all_transactions)
  ultimately show ?thesis
    using that [of u e f] x pe pf r by (auto simp: txn_row_def)
qed

definition view :: "wallet \<Rightarrow> ledger_wallet" where
  "view w = \<lparr>lw_ID = w_ID w, lw_UserID = w_UserID w, lw_Balance = w_Balance w,
     lw_IsFrozen = w_IsFrozen w, lw_Currency = w_Currency w\<rparr>"

lemma view_simps [simp]:
  "lw_ID (view w) = w_ID w" "lw_Balance (view w) = w_Balance w" "lw_IsFrozen (view w) = w_IsFrozen w"
  by (simp_all add: view_def)

lemma GetWalletForUpdate_Inr:
  "GetWalletForUpdate E tx i w = (Inr x, w') \<Longrightarrow>
     \<exists>v. live_wallet i (w_db w) = Some v \<and> x = view v \<and> w_db w' = w_db w"
  by (auto simp: GetWalletForUpdate_def io_eq select_wallet_def view_def split: option.splits if_splits)

lemma live_walletD: "live_wallet i d = Some v \<Longrightarrow> v \<in> set (wallets d) \<and> w_ID v = i \<and> w_deleted_at v = None"
  by (auto simp: live_wallet_def dest: find_Some_in)

text \<open>
  The effect of a completed transfer \<open>p\<close> on the tables, with its result: the checks that passed on
  the locked rows, the row and the two entries that were entered.
\<close>

definition moved ::
    "TransferParams \<Rightarrow> TransactionType \<Rightarrow> gotime \<Rightarrow> database \<Rightarrow> TransferResult \<Rightarrow> database \<Rightarrow> bool" where
  "moved p ty tx d r d' \<longleftrightarrow>
     (\<exists>a b. live_wallet (tp_SenderWalletID p) d = Some a \<and> live_wallet (tp_ReceiverWalletID p) d = Some b \<and>
        \<not> w_IsFrozen a \<and> \<not> w_IsFrozen b \<and> sint (tp_AmountCents p) \<le> sint (w_Balance a)) \<and>
     (\<exists>u e f. u \<notin> t_ID ` set (transactions d) \<and> \<not> clashes (transfer_row p ty) d \<and>
        d' = enter (settle tx (txn_row (transfer_row p ty) u tx)) [e, f] d \<and>
        postable_all [e, f] d \<and> le_TransactionID e = u \<and> le_TransactionID f = u \<and>
        posted EntryDebit (Some (tp_SenderWalletID p)) (tp_AmountCents p) e \<and>
        posted EntryCredit (Some (tp_ReceiverWalletID p)) (tp_AmountCents p) f \<and>
        tr_SenderBalance r = le_BalanceAfter e \<and> tr_ReceiverBalance r = le_BalanceAfter f \<and>
        tr_Transaction r = (txn_row (transfer_row p ty) u tx)\<lparr>t_Status := StatusSettled\<rparr>)"

lemma transfer_tx_moved:
  assumes "transfer_tx E p ty tx w = (Inr (r, err), w')"
  shows "err = None \<and> moved p ty tx (w_db w) r (w_db w')"
proof -
  let ?a = "tp_SenderWalletID p" and ?b = "tp_ReceiverWalletID p" and ?d = "w_db w"
  obtain i j where ij: "orderedLockIDs E ?a ?b = (i, j)" by fastforce
  then have ij': "(i, j) = (?a, ?b) \<or> (i, j) = (?b, ?a)" by (auto simp: orderedLockIDs_def Let_def split: if_splits)
  from assms ij obtain v1 w1 v2 w2 where
      v1: "GetWalletForUpdate E tx i w = (Inr v1, w1)" and v2: "GetWalletForUpdate E tx j w1 = (Inr v2, w2)"
    and run: "(let (s, t) = (if lw_ID v1 = ?a then (v1, v2) else (v2, v1))
       in if lw_IsFrozen s then throw (Ledger ErrWalletFrozen)
          else if lw_IsFrozen t then throw (Ledger ErrWalletFrozen)
          else if sint (lw_Balance s) < sint (tp_AmountCents p) then throw (Ledger ErrInsufficientFunds)
          else transfer_writes E p ty tx) w2 = (Inr (r, err), w')"
    unfolding transfer_tx_def by (auto simp: bind_io_eq)
  from GetWalletForUpdate_Inr [OF v1] GetWalletForUpdate_Inr [OF v2] obtain a b where
      a: "live_wallet i ?d = Some a" "v1 = view a" and b: "live_wallet j ?d = Some b" "v2 = view b"
    and db: "w_db w2 = ?d" by auto
  obtain s t where st: "(if lw_ID v1 = ?a then (v1, v2) else (v2, v1)) = (view s, view t)"
    and live: "live_wallet ?a ?d = Some s" "live_wallet ?b ?d = Some t"
    using ij' a b live_walletD [OF a(1)] live_walletD [OF b(1)] by (cases "i = ?a") auto
  from run have ok: "\<not> w_IsFrozen s" "\<not> w_IsFrozen t" "sint (tp_AmountCents p) \<le> sint (w_Balance s)"
    "transfer_writes E p ty tx w2 = (Inr (r, err), w')"
    by (auto simp: st io_eq split: if_splits)
  from ok(4) show ?thesis
    by (rule transfer_writes_Inr) (use live ok db in \<open>auto simp: moved_def\<close>)
qed

definition transfer_type :: "TransferParams \<Rightarrow> TransactionType" where
  "transfer_type p = (case tp_TxnType p of None \<Rightarrow> TypeTransfer | Some ty \<Rightarrow> ty)"

text \<open>Whatever fails, \<open>Transfer\<close> leaves the tables alone or completes the transfer.\<close>

lemma with_tx_transfer_db:
  "w_db (snd (with_tx E bm cm (transfer_tx E p ty) w)) = w_db w \<or>
   (\<exists>tx r. moved p ty tx (w_db w) r (w_db (snd (with_tx E bm cm (transfer_tx E p ty) w))))"
  using with_tx_atomic [of E bm cm "transfer_tx E p ty" w] by (fastforce dest: transfer_tx_moved)

lemma select_by_key_reads: "reads (select_by_key i k)"
  by (auto simp: reads_def select_by_key_def split: option.splits)

lemma Transfer_db:
  "w_db (snd (Transfer E p w)) = w_db w \<or>
   (\<exists>tx r. moved p (transfer_type p) tx (w_db w) r (w_db (snd (Transfer E p w))))"
proof -
  obtain x w1 where g: "GetTransactionByIdempotencyKey E (tp_SenderWalletID p) (tp_IdempotencyKey p) w = (x, w1)"
    by fastforce
  then have "w_db w1 = w_db w"
    unfolding GetTransactionByIdempotencyKey_def by (metis snd_conv sql_reads_db select_by_key_reads)
  then show ?thesis
    using g with_tx_transfer_db [of E "''begin transaction''" "''commit transfer''" p "transfer_type p" w]
      with_tx_transfer_db [of E "''begin transaction''" "''commit transfer''" p "transfer_type p" w1]
    by (cases x) (auto simp: Transfer_def Let_def io_run transfer_type_def [symmetric])
qed

lemma Transfer_Inr:
  assumes "Transfer E p w = (Inr (r, err), w')"
  shows "0 < sint (tp_AmountCents p)" and "tp_SenderWalletID p \<noteq> tp_ReceiverWalletID p"
    and "(\<exists>tx. err = None \<and> moved p (transfer_type p) tx (w_db w) r (w_db w')) \<or>
         (err = Some (Ledger ErrIdempotentReplay) \<and> tp_IdempotencyKey p \<noteq> '''' \<and> w_db w' = w_db w \<and>
          tr_Transaction r \<in> set (transactions (w_db w)) \<and>
          keyed (tr_Transaction r) = Some (tp_SenderWalletID p, tp_IdempotencyKey p) \<and>
          tr_SenderBalance r = 0 \<and> tr_ReceiverBalance r = 0)"
proof -
  from assms show 1: "0 < sint (tp_AmountCents p)" and 2: "tp_SenderWalletID p \<noteq> tp_ReceiverWalletID p"
    by (auto simp: Transfer_def io_eq split: if_splits)
  have tx: "err = None \<and> (\<exists>tx. moved p (transfer_type p) tx (w_db w1) r (w_db w'))"
    if "with_tx E bm cm (transfer_tx E p (transfer_type p)) w1 = (Inr (r, err), w')" for bm cm w1
    using that by (auto simp: io_eq dest!: transfer_tx_moved)
  show "(\<exists>tx. err = None \<and> moved p (transfer_type p) tx (w_db w) r (w_db w')) \<or>
         (err = Some (Ledger ErrIdempotentReplay) \<and> tp_IdempotencyKey p \<noteq> '''' \<and> w_db w' = w_db w \<and>
          tr_Transaction r \<in> set (transactions (w_db w)) \<and>
          keyed (tr_Transaction r) = Some (tp_SenderWalletID p, tp_IdempotencyKey p) \<and>
          tr_SenderBalance r = 0 \<and> tr_ReceiverBalance r = 0)"
  proof (cases "tp_IdempotencyKey p = ''''")
    case True
    with assms 1 2 show ?thesis
      by (auto simp: Transfer_def Let_def transfer_type_def [symmetric] dest: tx)
  next
    case False
    obtain x w1 where g: "GetTransactionByIdempotencyKey E (tp_SenderWalletID p) (tp_IdempotencyKey p) w = (x, w1)"
      by fastforce
    then have db: "w_db w1 = w_db w"
      unfolding GetTransactionByIdempotencyKey_def by (metis snd_conv sql_reads_db select_by_key_reads)
    show ?thesis
    proof (cases x)
      case (Inl e)
      with assms 1 2 False g have "with_tx E ''begin transaction'' ''commit transfer'' (transfer_tx E p (transfer_type p)) w1
          = (Inr (r, err), w')"
        by (auto simp: Transfer_def Let_def io_run transfer_type_def [symmetric] split: if_splits)
      with tx db show ?thesis by metis
    next
      case (Inr y)
      with g have "y \<in> set (transactions (w_db w))" "keyed y = Some (tp_SenderWalletID p, tp_IdempotencyKey p)"
        by (auto simp: GetTransactionByIdempotencyKey_def io_eq select_by_key_def keyed_def
            split: option.splits dest: find_Some_in)
      with assms 1 2 False g Inr db show ?thesis
        by (auto simp: Transfer_def Let_def io_run)
    qed
  qed
qed

lemma moved_books:
  assumes "books d" and "moved p ty tx d r d'"
  shows "books d'" and "money_supply d' = money_supply d" and "minted d' = minted d"
proof -
  from assms(2) obtain u e f where
      u: "u \<notin> t_ID ` set (transactions d)" "\<not> clashes (transfer_row p ty) d"
    and d': "d' = enter (settle tx (txn_row (transfer_row p ty) u tx)) [e, f] d" (is "_ = enter ?x _ _")
    and pa: "postable_all [e, f] d" and t: "le_TransactionID e = u" "le_TransactionID f = u"
    and pe: "posted EntryDebit (Some (tp_SenderWalletID p)) (tp_AmountCents p) e"
    and pf: "posted EntryCredit (Some (tp_ReceiverWalletID p)) (tp_AmountCents p) f"
    by (auto simp: moved_def)
  have x: "t_ID ?x = u" "t_Status ?x = StatusSettled" "t_SenderWalletID ?x = Some (tp_SenderWalletID p)"
    by (simp_all add: settle_def txn_row_def transfer_row_def)
  have bal: "balanced ?x [e, f]"
    using pe pf by (simp add: balanced_def settle_def txn_row_def transfer_row_def)
  have "keyed ?x \<notin> set (keys d)"
  proof
    assume "keyed ?x \<in> set (keys d)"
    then obtain y where y: "y \<in> set (transactions d)" "keyed y = keyed ?x" "keyed y \<noteq> None"
      by (auto simp: keys_def)
    then have "t_SenderWalletID y = t_SenderWalletID ?x" "t_IdempotencyKey y = t_IdempotencyKey ?x"
      "t_IdempotencyKey ?x \<noteq> None"
      by (auto simp: keyed_def split: option.splits)
    with y(1) u(2) show False
      by (auto simp: clashes_def settle_def txn_row_def transfer_row_def)
  qed
  then have "journal d'"
    using enter_journal [of d ?x "[e, f]"] assms(1) u x bal t unfolding d' books_def by auto
  moreover have "accounts d'"
    using enter_accounts [of d "[e, f]" ?x] assms(1) pa unfolding d' books_def
    by (simp only: postable_all_transactions)
  moreover show s: "money_supply d' = money_supply d"
    using enter_supply [of d "[e, f]" ?x] assms(1) pa bal x unfolding d' books_def
    by (simp add: postable_all_transactions del: postable_all.simps)
  moreover show m: "minted d' = minted d"
    by (simp add: d' minted_def enter_def)
  ultimately show "books d'" using assms(1) by (simp add: books_def)
qed

subsection \<open>Issuance\<close>

definition issue_row :: "IssueParams \<Rightarrow> CreateTransactionParams" where
  "issue_row p = \<lparr>ct_IdempotencyKey = None, ct_Type = TypeIssuance, ct_SenderWalletID = None,
     ct_ReceiverWalletID = Some (ip_WalletID p), ct_AmountCents = ip_AmountCents p, ct_Reference = None,
     ct_Signature = ip_Signature p, ct_ParentTransactionID = None\<rparr>"

definition record_issuance :: "issuance \<Rightarrow> database \<Rightarrow> database" where
  "record_issuance i d = d\<lparr>cbdc_issuance := cbdc_issuance d @ [i]\<rparr>"

definition issued :: "IssueParams \<Rightarrow> gotime \<Rightarrow> database \<Rightarrow> IssueResult \<Rightarrow> database \<Rightarrow> bool" where
  "issued p tx d r d' \<longleftrightarrow>
     (\<exists>v. live_wallet (ip_WalletID p) d = Some v \<and> \<not> w_IsFrozen v) \<and>
     (\<exists>u e i. u \<notin> t_ID ` set (transactions d) \<and>
        d' = record_issuance i (enter (settle tx (txn_row (issue_row p) u tx)) [e] d) \<and>
        postable_all [e] d \<and> le_TransactionID e = u \<and>
        posted EntryCredit (Some (ip_WalletID p)) (ip_AmountCents p) e \<and>
        is_AmountCents i = ip_AmountCents p \<and> is_TransactionID i = u \<and> is_WalletID i = ip_WalletID p \<and>
        is_AdminID i = ip_AdminID p \<and> sint (ip_AmountCents p) \<le> 100000000 \<and>
        ir_IssuanceID r = is_ID i \<and> ir_NewBalance r = le_BalanceAfter e \<and>
        ir_Transaction r = (txn_row (issue_row p) u tx)\<lparr>t_Status := StatusSettled\<rparr>)"

lemma insert_issuance_Inr:
  "insert_issuance E adminID walletID txnID amt reason ip u t d = Inr (i, d') \<Longrightarrow>
     sint amt \<le> 100000000 \<and> i = u \<and>
     d' = record_issuance \<lparr>is_ID = u, is_AdminID = adminID, is_WalletID = walletID, is_TransactionID = txnID,
              is_AmountCents = amt, is_Reason = reason, is_IPAddress = ip\<rparr> d"
  by (auto simp: insert_issuance_def record_issuance_def split: if_splits)

lemma issue_tx_issued:
  assumes "issue_tx E p tx w = (Inr r, w')"
  shows "issued p tx (w_db w) r (w_db w')"
proof -
  let ?d = "w_db w"
  from assms obtain v w0 where v: "GetWalletForUpdate E tx (ip_WalletID p) w = (Inr v, w0)"
    by (auto simp: issue_tx_def bind_io_eq)
  obtain a where a: "live_wallet (ip_WalletID p) ?d = Some a" "v = view a" and db: "w_db w0 = ?d"
    using GetWalletForUpdate_Inr [OF v] by blast
  have frz: "\<not> w_IsFrozen a"
    using assms v a by (auto simp: issue_tx_def bind_io_eq throw_eq split: if_splits)
  from assms v a frz obtain u x d1 b u1 d2 u2 e d3 d4 u3 ipp i d5 where
      x: "insert_transaction (issue_row p) u tx ?d = Inr (x, d1)"
    and b: "update_balance (ip_WalletID p) (ip_AmountCents p) u1 tx d1 = Inr (b, d2)"
    and e: "insert_entry (ip_WalletID p) (t_ID x) EntryCredit (ip_AmountCents p) b u2 tx d2 = Inr (e, d3)"
    and d4: "d4 = d3\<lparr>transactions := upd_where (\<lambda>y. t_ID y = t_ID x) (settle tx) (transactions d3)\<rparr>"
    and i: "insert_issuance E (ip_AdminID p) (ip_WalletID p) (t_ID x) (ip_AmountCents p) (ip_Reason p) ipp u3 tx d4
            = Inr (i, w_db w')"
    and r: "r = \<lparr>ir_IssuanceID = i, ir_Transaction = x\<lparr>t_Status := StatusSettled\<rparr>, ir_NewBalance = b\<rparr>"
    unfolding issue_tx_def issue_row_def [symmetric] db [symmetric]
    by (auto simp: io_eq CreateTransaction_def UpdateWalletBalance_def CreateLedgerEntry_def
        InsertIssuanceRecord_def Let_def dest!: SettleTransaction_Inr split: if_splits)
  note x = insert_transaction_Inr [OF x] and pe = posting [OF b e] and i = insert_issuance_Inr [OF i]
  have "d3 = fold post [e] (?d\<lparr>transactions := transactions ?d @ [x]\<rparr>)" using x pe(1) by simp
  then have d4': "d4 = enter (settle tx x) [e] ?d"
    unfolding d4 using x by (intro settle_enter) (auto simp: txn_row_def)
  have "postable_all [e] (?d\<lparr>transactions := transactions ?d @ [x]\<rparr>)" using pe(2) x by simp
  then have "postable_all [e] ?d" by (simp only: postable_all_transactions)
  with a frz x pe i r d4' show ?thesis
    unfolding issued_def
    by (intro conjI exI [of _ a] exI [of _ u] exI [of _ e]
        exI [of _ "\<lparr>is_ID = u3, is_AdminID = ip_AdminID p, is_WalletID = ip_WalletID p, is_TransactionID = t_ID x,
              is_AmountCents = ip_AmountCents p, is_Reason = ip_Reason p, is_IPAddress = ipp\<rparr>"])
       (auto simp: txn_row_def)
qed

lemma Issue_db:
  "w_db (snd (Issue E p w)) = w_db w \<or> (\<exists>tx r. issued p tx (w_db w) r (w_db (snd (Issue E p w))))"
  using with_tx_atomic [of E "''begin issuance tx''" "''commit issuance''" "issue_tx E p" w]
  by (fastforce simp: Issue_def throw_def dest: issue_tx_issued)

lemma Issue_Inr:
  "Issue E p w = (Inr r, w') \<Longrightarrow> 0 < sint (ip_AmountCents p) \<and> (\<exists>tx. issued p tx (w_db w) r (w_db w'))"
  by (auto simp: Issue_def io_eq split: if_splits dest!: issue_tx_issued)

text \<open>An issuance that is entered and recorded: a settled transaction without a sender, its credit, its record.\<close>

lemma issuance_books:
  assumes "books d" and x: "t_ID x \<notin> t_ID ` set (transactions d)" "t_Status x = StatusSettled" "t_SenderWalletID x = None"
    and e: "postable_all [e] d" "le_TransactionID e = t_ID x" "balanced x [e]"
    and i: "is_AmountCents i = t_AmountCents x"
  shows "books (record_issuance i (enter x [e] d))"
    and "money_supply (record_issuance i (enter x [e] d)) = money_supply d + sint (t_AmountCents x)"
proof -
  have frame: "accounts (record_issuance i d0) = accounts d0" "journal (record_issuance i d0) = journal d0"
    "money_supply (record_issuance i d0) = money_supply d0"
    "minted (record_issuance i d0) = minted d0 + sint (is_AmountCents i)" for d0
    by (auto simp: record_issuance_def accounts_def journal_def money_supply_def minted_def entry_sum_def keys_def
        booked_def entries_of_def)
  have "keyed x \<notin> set (keys d)" using x(3) by (simp add: keyed_def keys_def)
  then have "journal (enter x [e] d)"
    using enter_journal [of d x "[e]"] assms(1) x(1,2) e(2,3) unfolding books_def by simp
  moreover have "accounts (enter x [e] d)"
    using enter_accounts [of d "[e]" x] assms(1) e(1) unfolding books_def by (simp only: postable_all_transactions)
  moreover have "money_supply (enter x [e] d) = money_supply d + sint (t_AmountCents x)"
    using enter_supply [of d "[e]" x] assms(1) e x(3) unfolding books_def
    by (simp add: postable_all_transactions del: postable_all.simps)
  moreover have "minted (enter x [e] d) = minted d"
    by (simp add: minted_def enter_def)
  ultimately show "books (record_issuance i (enter x [e] d))"
    "money_supply (record_issuance i (enter x [e] d)) = money_supply d + sint (t_AmountCents x)"
    using assms(1) i by (auto simp: books_def frame)
qed

lemma issued_books:
  assumes "books d" and "issued p tx d r d'"
  shows "books d'" and "money_supply d' = money_supply d + sint (ip_AmountCents p)"
proof -
  from assms(2) obtain u e i where
      u: "u \<notin> t_ID ` set (transactions d)"
    and d': "d' = record_issuance i (enter (settle tx (txn_row (issue_row p) u tx)) [e] d)"
      (is "_ = record_issuance i (enter ?x _ _)")
    and e: "postable_all [e] d" "le_TransactionID e = u"
      "posted EntryCredit (Some (ip_WalletID p)) (ip_AmountCents p) e" and i: "is_AmountCents i = ip_AmountCents p"
    by (auto simp: issued_def)
  have x: "t_ID ?x = u" "t_Status ?x = StatusSettled" "t_SenderWalletID ?x = None" "t_AmountCents ?x = ip_AmountCents p"
    "t_ReceiverWalletID ?x = Some (ip_WalletID p)"
    by (simp_all add: settle_def txn_row_def issue_row_def)
  have "balanced ?x [e]" using e(3) x by (simp add: balanced_def)
  then show "books d'" "money_supply d' = money_supply d + sint (ip_AmountCents p)"
    unfolding d' using issuance_books [OF assms(1), of ?x e i] u e x i by (simp_all del: postable_all.simps)
qed

lemma keys_unique:
  assumes "journal d" and "x \<in> set (transactions d)" "y \<in> set (transactions d)" and "keyed x = keyed y" "keyed x \<noteq> None"
  shows "x = y"
proof -
  have "x = y" if "distinct (filter (\<lambda>k. k \<noteq> None) (map keyed xs))" "x \<in> set xs" "y \<in> set xs" for xs
    using that assms(4,5) by (induction xs) (auto simp: image_iff split: if_splits)
  then show ?thesis using assms(1-3) by (auto simp: journal_def keys_def)
qed

end
