(* ===== verification/Ledger_Props.thy ===== *)
theory Ledger_Props
  imports Ledger_Inv
begin

text \<open>
  The ledger's promises, stated over \<open>Transfer\<close> and \<open>Issue\<close>: the abstract account map both refine,
  and a calm environment, in which no call fails and no drawn UUID was used before.
\<close>

section \<open>The abstract ledger\<close>

type_synonym account_map = "uuid \<rightharpoonup> int \<times> bool"

definition abs_ledger :: "database \<Rightarrow> account_map" where
  "abs_ledger d i = map_option (\<lambda>w. (sint (w_Balance w), w_IsFrozen w)) (live_wallet i d)"

definition transfer_spec :: "uuid \<Rightarrow> uuid \<Rightarrow> int \<Rightarrow> account_map \<Rightarrow> ledger_error + account_map" where
  "transfer_spec s r amt m =
    (if amt \<le> 0 then Inl ledger_error.ErrAmountZero
     else if s = r then Inl ErrSelfTransfer
     else case (m s, m r) of
       (Some (bs, fs), Some (br, fr)) \<Rightarrow>
         if fs \<or> fr then Inl ErrWalletFrozen
         else if bs < amt then Inl ErrInsufficientFunds
         else Inr (m(s \<mapsto> (bs - amt, fs), r \<mapsto> (br + amt, fr)))
     | _ \<Rightarrow> Inl ledger_error.ErrWalletNotFound)"

definition issue_spec :: "uuid \<Rightarrow> int \<Rightarrow> account_map \<Rightarrow> ledger_error + account_map" where
  "issue_spec r amt m =
    (if amt \<le> 0 then Inl ledger_error.ErrAmountZero
     else case m r of
       None \<Rightarrow> Inl ledger_error.ErrWalletNotFound
     | Some (b, fr) \<Rightarrow> if fr then Inl ErrWalletFrozen else Inr (m(r \<mapsto> (b + amt, fr))))"

text \<open>The live wallets after a posting.\<close>

lemma live_wallet_post:
  "live_wallet i (post e d) =
     map_option (\<lambda>w. if w_ID w = le_WalletID e then add_balance (entry_delta e) (le_CreatedAt e) w else w) (live_wallet i d)"
  by (simp add: live_wallet_def post_def find_upd_where)

lemma live_wallet_cong: "wallets d = wallets d' \<Longrightarrow> live_wallet i d = live_wallet i d'"
  by (simp add: live_wallet_def)

lemma abs_post:
  assumes "postable e d" and "distinct (map w_ID (wallets d))" and "abs_ledger d (le_WalletID e) = Some (b, fr)"
  shows "abs_ledger (post e d) = (abs_ledger d)(le_WalletID e \<mapsto> (b + signed_amount e, fr))"
    and "sint (le_BalanceAfter e) = b + signed_amount e"
proof -
  from assms(3) obtain w where w: "live_wallet (le_WalletID e) d = Some w" "b = sint (w_Balance w)" "fr = w_IsFrozen w"
    by (auto simp: abs_ledger_def)
  note lw = live_walletD [OF w(1)]
  show "sint (le_BalanceAfter e) = b + signed_amount e"
    using post_balance(3) [OF assms(1,2)] lw w(2) by auto
  show "abs_ledger (post e d) = (abs_ledger d)(le_WalletID e \<mapsto> (b + signed_amount e, fr))"
  proof (rule ext)
    fix i
    show "abs_ledger (post e d) i = ((abs_ledger d)(le_WalletID e \<mapsto> (b + signed_amount e, fr))) i"
    proof (cases "i = le_WalletID e")
      case True
      then show ?thesis
        using w lw post_balance(1) [OF assms(1,2)] by (simp add: abs_ledger_def live_wallet_post)
    next
      case False
      then show ?thesis
        by (cases "live_wallet i d") (auto simp: abs_ledger_def live_wallet_post dest: live_walletD)
    qed
  qed
qed

lemma abs_transactions [simp]: "abs_ledger (d\<lparr>transactions := xs\<rparr>) = abs_ledger d"
  by (rule ext) (simp add: abs_ledger_def live_wallet_def)

lemma abs_issuance [simp]: "abs_ledger (record_issuance i d) = abs_ledger d"
  by (rule ext) (simp add: abs_ledger_def live_wallet_def record_issuance_def)

lemma signed_posted:
  "posted EntryDebit w a e \<Longrightarrow> signed_amount e = - sint a" "posted EntryCredit w a e \<Longrightarrow> signed_amount e = sint a"
  by (simp_all add: posted_def signed_amount_def)

lemma moved_abs:
  assumes "moved p ty tx d r d'" and "accounts d" and "tp_SenderWalletID p \<noteq> tp_ReceiverWalletID p"
    and "0 < sint (tp_AmountCents p)"
  shows "transfer_spec (tp_SenderWalletID p) (tp_ReceiverWalletID p) (sint (tp_AmountCents p)) (abs_ledger d)
           = Inr (abs_ledger d')"
    and "abs_ledger d' (tp_SenderWalletID p) = Some (sint (tr_SenderBalance r), False)"
    and "abs_ledger d' (tp_ReceiverWalletID p) = Some (sint (tr_ReceiverBalance r), False)"
proof -
  let ?s = "tp_SenderWalletID p" and ?r = "tp_ReceiverWalletID p" and ?a = "sint (tp_AmountCents p)"
  from assms(1) obtain a b u e f where
      ab: "live_wallet ?s d = Some a" "live_wallet ?r d = Some b" "\<not> w_IsFrozen a" "\<not> w_IsFrozen b"
      "?a \<le> sint (w_Balance a)"
    and d': "d' = enter (settle tx (txn_row (transfer_row p ty) u tx)) [e, f] d" (is "_ = enter ?x _ _")
    and pa: "postable_all [e, f] d"
    and pe: "posted EntryDebit (Some ?s) (tp_AmountCents p) e"
    and pf: "posted EntryCredit (Some ?r) (tp_AmountCents p) f"
    and r: "tr_SenderBalance r = le_BalanceAfter e" "tr_ReceiverBalance r = le_BalanceAfter f"
    unfolding moved_def by blast
  let ?d0 = "d\<lparr>transactions := transactions d @ [?x]\<rparr>"
  have dist: "distinct (map w_ID (wallets d))" using assms(2) by (simp add: accounts_def)
  have pa': "postable_all [e, f] ?d0" using pa by (simp only: postable_all_transactions)
  have w: "le_WalletID e = ?s" "le_WalletID f = ?r" using pe pf by (auto simp: posted_def)
  have A: "abs_ledger d ?s = Some (sint (w_Balance a), False)" "abs_ledger d ?r = Some (sint (w_Balance b), False)"
    using ab by (simp_all add: abs_ledger_def)
  note se = abs_post [of e ?d0 "sint (w_Balance a)" False]
  have s1: "abs_ledger (post e ?d0) = (abs_ledger d)(?s \<mapsto> (sint (w_Balance a) - ?a, False))"
    and b1: "sint (le_BalanceAfter e) = sint (w_Balance a) - ?a"
    using se pa' dist A w signed_posted(1) [OF pe] by auto
  have s2: "abs_ledger d' = (abs_ledger (post e ?d0))(?r \<mapsto> (sint (w_Balance b) + ?a, False))"
    and b2: "sint (le_BalanceAfter f) = sint (w_Balance b) + ?a"
    using abs_post [of f "post e ?d0" "sint (w_Balance b)" False] pa' dist A w s1 signed_posted(2) [OF pf] assms(3)
    by (auto simp: d' enter_def)
  show "transfer_spec ?s ?r ?a (abs_ledger d) = Inr (abs_ledger d')"
    using A ab assms(3,4) by (simp add: transfer_spec_def s2 s1)
  show "abs_ledger d' ?s = Some (sint (tr_SenderBalance r), False)"
    "abs_ledger d' ?r = Some (sint (tr_ReceiverBalance r), False)"
    using assms(3) by (simp_all add: s2 s1 r b1 b2)
qed

lemma issued_abs:
  assumes "issued p tx d r d'" and "accounts d" and "0 < sint (ip_AmountCents p)"
  shows "issue_spec (ip_WalletID p) (sint (ip_AmountCents p)) (abs_ledger d) = Inr (abs_ledger d')"
    and "abs_ledger d' (ip_WalletID p) = Some (sint (ir_NewBalance r), False)"
proof -
  let ?r = "ip_WalletID p" and ?a = "sint (ip_AmountCents p)"
  from assms(1) obtain b u e i where
      b: "live_wallet ?r d = Some b" "\<not> w_IsFrozen b"
    and d': "d' = record_issuance i (enter (settle tx (txn_row (issue_row p) u tx)) [e] d)"
      (is "_ = record_issuance _ (enter ?x _ _)")
    and pa: "postable_all [e] d" and pe: "posted EntryCredit (Some ?r) (ip_AmountCents p) e"
    and r: "ir_NewBalance r = le_BalanceAfter e"
    unfolding issued_def by blast
  let ?d0 = "d\<lparr>transactions := transactions d @ [?x]\<rparr>"
  have "postable_all [e] ?d0" using pa by (simp only: postable_all_transactions)
  moreover have "le_WalletID e = ?r" using pe by (auto simp: posted_def)
  moreover have A: "abs_ledger d ?r = Some (sint (w_Balance b), False)" using b by (simp add: abs_ledger_def)
  ultimately have s: "abs_ledger d' = (abs_ledger d)(?r \<mapsto> (sint (w_Balance b) + ?a, False))"
    and b1: "sint (le_BalanceAfter e) = sint (w_Balance b) + ?a"
    using abs_post [of e ?d0 "sint (w_Balance b)" False] assms(2) signed_posted(2) [OF pe]
    by (auto simp: d' enter_def accounts_def)
  show "issue_spec ?r ?a (abs_ledger d) = Inr (abs_ledger d')"
    using A assms(3) by (simp add: issue_spec_def s)
  show "abs_ledger d' ?r = Some (sint (ir_NewBalance r), False)"
    by (simp add: s r b1)
qed

section \<open>A calm environment\<close>

text \<open>
  No call fails, and the UUIDs that the next \<open>k\<close> calls draw are distinct and new to the tables.
  (\<open>uuid_generate_v4\<close> draws 122 random bits; the primary keys turn a repetition into an error of the
  insert.)
\<close>

definition used_ids :: "database \<Rightarrow> uuid list" where
  "used_ids d = map t_ID (transactions d) @ map le_ID (ledger_entries d) @ map is_ID (cbdc_issuance d)"

definition calm :: "nat \<Rightarrow> env \<Rightarrow> world \<Rightarrow> bool" where
  "calm k E w \<longleftrightarrow>
     (\<forall>n. fate E n = Up) \<and>
     (let soon = map (draw_uuid E) [w_calls w ..< w_calls w + k]
      in distinct soon \<and> list_all (\<lambda>u. u \<notin> set (used_ids (w_db w))) soon)"

lemma calm_iff:
  "calm k E w \<longleftrightarrow> (\<forall>n. fate E n = Up) \<and> inj_on (draw_uuid E) {w_calls w ..< w_calls w + k} \<and>
     (\<forall>m \<in> {w_calls w ..< w_calls w + k}. draw_uuid E m \<notin> set (used_ids (w_db w)))"
  by (simp add: calm_def Let_def distinct_map list_all_iff)

lemma calmD:
  assumes "calm k E w"
  shows "fate E n = Up"
    and "w_calls w \<le> m \<Longrightarrow> m < w_calls w + k \<Longrightarrow> w_calls w \<le> n \<Longrightarrow> n < w_calls w + k \<Longrightarrow>
           draw_uuid E m = draw_uuid E n \<longleftrightarrow> m = n"
    and "w_calls w \<le> m \<Longrightarrow> m < w_calls w + k \<Longrightarrow> draw_uuid E m \<notin> t_ID ` set (transactions (w_db w))"
    and "w_calls w \<le> m \<Longrightarrow> m < w_calls w + k \<Longrightarrow> draw_uuid E m \<notin> le_ID ` set (ledger_entries (w_db w))"
    and "w_calls w \<le> m \<Longrightarrow> m < w_calls w + k \<Longrightarrow> draw_uuid E m \<notin> is_ID ` set (cbdc_issuance (w_db w))"
  using assms inj_on_eq_iff [of "draw_uuid E" "{w_calls w ..< w_calls w + k}" m n]
  by (simp_all add: calm_iff used_ids_def)

lemma calm_calls:
  assumes "calm k E w" and "w_calls w \<le> n" and "n + j \<le> w_calls w + k"
  shows "calm j E (w\<lparr>w_calls := n\<rparr>)"
  using assms inj_on_subset [of "draw_uuid E" "{w_calls w ..< w_calls w + k}" "{n ..< n + j}"]
  by (simp add: calm_iff)

lemma up_sql:
  "\<forall>n. fate E n = Up \<Longrightarrow> sql E tx q w =
    (case q (draw_uuid E (w_calls w)) (case tx of Some t \<Rightarrow> t | None \<Rightarrow> clock E (w_calls w)) (w_db w) of
       Inl e \<Rightarrow> (Inl e, w\<lparr>w_calls := Suc (w_calls w)\<rparr>)
     | Inr (a, d) \<Rightarrow> (Inr a, w\<lparr>w_calls := Suc (w_calls w), w_db := d\<rparr>))"
  by (simp add: sql_def Let_def)

text \<open>The lengths the columns of \<open>transactions\<close> allow.\<close>

definition row_fits :: "TransferParams \<Rightarrow> bool" where
  "row_fits p \<longleftrightarrow> char_count (tp_IdempotencyKey p) \<le> 128 \<and> char_count (tp_Reference p) \<le> 256 \<and>
     char_count (tp_Signature p) \<le> 128 \<and> tp_TxnType p \<noteq> Some TypeFee"

lemma type_label_known: "ty \<noteq> TypeFee \<Longrightarrow> type_label ty \<in> set sql_transaction_types"
  by (cases ty) (simp_all add: sql_transaction_types_def)

lemma fits_nonempty: "char_count s \<le> n \<Longrightarrow> fits n (nonempty s)"
  by (simp add: fits_def nonempty_def)

lemma insert_transaction_ok:
  assumes "ct_Type p \<noteq> TypeFee" and "fits 128 (ct_IdempotencyKey p)" "fits 256 (ct_Reference p)" "fits 128 (Some (ct_Signature p))"
    and "0 < sint (ct_AmountCents p)" "ct_SenderWalletID p = None \<or> ct_SenderWalletID p \<noteq> ct_ReceiverWalletID p"
    and "u \<notin> t_ID ` set (transactions d)" "\<not> clashes p d"
    and "known_wallet d (ct_SenderWalletID p)" "known_wallet d (ct_ReceiverWalletID p)"
  shows "insert_transaction p u t d = Inr (txn_row p u t, d\<lparr>transactions := transactions d @ [txn_row p u t]\<rparr>)"
  using assms type_label_known [OF assms(1)]
  by (auto simp: insert_transaction_def clashes_def txn_row_def Let_def)

lemma update_balance_ok:
  assumes "live_wallet i d = Some w" and "distinct (map w_ID (wallets d))"
    and "0 \<le> sint (w_Balance w) + sint delta" "int64_ok (sint (w_Balance w) + sint delta)"
  shows "update_balance i delta u t d = Inr (w_Balance w + delta,
           d\<lparr>wallets := upd_where (\<lambda>w. w_ID w = i) (add_balance delta t) (wallets d)\<rparr>)"
proof -
  note lw = live_walletD [OF assms(1)]
  then have "find (\<lambda>w. w_ID w = i) (wallets d) = Some w"
    using find_key_unique [OF assms(2), of w] by simp
  then show ?thesis using assms(3,4) by (simp add: update_balance_def Let_def)
qed

definition entry_row :: "uuid \<Rightarrow> uuid \<Rightarrow> EntryType \<Rightarrow> int64 \<Rightarrow> int64 \<Rightarrow> uuid \<Rightarrow> gotime \<Rightarrow> ledger_entry" where
  "entry_row i x ty amt b u t = \<lparr>le_ID = u, le_WalletID = i, le_TransactionID = x, le_EntryType = ty,
     le_AmountCents = amt, le_BalanceAfter = b, le_CreatedAt = t\<rparr>"

lemma insert_entry_ok:
  assumes "0 < sint amt" and "0 \<le> sint b" and "u \<notin> le_ID ` set (ledger_entries d)"
    and "i \<in> w_ID ` set (wallets d)" and "x \<in> t_ID ` set (transactions d)"
  shows "insert_entry i x ty amt b u t d =
    Inr (entry_row i x ty amt b u t, d\<lparr>ledger_entries := ledger_entries d @ [entry_row i x ty amt b u t]\<rparr>)"
  using assms by (simp add: insert_entry_def entry_row_def Let_def)

lemma w_ID_upd_where [simp]:
  "w_ID ` set (upd_where P (add_balance x t) ws) = w_ID ` set ws"
  by (metis add_balance_fields(1) list.set_map map_upd_where)

lemma transfer_writes_runs:
  assumes up: "calm 5 E w" and acc: "accounts (w_db w)"
    and a: "live_wallet (tp_SenderWalletID p) (w_db w) = Some a" "sint (tp_AmountCents p) \<le> sint (w_Balance a)"
    and b: "live_wallet (tp_ReceiverWalletID p) (w_db w) = Some b" "int64_ok (sint (w_Balance b) + sint (tp_AmountCents p))"
    and pos: "0 < sint (tp_AmountCents p)" and ne: "tp_SenderWalletID p \<noteq> tp_ReceiverWalletID p"
    and fit: "row_fits p" and nc: "\<not> clashes (transfer_row p (transfer_type p)) (w_db w)"
  shows "\<exists>r w'. transfer_writes E p (transfer_type p) tx w = (Inr (r, None), w')"
proof -
  let ?n = "w_calls w" and ?d = "w_db w" and ?s = "tp_SenderWalletID p" and ?r = "tp_ReceiverWalletID p"
    and ?a = "tp_AmountCents p"
  have all_up: "\<forall>n. fate E n = Up" using up by (simp add: calm_def)
  note inj = calmD(2) [OF up] and fresh = calmD(3,4) [OF up]
  let ?x = "txn_row (transfer_row p (transfer_type p)) (draw_uuid E ?n) tx"
  let ?d1 = "?d\<lparr>transactions := transactions ?d @ [?x]\<rparr>"
  have dist: "distinct (map w_ID (wallets ?d))" using acc by (simp add: accounts_def)
  have in_w: "?s \<in> w_ID ` set (wallets ?d)" "?r \<in> w_ID ` set (wallets ?d)"
    using live_walletD [OF a(1)] live_walletD [OF b(1)] by (metis image_eqI)+
  have ty: "transfer_type p \<noteq> TypeFee" using fit by (auto simp: row_fits_def transfer_type_def split: option.splits)
  have t1: "insert_transaction (transfer_row p (transfer_type p)) (draw_uuid E ?n) tx ?d = Inr (?x, ?d1)"
    using fit ty pos ne nc in_w fresh(1) [of ?n]
    by (intro insert_transaction_ok) (auto simp: transfer_row_def row_fits_def fits_nonempty known_wallet_def fits_def [of _ "Some _"])
  let ?b1 = "w_Balance a - ?a"
  let ?d2 = "?d1\<lparr>wallets := upd_where (\<lambda>w. w_ID w = ?s) (add_balance (- ?a) tx) (wallets ?d1)\<rparr>"
  have m: "sint (- ?a) = - sint ?a" using pos by (simp add: sint_minus64_pos)
  have ok1: "int64_ok (sint (w_Balance a) - sint ?a)"
    using pos a(2) sint64_le [of "w_Balance a"] sint64_ge [of "w_Balance a"] by (simp add: int64_ok_def)
  have t2: "update_balance ?s (- ?a) u tx ?d1 = Inr (?b1, ?d2)" for u
    using update_balance_ok [of ?s ?d1 a "- ?a" u tx] a dist ok1 m
    by (simp add: live_wallet_cong [of ?d1 ?d])
  have b1: "0 \<le> sint ?b1" using ok1 a(2) by (simp add: int64_simps)
  let ?e = "entry_row ?s (t_ID ?x) EntryDebit ?a ?b1 (draw_uuid E (Suc (Suc ?n))) tx"
  let ?d3 = "?d2\<lparr>ledger_entries := ledger_entries ?d2 @ [?e]\<rparr>"
  have t3: "insert_entry ?s (t_ID ?x) EntryDebit ?a ?b1 (draw_uuid E (Suc (Suc ?n))) tx ?d2 = Inr (?e, ?d3)"
    using in_w fresh(2) [of "Suc (Suc ?n)"] pos b1
    by (intro insert_entry_ok) auto
  have dist3: "distinct (map w_ID (wallets ?d3))"
    using dist by (simp add: map_upd_where)
  have live3: "live_wallet ?r ?d3 = Some b"
    using b(1) ne live_walletD [OF b(1)]
    by (simp add: live_wallet_def find_upd_where)
  let ?b2 = "w_Balance b + ?a"
  let ?d4 = "?d3\<lparr>wallets := upd_where (\<lambda>w. w_ID w = ?r) (add_balance ?a tx) (wallets ?d3)\<rparr>"
  have nonneg: "0 \<le> sint (w_Balance b)" using acc live_walletD [OF b(1)] by (auto simp: accounts_def)
  have t4: "update_balance ?r ?a u tx ?d3 = Inr (?b2, ?d4)" for u
    using update_balance_ok [OF live3 dist3, of ?a u tx] b(2) nonneg pos by simp
  have b2: "0 \<le> sint ?b2" using b(2) nonneg pos by (simp add: int64_simps)
  let ?u4 = "draw_uuid E (Suc (Suc (Suc (Suc ?n))))"
  have t5: "insert_entry ?r (t_ID ?x) EntryCredit ?a ?b2 ?u4 tx ?d4 =
      Inr (entry_row ?r (t_ID ?x) EntryCredit ?a ?b2 ?u4 tx,
           ?d4\<lparr>ledger_entries := ledger_entries ?d4 @ [entry_row ?r (t_ID ?x) EntryCredit ?a ?b2 ?u4 tx]\<rparr>)"
    using in_w fresh(2) [of "Suc (Suc (Suc (Suc ?n)))"] pos b2 inj
    by (intro insert_entry_ok) (auto simp: entry_row_def)
  show ?thesis
    unfolding transfer_writes_def transfer_row_def [symmetric] CreateTransaction_def UpdateWalletBalance_def
      CreateLedgerEntry_def SettleTransaction_def
    by (simp add: io_run up_sql [OF all_up] t1 t2 [simplified] t3 [simplified] t4 [simplified] t5 [simplified] update_settled_def)
qed

text \<open>The money of two wallets is at most the money in circulation, so a transfer cannot overflow.\<close>

lemma sum_by_ge_one: "(\<And>r. r \<in> set rs \<Longrightarrow> 0 \<le> f r) \<Longrightarrow> a \<in> set rs \<Longrightarrow> f a \<le> sum_by f rs"
  using sum_by_nonneg [of rs f] by (induction rs) (auto simp: sum_by_nonneg add_increasing add_increasing2)

lemma sum_by_ge_two:
  assumes "\<And>r. r \<in> set rs \<Longrightarrow> 0 \<le> f r" and "a \<in> set rs" "b \<in> set rs" "a \<noteq> b"
  shows "f a + f b \<le> sum_by f rs"
  using assms
proof (induction rs)
  case Nil
  then show ?case by simp
next
  case (Cons r rs)
  then show ?case
    using sum_by_ge_one [of rs f a] sum_by_ge_one [of rs f b] by (cases "r = a"; cases "r = b") (auto simp: add_increasing)
qed

lemma GetWalletForUpdate_up:
  assumes "\<forall>n. fate E n = Up"
  shows "GetWalletForUpdate E tx i w =
    (case live_wallet i (w_db w) of
       None \<Rightarrow> (Inl (Ledger ledger_error.ErrWalletNotFound), w\<lparr>w_calls := Suc (w_calls w)\<rparr>)
     | Some v \<Rightarrow> (Inr (view v), w\<lparr>w_calls := Suc (w_calls w)\<rparr>))"
  using assms
  by (auto simp: GetWalletForUpdate_def io_run up_sql select_wallet_def view_def split: option.splits)

lemma transfer_tx_up:
  assumes up: "\<forall>n. fate E n = Up" and ne: "tp_SenderWalletID p \<noteq> tp_ReceiverWalletID p"
    and pos: "0 < sint (tp_AmountCents p)"
  shows "case transfer_spec (tp_SenderWalletID p) (tp_ReceiverWalletID p) (sint (tp_AmountCents p)) (abs_ledger (w_db w)) of
           Inl err \<Rightarrow> \<exists>w'. transfer_tx E p ty tx w = (Inl (Ledger err), w')
         | Inr _ \<Rightarrow> \<exists>a b. live_wallet (tp_SenderWalletID p) (w_db w) = Some a \<and>
             live_wallet (tp_ReceiverWalletID p) (w_db w) = Some b \<and> sint (tp_AmountCents p) \<le> sint (w_Balance a) \<and>
             transfer_tx E p ty tx w = transfer_writes E p ty tx (w\<lparr>w_calls := Suc (Suc (w_calls w))\<rparr>)"
proof -
  let ?s = "tp_SenderWalletID p" and ?r = "tp_ReceiverWalletID p"
  obtain i j where ij: "orderedLockIDs E ?s ?r = (i, j)" by fastforce
  then have "(i, j) = (?s, ?r) \<or> (i, j) = (?r, ?s)" by (auto simp: orderedLockIDs_def Let_def split: if_splits)
  then show ?thesis
    using ne pos ij
    by (auto simp: transfer_tx_def transfer_spec_def abs_ledger_def io_run GetWalletForUpdate_up [OF up]
        dest: live_walletD split: option.splits)
qed

lemma select_by_key_fresh:
  "\<not> clashes (transfer_row p ty) d \<Longrightarrow> tp_IdempotencyKey p \<noteq> '''' \<Longrightarrow>
   select_by_key (tp_SenderWalletID p) (tp_IdempotencyKey p) u t d = Inl NoRows"
  by (auto simp: select_by_key_def clashes_def transfer_row_def nonempty_def find_None_iff split: option.splits)

lemma with_tx_up:
  "\<forall>n. fate E n = Up \<Longrightarrow> with_tx E bm cm body w =
    (case body (clock E (w_calls w)) (w\<lparr>w_calls := Suc (w_calls w)\<rparr>) of
       (Inl e, w2) \<Rightarrow> (Inl e, w2\<lparr>w_db := w_db w\<rparr>)
     | (Inr a, w2) \<Rightarrow> (Inr a, w2\<lparr>w_calls := Suc (w_calls w2)\<rparr>))"
  by (simp add: with_tx_def Let_def split: sum.splits prod.splits)

lemma Transfer_up_fresh:
  assumes "\<forall>n. fate E n = Up" and "\<not> clashes (transfer_row p (transfer_type p)) (w_db w)"
    and "0 < sint (tp_AmountCents p)" and "tp_SenderWalletID p \<noteq> tp_ReceiverWalletID p"
  shows "\<exists>n. w_calls w \<le> n \<and> n \<le> Suc (w_calls w) \<and> Transfer E p w =
    with_tx E ''begin transaction'' ''commit transfer'' (transfer_tx E p (transfer_type p)) (w\<lparr>w_calls := n\<rparr>)"
proof (cases "tp_IdempotencyKey p = ''''")
  case True
  with assms(3,4) show ?thesis
    by (intro exI [of _ "w_calls w"]) (simp add: Transfer_def transfer_type_def)
next
  case False
  with assms show ?thesis
    by (intro exI [of _ "Suc (w_calls w)"])
      (simp add: Transfer_def transfer_type_def [symmetric] Let_def io_run GetTransactionByIdempotencyKey_def
        up_sql select_by_key_fresh)
qed


lemma receiver_no_overflow:
  assumes "books d" and "money_supply d < 2 ^ 63" and "live_wallet s d = Some a" "live_wallet r d = Some b"
    and "s \<noteq> r" "amt \<le> sint (w_Balance a)" "0 < amt"
  shows "int64_ok (sint (w_Balance b) + amt)"
proof -
  have "sint (w_Balance a) + sint (w_Balance b) \<le> money_supply d"
    unfolding money_supply_def
    using assms(1,5) live_walletD [OF assms(3)] live_walletD [OF assms(4)]
    by (intro sum_by_ge_two [of _ "\<lambda>w. sint (w_Balance w)"]) (auto simp: books_def accounts_def)
  moreover have "0 \<le> sint (w_Balance b)"
    using assms(1) live_walletD [OF assms(4)] by (auto simp: books_def accounts_def)
  ultimately show ?thesis using assms(2,6,7) by (simp add: int64_ok_def)
qed

lemma Transfer_spec_up:
  assumes calm: "calm 9 E w" and books: "books (w_db w)" and cap: "money_supply (w_db w) < 2 ^ 63"
    and fit: "row_fits p" and nc: "\<not> clashes (transfer_row p (transfer_type p)) (w_db w)"
  shows "case transfer_spec (tp_SenderWalletID p) (tp_ReceiverWalletID p) (sint (tp_AmountCents p)) (abs_ledger (w_db w)) of
           Inl err \<Rightarrow> fst (Transfer E p w) = Inl (Ledger err)
         | Inr m \<Rightarrow> \<exists>r. fst (Transfer E p w) = Inr (r, None)"
proof (cases "0 < sint (tp_AmountCents p) \<and> tp_SenderWalletID p \<noteq> tp_ReceiverWalletID p")
  case False
  then show ?thesis by (auto simp: Transfer_def transfer_spec_def throw_def)
next
  case True
  then have pos: "0 < sint (tp_AmountCents p)" and ne: "tp_SenderWalletID p \<noteq> tp_ReceiverWalletID p" by auto
  have up: "\<forall>n. fate E n = Up" using calm by (simp add: calm_def)
  obtain n where n: "w_calls w \<le> n" "n \<le> Suc (w_calls w)" and T: "Transfer E p w =
      with_tx E ''begin transaction'' ''commit transfer'' (transfer_tx E p (transfer_type p)) (w\<lparr>w_calls := n\<rparr>)"
    using Transfer_up_fresh [OF up nc pos ne] by blast
  let ?w1 = "w\<lparr>w_calls := Suc n\<rparr>" and ?w2 = "w\<lparr>w_calls := Suc (Suc (Suc n))\<rparr>"
  note tx = transfer_tx_up [OF up ne pos, where w = ?w1 and ty = "transfer_type p" and tx = "clock E n", simplified]
  have run: "\<exists>r w'. transfer_writes E p (transfer_type p) (clock E n) ?w2 = (Inr (r, None), w')"
    if "live_wallet (tp_SenderWalletID p) (w_db w) = Some a" "live_wallet (tp_ReceiverWalletID p) (w_db w) = Some b"
      "sint (tp_AmountCents p) \<le> sint (w_Balance a)" for a b
    using that books fit nc pos ne n calm_calls [OF calm, of "Suc (Suc (Suc n))"]
      receiver_no_overflow [OF books cap that(1,2) ne that(3) pos]
    by (intro transfer_writes_runs) (auto simp: books_def)
  show ?thesis
  proof (cases "transfer_spec (tp_SenderWalletID p) (tp_ReceiverWalletID p) (sint (tp_AmountCents p)) (abs_ledger (w_db w))")
    case (Inl err)
    with tx show ?thesis by (auto simp: T with_tx_up [OF up])
  next
    case (Inr m)
    with tx run obtain r w' where "transfer_tx E p (transfer_type p) (clock E n) ?w1 = (Inr (r, None), w')"
      by auto (metis)
    with Inr show ?thesis by (auto simp: T with_tx_up [OF up])
  qed
qed

section \<open>Issuance in a calm environment\<close>

lemma issue_no_overflow:
  assumes "books d" and "money_supply d + amt < 2 ^ 63" and "live_wallet r d = Some b" and "0 < amt"
  shows "int64_ok (sint (w_Balance b) + amt)" and "0 \<le> sint (w_Balance b)"
proof -
  have "sint (w_Balance b) \<le> money_supply d"
    unfolding money_supply_def using assms(1) live_walletD [OF assms(3)]
    by (intro sum_by_ge_one [of _ "\<lambda>w. sint (w_Balance w)"]) (auto simp: books_def accounts_def)
  moreover show "0 \<le> sint (w_Balance b)"
    using assms(1) live_walletD [OF assms(3)] by (auto simp: books_def accounts_def)
  ultimately show "int64_ok (sint (w_Balance b) + amt)" using assms(2,4) by (simp add: int64_ok_def)
qed

definition issue_fits :: "env \<Rightarrow> IssueParams \<Rightarrow> database \<Rightarrow> bool" where
  "issue_fits E p d \<longleftrightarrow> (ip_IPAddress p = '''' \<or> inet_ok E (ip_IPAddress p)) \<and> sint (ip_AmountCents p) \<le> 100000000 \<and> char_count (ip_Signature p) \<le> 128 \<and>
     ip_AdminID p \<in> u_ID ` set (users d)"

definition issuance_row :: "uuid \<Rightarrow> uuid \<Rightarrow> uuid \<Rightarrow> int64 \<Rightarrow> string \<Rightarrow> string option \<Rightarrow> uuid \<Rightarrow> issuance" where
  "issuance_row adminID walletID txnID amt reason ip u =
    \<lparr>is_ID = u, is_AdminID = adminID, is_WalletID = walletID, is_TransactionID = txnID,
     is_AmountCents = amt, is_Reason = reason, is_IPAddress = ip\<rparr>"

lemma insert_issuance_ok:
  assumes "ip = None \<or> inet_ok E (the ip)" and "0 < sint amt" "sint amt \<le> 100000000" and "u \<notin> is_ID ` set (cbdc_issuance d)"
    and "adminID \<in> u_ID ` set (users d)" "walletID \<in> w_ID ` set (wallets d)" "txnID \<in> t_ID ` set (transactions d)"
  shows "insert_issuance E adminID walletID txnID amt reason ip u t d =
    Inr (u, record_issuance (issuance_row adminID walletID txnID amt reason ip u) d)"
  using assms by (simp add: insert_issuance_def record_issuance_def issuance_row_def)

lemma issue_tx_runs:
  assumes calm: "calm 7 E w" and books: "books (w_db w)" and fit: "issue_fits E p (w_db w)"
    and pos: "0 < sint (ip_AmountCents p)" and cap: "money_supply (w_db w) + sint (ip_AmountCents p) < 2 ^ 63"
    and b: "live_wallet (ip_WalletID p) (w_db w) = Some b" "\<not> w_IsFrozen b"
  shows "\<exists>r w'. issue_tx E p tx w = (Inr r, w')"
proof -
  let ?n = "Suc (w_calls w)" and ?d = "w_db w" and ?r = "ip_WalletID p" and ?a = "ip_AmountCents p"
  have all_up: "\<forall>n. fate E n = Up" using calm by (simp add: calm_def)
  note fresh = calmD(3,4,5) [OF calm]
  let ?x = "txn_row (issue_row p) (draw_uuid E ?n) tx"
  let ?d1 = "?d\<lparr>transactions := transactions ?d @ [?x]\<rparr>"
  have dist: "distinct (map w_ID (wallets ?d))" using books by (simp add: books_def accounts_def)
  have in_w: "?r \<in> w_ID ` set (wallets ?d)" using live_walletD [OF b(1)] by (metis image_eqI)
  note ok = issue_no_overflow [OF books cap b(1) pos]
  have t1: "insert_transaction (issue_row p) (draw_uuid E ?n) tx ?d = Inr (?x, ?d1)"
    using fit pos in_w fresh(1) [of ?n]
    by (intro insert_transaction_ok) (auto simp: issue_row_def issue_fits_def fits_def known_wallet_def clashes_def)
  let ?b = "w_Balance b + ?a"
  let ?d2 = "?d1\<lparr>wallets := upd_where (\<lambda>w. w_ID w = ?r) (add_balance ?a tx) (wallets ?d1)\<rparr>"
  have t2: "update_balance ?r ?a u tx ?d1 = Inr (?b, ?d2)" for u
    using update_balance_ok [of ?r ?d1 b ?a u tx] b dist ok pos by (simp add: live_wallet_cong [of ?d1 ?d])
  have b2: "0 \<le> sint ?b" using ok pos by (simp add: int64_simps)
  let ?e = "entry_row ?r (t_ID ?x) EntryCredit ?a ?b (draw_uuid E (Suc (Suc ?n))) tx"
  let ?d3 = "?d2\<lparr>ledger_entries := ledger_entries ?d2 @ [?e]\<rparr>"
  have t3: "insert_entry ?r (t_ID ?x) EntryCredit ?a ?b (draw_uuid E (Suc (Suc ?n))) tx ?d2 = Inr (?e, ?d3)"
    using in_w fresh(2) [of "Suc (Suc ?n)"] pos b2 by (intro insert_entry_ok) auto
  let ?d4 = "?d3\<lparr>transactions := upd_where (\<lambda>y. t_ID y = t_ID ?x) (settle tx) (transactions ?d3)\<rparr>"
  have tid: "t_ID ` set (transactions ?d4) = t_ID ` set (transactions ?d1)"
    by (simp add: set_upd_where image_image settle_def) (auto simp: image_iff)
  let ?u4 = "draw_uuid E (Suc (Suc (Suc (Suc ?n))))"
  have t4: "insert_issuance E (ip_AdminID p) ?r (t_ID ?x) ?a reason ipp ?u4 tx ?d4 =
      Inr (?u4, record_issuance (issuance_row (ip_AdminID p) ?r (t_ID ?x) ?a reason ipp ?u4) ?d4)"
    if "ipp = None \<or> inet_ok E (the ipp)" for reason ipp
    using that fit in_w pos fresh(3) [of "Suc (Suc (Suc (Suc ?n)))"] tid
    by (intro insert_issuance_ok) (auto simp: issue_fits_def)
  have g: "GetWalletForUpdate E tx ?r w = (Inr (view b), w\<lparr>w_calls := ?n\<rparr>)"
    using b by (simp add: GetWalletForUpdate_up [OF all_up])
  show ?thesis
    unfolding issue_tx_def issue_row_def [symmetric] CreateTransaction_def UpdateWalletBalance_def
      CreateLedgerEntry_def SettleTransaction_def InsertIssuanceRecord_def Let_def
    using b(2) fit
    by (cases "ip_IPAddress p = ''''")
      (simp_all add: issue_fits_def io_run g up_sql [OF all_up] t1 t2 [simplified] t3 [simplified] t4 [simplified]
        update_settled_def)
qed

lemma Issue_spec_up:
  assumes calm: "calm 8 E w" and books: "books (w_db w)" and fit: "issue_fits E p (w_db w)"
    and cap: "money_supply (w_db w) + sint (ip_AmountCents p) < 2 ^ 63"
  shows "case issue_spec (ip_WalletID p) (sint (ip_AmountCents p)) (abs_ledger (w_db w)) of
           Inl err \<Rightarrow> fst (Issue E p w) = Inl (Ledger err)
         | Inr m \<Rightarrow> \<exists>r. fst (Issue E p w) = Inr r"
proof (cases "0 < sint (ip_AmountCents p)")
  case False
  then show ?thesis by (auto simp: Issue_def issue_spec_def throw_def)
next
  case True
  have up: "\<forall>n. fate E n = Up" using calm by (simp add: calm_def)
  let ?w1 = "w\<lparr>w_calls := Suc (w_calls w)\<rparr>"
  show ?thesis
  proof (cases "live_wallet (ip_WalletID p) (w_db w)")
    case None
    with True show ?thesis
      by (simp add: Issue_def issue_spec_def abs_ledger_def with_tx_up [OF up] issue_tx_def io_run
          GetWalletForUpdate_up [OF up])
  next
    case (Some b)
    show ?thesis
    proof (cases "w_IsFrozen b")
      case True
      with Some \<open>0 < sint (ip_AmountCents p)\<close> show ?thesis
        by (simp add: Issue_def issue_spec_def abs_ledger_def with_tx_up [OF up] issue_tx_def io_run
            GetWalletForUpdate_up [OF up])
    next
      case False
      have "calm 7 E ?w1" using calm_calls [OF calm, of "Suc (w_calls w)" 7] by simp
      with issue_tx_runs [of E ?w1 p b "clock E (w_calls w)"] books fit cap True Some False obtain r w' where
        "issue_tx E p (clock E (w_calls w)) ?w1 = (Inr r, w')" by auto
      with True Some False show ?thesis
        by (simp add: Issue_def issue_spec_def abs_ledger_def with_tx_up [OF up])
    qed
  qed
qed

section \<open>Errors and used keys\<close>

lemma with_tx_error_db:
  "fst (with_tx E bm cm body w) = Inl e \<Longrightarrow> e \<noteq> Wrap cm Driver \<Longrightarrow> w_db (snd (with_tx E bm cm body w)) = w_db w"
  by (auto simp: with_tx_def Let_def split: fault.splits sum.splits prod.splits)

lemma Transfer_error_db:
  assumes "fst (Transfer E p w) = Inl e" and "e \<noteq> Wrap ''commit transfer'' Driver"
  shows "w_db (snd (Transfer E p w)) = w_db w"
proof -
  obtain x w1 where "GetTransactionByIdempotencyKey E (tp_SenderWalletID p) (tp_IdempotencyKey p) w = (x, w1)"
    by fastforce
  moreover have "w_db (snd (GetTransactionByIdempotencyKey E i k w)) = w_db w" for i k
    unfolding GetTransactionByIdempotencyKey_def by (rule sql_reads_db) (rule select_by_key_reads)
  then have "w_db w1 = w_db w" using calculation by (metis snd_conv)
  ultimately show ?thesis
    using assms with_tx_error_db [of E "''begin transaction''" "''commit transfer''"]
    by (cases x) (auto simp: Transfer_def Let_def io_run throw_def split: if_splits)
qed

lemma key_clashes:
  assumes "x \<in> set (transactions (w_db w))" and "keyed x = Some (tp_SenderWalletID p, tp_IdempotencyKey p)"
    and "tp_IdempotencyKey p \<noteq> ''''"
  shows "clashes (transfer_row p ty) (w_db w)"
  using assms by (auto simp: clashes_def transfer_row_def nonempty_def keyed_def split: option.splits)

lemma Transfer_key_used:
  assumes "x \<in> set (transactions (w_db w))" and "keyed x = Some (tp_SenderWalletID p, tp_IdempotencyKey p)"
    and "tp_IdempotencyKey p \<noteq> ''''"
  shows "w_db (snd (Transfer E p w)) = w_db w"
  using Transfer_db [of E p w] key_clashes [OF assms] by (auto simp: moved_def)

lemma moved_keyed:
  assumes "moved p ty tx d r d'" and "tp_IdempotencyKey p \<noteq> ''''"
  shows "\<exists>x \<in> set (transactions d'). keyed x = Some (tp_SenderWalletID p, tp_IdempotencyKey p)"
  using assms
  by (auto simp: moved_def enter_def settle_def txn_row_def transfer_row_def keyed_def nonempty_def)

lemma Transfer_key_answer:
  assumes "x \<in> set (transactions (w_db w))" and "keyed x = Some (tp_SenderWalletID p, tp_IdempotencyKey p)"
    and "tp_IdempotencyKey p \<noteq> ''''"
    and "books (w_db w)" "0 < sint (tp_AmountCents p)" "tp_SenderWalletID p \<noteq> tp_ReceiverWalletID p" "fate E (w_calls w) = Up"
  shows "fst (Transfer E p w) = Inr (\<lparr>tr_Transaction = x, tr_SenderBalance = 0, tr_ReceiverBalance = 0\<rparr>,
                                    Some (Ledger ErrIdempotentReplay))"
proof -
  let ?P = "\<lambda>x. t_SenderWalletID x = Some (tp_SenderWalletID p) \<and> t_IdempotencyKey x = Some (tp_IdempotencyKey p)"
  have "?P x" using assms(2) by (auto simp: keyed_def split: option.splits)
  then obtain y where y: "find ?P (transactions (w_db w)) = Some y"
    using find_exists [of x "transactions (w_db w)" ?P] assms(1) by auto
  then have "y \<in> set (transactions (w_db w))" "keyed y = keyed x"
    using assms(2) by (auto simp: keyed_def dest!: find_Some_in)
  then have "y = x" using keys_unique [of "w_db w" x y] assms(1,2,4) by (auto simp: books_def)
  with y have "find ?P (transactions (w_db w)) = Some x" by simp
  then show ?thesis
    using assms by (simp add: Transfer_def Let_def io_run GetTransactionByIdempotencyKey_def sql_def select_by_key_def)
qed

end
