(* ===== verification/Samples.thy ===== *)
theory Samples
  imports Ledger_Props
begin

text \<open>
  A small concrete installation on which the properties are exercised: an administrator, two users
  and their wallets, a clock that advances by one second with every service call, and UUIDs drawn
  one after the other.
\<close>

definition sample_env :: env where
  "sample_env = \<lparr>clock = (\<lambda>n. 1000000000 * (1000 + int n)), fate = (\<lambda>_. Up),
     draw_uuid = (\<lambda>n. UUID (word_of_nat (n + 100))), draw_bytes = (\<lambda>_. Some (replicate 32 CHR ''k'')),
     uuid_String = (\<lambda>u. show_nat (unat (uuid_bits u))),
     uuid_Parse = (\<lambda>s. map_option (\<lambda>n. UUID (word_of_nat n)) (parse_digits 0 s)),
     inet_ok = (\<lambda>s. s = ''10.0.0.7'')\<rparr>"

lemma sample_env_uuid: "uuid_lib_ok sample_env"
  by (simp add: uuid_lib_ok_def sample_env_def)

lemma sample_fate [simp]: "fate sample_env n = Up"
  by (simp add: sample_env_def)

abbreviation (input) admin_id :: uuid where "admin_id \<equiv> UUID 1"
abbreviation (input) alice_id :: uuid where "alice_id \<equiv> UUID 2"
abbreviation (input) bob_id :: uuid where "bob_id \<equiv> UUID 3"
abbreviation (input) alice_wallet :: uuid where "alice_wallet \<equiv> UUID 12"
abbreviation (input) bob_wallet :: uuid where "bob_wallet \<equiv> UUID 13"

definition sample_user :: "uuid \<Rightarrow> string \<Rightarrow> string \<Rightarrow> user" where
  "sample_user i mail role = \<lparr>u_ID = i, u_Email = mail, u_PasswordHash = ''hash'', u_FullName = ''name'',
     u_Role = role, u_IsActive = True, u_KYCStatus = ''verified'', u_FailedLogins = 0, u_LockedUntil = None,
     u_LastLoginAt = None, u_CreatedAt = 0, u_UpdatedAt = 0, u_deleted_at = None\<rparr>"

definition sample_wallet :: "uuid \<Rightarrow> uuid \<Rightarrow> wallet" where
  "sample_wallet i u = \<lparr>w_ID = i, w_UserID = u, w_Currency = ''DD$'', w_Balance = 0, w_IsFrozen = False,
     w_FrozenReason = None, w_FrozenBy = None, w_FrozenAt = None, w_CreatedAt = 0, w_UpdatedAt = 0,
     w_deleted_at = None\<rparr>"

definition sample_db :: database where
  "sample_db = empty_db\<lparr>
     users := [sample_user admin_id ''admin@x.io'' ''admin'', sample_user alice_id ''alice@x.io'' ''user'',
               sample_user bob_id ''bob@x.io'' ''user''],
     wallets := [sample_wallet alice_wallet alice_id, sample_wallet bob_wallet bob_id]\<rparr>"

definition sample_world :: "world" where
  "sample_world = \<lparr>w_db = sample_db, w_redis = Map.empty, w_events = [], w_webhooks = [], w_calls = 0\<rparr>"

definition sample_issue :: IssueParams where
  "sample_issue = \<lparr>ip_AdminID = admin_id, ip_WalletID = alice_wallet, ip_AmountCents = 5000,
     ip_Reason = ''initial issuance'', ip_IdempotencyKey = ''issue-1'', ip_Signature = ''sig'', ip_IPAddress = ''10.0.0.7''\<rparr>"

definition sample_transfer :: TransferParams where
  "sample_transfer = \<lparr>tp_SenderWalletID = alice_wallet, tp_ReceiverWalletID = bob_wallet, tp_AmountCents = 1200,
     tp_Reference = ''rent'', tp_IdempotencyKey = ''key-1'', tp_Signature = ''sig'', tp_TxnType = None\<rparr>"

text \<open>The facts that run the ledger's operations on a concrete world.\<close>

lemmas ledger_run = io_run sql_def with_tx_def Let_def GetWalletForUpdate_def select_wallet_def live_wallet_def
  CreateTransaction_def insert_transaction_def CreateLedgerEntry_def insert_entry_def UpdateWalletBalance_def
  update_balance_def SettleTransaction_def update_settled_def settle_def InsertIssuanceRecord_def
  insert_issuance_def known_wallet_def fits_def char_count_def add_balance_def sql_transaction_types_def
  int64_ok_def Issue_def issue_tx_def Transfer_def transfer_tx_def transfer_writes_def orderedLockIDs_def
  nonempty_def GetTransactionByIdempotencyKey_def select_by_key_def

lemmas sample_defs = sample_world_def sample_db_def empty_db_def sample_env_def sample_user_def sample_wallet_def

text \<open>The tables after the issuance of \<open>sample_issue\<close>.\<close>

definition funded_db :: database where
  "funded_db = sample_db\<lparr>
     wallets := [(sample_wallet alice_wallet alice_id)\<lparr>w_Balance := 5000, w_UpdatedAt := 1000000000000\<rparr>,
                 sample_wallet bob_wallet bob_id],
     transactions := [\<lparr>t_ID = UUID 102, t_IdempotencyKey = None, t_Type = TypeIssuance, t_Status = StatusSettled,
        t_SenderWalletID = None, t_ReceiverWalletID = Some alice_wallet, t_AmountCents = 5000, t_FeeCents = 0,
        t_Reference = None, t_Signature = ''sig'', t_FailureReason = None, t_ParentTransactionID = None,
        t_CreatedAt = 1000000000000, t_ConfirmedAt = Some 1000000000000, t_SettledAt = Some 1000000000000\<rparr>],
     ledger_entries := [\<lparr>le_ID = UUID 104, le_WalletID = alice_wallet, le_TransactionID = UUID 102,
        le_EntryType = EntryCredit, le_AmountCents = 5000, le_BalanceAfter = 5000, le_CreatedAt = 1000000000000\<rparr>],
     cbdc_issuance := [\<lparr>is_ID = UUID 106, is_AdminID = admin_id, is_WalletID = alice_wallet,
        is_TransactionID = UUID 102, is_AmountCents = 5000, is_Reason = ''initial issuance'', is_IPAddress = Some ''10.0.0.7''\<rparr>]\<rparr>"

definition funded_world :: "world" where
  "funded_world = sample_world\<lparr>w_db := funded_db, w_calls := 8\<rparr>"

lemma Issue_sample: "snd (Issue sample_env sample_issue sample_world) = funded_world"
  by (simp add: funded_world_def funded_db_def sample_issue_def ledger_run sample_defs)

lemma books_sample: "books (w_db sample_world)"
  by (simp add: sample_world_def sample_db_def empty_db_def books_def accounts_def journal_def keys_def
      money_supply_def minted_def sample_wallet_def entry_sum_def)

lemma books_funded: "books (w_db funded_world)"
  using issued_books(1) [OF books_sample] Issue_db [of sample_env sample_issue sample_world] books_sample
  by (auto simp: Issue_sample)

text \<open>The run of \<open>sample_transfer\<close> after it.\<close>

lemma Transfer_sample:
  "map (\<lambda>w. (w_ID w, sint (w_Balance w))) (wallets (w_db (snd (Transfer sample_env sample_transfer funded_world)))) =
     [(alice_wallet, 3800), (bob_wallet, 1200)]"
  "\<exists>r. fst (Transfer sample_env sample_transfer funded_world) = Inr (r, None)"
  by (simp_all add: funded_world_def funded_db_def sample_transfer_def ledger_run sample_defs)

end
