(* ===== verification/Ledger_Claims.thy ===== *)
theory Ledger_Claims
  imports Samples
begin

text \<open>
  What the ledger guarantees, whatever fails around it: the books balance, a transfer moves exactly
  its amount, an error moves nothing, a key moves money once; and, when nothing fails, that
  \<open>Transfer\<close> and \<open>Issue\<close> compute the abstract account functions.
\<close>

text \<open>Whichever database call of \<open>Transfer\<close> fails or loses its reply, the books balance
  afterwards and no money is created or destroyed.\<close>

theorem Transfer_keeps_books:
  assumes "books (w_db w)"
  shows "books (w_db (snd (Transfer E p w))) \<and>
         money_supply (w_db (snd (Transfer E p w))) = money_supply (w_db w)"
  using Transfer_db [of E p w] moved_books(1,2) [OF assms] assms by auto

theorem Transfer_keeps_books_witness:
  "books (w_db (snd (Transfer sample_env sample_transfer funded_world))) \<and>
   money_supply (w_db (snd (Transfer sample_env sample_transfer funded_world))) = 5000"
  using Transfer_keeps_books [OF books_funded, of sample_env sample_transfer]
  by (simp add: funded_world_def funded_db_def money_supply_def sample_wallet_def)

text \<open>\<open>Issue\<close> keeps the books under every fault, and when it returns a result the money in
  circulation grew by exactly the amount.\<close>

theorem Issue_keeps_books:
  assumes "books (w_db w)"
  shows "books (w_db (snd (Issue E p w))) \<and>
         (\<forall>r. fst (Issue E p w) = Inr r \<longrightarrow>
            money_supply (w_db (snd (Issue E p w))) = money_supply (w_db w) + sint (ip_AmountCents p) \<and>
            minted (w_db (snd (Issue E p w))) = minted (w_db w) + sint (ip_AmountCents p))"
proof (intro conjI allI impI)
  show b: "books (w_db (snd (Issue E p w)))"
    using Issue_db [of E p w] issued_books(1) [OF assms] assms by auto
  fix r assume "fst (Issue E p w) = Inr r"
  then obtain w' where w': "Issue E p w = (Inr r, w')" by (metis prod.collapse)
  then show s: "money_supply (w_db (snd (Issue E p w))) = money_supply (w_db w) + sint (ip_AmountCents p)"
    using Issue_Inr [OF w'] issued_books(2) [OF assms] by auto
  then show "minted (w_db (snd (Issue E p w))) = minted (w_db w) + sint (ip_AmountCents p)"
    using b assms by (simp add: books_def)
qed

theorem Issue_keeps_books_witness:
  "books (w_db (snd (Issue sample_env sample_issue sample_world)))"
  using Issue_keeps_books [OF books_sample, of sample_env sample_issue] by simp

text \<open>C3: when no call fails, \<open>Transfer\<close> with a new key returns the error of the abstract transfer and
  moves nothing, or succeeds and changes the accounts as the abstract transfer does.\<close>

theorem Transfer_refines_spec:
  assumes "calm 9 E w" and "books (w_db w)" and "money_supply (w_db w) < 2 ^ 63"
    and "row_fits p" and "\<not> clashes (transfer_row p (transfer_type p)) (w_db w)"
  shows "case transfer_spec (tp_SenderWalletID p) (tp_ReceiverWalletID p) (sint (tp_AmountCents p)) (abs_ledger (w_db w)) of
           Inl err \<Rightarrow> fst (Transfer E p w) = Inl (Ledger err) \<and> w_db (snd (Transfer E p w)) = w_db w
         | Inr m \<Rightarrow> \<exists>r w'. Transfer E p w = (Inr (r, None), w') \<and> abs_ledger (w_db w') = m \<and>
             m (tp_SenderWalletID p) = Some (sint (tr_SenderBalance r), False) \<and>
             m (tp_ReceiverWalletID p) = Some (sint (tr_ReceiverBalance r), False)"
proof (cases "transfer_spec (tp_SenderWalletID p) (tp_ReceiverWalletID p) (sint (tp_AmountCents p)) (abs_ledger (w_db w))")
  case (Inl err)
  moreover have "w_db (snd (Transfer E p w)) = w_db w"
  proof (cases "0 < sint (tp_AmountCents p) \<and> tp_SenderWalletID p \<noteq> tp_ReceiverWalletID p")
    case True
    with Transfer_db [of E p w] Inl moved_abs(1) [of p "transfer_type p" _ "w_db w"] assms(2)
    show ?thesis by (auto simp: books_def)
  next
    case False
    then show ?thesis by (auto simp: Transfer_def throw_def)
  qed
  ultimately show ?thesis using Transfer_spec_up [OF assms] by simp
next
  case (Inr m)
  with Transfer_spec_up [OF assms] obtain r w' where T: "Transfer E p w = (Inr (r, None), w')"
    by (auto) (metis prod.collapse)
  note inv = Transfer_Inr [OF T]
  then obtain tx where "moved p (transfer_type p) tx (w_db w) r (w_db w')" by auto
  with moved_abs [OF this] assms(2) inv Inr T show ?thesis by (auto simp: books_def)
qed

lemma calm_funded: "calm 9 sample_env funded_world"
  by (simp add: calm_def sample_env_def funded_world_def funded_db_def sample_db_def empty_db_def used_ids_def Let_def
      upt_conv_Cons)

lemma row_fits_sample: "row_fits sample_transfer"
  by (simp add: row_fits_def sample_transfer_def char_count_def)

lemma no_clash_funded: "\<not> clashes (transfer_row sample_transfer (transfer_type sample_transfer)) (w_db funded_world)"
  by (simp add: clashes_def transfer_row_def funded_world_def funded_db_def)

lemma supply_funded: "money_supply (w_db funded_world) = 5000"
  by (simp add: funded_world_def funded_db_def money_supply_def sample_wallet_def)

lemma spec_funded:
  "\<exists>m. transfer_spec alice_wallet bob_wallet 1200 (abs_ledger (w_db funded_world)) = Inr m \<and>
     m alice_wallet = Some (3800, False) \<and> m bob_wallet = Some (1200, False)"
  by (simp add: transfer_spec_def abs_ledger_def live_wallet_def funded_world_def funded_db_def sample_wallet_def)

theorem Transfer_refines_spec_witness:
  "\<exists>r w'. Transfer sample_env sample_transfer funded_world = (Inr (r, None), w') \<and>
     sint (tr_SenderBalance r) = 3800 \<and> sint (tr_ReceiverBalance r) = 1200"
proof -
  have "tp_SenderWalletID sample_transfer = alice_wallet" "tp_ReceiverWalletID sample_transfer = bob_wallet"
    "sint (tp_AmountCents sample_transfer) = 1200" by (simp_all add: sample_transfer_def)
  then show ?thesis
    using Transfer_refines_spec [OF calm_funded books_funded _ row_fits_sample no_clash_funded] spec_funded
    by (auto simp: supply_funded)
qed

text \<open>C6: when no call fails, \<open>Issue\<close> refines the abstract issuance: the same error and no change, or
  the same accounts.\<close>

theorem Issue_refines_spec:
  assumes "calm 8 E w" and "books (w_db w)" and "issue_fits E p (w_db w)"
    and "money_supply (w_db w) + sint (ip_AmountCents p) < 2 ^ 63"
  shows "case issue_spec (ip_WalletID p) (sint (ip_AmountCents p)) (abs_ledger (w_db w)) of
           Inl err \<Rightarrow> fst (Issue E p w) = Inl (Ledger err) \<and> w_db (snd (Issue E p w)) = w_db w
         | Inr m \<Rightarrow> \<exists>r w'. Issue E p w = (Inr r, w') \<and> abs_ledger (w_db w') = m \<and>
             m (ip_WalletID p) = Some (sint (ir_NewBalance r), False)"
proof (cases "issue_spec (ip_WalletID p) (sint (ip_AmountCents p)) (abs_ledger (w_db w))")
  case (Inl err)
  moreover have "w_db (snd (Issue E p w)) = w_db w"
  proof (cases "0 < sint (ip_AmountCents p)")
    case True
    with Issue_db [of E p w] Inl issued_abs(1) [of p _ "w_db w"] assms(2) show ?thesis by (auto simp: books_def)
  next
    case False
    then show ?thesis by (auto simp: Issue_def throw_def)
  qed
  ultimately show ?thesis using Issue_spec_up [OF assms] by simp
next
  case (Inr m)
  with Issue_spec_up [OF assms] obtain r w' where T: "Issue E p w = (Inr r, w')"
    by (auto) (metis prod.collapse)
  from Issue_Inr [OF T] obtain tx where pos: "0 < sint (ip_AmountCents p)" and i: "issued p tx (w_db w) r (w_db w')"
    by auto
  from issued_abs [OF i] assms(2) pos Inr T show ?thesis by (auto simp: books_def)
qed

lemma calm_world: "calm 8 sample_env sample_world"
  by (simp add: calm_def sample_env_def sample_world_def sample_db_def empty_db_def used_ids_def Let_def upt_conv_Cons)

theorem Issue_refines_spec_witness:
  "\<exists>r w'. Issue sample_env sample_issue sample_world = (Inr r, w') \<and> sint (ir_NewBalance r) = 5000"
proof -
  have "issue_fits sample_env sample_issue (w_db sample_world)" "money_supply (w_db sample_world) + sint (ip_AmountCents sample_issue) < 2 ^ 63"
    "\<exists>m. issue_spec (ip_WalletID sample_issue) (sint (ip_AmountCents sample_issue)) (abs_ledger (w_db sample_world)) = Inr m \<and>
       m (ip_WalletID sample_issue) = Some (5000, False)"
    by (simp_all add: issue_fits_def sample_issue_def char_count_def sample_defs money_supply_def issue_spec_def
        abs_ledger_def live_wallet_def)
  then show ?thesis
    using Issue_refines_spec [OF calm_world books_sample, of sample_issue] by auto
qed

text \<open>Once a transfer with a key is in the table, no later transfer of the same sender with this
  key changes any table, whatever it asks for and whatever fails; when the lookup answers it returns
  the original transaction, with \<open>ErrIdempotentReplay\<close> and zero balances.\<close>

theorem Transfer_replay:
  assumes "x \<in> set (transactions (w_db w))" and "keyed x = Some (tp_SenderWalletID p, tp_IdempotencyKey p)"
    and "tp_IdempotencyKey p \<noteq> ''''"
  shows "w_db (snd (Transfer E p w)) = w_db w \<and>
         (books (w_db w) \<and> 0 < sint (tp_AmountCents p) \<and> tp_SenderWalletID p \<noteq> tp_ReceiverWalletID p \<and>
          fate E (w_calls w) = Up \<longrightarrow>
            fst (Transfer E p w) = Inr (\<lparr>tr_Transaction = x, tr_SenderBalance = 0, tr_ReceiverBalance = 0\<rparr>,
                                        Some (Ledger ErrIdempotentReplay)))"
  using Transfer_key_used [OF assms] Transfer_key_answer [OF assms] by blast

definition replayed :: "TransferParams" where
  "replayed = sample_transfer\<lparr>tp_AmountCents := 700\<rparr>"

lemma paid_row:
  "\<exists>x \<in> set (transactions (w_db (snd (Transfer sample_env sample_transfer funded_world)))).
     keyed x = Some (alice_wallet, ''key-1'')"
  by (simp add: funded_world_def funded_db_def sample_transfer_def ledger_run sample_defs keyed_def)

theorem Transfer_replay_witness:
  "w_db (snd (Transfer sample_env replayed (snd (Transfer sample_env sample_transfer funded_world)))) =
   w_db (snd (Transfer sample_env sample_transfer funded_world))"
  using paid_row Transfer_replay [of _ "snd (Transfer sample_env sample_transfer funded_world)" replayed sample_env]
  by (auto simp: replayed_def sample_transfer_def)

text \<open>C7: an error of \<open>Transfer\<close> or \<open>Issue\<close> leaves every table as it was, except when the commit was
  applied and only its reply was lost.\<close>

theorem ledger_error_atomic:
  "(fst (Transfer E p w) = Inl e \<and> e \<noteq> Wrap ''commit transfer'' Driver \<longrightarrow> w_db (snd (Transfer E p w)) = w_db w) \<and>
   (fst (Issue E q w) = Inl e \<and> e \<noteq> Wrap ''commit issuance'' Driver \<longrightarrow> w_db (snd (Issue E q w)) = w_db w)"
proof -
  have "fst (Issue E q w) = Inl e \<and> e \<noteq> Wrap ''commit issuance'' Driver \<longrightarrow> w_db (snd (Issue E q w)) = w_db w"
    using with_tx_error_db [of E "''begin issuance tx''" "''commit issuance''" "issue_tx E q" w]
    by (auto simp: Issue_def throw_def split: if_splits)
  then show ?thesis using Transfer_error_db by blast
qed

theorem ledger_error_atomic_witness:
  "fst (Transfer sample_env sample_transfer sample_world) = Inl (Ledger ErrInsufficientFunds) \<and>
   w_db (snd (Transfer sample_env sample_transfer sample_world)) = w_db sample_world"
proof -
  have "fst (Transfer sample_env sample_transfer sample_world) = Inl (Ledger ErrInsufficientFunds)"
    by (simp add: sample_transfer_def ledger_run sample_defs)
  then show ?thesis
    using ledger_error_atomic [of sample_env sample_transfer sample_world "Ledger ErrInsufficientFunds"] by simp
qed

text \<open>The idempotency key of an issuance is not read by the ledger: when nothing fails, the same
  \<open>Issue\<close> called twice issues the amount twice.\<close>

theorem Issue_twice_mints_twice:
  assumes "calm 8 E w" and "books (w_db w)" and "issue_fits E p (w_db w)"
    and "money_supply (w_db w) + 2 * sint (ip_AmountCents p) < 2 ^ 63"
    and "issue_spec (ip_WalletID p) (sint (ip_AmountCents p)) (abs_ledger (w_db w)) = Inr m"
    and "Issue E p w = (Inr r, w1)" and "calm 8 E w1"
  shows "\<exists>r2 w2. Issue E p w1 = (Inr r2, w2) \<and> minted (w_db w2) = minted (w_db w) + 2 * sint (ip_AmountCents p)"
proof -
  let ?a = "sint (ip_AmountCents p)" and ?i = "ip_WalletID p"
  have 1: "books (w_db w1)" "money_supply (w_db w1) = money_supply (w_db w) + ?a" "minted (w_db w1) = minted (w_db w) + ?a"
    using Issue_Inr [OF assms(6)] issued_books [OF assms(2)] assms(2) by (auto simp: books_def)
  have m: "abs_ledger (w_db w1) = m"
    using Issue_Inr [OF assms(6)] issued_abs(1) [of p _ "w_db w" r "w_db w1"] assms(2,5) by (auto simp: books_def)
  from assms(5) obtain b where "0 < ?a" "m = (abs_ledger (w_db w))(?i \<mapsto> (b, False))"
    by (auto simp: issue_spec_def split: if_splits option.splits prod.splits)
  then have "\<exists>m2. issue_spec ?i ?a (abs_ledger (w_db w1)) = Inr m2"
    by (simp add: issue_spec_def m)
  moreover have "users (w_db w1) = users (w_db w)"
    using Issue_Inr [OF assms(6)] by (auto simp: issued_def record_issuance_def enter_def)
  ultimately obtain r2 where "fst (Issue E p w1) = Inr r2"
    using Issue_spec_up [OF assms(7) 1(1), of p] assms(3,4) 1(2) by (auto simp: issue_fits_def)
  then obtain w2 where 2: "Issue E p w1 = (Inr r2, w2)" by (metis prod.collapse)
  then have "minted (w_db w2) = minted (w_db w1) + ?a"
    using Issue_Inr [OF 2] issued_books [OF 1(1)] 1(1) by (auto simp: books_def)
  with 1 2 show ?thesis by simp
qed

lemma Issue_sample_Inr: "\<exists>r. Issue sample_env sample_issue sample_world = (Inr r, funded_world)"
proof -
  have "\<exists>r. fst (Issue sample_env sample_issue sample_world) = Inr r"
    by (simp add: sample_issue_def ledger_run sample_defs)
  then show ?thesis using Issue_sample by (metis prod.collapse)
qed

theorem Issue_twice_mints_twice_witness:
  "\<exists>r w2. Issue sample_env sample_issue funded_world = (Inr r, w2) \<and> minted (w_db w2) = 10000"
proof -
  have "issue_fits sample_env sample_issue (w_db sample_world)" "minted (w_db sample_world) = 0"
    "money_supply (w_db sample_world) + 2 * sint (ip_AmountCents sample_issue) < 2 ^ 63"
    "\<exists>m. issue_spec (ip_WalletID sample_issue) (sint (ip_AmountCents sample_issue)) (abs_ledger (w_db sample_world)) = Inr m"
    "sint (ip_AmountCents sample_issue) = 5000"
    by (simp_all add: issue_fits_def sample_issue_def char_count_def sample_defs money_supply_def issue_spec_def
        abs_ledger_def live_wallet_def minted_def)
  moreover have "calm 8 sample_env funded_world" using calm_calls [OF calm_funded, of 8 8] by (simp add: funded_world_def)
  ultimately show ?thesis
    using Issue_twice_mints_twice [OF calm_world books_sample, of sample_issue _ _ funded_world] Issue_sample_Inr by auto
qed

end
