(* ===== verification/Redis.thy ===== *)
theory Redis
  imports Database
begin

text \<open>
  \<open>pkg/redis/client.go\<close> over the key space of the world, decoding of the JSON values kept there, and
  \<open>pkg/idempotency\<close>: the 24-hour cache of payment responses.
\<close>

section \<open>The client\<close>

type_synonym keyspace = "string \<rightharpoonup> redis_value \<times> gotime option"

text \<open>A key whose expiry instant has come is absent.\<close>

definition rlookup :: "gotime \<Rightarrow> keyspace \<Rightarrow> string \<Rightarrow> redis_value option" where
  "rlookup t m k =
    (case m k of
       None \<Rightarrow> None
     | Some (v, None) \<Rightarrow> Some v
     | Some (v, Some e) \<Rightarrow> if t < e then Some v else None)"

text \<open>One command (or pipeline) of the client, with the three fates of a call.\<close>

definition redis_call :: "env \<Rightarrow> (gotime \<Rightarrow> keyspace \<Rightarrow> (gerror + 'a) \<times> keyspace) \<Rightarrow> (world, 'a) io" where
  "redis_call E cmd w =
    (let n = w_calls w; w1 = w\<lparr>w_calls := Suc n\<rparr>
     in case fate E n of
          Up \<Rightarrow> (let (r, m) = cmd (clock E n) (w_redis w) in (r, w1\<lparr>w_redis := m\<rparr>))
        | Down \<Rightarrow> (Inl Driver, w1)
        | LostReply \<Rightarrow> (let (r, m) = cmd (clock E n) (w_redis w) in (Inl Driver, w1\<lparr>w_redis := m\<rparr>)))"

definition SetNX :: "env \<Rightarrow> string \<Rightarrow> redis_value \<Rightarrow> int64 \<Rightarrow> (world, bool) io" where
  "SetNX E key val ttl =
    redis_call E (\<lambda>t m. if rlookup t m key = None
                        then (Inr True, m(key \<mapsto> (val, if ttl = 0 then None else Some (time_Add t ttl))))
                        else (Inr False, m))"

definition GetString :: "env \<Rightarrow> string \<Rightarrow> (world, redis_value option) io" where
  "GetString E key =
    wrap_io (''redis get '' @ key) (redis_call E (\<lambda>t m. (Inr (rlookup t m key), m)))"

definition Redis_Delete :: "env \<Rightarrow> string list \<Rightarrow> (world, unit) io" where
  "Redis_Delete E ks = redis_call E (\<lambda>t m. (Inr (), \<lambda>k. if k \<in> set ks then None else m k))"

text \<open>
  \<open>INCR\<close>: an absent key counts from zero and has no expiry; a value that is not a 64-bit number, or an
  overflow, is an error. \<open>EXPIRE\<close>, sent without its \<open>NX\<close> flag, then sets the expiry of the key.
\<close>

definition redis_incr :: "gotime \<Rightarrow> keyspace \<Rightarrow> string \<Rightarrow> (gerror + int64) \<times> keyspace" where
  "redis_incr t m key =
    (case rlookup t m key of
       None \<Rightarrow> (Inr 1, m(key \<mapsto> (RText (FormatInt 1), None)))
     | Some (RText s) \<Rightarrow>
         (case ParseInt s of
            None \<Rightarrow> (Inl Driver, m)
          | Some n \<Rightarrow> if int64_ok (sint n + 1)
                     then (Inr (n + 1), m(key \<mapsto> (RText (FormatInt (n + 1)), snd (the (m key)))))
                     else (Inl Driver, m))
     | Some (RJson _) \<Rightarrow> (Inl Driver, m))"

definition redis_expire :: "gotime \<Rightarrow> keyspace \<Rightarrow> string \<Rightarrow> int64 \<Rightarrow> keyspace" where
  "redis_expire t m key ttl =
    (case rlookup t m key of None \<Rightarrow> m | Some v \<Rightarrow> m(key \<mapsto> (v, Some (time_Add t ttl))))"

definition IncrWithExpiry :: "env \<Rightarrow> string \<Rightarrow> int64 \<Rightarrow> (world, int64) io" where
  "IncrWithExpiry E key ttl =
    wrap_io (''redis incr+expire '' @ key)
      (redis_call E (\<lambda>t m. let (r, m1) = redis_incr t m key in (r, redis_expire t m1 key ttl)))"

lemma redis_call_frame [simp]:
  "w_db (snd (redis_call E cmd w)) = w_db w" "w_events (snd (redis_call E cmd w)) = w_events w"
  "w_webhooks (snd (redis_call E cmd w)) = w_webhooks w"
  by (auto simp: redis_call_def Let_def split: fault.splits prod.splits)

lemma keeps_redis_call [keeps_intros]: "keeps (\<lambda>w. P (w_db w)) (redis_call E cmd)"
  by (simp add: keeps_def)

lemma GetString_up:
  "fate E (w_calls w) = Up \<Longrightarrow>
   GetString E key w = (Inr (rlookup (clock E (w_calls w)) (w_redis w) key), w\<lparr>w_calls := Suc (w_calls w)\<rparr>)"
  by (cases w) (simp add: GetString_def io_run redis_call_def Let_def)

section \<open>JSON decoding\<close>

text \<open>
  \<open>encoding/json\<close> into the fields of a struct: an absent member or \<open>null\<close> leaves the zero value, the
  last of equal members counts, a value of another type is an error. (Member names match exactly, as
  in the values this program writes.)
\<close>

definition member :: "string \<Rightarrow> (string \<times> json) list \<Rightarrow> json option" where
  "member k fs = map_of (rev fs) k"

definition dec_string :: "json option \<Rightarrow> string option" where
  "dec_string j = (case j of None \<Rightarrow> Some '''' | Some JNull \<Rightarrow> Some '''' | Some (JStr s) \<Rightarrow> Some s | _ \<Rightarrow> None)"

definition dec_int :: "json option \<Rightarrow> int64 option" where
  "dec_int j = (case j of None \<Rightarrow> Some 0 | Some JNull \<Rightarrow> Some 0 | Some (JInt n) \<Rightarrow> Some n | _ \<Rightarrow> None)"

definition dec_opt :: "json option \<Rightarrow> string option option" where
  "dec_opt j = (case j of None \<Rightarrow> Some None | Some JNull \<Rightarrow> Some None | Some (JStr s) \<Rightarrow> Some (Some s) | _ \<Rightarrow> None)"

definition enc_opt :: "string option \<Rightarrow> json" where
  "enc_opt x = (case x of None \<Rightarrow> JNull | Some s \<Rightarrow> JStr s)"

lemma dec_enc [simp]:
  "dec_opt (Some (enc_opt x)) = Some x" "dec_string (Some (JStr s)) = Some s" "dec_int (Some (JInt n)) = Some n"
  by (simp_all add: dec_opt_def enc_opt_def dec_string_def dec_int_def split: option.splits)

section \<open>The idempotency store\<close>

record CachedResponse =
  cr_StatusCode :: int64
  cr_Body :: "json option"

definition enc_cached :: "CachedResponse \<Rightarrow> json" where
  "enc_cached c = JObj [(''status_code'', JInt (cr_StatusCode c)),
                        (''body'', case cr_Body c of None \<Rightarrow> JNull | Some j \<Rightarrow> j)]"

definition dec_cached :: "json \<Rightarrow> CachedResponse option" where
  "dec_cached j =
    (case j of
       JObj fs \<Rightarrow> map_option (\<lambda>n. \<lparr>cr_StatusCode = n, cr_Body = member ''body'' fs\<rparr>) (dec_int (member ''status_code'' fs))
     | JNull \<Rightarrow> Some \<lparr>cr_StatusCode = 0, cr_Body = None\<rparr>
     | _ \<Rightarrow> None)"

text \<open>\<open>UnmarshalBody\<close> with the decoder of the target; an empty body does not parse.\<close>

definition UnmarshalBody :: "(json \<Rightarrow> 'a option) \<Rightarrow> CachedResponse \<Rightarrow> 'a option" where
  "UnmarshalBody dec c = (case cr_Body c of None \<Rightarrow> None | Some j \<Rightarrow> dec j)"

definition KeyTTL :: int64 where
  "KeyTTL = 24 * 3600 * second"

definition buildKey :: "string \<Rightarrow> string \<Rightarrow> string" where
  "buildKey walletID idempotencyKey = ''idempotency:'' @ walletID @ '':'' @ idempotencyKey"

definition Idem_Check :: "env \<Rightarrow> string \<Rightarrow> string \<Rightarrow> (world, CachedResponse option) io" where
  "Idem_Check E walletID idempotencyKey =
    bind_io (wrap_io ''idempotency check'' (GetString E (buildKey walletID idempotencyKey))) (\<lambda>val.
    ret (case val of Some (RJson j) \<Rightarrow> dec_cached j | _ \<Rightarrow> None))"

definition Idem_Store :: "env \<Rightarrow> string \<Rightarrow> string \<Rightarrow> int64 \<Rightarrow> json \<Rightarrow> (world, unit) io" where
  "Idem_Store E walletID idempotencyKey statusCode body =
    bind_io (SetNX E (buildKey walletID idempotencyKey)
               (RJson (enc_cached \<lparr>cr_StatusCode = statusCode, cr_Body = Some body\<rparr>)) KeyTTL)
      (\<lambda>_. ret ())"

lemma dec_enc_cached: "dec_cached (enc_cached \<lparr>cr_StatusCode = n, cr_Body = Some j\<rparr>) = Some \<lparr>cr_StatusCode = n, cr_Body = Some j\<rparr>"
  by (simp add: dec_cached_def enc_cached_def member_def)

end
