(* ===== verification/Audit_Log.thy ===== *)
theory Audit_Log
  imports Database
begin

text \<open>
  \<open>internal/audit\<close>: the log entry of an action and \<open>Service.Log\<close>, which writes it and never reports a
  failure. The actions are the strings of the constants in \<open>models.go\<close>.
\<close>

record LogParams =
  lp_ActorID :: "uuid option"
  lp_ActorRole :: string
  lp_Action :: string
  lp_ResourceType :: string
  lp_ResourceID :: "uuid option"
  lp_IPAddress :: string
  lp_UserAgent :: string
  lp_RequestID :: string
  lp_Metadata :: "(string \<times> json) list"
  lp_Success :: bool
  lp_ErrorCode :: string

definition no_log :: LogParams where
  "no_log = \<lparr>lp_ActorID = None, lp_ActorRole = '''', lp_Action = '''', lp_ResourceType = '''', lp_ResourceID = None,
     lp_IPAddress = '''', lp_UserAgent = '''', lp_RequestID = '''', lp_Metadata = [], lp_Success = False,
     lp_ErrorCode = ''''\<rparr>"

definition nullIfEmpty :: "string \<Rightarrow> string option" where
  "nullIfEmpty s = (if s = '''' then None else Some s)"

text \<open>
  The row \<open>Log\<close> inserts, and the conditions of the columns: the enum of roles, the cast to \<open>inet\<close>, the
  lengths. A row they reject is not written.
\<close>

definition log_row :: "LogParams \<Rightarrow> gotime \<Rightarrow> audit_entry" where
  "log_row p t = \<lparr>a_ActorID = lp_ActorID p, a_ActorRole = nullIfEmpty (lp_ActorRole p), a_Action = lp_Action p,
     a_ResourceType = nullIfEmpty (lp_ResourceType p), a_ResourceID = lp_ResourceID p,
     a_IPAddress = nullIfEmpty (lp_IPAddress p), a_UserAgent = nullIfEmpty (take 500 (lp_UserAgent p)),
     a_RequestID = nullIfEmpty (lp_RequestID p), a_Metadata = lp_Metadata p, a_Success = lp_Success p,
     a_ErrorCode = nullIfEmpty (lp_ErrorCode p), a_CreatedAt = t\<rparr>"

definition log_accepts :: "env \<Rightarrow> audit_entry \<Rightarrow> bool" where
  "log_accepts E r \<longleftrightarrow>
     (case a_ActorRole r of None \<Rightarrow> True | Some ro \<Rightarrow> ro \<in> {''user'', ''merchant'', ''admin''}) \<and>
     (case a_IPAddress r of None \<Rightarrow> True | Some ip \<Rightarrow> inet_ok E ip) \<and>
     fits 100 (Some (a_Action r)) \<and> fits 50 (a_ResourceType r) \<and> fits 500 (a_UserAgent r) \<and>
     fits 128 (a_RequestID r) \<and> fits 50 (a_ErrorCode r)"

definition insert_log :: "env \<Rightarrow> LogParams \<Rightarrow> unit statement" where
  "insert_log E p u t d =
    (if log_accepts E (log_row p t) then Inr ((), d\<lparr>audit_logs := audit_logs d @ [log_row p t]\<rparr>)
     else Inl (PgError ''22P02''))"

definition Log :: "env \<Rightarrow> LogParams \<Rightarrow> (world, unit) io" where
  "Log E p = ignore_io (sql E None (insert_log E p)) (ret ())"

text \<open>\<open>Log\<close> always returns, touches no table but its own, and that one only by appending.\<close>

lemma Log_returns: "fst (Log E p w) = Inr ()"
  by (simp add: Log_def io_run)

definition same_but_audit :: "database \<Rightarrow> database \<Rightarrow> bool" where
  "same_but_audit d d' \<longleftrightarrow> (\<exists>rows. d' = d\<lparr>audit_logs := audit_logs d @ rows\<rparr>)"

lemma same_but_audit_refl [simp]: "same_but_audit d d"
  unfolding same_but_audit_def by (rule exI [of _ "[]"]) simp

lemma Log_db: "same_but_audit (w_db w) (w_db (snd (Log E p w)))"
  by (auto simp: Log_def io_run sql_def insert_log_def same_but_audit_def Let_def
      intro: exI [of _ "[]"] split: fault.splits sum.splits prod.splits)

lemma Log_frame [simp]:
  "w_redis (snd (Log E p w)) = w_redis w" "w_events (snd (Log E p w)) = w_events w"
  "w_webhooks (snd (Log E p w)) = w_webhooks w"
  by (simp_all add: Log_def io_run sql_frame)

end
