(* ===== verification/Crypto.thy ===== *)
theory Crypto
  imports GoStd
begin

unbundle bit_operations_syntax

text \<open>
  \<open>pkg/crypto/crypto.go\<close>: signatures over formatted payloads and the hashing of tokens. SHA-256 and
  HMAC are the functions of Go's standard library, written out (FIPS 180-4, RFC 2104) over strings as
  byte sequences; bcrypt is a third-party package and a parameter (\<open>bcrypt\<close>).
\<close>

section \<open>SHA-256 and HMAC\<close>

definition rotr :: "nat \<Rightarrow> 32 word \<Rightarrow> 32 word" where
  "rotr n x = word_rotr n x"

text \<open>
  The constants: the first 32 bits of the fractional parts of the cube roots of the first 64 primes,
  and of the square roots of the first eight. \<open>iroot k b n r\<close> adds to \<open>r\<close> the bits below \<open>b\<close> of the
  integer \<open>k\<close>-th root of \<open>n\<close>.
\<close>

primrec iroot :: "nat \<Rightarrow> nat \<Rightarrow> nat \<Rightarrow> nat \<Rightarrow> nat" where
  "iroot k 0 n r = r"
| "iroot k (Suc b) n r = iroot k b n (if (r + 2 ^ b) ^ k \<le> n then r + 2 ^ b else r)"

definition sha_primes :: "nat list" where
  "sha_primes = filter (\<lambda>p. list_all (\<lambda>q. p mod q \<noteq> 0) [2..<p]) [2..<312]"

definition root_word :: "nat \<Rightarrow> nat \<Rightarrow> 32 word" where
  "root_word k p = word_of_nat (iroot k 40 (p * 2 ^ (32 * k)) 0)"

definition sha_K :: "32 word list" where
  "sha_K = map (root_word 3) sha_primes"

definition sha_H :: "32 word list" where
  "sha_H = map (root_word 2) [2, 3, 5, 7, 11, 13, 17, 19]"

text \<open>Bytes and the padding of a message: a one bit, zeros, the length in bits.\<close>

definition bytes_of :: "string \<Rightarrow> nat list" where
  "bytes_of s = map of_char s"

definition be_bytes :: "nat \<Rightarrow> nat \<Rightarrow> nat list" where
  "be_bytes k n = map (\<lambda>i. n div 256 ^ i mod 256) (rev [0..<k])"

definition sha_pad :: "nat list \<Rightarrow> nat list" where
  "sha_pad m = m @ [128] @ replicate ((119 - length m mod 64) mod 64) 0 @ be_bytes 8 (8 * length m)"

fun words_of :: "nat list \<Rightarrow> 32 word list" where
  "words_of (a # b # c # d # r) = word_of_nat (((a * 256 + b) * 256 + c) * 256 + d) # words_of r"
| "words_of _ = []"

text \<open>The message schedule, newest word first.\<close>

primrec sha_schedule :: "nat \<Rightarrow> 32 word list \<Rightarrow> 32 word list" where
  "sha_schedule 0 ws = ws"
| "sha_schedule (Suc n) ws =
    (let w15 = ws ! 14; w2 = ws ! 1;
         s0 = rotr 7 w15 XOR rotr 18 w15 XOR drop_bit 3 w15;
         s1 = rotr 17 w2 XOR rotr 19 w2 XOR drop_bit 10 w2
     in sha_schedule n ((ws ! 15 + s0 + ws ! 6 + s1) # ws))"

fun sha_round :: "32 word list \<Rightarrow> 32 word \<times> 32 word \<Rightarrow> 32 word list" where
  "sha_round [a, b, c, d, e, f, g, h] (k, w) =
    (let t1 = h + (rotr 6 e XOR rotr 11 e XOR rotr 25 e) + ((e AND f) XOR (NOT e AND g)) + k + w;
         t2 = (rotr 2 a XOR rotr 13 a XOR rotr 22 a) + ((a AND b) XOR (a AND c) XOR (b AND c))
     in [t1 + t2, a, b, c, d + t1, e, f, g])"
| "sha_round st _ = st"

definition sha_block :: "32 word list \<Rightarrow> 32 word list \<Rightarrow> 32 word list" where
  "sha_block hs ws = map2 (+) hs (foldl sha_round hs (zip sha_K (rev (sha_schedule 48 (rev ws)))))"

function sha_blocks :: "32 word list \<Rightarrow> 32 word list \<Rightarrow> 32 word list" where
  "sha_blocks hs ws = (if length ws < 16 then hs else sha_blocks (sha_block hs (take 16 ws)) (drop 16 ws))"
  by pat_completeness auto
termination by (relation "measure (\<lambda>(_, ws). length ws)") auto

declare sha_blocks.simps [simp del]

definition Sum256 :: "nat list \<Rightarrow> nat list" where
  "Sum256 m = concat (map (be_bytes 4 \<circ> unat) (sha_blocks sha_H (words_of (sha_pad m))))"

definition hmac_key :: "nat list \<Rightarrow> nat list" where
  "hmac_key k = (let k0 = (if 64 < length k then Sum256 k else k) in k0 @ replicate (64 - length k0) 0)"

definition xor_byte :: "nat \<Rightarrow> nat \<Rightarrow> nat" where
  "xor_byte p b = unat ((word_of_nat p :: 8 word) XOR word_of_nat b)"

definition hmac_sum :: "nat list \<Rightarrow> nat list \<Rightarrow> nat list" where
  "hmac_sum key m =
    (let k = hmac_key key
     in Sum256 (map (xor_byte 92) k @ Sum256 (map (xor_byte 54) k @ m)))"

text \<open>\<open>hex.EncodeToString\<close>\<close>

definition hex_digit :: "nat \<Rightarrow> char" where
  "hex_digit n = ''0123456789abcdef'' ! (n mod 16)"

definition hex_encode :: "nat list \<Rightarrow> string" where
  "hex_encode bs = concat (map (\<lambda>b. [hex_digit (b div 16), hex_digit b]) bs)"

section \<open>The functions of the package\<close>

definition hmacSHA256 :: "string \<Rightarrow> string \<Rightarrow> string" where
  "hmacSHA256 key message = hex_encode (hmac_sum (bytes_of key) (bytes_of message))"

definition HashToken :: "string \<Rightarrow> string" where
  "HashToken token = hex_encode (Sum256 (bytes_of token))"

definition transaction_payload :: "string \<Rightarrow> string \<Rightarrow> string \<Rightarrow> int64 \<Rightarrow> int64 \<Rightarrow> string" where
  "transaction_payload txnID senderWalletID receiverWalletID amountCents timestamp =
    txnID @ ''|'' @ senderWalletID @ ''|'' @ receiverWalletID @ ''|'' @ FormatInt amountCents @ ''|'' @ FormatInt timestamp"

definition SignTransaction :: "string \<Rightarrow> string \<Rightarrow> string \<Rightarrow> string \<Rightarrow> int64 \<Rightarrow> int64 \<Rightarrow> string" where
  "SignTransaction signingKey txnID senderWalletID receiverWalletID amountCents timestamp =
    hmacSHA256 signingKey (transaction_payload txnID senderWalletID receiverWalletID amountCents timestamp)"

definition VerifyTransactionSignature ::
    "string \<Rightarrow> string \<Rightarrow> string \<Rightarrow> string \<Rightarrow> string \<Rightarrow> int64 \<Rightarrow> int64 \<Rightarrow> bool" where
  "VerifyTransactionSignature signingKey expectedSig txnID senderWalletID receiverWalletID amountCents timestamp =
    (SignTransaction signingKey txnID senderWalletID receiverWalletID amountCents timestamp = expectedSig)"

definition SignQRPayload :: "string \<Rightarrow> string \<Rightarrow> int64 \<Rightarrow> string \<Rightarrow> int64 \<Rightarrow> string" where
  "SignQRPayload merchantAPIKey walletID amountCents ref expiresUnix =
    hmacSHA256 merchantAPIKey
      (walletID @ ''|'' @ FormatInt amountCents @ ''|'' @ ref @ ''|'' @ FormatInt expiresUnix)"

definition VerifyQRSignature :: "string \<Rightarrow> string \<Rightarrow> string \<Rightarrow> int64 \<Rightarrow> string \<Rightarrow> int64 \<Rightarrow> bool" where
  "VerifyQRSignature merchantAPIKey sig walletID amountCents ref expiresUnix =
    (SignQRPayload merchantAPIKey walletID amountCents ref expiresUnix = sig)"

section \<open>Lengths\<close>

lemma length_be_bytes [simp]: "length (be_bytes k n) = k"
  by (simp add: be_bytes_def)

lemma length_hex [simp]: "length (hex_encode bs) = 2 * length bs"
  by (induction bs) (simp_all add: hex_encode_def)

lemma length_sha_round: "length st = 8 \<Longrightarrow> length (sha_round st kw) = 8"
  by (cases "(st, kw)" rule: sha_round.cases) (simp_all add: Let_def)

lemma length_foldl_round: "length st = 8 \<Longrightarrow> length (foldl sha_round st xs) = 8"
  by (induction xs arbitrary: st) (simp_all add: length_sha_round)

lemma length_sha_blocks: "length hs = 8 \<Longrightarrow> length (sha_blocks hs ws) = 8"
proof (induction hs ws rule: sha_blocks.induct)
  case (1 hs ws)
  then show ?case
    by (subst sha_blocks.simps) (simp add: sha_block_def length_foldl_round)
qed

lemma sum_list_const_map: "sum_list (map (\<lambda>_. k) xs) = length xs * (k :: nat)"
  by (induction xs) auto

lemma length_Sum256 [simp]: "length (Sum256 m) = 32"
proof -
  have "length (sha_blocks sha_H (words_of (sha_pad m))) = 8"
    by (rule length_sha_blocks) (simp add: sha_H_def)
  then show ?thesis by (simp add: Sum256_def length_concat comp_def sum_list_const_map)
qed

lemma length_hmac [simp]: "length (hmacSHA256 key m) = 64"
  by (simp add: hmacSHA256_def hmac_sum_def Let_def)

lemma length_HashToken [simp]: "length (HashToken t) = 64"
  by (simp add: HashToken_def)

end
