(* ===== verification/Http.thy ===== *)
theory Http
  imports Redis
begin

text \<open>
  What the handlers see of HTTP: requests with the values the middleware puts in their context,
  response writers, RFC 3339 dates, and \<open>pkg/response/response.go\<close>.
\<close>

section \<open>Dates\<close>

text \<open>
  \<open>t.UTC().Format(time.RFC3339)\<close>: the civil date of a day number (days since 1970-01-01) in the
  Gregorian calendar, counted from March of year 0 in eras of 400 years.
\<close>

definition civil_of_days :: "int \<Rightarrow> int \<times> int \<times> int" where
  "civil_of_days days =
    (let z = days + 719468; era = z div 146097; doe = z mod 146097;
         yoe = (doe - doe div 1460 + doe div 36524 - doe div 146096) div 365;
         doy = doe - (365 * yoe + yoe div 4 - yoe div 100);
         mp = (5 * doy + 2) div 153;
         d = doy - (153 * mp + 2) div 5 + 1;
         m = (if mp < 10 then mp + 3 else mp - 9)
     in (yoe + era * 400 + (if m \<le> 2 then 1 else 0), m, d))"

definition pad_left :: "nat \<Rightarrow> string \<Rightarrow> string" where
  "pad_left n s = replicate (n - length s) CHR ''0'' @ s"

definition format_RFC3339 :: "gotime \<Rightarrow> string" where
  "format_RFC3339 t =
    (let secs = Unix t; (y, m, d) = civil_of_days (secs div 86400); r = secs mod 86400;
         two = (\<lambda>i. pad_left 2 (show_int i))
     in (if y < 0 then ''-'' else '''') @ pad_left 4 (show_int \<bar>y\<bar>) @ ''-'' @ two m @ ''-'' @ two d @ ''T''
        @ two (r div 3600) @ '':'' @ two (r div 60 mod 60) @ '':'' @ two (r mod 60) @ ''Z'')"

text \<open>
  \<open>time.Parse(time.RFC3339, s)\<close>, a chain of parsers that return the rest of the text: the hour may have
  one digit, a fraction of up to nine digits that count may follow the seconds after a point or comma.
\<close>

definition lit :: "char \<Rightarrow> string \<Rightarrow> string option" where
  "lit c s = (case s of [] \<Rightarrow> None | d # r \<Rightarrow> if d = c then Some r else None)"

definition num2 :: "string \<Rightarrow> (nat \<times> string) option" where
  "num2 s = (case s of
      a # b # r \<Rightarrow> (case (digit_val a, digit_val b) of (Some x, Some y) \<Rightarrow> Some (10 * x + y, r) | _ \<Rightarrow> None)
    | _ \<Rightarrow> None)"

definition num12 :: "string \<Rightarrow> (nat \<times> string) option" where
  "num12 s = (case num2 s of Some x \<Rightarrow> Some x | None \<Rightarrow>
      (case s of [] \<Rightarrow> None | a # r \<Rightarrow> map_option (\<lambda>x. (x, r)) (digit_val a)))"

definition fraction :: "string \<Rightarrow> int \<times> string" where
  "fraction s =
    (case s of
       c # d # r \<Rightarrow>
         if (c = CHR ''.'' \<or> c = CHR '','') \<and> digit_val d \<noteq> None
         then let ds = takeWhile (\<lambda>x. digit_val x \<noteq> None) (d # r); used = take 9 ds
              in (int (the (parse_digits 0 used)) * 10 ^ (9 - length used), drop (length ds) (d # r))
         else (0, s)
     | _ \<Rightarrow> (0, s))"

definition zone :: "string \<Rightarrow> (int \<times> string) option" where
  "zone s =
    (case s of
       [] \<Rightarrow> None
     | c # r \<Rightarrow>
         if c = CHR ''Z'' then Some (0, r)
         else if c = CHR ''+'' \<or> c = CHR ''-'' then
           Option.bind (num2 r) (\<lambda>(h, r1). Option.bind (lit CHR '':'' r1) (\<lambda>r2. Option.bind (num2 r2) (\<lambda>(m, r3).
             if 24 < h \<or> 60 < m then None
             else Some ((if c = CHR ''-'' then - 1 else 1) * (int h * 3600 + int m * 60), r3))))
         else None)"

definition days_in :: "int \<Rightarrow> int \<Rightarrow> int" where
  "days_in m y = (if m = 2 then (if y mod 4 = 0 \<and> (y mod 100 \<noteq> 0 \<or> y mod 400 = 0) then 29 else 28)
                  else if m \<in> {4, 6, 9, 11} then 30 else 31)"

definition days_of_civil :: "int \<Rightarrow> int \<Rightarrow> int \<Rightarrow> int" where
  "days_of_civil y0 m d =
    (let y = (if m \<le> 2 then y0 - 1 else y0); era = y div 400; yoe = y mod 400;
         doy = (153 * (if 2 < m then m - 3 else m + 9) + 2) div 5 + d - 1
     in era * 146097 + (yoe * 365 + yoe div 4 - yoe div 100 + doy) - 719468)"

definition parse_RFC3339 :: "string \<Rightarrow> gotime option" where
  "parse_RFC3339 s =
    Option.bind (num2 s) (\<lambda>(c, s). Option.bind (num2 s) (\<lambda>(y, s). Option.bind (lit CHR ''-'' s) (\<lambda>s.
    Option.bind (num2 s) (\<lambda>(mo, s). Option.bind (lit CHR ''-'' s) (\<lambda>s.
    Option.bind (num2 s) (\<lambda>(da, s). Option.bind (lit CHR ''T'' s) (\<lambda>s.
    Option.bind (num12 s) (\<lambda>(h, s). Option.bind (lit CHR '':'' s) (\<lambda>s.
    Option.bind (num2 s) (\<lambda>(mi, s). Option.bind (lit CHR '':'' s) (\<lambda>s.
    Option.bind (num2 s) (\<lambda>(se, s).
      let (ns, s) = fraction s; year = int (100 * c + y)
      in Option.bind (zone s) (\<lambda>(off, s).
         if s \<noteq> '''' \<or> mo < 1 \<or> 12 < mo \<or> 24 \<le> h \<or> 60 \<le> mi \<or> 60 \<le> se \<or> da < 1 \<or> days_in (int mo) year < int da
         then None
         else Some ((days_of_civil year (int mo) (int da) * 86400 + int h * 3600 + int mi * 60 + int se - off)
                    * 1000000000 + ns))))))))))))))"

text \<open>
  A \<open>time.Time\<close> in JSON has the fraction of its seconds, without trailing zeros.
\<close>

definition frac_digits :: "int \<Rightarrow> string" where
  "frac_digits ns =
    (let ds = rev (dropWhile (\<lambda>c. c = CHR ''0'') (rev (pad_left 9 (show_int ns))))
     in if ds = [] then '''' else CHR ''.'' # ds)"

definition enc_time :: "gotime \<Rightarrow> json" where
  "enc_time t = JStr (butlast (format_RFC3339 t) @ frac_digits (t mod 1000000000) @ ''Z'')"

definition dec_time :: "json option \<Rightarrow> gotime option" where
  "dec_time j = (case j of None \<Rightarrow> Some 0 | Some JNull \<Rightarrow> Some 0 | Some (JStr s) \<Rightarrow> parse_RFC3339 s | _ \<Rightarrow> None)"

section \<open>Requests and responses\<close>

text \<open>
  \<open>rq_UserID\<close>, \<open>rq_Role\<close>, \<open>rq_WalletID\<close> are the context values set by \<open>Authenticate\<close>; the body is
  \<open>None\<close> when it is not JSON; headers, query, path parameters and cookies are looked up by name.
\<close>

record request =
  rq_Headers :: "(string \<times> string) list"
  rq_Query :: "(string \<times> string) list"
  rq_Params :: "(string \<times> string) list"
  rq_Cookies :: "(string \<times> string) list"
  rq_RemoteAddr :: string
  rq_UserAgent :: string
  rq_Body :: "json option"
  rq_RequestID :: string
  rq_UserID :: "string option"
  rq_Role :: "string option"
  rq_WalletID :: "string option"

definition field :: "string \<Rightarrow> (string \<times> string) list \<Rightarrow> string" where
  "field k fs = (case map_of fs k of None \<Rightarrow> '''' | Some v \<Rightarrow> v)"

record cookie =
  ck_Name :: string
  ck_Value :: string
  ck_Path :: string
  ck_MaxAge :: int64
  ck_HttpOnly :: bool
  ck_Secure :: bool
  ck_SameSiteStrict :: bool

text \<open>\<open>http.ResponseWriter\<close>: the status is the first one written, a header is overwritten by \<open>Set\<close>.\<close>

record writer =
  wr_Header :: "(string \<times> string) list"
  wr_Cookies :: "cookie list"
  wr_Status :: "nat option"
  wr_Body :: "json option"

definition new_writer :: writer where
  "new_writer = \<lparr>wr_Header = [], wr_Cookies = [], wr_Status = None, wr_Body = None\<rparr>"

definition Header_Set :: "string \<Rightarrow> string \<Rightarrow> writer \<Rightarrow> writer" where
  "Header_Set k v w = w\<lparr>wr_Header := (k, v) # filter (\<lambda>(k', _). k' \<noteq> k) (wr_Header w)\<rparr>"

definition WriteHeader :: "nat \<Rightarrow> writer \<Rightarrow> writer" where
  "WriteHeader status w = (case wr_Status w of None \<Rightarrow> w\<lparr>wr_Status := Some status\<rparr> | Some _ \<Rightarrow> w)"

definition SetCookie :: "cookie \<Rightarrow> writer \<Rightarrow> writer" where
  "SetCookie c w = w\<lparr>wr_Cookies := wr_Cookies w @ [c]\<rparr>"

text \<open>\<open>net.SplitHostPort\<close>, as \<open>clientIP\<close> uses it: the host of \<open>host:port\<close> or of \<open>[host]:port\<close>.\<close>

definition SplitHost :: "string \<Rightarrow> string option" where
  "SplitHost s =
    (let r = rev s; port_r = takeWhile (\<lambda>c. c \<noteq> CHR '':'') r; rest = dropWhile (\<lambda>c. c \<noteq> CHR '':'') r
     in if rest = [] then None
        else let h = rev (tl rest) in
          if h \<noteq> [] \<and> hd h = CHR ''[''
          then (if last h = CHR '']'' \<and> CHR '']'' \<notin> set (butlast h) \<and> CHR ''['' \<notin> set (tl h) \<and>
                   CHR ''['' \<notin> set port_r \<and> CHR '']'' \<notin> set port_r
                then Some (butlast (tl h)) else None)
          else if CHR '':'' \<in> set h \<or> CHR ''['' \<in> set s \<or> CHR '']'' \<in> set s then None
          else Some h)"

definition clientIP :: "request \<Rightarrow> string" where
  "clientIP r = (case SplitHost (rq_RemoteAddr r) of None \<Rightarrow> rq_RemoteAddr r | Some ip \<Rightarrow> ip)"

section \<open>pkg/response\<close>

definition JSON :: "nat \<Rightarrow> json option \<Rightarrow> writer \<Rightarrow> writer" where
  "JSON status payload w =
    (let w1 = WriteHeader status (Header_Set ''Content-Type'' ''application/json'' w)
     in case payload of None \<Rightarrow> w1 | Some j \<Rightarrow> w1\<lparr>wr_Body := Some j\<rparr>)"

definition error_payload :: "string \<Rightarrow> string \<Rightarrow> string \<Rightarrow> gotime \<Rightarrow> json" where
  "error_payload code message requestID t =
    JObj [(''error'', JObj ([(''code'', JStr code), (''message'', JStr message)]
            @ (if requestID = '''' then [] else [(''request_id'', JStr requestID)])
            @ [(''timestamp'', JStr (format_RFC3339 t))]))]"

definition Error :: "gotime \<Rightarrow> nat \<Rightarrow> string \<Rightarrow> string \<Rightarrow> string \<Rightarrow> writer \<Rightarrow> writer" where
  "Error t status code message requestID = JSON status (Some (error_payload code message requestID t))"

definition NoContent :: "writer \<Rightarrow> writer" where
  "NoContent = WriteHeader 204"

definition Created :: "json \<Rightarrow> writer \<Rightarrow> writer" where
  "Created payload = JSON 201 (Some payload)"

definition OK :: "json \<Rightarrow> writer \<Rightarrow> writer" where
  "OK payload = JSON 200 (Some payload)"

definition BadRequest :: "gotime \<Rightarrow> string \<Rightarrow> string \<Rightarrow> writer \<Rightarrow> writer" where
  "BadRequest t message requestID = Error t 400 ''INVALID_REQUEST'' message requestID"

definition Unauthorized :: "gotime \<Rightarrow> string \<Rightarrow> writer \<Rightarrow> writer" where
  "Unauthorized t requestID = Error t 401 ''UNAUTHORIZED'' ''Authentication required'' requestID"

definition Forbidden :: "gotime \<Rightarrow> string \<Rightarrow> writer \<Rightarrow> writer" where
  "Forbidden t requestID = Error t 403 ''FORBIDDEN'' ''You do not have permission to perform this action'' requestID"

definition NotFound :: "gotime \<Rightarrow> string \<Rightarrow> string \<Rightarrow> writer \<Rightarrow> writer" where
  "NotFound t resource requestID = Error t 404 ''NOT_FOUND'' (resource @ '' not found'') requestID"

definition Conflict :: "gotime \<Rightarrow> string \<Rightarrow> string \<Rightarrow> string \<Rightarrow> writer \<Rightarrow> writer" where
  "Conflict t code message requestID = Error t 409 code message requestID"

definition UnprocessableEntity :: "gotime \<Rightarrow> string \<Rightarrow> string \<Rightarrow> string \<Rightarrow> writer \<Rightarrow> writer" where
  "UnprocessableEntity t code message requestID = Error t 422 code message requestID"

definition InternalError :: "gotime \<Rightarrow> string \<Rightarrow> writer \<Rightarrow> writer" where
  "InternalError t requestID =
    Error t 500 ''INTERNAL_ERROR'' ''An unexpected error occurred. Please try again.'' requestID"

text \<open>\<open>http.StatusText\<close>: the reason phrase of a status code, empty for any other number.\<close>

definition status_texts :: "(int \<times> string) list" where
  "status_texts = [
    (100, ''Continue''), (101, ''Switching Protocols''), (102, ''Processing''), (103, ''Early Hints''),
    (200, ''OK''), (201, ''Created''), (202, ''Accepted''), (203, ''Non-Authoritative Information''),
    (204, ''No Content''), (205, ''Reset Content''), (206, ''Partial Content''), (207, ''Multi-Status''),
    (208, ''Already Reported''), (226, ''IM Used''),
    (300, ''Multiple Choices''), (301, ''Moved Permanently''), (302, ''Found''), (303, ''See Other''),
    (304, ''Not Modified''), (305, ''Use Proxy''), (307, ''Temporary Redirect''), (308, ''Permanent Redirect''),
    (400, ''Bad Request''), (401, ''Unauthorized''), (402, ''Payment Required''), (403, ''Forbidden''),
    (404, ''Not Found''), (405, ''Method Not Allowed''), (406, ''Not Acceptable''),
    (407, ''Proxy Authentication Required''), (408, ''Request Timeout''), (409, ''Conflict''), (410, ''Gone''),
    (411, ''Length Required''), (412, ''Precondition Failed''), (413, ''Request Entity Too Large''),
    (414, ''Request URI Too Long''), (415, ''Unsupported Media Type''),
    (416, ''Requested Range Not Satisfiable''), (417, ''Expectation Failed''), (418, ''I'' @ [CHR 0x27] @ ''m a teapot''),
    (421, ''Misdirected Request''), (422, ''Unprocessable Entity''), (423, ''Locked''),
    (424, ''Failed Dependency''), (425, ''Too Early''), (426, ''Upgrade Required''),
    (428, ''Precondition Required''), (429, ''Too Many Requests''), (431, ''Request Header Fields Too Large''),
    (451, ''Unavailable For Legal Reasons''),
    (500, ''Internal Server Error''), (501, ''Not Implemented''), (502, ''Bad Gateway''),
    (503, ''Service Unavailable''), (504, ''Gateway Timeout''), (505, ''HTTP Version Not Supported''),
    (506, ''Variant Also Negotiates''), (507, ''Insufficient Storage''), (508, ''Loop Detected''),
    (510, ''Not Extended''), (511, ''Network Authentication Required'')]"

definition StatusText :: "int64 \<Rightarrow> string" where
  "StatusText code = (case map_of status_texts (sint code) of None \<Rightarrow> '''' | Some s \<Rightarrow> s)"

definition TooManyRequests :: "gotime \<Rightarrow> int64 \<Rightarrow> string \<Rightarrow> writer \<Rightarrow> writer" where
  "TooManyRequests t retryAfter requestID w =
    Error t 429 ''RATE_LIMITED'' ''Too many requests. Please slow down.'' requestID
      (Header_Set ''Retry-After'' (StatusText retryAfter) w)"

section \<open>Reading a response\<close>

lemma JSON_simps [simp]:
  "wr_Status (JSON s p w) = (case wr_Status w of None \<Rightarrow> Some s | Some x \<Rightarrow> Some x)"
  "wr_Cookies (JSON s p w) = wr_Cookies w"
  by (auto simp: JSON_def Let_def WriteHeader_def Header_Set_def split: option.splits)

lemma JSON_body [simp]: "wr_Body (JSON s (Some j) w) = Some j"
  by (simp add: JSON_def Let_def)

lemma new_writer_simps [simp]:
  "wr_Status new_writer = None" "wr_Body new_writer = None" "wr_Cookies new_writer = []" "wr_Header new_writer = []"
  by (simp_all add: new_writer_def)

lemmas response_defs = BadRequest_def Unauthorized_def Forbidden_def NotFound_def Conflict_def
  UnprocessableEntity_def InternalError_def Error_def Created_def OK_def

section \<open>Handlers\<close>

text \<open>
  A handler writes a response and works on the world. \<open>reply\<close> runs one of the functions above, which
  read the clock for the timestamp of an error; \<open>on_result\<close> is the call of a service followed by its
  two branches.
\<close>

type_synonym handler = "request \<Rightarrow> writer \<Rightarrow> world \<Rightarrow> writer \<times> world"

definition reply :: "env \<Rightarrow> (gotime \<Rightarrow> writer \<Rightarrow> writer) \<Rightarrow> writer \<Rightarrow> world \<Rightarrow> writer \<times> world" where
  "reply E f wr w = (f (now E w) wr, w)"

definition on_result ::
    "(world, 'a) io \<Rightarrow> (gerror \<Rightarrow> writer \<Rightarrow> world \<Rightarrow> writer \<times> world) \<Rightarrow> ('a \<Rightarrow> writer \<Rightarrow> world \<Rightarrow> writer \<times> world)
      \<Rightarrow> writer \<Rightarrow> world \<Rightarrow> writer \<times> world" where
  "on_result m h k wr w = (case m w of (Inl e, w') \<Rightarrow> h e wr w' | (Inr a, w') \<Rightarrow> k a wr w')"

lemma reply_world [simp]: "snd (reply E f wr w) = w"
  by (simp add: reply_def)

lemma reply_writer [simp]: "fst (reply E f wr w) = f (now E w) wr"
  by (simp add: reply_def)

text \<open>The optional integer of a query: its default when absent, an error outside the bounds.\<close>

definition query_int :: "string \<Rightarrow> int64 \<Rightarrow> (int64 \<Rightarrow> bool) \<Rightarrow> string \<Rightarrow> request \<Rightarrow> string + int64" where
  "query_int k def_val ok msg r =
    (let s = field k (rq_Query r)
     in if s = '''' then Inr def_val
        else case ParseInt s of None \<Rightarrow> Inl msg | Some n \<Rightarrow> if ok n then Inr n else Inl msg)"

definition query_time :: "string \<Rightarrow> string \<Rightarrow> request \<Rightarrow> string + gotime option" where
  "query_time k msg r =
    (let s = field k (rq_Query r)
     in if s = '''' then Inr None
        else case parse_RFC3339 s of None \<Rightarrow> Inl msg | Some t \<Rightarrow> Inr (Some t))"

end
