(* ===== verification/Payment.thy ===== *)
theory Payment
  imports Ledger Currency Crypto Http Audit_Log
begin

text \<open>
  \<open>internal/payment\<close>: validation, the read-only repository, \<open>Service.Send\<close> with its cache, audit and
  notifications, and the HTTP handler. The services that \<open>Service\<close> holds as interfaces are fields of
  the record \<open>payment_service\<close>.
\<close>

section \<open>Models\<close>

record SendRequest =
  sr_ToWalletID :: string
  sr_AmountCents :: int64
  sr_Reference :: string

text \<open>\<open>Validate\<close> trims the reference in place, so it returns the request it leaves.\<close>

definition SendRequest_Validate :: "SendRequest \<Rightarrow> gerror + SendRequest" where
  "SendRequest_Validate r0 =
    (let r = r0\<lparr>sr_Reference := TrimSpace (sr_Reference r0)\<rparr>
     in if sint (sr_AmountCents r) \<le> 0 then Inl (Payment payment_error.ErrAmountZero)
        else if 256 < length (sr_Reference r) then Inl (Payment payment_error.ErrReferenceTooLong)
        else Inr r)"

record TransactionDetail =
  td_ID :: string
  td_Type :: string
  td_Status :: string
  td_Direction :: string
  td_SenderWalletID :: "string option"
  td_ReceiverWalletID :: "string option"
  td_CounterpartyName :: "string option"
  td_AmountCents :: int64
  td_AmountDisplay :: string
  td_FeeCents :: int64
  td_Reference :: "string option"
  td_Signature :: string
  td_CreatedAt :: string
  td_SettledAt :: "string option"

record SendResponse =
  sp_Transaction :: TransactionDetail
  sp_NewBalanceCents :: int64
  sp_NewBalanceDisplay :: string

record Pagination =
  pg_Page :: int64
  pg_Limit :: int64
  pg_Total :: int64
  pg_Pages :: int64

record PaymentListResponse =
  pl_Transactions :: "TransactionDetail list"
  pl_Pagination :: Pagination

record ListParams =
  lq_Page :: int64
  lq_Limit :: int64
  lq_Type :: string
  lq_Status :: string
  lq_From :: "gotime option"
  lq_To :: "gotime option"

subsection \<open>As JSON\<close>

definition enc_detail :: "TransactionDetail \<Rightarrow> json" where
  "enc_detail d = JObj [
     (''id'', JStr (td_ID d)), (''type'', JStr (td_Type d)), (''status'', JStr (td_Status d)),
     (''direction'', JStr (td_Direction d)), (''sender_wallet_id'', enc_opt (td_SenderWalletID d)),
     (''receiver_wallet_id'', enc_opt (td_ReceiverWalletID d)),
     (''counterparty_name'', enc_opt (td_CounterpartyName d)), (''amount_cents'', JInt (td_AmountCents d)),
     (''amount_display'', JStr (td_AmountDisplay d)), (''fee_cents'', JInt (td_FeeCents d)),
     (''reference'', enc_opt (td_Reference d)), (''signature'', JStr (td_Signature d)),
     (''created_at'', JStr (td_CreatedAt d)), (''settled_at'', enc_opt (td_SettledAt d))]"

definition dec_detail_fields :: "(string \<times> json) list \<Rightarrow> TransactionDetail option" where
  "dec_detail_fields fs =
    Option.bind (dec_string (member ''id'' fs)) (\<lambda>i.
    Option.bind (dec_string (member ''type'' fs)) (\<lambda>ty.
    Option.bind (dec_string (member ''status'' fs)) (\<lambda>st.
    Option.bind (dec_string (member ''direction'' fs)) (\<lambda>dir.
    Option.bind (dec_opt (member ''sender_wallet_id'' fs)) (\<lambda>s.
    Option.bind (dec_opt (member ''receiver_wallet_id'' fs)) (\<lambda>r.
    Option.bind (dec_opt (member ''counterparty_name'' fs)) (\<lambda>cp.
    Option.bind (dec_int (member ''amount_cents'' fs)) (\<lambda>amt.
    Option.bind (dec_string (member ''amount_display'' fs)) (\<lambda>disp.
    Option.bind (dec_int (member ''fee_cents'' fs)) (\<lambda>fee.
    Option.bind (dec_opt (member ''reference'' fs)) (\<lambda>ref.
    Option.bind (dec_string (member ''signature'' fs)) (\<lambda>sig.
    Option.bind (dec_string (member ''created_at'' fs)) (\<lambda>cre.
    Option.bind (dec_opt (member ''settled_at'' fs)) (\<lambda>set.
    Some \<lparr>td_ID = i, td_Type = ty, td_Status = st, td_Direction = dir, td_SenderWalletID = s,
          td_ReceiverWalletID = r, td_CounterpartyName = cp, td_AmountCents = amt, td_AmountDisplay = disp,
          td_FeeCents = fee, td_Reference = ref, td_Signature = sig, td_CreatedAt = cre,
          td_SettledAt = set\<rparr>))))))))))))))"

definition dec_detail :: "json option \<Rightarrow> TransactionDetail option" where
  "dec_detail j =
    (case j of None \<Rightarrow> dec_detail_fields [] | Some JNull \<Rightarrow> dec_detail_fields []
     | Some (JObj fs) \<Rightarrow> dec_detail_fields fs | _ \<Rightarrow> None)"

definition enc_send :: "SendResponse \<Rightarrow> json" where
  "enc_send r = JObj [(''transaction'', enc_detail (sp_Transaction r)),
     (''new_balance_cents'', JInt (sp_NewBalanceCents r)), (''new_balance_display'', JStr (sp_NewBalanceDisplay r))]"

definition dec_send :: "json \<Rightarrow> SendResponse option" where
  "dec_send j =
    (let of_fields = (\<lambda>fs.
       Option.bind (dec_detail (member ''transaction'' fs)) (\<lambda>d.
       Option.bind (dec_int (member ''new_balance_cents'' fs)) (\<lambda>b.
       Option.bind (dec_string (member ''new_balance_display'' fs)) (\<lambda>s.
       Some \<lparr>sp_Transaction = d, sp_NewBalanceCents = b, sp_NewBalanceDisplay = s\<rparr>))))
     in case j of JObj fs \<Rightarrow> of_fields fs | JNull \<Rightarrow> of_fields [] | _ \<Rightarrow> None)"

lemma dec_enc_send: "dec_send (enc_send r) = Some r"
  by (simp add: dec_send_def enc_send_def member_def dec_detail_def enc_detail_def dec_detail_fields_def)

section \<open>The repository\<close>

definition owner_of :: "database \<Rightarrow> uuid option \<Rightarrow> user option" where
  "owner_of d x =
    (case x of None \<Rightarrow> None | Some i \<Rightarrow>
      (case find (\<lambda>w. w_ID w = i) (wallets d) of None \<Rightarrow> None
       | Some w \<Rightarrow> find (\<lambda>u. u_ID u = w_UserID w) (users d)))"

definition counterparty :: "database \<Rightarrow> uuid \<Rightarrow> transaction \<Rightarrow> string option" where
  "counterparty d walletID x =
    (if t_SenderWalletID x = Some walletID then map_option u_FullName (owner_of d (t_ReceiverWalletID x))
     else if t_ReceiverWalletID x = Some walletID then
       (case owner_of d (t_SenderWalletID x) of Some u \<Rightarrow> Some (u_FullName u) | None \<Rightarrow> Some ''CBDC System'')
     else None)"

text \<open>The columns of the query, and what \<open>Scan\<close> and the conversions after it make of them.\<close>

definition detail_row :: "env \<Rightarrow> database \<Rightarrow> uuid \<Rightarrow> transaction \<Rightarrow> TransactionDetail" where
  "detail_row E d walletID x =
    \<lparr>td_ID = uuid_String E (t_ID x), td_Type = type_label (t_Type x), td_Status = status_label (t_Status x),
     td_Direction = (if t_SenderWalletID x = Some walletID then ''DEBIT'' else ''CREDIT''),
     td_SenderWalletID = map_option (uuid_String E) (t_SenderWalletID x),
     td_ReceiverWalletID = map_option (uuid_String E) (t_ReceiverWalletID x),
     td_CounterpartyName = counterparty d walletID x, td_AmountCents = t_AmountCents x,
     td_AmountDisplay = Format (t_AmountCents x) ''DD$'', td_FeeCents = t_FeeCents x,
     td_Reference = t_Reference x, td_Signature = t_Signature x,
     td_CreatedAt = format_RFC3339 (t_CreatedAt x),
     td_SettledAt = map_option format_RFC3339 (t_SettledAt x)\<rparr>"

definition party :: "uuid \<Rightarrow> transaction \<Rightarrow> bool" where
  "party walletID x \<longleftrightarrow> t_SenderWalletID x = Some walletID \<or> t_ReceiverWalletID x = Some walletID"

definition select_detail :: "env \<Rightarrow> uuid \<Rightarrow> uuid \<Rightarrow> TransactionDetail statement" where
  "select_detail E txnID walletID u t d =
    (case find (\<lambda>x. t_ID x = txnID \<and> party walletID x) (transactions d) of
       None \<Rightarrow> Inl NoRows
     | Some x \<Rightarrow> Inr (detail_row E d walletID x, d))"

definition Payment_GetByID :: "env \<Rightarrow> uuid \<Rightarrow> uuid \<Rightarrow> (world, TransactionDetail) io" where
  "Payment_GetByID E txnID walletID =
    catch_io (sql E None (select_detail E txnID walletID))
      (\<lambda>err. if errors_Is err NoRows then throw (Payment ErrTransactionNotFound)
             else throw (Wrap ''get payment by id'' err))
      ret"

definition list_matches :: "uuid \<Rightarrow> ListParams \<Rightarrow> transaction \<Rightarrow> bool" where
  "list_matches walletID p x \<longleftrightarrow> party walletID x \<and> t_Status x \<noteq> StatusFailed \<and>
     (lq_Type p = '''' \<or> type_label (t_Type x) = lq_Type p) \<and>
     (lq_Status p = '''' \<or> status_label (t_Status x) = lq_Status p) \<and>
     (case lq_From p of None \<Rightarrow> True | Some f \<Rightarrow> f \<le> t_CreatedAt x) \<and>
     (case lq_To p of None \<Rightarrow> True | Some g \<Rightarrow> t_CreatedAt x \<le> g)"

text \<open>A filter that is not a label of the SQL enum is an error of the statement.\<close>

definition bad_filter :: "ListParams \<Rightarrow> bool" where
  "bad_filter p \<longleftrightarrow> (lq_Type p \<noteq> '''' \<and> lq_Type p \<notin> set sql_transaction_types) \<or>
     (lq_Status p \<noteq> '''' \<and> lq_Status p \<notin> set sql_transaction_statuses)"

definition count_payments :: "uuid \<Rightarrow> ListParams \<Rightarrow> int64 statement" where
  "count_payments walletID p u t d =
    (if bad_filter p then Inl (PgError ''22P02'')
     else Inr (word_of_nat (count_where (list_matches walletID p) (transactions d)), d))"

text \<open>
  \<open>ORDER BY created_at DESC LIMIT l OFFSET o\<close>: PostgreSQL leaves the order of equal instants open; the
  model keeps the order of insertion among them.
\<close>

definition page_of :: "int64 \<Rightarrow> int64 \<Rightarrow> 'a list \<Rightarrow> 'a list" where
  "page_of lim off xs = take (nat (sint lim)) (drop (nat (sint off)) xs)"

definition select_payments :: "env \<Rightarrow> uuid \<Rightarrow> ListParams \<Rightarrow> int64 \<Rightarrow> TransactionDetail list statement" where
  "select_payments E walletID p offset u t d =
    (if bad_filter p then Inl (PgError ''22P02'')
     else if sint (lq_Limit p) < 0 then Inl (PgError ''2201W'')
     else if sint offset < 0 then Inl (PgError ''2201X'')
     else Inr (map (detail_row E d walletID)
                 (page_of (lq_Limit p) offset
                    (sort_key (\<lambda>x. - t_CreatedAt x) (filter (list_matches walletID p) (transactions d)))), d))"

definition Payment_List :: "env \<Rightarrow> uuid \<Rightarrow> ListParams \<Rightarrow> (world, TransactionDetail list \<times> int64) io" where
  "Payment_List E walletID p =
    bind_io (wrap_io ''count payments'' (sql E None (count_payments walletID p))) (\<lambda>totalCount.
    let offset = (lq_Page p - 1) * lq_Limit p in
    bind_io (wrap_io ''list payments'' (sql E None (select_payments E walletID p offset))) (\<lambda>result.
    ret (result, totalCount)))"

section \<open>The service\<close>

text \<open>
  The fields of \<open>Service\<close>: the interfaces it calls, whether the optional cache and audit services are
  wired, and the optional publisher.
\<close>

record payment_service =
  pay_GetByID :: "uuid \<Rightarrow> uuid \<Rightarrow> (world, TransactionDetail) io"
  pay_List :: "uuid \<Rightarrow> ListParams \<Rightarrow> (world, TransactionDetail list \<times> int64) io"
  pay_Transfer :: "TransferParams \<Rightarrow> (world, TransferResult \<times> gerror option) io"
  pay_idempotent :: bool
  pay_audit :: bool
  pay_publisher :: "(uuid \<Rightarrow> event \<Rightarrow> (world, unit) io) option"
  pay_signingKey :: string

definition detailFromLedger :: "env \<Rightarrow> transaction \<Rightarrow> uuid \<Rightarrow> TransactionDetail" where
  "detailFromLedger E x senderWalletID =
    \<lparr>td_ID = uuid_String E (t_ID x), td_Type = type_label (t_Type x), td_Status = status_label (t_Status x),
     td_Direction = ''DEBIT'', td_SenderWalletID = map_option (uuid_String E) (t_SenderWalletID x),
     td_ReceiverWalletID = map_option (uuid_String E) (t_ReceiverWalletID x), td_CounterpartyName = None,
     td_AmountCents = t_AmountCents x, td_AmountDisplay = Format (t_AmountCents x) ''DD$'',
     td_FeeCents = t_FeeCents x, td_Reference = t_Reference x, td_Signature = t_Signature x,
     td_CreatedAt = format_RFC3339 (t_CreatedAt x), td_SettledAt = map_option format_RFC3339 (t_SettledAt x)\<rparr>"

text \<open>The cached response of an earlier call: an error, a miss and a body that does not decode all mean
  that the payment is processed.\<close>

definition cached_response :: "env \<Rightarrow> payment_service \<Rightarrow> uuid \<Rightarrow> string \<Rightarrow> (world, SendResponse option) io" where
  "cached_response E s senderWalletID idempotencyKey =
    (if pay_idempotent s then
       catch_io (Idem_Check E (uuid_String E senderWalletID) idempotencyKey)
         (\<lambda>err. ret None)
         (\<lambda>hit. ret (case hit of None \<Rightarrow> None | Some cached \<Rightarrow> UnmarshalBody dec_send cached))
     else ret None)"

definition payment_event ::
    "env \<Rightarrow> event_type \<Rightarrow> uuid \<Rightarrow> gotime \<Rightarrow> uuid \<Rightarrow> string \<Rightarrow> int64 \<Rightarrow> TransactionDetail \<Rightarrow> int64 \<Rightarrow> event" where
  "payment_event E ty walletID t txnID dir amt txnDetail bal =
    \<lparr>ev_Type = ty, ev_WalletID = uuid_String E walletID,
     ev_Payload = PaymentPayload \<lparr>pe_TransactionID = uuid_String E txnID, pe_Direction = dir, pe_AmountCents = amt,
       pe_AmountDisplay = Format amt ''DD$'', pe_CounterpartyName = td_CounterpartyName txnDetail,
       pe_Reference = td_Reference txnDetail, pe_NewBalanceCents = bal, pe_NewBalanceDisplay = Format bal ''DD$''\<rparr>,
     ev_Timestamp = Some t\<rparr>"

text \<open>What \<open>Send\<close> does once the ledger has answered; \<open>replay\<close> tells the answer was \<open>ErrIdempotentReplay\<close>.\<close>

definition send_tail ::
    "env \<Rightarrow> payment_service \<Rightarrow> SendRequest \<Rightarrow> uuid \<Rightarrow> uuid \<Rightarrow> uuid \<Rightarrow> string \<Rightarrow> string \<Rightarrow> TransferResult \<Rightarrow> bool
      \<Rightarrow> (world, SendResponse) io" where
  "send_tail E s req senderWalletID toWalletID userID idempotencyKey ip result replay =
    (let txnID = t_ID (tr_Transaction result) in
     bind_io (catch_io (pay_GetByID s txnID senderWalletID)
       (\<lambda>fetchErr. ret (detailFromLedger E (tr_Transaction result) senderWalletID)) ret) (\<lambda>txnDetail.
     let resp = \<lparr>sp_Transaction = txnDetail, sp_NewBalanceCents = tr_SenderBalance result,
                 sp_NewBalanceDisplay = Format (tr_SenderBalance result) ''DD$''\<rparr> in
     ignore_io (if pay_idempotent s \<and> \<not> replay
                then Idem_Store E (uuid_String E senderWalletID) idempotencyKey 201 (enc_send resp) else ret ()) (
     ignore_io (if pay_audit s
                then Log E (no_log\<lparr>lp_ActorID := Some userID, lp_ActorRole := ''user'', lp_Action := ''payment.send'',
                       lp_ResourceType := ''transaction'', lp_ResourceID := Some txnID, lp_IPAddress := ip,
                       lp_Metadata := [(''amount_cents'', JInt (sr_AmountCents req)),
                         (''receiver_wallet_id'', JStr (uuid_String E toWalletID)), (''reference'', JStr (sr_Reference req)),
                         (''sender_wallet_id'', JStr (uuid_String E senderWalletID))],
                       lp_Success := True\<rparr>)
                else ret ()) (
     ignore_io (case pay_publisher s of
                  None \<Rightarrow> ret ()
                | Some publish \<Rightarrow>
                    if replay then ret () else
                    bind_io (get_io (now E)) (\<lambda>t.
                    ignore_io (publish senderWalletID (payment_event E TypePaymentSent senderWalletID t txnID ''DEBIT''
                        (sr_AmountCents req) txnDetail (tr_SenderBalance result))) (
                    ignore_io (publish toWalletID (payment_event E TypePaymentReceived toWalletID t txnID ''CREDIT''
                        (sr_AmountCents req) txnDetail (tr_ReceiverBalance result))) (
                    ret ())))) (
     ret resp)))))"

definition Send ::
    "env \<Rightarrow> payment_service \<Rightarrow> SendRequest \<Rightarrow> uuid \<Rightarrow> uuid \<Rightarrow> string \<Rightarrow> string \<Rightarrow> (world, SendResponse) io" where
  "Send E s req0 senderWalletID userID idempotencyKey ip =
    (case SendRequest_Validate req0 of
       Inl err \<Rightarrow> throw err
     | Inr req \<Rightarrow>
         if idempotencyKey = '''' then throw (Payment payment_error.ErrMissingIdempotencyKey)
         else case uuid_Parse E (sr_ToWalletID req) of
           None \<Rightarrow> throw (Wrap ''invalid to_wallet_id'' (Errorf ''invalid UUID''))
         | Some toWalletID \<Rightarrow>
             if senderWalletID = toWalletID then throw (Payment payment_error.ErrSelfPayment)
             else
               bind_io (cached_response E s senderWalletID idempotencyKey) (\<lambda>hit.
               case hit of
                 Some resp \<Rightarrow> ret resp
               | None \<Rightarrow>
                   bind_io (get_io (now E)) (\<lambda>t.
                   let sig = SignTransaction (pay_signingKey s) ''payment'' (uuid_String E senderWalletID)
                               (uuid_String E toWalletID) (sr_AmountCents req) (word_of_int (Unix t)) in
                   bind_io (pay_Transfer s \<lparr>tp_SenderWalletID = senderWalletID, tp_ReceiverWalletID = toWalletID,
                       tp_AmountCents = sr_AmountCents req, tp_Reference = sr_Reference req,
                       tp_IdempotencyKey = idempotencyKey, tp_Signature = sig, tp_TxnType = None\<rparr>)
                     (\<lambda>(result, transferErr).
                     case transferErr of
                       None \<Rightarrow> send_tail E s req senderWalletID toWalletID userID idempotencyKey ip result False
                     | Some err \<Rightarrow>
                         if \<not> errors_Is err (Ledger ErrIdempotentReplay) then throw err
                         else send_tail E s req senderWalletID toWalletID userID idempotencyKey ip result True))))"

definition GetTransaction :: "payment_service \<Rightarrow> uuid \<Rightarrow> uuid \<Rightarrow> (world, TransactionDetail) io" where
  "GetTransaction s txnID walletID = pay_GetByID s txnID walletID"

text \<open>
  \<open>int(math.Ceil(float64(total) / float64(limit)))\<close>: exact for the totals of a table (below \<open>2\<^sup>4\<^sup>6\<close>
  rows) and limits up to 100; a quotient by zero is not a number and its conversion is left open.
\<close>

definition ceil_pages :: "int64 \<Rightarrow> int64 \<Rightarrow> int64" where
  "ceil_pages n lim = word_of_int ((sint n + sint lim - 1) div sint lim)"

definition ListTransactions :: "payment_service \<Rightarrow> uuid \<Rightarrow> ListParams \<Rightarrow> (world, PaymentListResponse) io" where
  "ListTransactions s walletID p =
    bind_io (wrap_io ''list transactions'' (pay_List s walletID p)) (\<lambda>(txns, totalCount).
    ret \<lparr>pl_Transactions = txns, pl_Pagination = \<lparr>pg_Page = lq_Page p, pg_Limit = lq_Limit p, pg_Total = totalCount,
         pg_Pages = ceil_pages totalCount (lq_Limit p)\<rparr>\<rparr>)"

section \<open>The handler\<close>

definition dec_SendRequest :: "json \<Rightarrow> SendRequest option" where
  "dec_SendRequest j =
    (let of_fields = (\<lambda>fs.
       Option.bind (dec_string (member ''to_wallet_id'' fs)) (\<lambda>to.
       Option.bind (dec_int (member ''amount_cents'' fs)) (\<lambda>amt.
       Option.bind (dec_string (member ''reference'' fs)) (\<lambda>ref.
       Some \<lparr>sr_ToWalletID = to, sr_AmountCents = amt, sr_Reference = ref\<rparr>))))
     in case j of JObj fs \<Rightarrow> of_fields fs | JNull \<Rightarrow> of_fields [] | _ \<Rightarrow> None)"

definition payment_handleError :: "env \<Rightarrow> string \<Rightarrow> gerror \<Rightarrow> writer \<Rightarrow> world \<Rightarrow> writer \<times> world" where
  "payment_handleError E requestID err =
    reply E (\<lambda>t.
      if errors_Is err (Payment payment_error.ErrSelfPayment)
      then UnprocessableEntity t ''SELF_PAYMENT'' ''Cannot send payment to your own wallet.'' requestID
      else if errors_Is err (Payment payment_error.ErrAmountZero)
      then UnprocessableEntity t ''INVALID_AMOUNT'' ''Amount must be greater than zero.'' requestID
      else if errors_Is err (Payment payment_error.ErrReferenceTooLong)
      then UnprocessableEntity t ''REFERENCE_TOO_LONG'' ''Reference must be 256 characters or fewer.'' requestID
      else if errors_Is err (Payment payment_error.ErrMissingIdempotencyKey)
      then BadRequest t ''X-Idempotency-Key header is required'' requestID
      else if errors_Is err (Payment ErrTransactionNotFound) then NotFound t ''transaction'' requestID
      else if errors_Is err (Ledger ledger_error.ErrWalletNotFound) then NotFound t ''wallet'' requestID
      else if errors_Is err (Ledger ErrWalletFrozen)
      then UnprocessableEntity t ''WALLET_FROZEN'' ''One or both wallets are frozen.'' requestID
      else if errors_Is err (Ledger ErrInsufficientFunds)
      then UnprocessableEntity t ''INSUFFICIENT_FUNDS'' ''Insufficient funds for this transfer.'' requestID
      else InternalError t requestID)"

text \<open>The UUID of a context value, with the two ways it can be missing.\<close>

definition context_uuid :: "env \<Rightarrow> string option \<Rightarrow> uuid option" where
  "context_uuid E v = (case v of None \<Rightarrow> None | Some s \<Rightarrow> uuid_Parse E s)"

definition payment_send :: "env \<Rightarrow> payment_service \<Rightarrow> handler" where
  "payment_send E s r =
    (case context_uuid E (rq_UserID r) of
       None \<Rightarrow> reply E (\<lambda>t. Unauthorized t (rq_RequestID r))
     | Some userID \<Rightarrow>
       (case context_uuid E (rq_WalletID r) of
          None \<Rightarrow> reply E (\<lambda>t. Unauthorized t (rq_RequestID r))
        | Some senderWalletID \<Rightarrow>
          (case Option.bind (rq_Body r) dec_SendRequest of
             None \<Rightarrow> reply E (\<lambda>t. BadRequest t ''Invalid JSON body'' (rq_RequestID r))
           | Some req \<Rightarrow>
               on_result (Send E s req senderWalletID userID (field ''X-Idempotency-Key'' (rq_Headers r)) (clientIP r))
                 (payment_handleError E (rq_RequestID r))
                 (\<lambda>result. reply E (\<lambda>t. Created (enc_send result))))))"

definition payment_getByID :: "env \<Rightarrow> payment_service \<Rightarrow> handler" where
  "payment_getByID E s r =
    (case context_uuid E (rq_WalletID r) of
       None \<Rightarrow> reply E (\<lambda>t. Unauthorized t (rq_RequestID r))
     | Some walletID \<Rightarrow>
       (case uuid_Parse E (field ''id'' (rq_Params r)) of
          None \<Rightarrow> reply E (\<lambda>t. NotFound t ''transaction'' (rq_RequestID r))
        | Some txnID \<Rightarrow>
            on_result (GetTransaction s txnID walletID) (payment_handleError E (rq_RequestID r))
              (\<lambda>d. reply E (\<lambda>t. OK (enc_detail d)))))"

definition payment_parseListParams :: "request \<Rightarrow> string + ListParams" where
  "payment_parseListParams r =
    (case query_int ''page'' 1 (\<lambda>n. 1 \<le> sint n) ''page must be a positive integer'' r of
       Inl m \<Rightarrow> Inl m
     | Inr page \<Rightarrow>
       (case query_int ''limit'' 20 (\<lambda>n. 1 \<le> sint n \<and> sint n \<le> 100) ''limit must be between 1 and 100'' r of
          Inl m \<Rightarrow> Inl m
        | Inr limit \<Rightarrow>
          (case query_time ''from'' ''from must be a valid RFC3339 datetime'' r of
             Inl m \<Rightarrow> Inl m
           | Inr f \<Rightarrow>
             (case query_time ''to'' ''to must be a valid RFC3339 datetime'' r of
                Inl m \<Rightarrow> Inl m
              | Inr g \<Rightarrow> Inr \<lparr>lq_Page = page, lq_Limit = limit, lq_Type = field ''type'' (rq_Query r),
                              lq_Status = field ''status'' (rq_Query r), lq_From = f, lq_To = g\<rparr>))))"

definition enc_pagination :: "Pagination \<Rightarrow> json" where
  "enc_pagination p = JObj [(''page'', JInt (pg_Page p)), (''limit'', JInt (pg_Limit p)),
     (''total'', JInt (pg_Total p)), (''pages'', JInt (pg_Pages p))]"

definition payment_list :: "env \<Rightarrow> payment_service \<Rightarrow> handler" where
  "payment_list E s r =
    (case context_uuid E (rq_WalletID r) of
       None \<Rightarrow> reply E (\<lambda>t. Unauthorized t (rq_RequestID r))
     | Some walletID \<Rightarrow>
       (case payment_parseListParams r of
          Inl m \<Rightarrow> reply E (\<lambda>t. BadRequest t m (rq_RequestID r))
        | Inr p \<Rightarrow>
            on_result (ListTransactions s walletID p) (\<lambda>err. reply E (\<lambda>t. InternalError t (rq_RequestID r)))
              (\<lambda>result. reply E (\<lambda>t. OK (JObj [(''transactions'', JArr (map enc_detail (pl_Transactions result))),
                                                (''pagination'', enc_pagination (pl_Pagination result))])))))"

end
