(* ===== verification/Hub.thy ===== *)
theory Hub
  imports Http
begin

text \<open>
  \<open>internal/websocket\<close>: the hub that routes events to the connected clients. The event loop of \<open>Run\<close>,
  the goroutines that broadcast and the pumps of the clients interleave; each of their atomic actions
  is a function on the hub's state, and \<open>hub_step\<close> takes any one of them. \<open>Publish\<close> is the same method
  seen from the services.
\<close>

section \<open>State\<close>

text \<open>
  A \<open>*client\<close> is an address. A channel is the list of its buffered messages and whether it is closed;
  sending on a closed channel panics. A broadcast in progress is the list of clients it copied under
  the read lock and has not served yet.
\<close>

record 'm channel =
  ch_buf :: "'m list"
  ch_closed :: bool

record 'm hub =
  h_rooms :: "uuid \<rightharpoonup> nat list"
  h_register :: "nat list"
  h_unregister :: "nat list"
  h_walletID :: "nat \<Rightarrow> uuid option"
  h_send :: "nat \<Rightarrow> 'm channel"
  h_casts :: "(nat list \<times> 'm) list"
  h_wire :: "nat \<Rightarrow> 'm list"
  h_panic :: bool

definition sendBufferSize :: nat where
  "sendBufferSize = 32"

definition queueSize :: nat where
  "queueSize = 16"

definition NewHub :: "'m hub" where
  "NewHub = \<lparr>h_rooms = Map.empty, h_register = [], h_unregister = [], h_walletID = (\<lambda>_. None),
     h_send = (\<lambda>_. \<lparr>ch_buf = [], ch_closed = False\<rparr>), h_casts = [], h_wire = (\<lambda>_. []), h_panic = False\<rparr>"

definition room :: "'m hub \<Rightarrow> uuid \<Rightarrow> nat list" where
  "room h u = (case h_rooms h u of None \<Rightarrow> [] | Some cs \<Rightarrow> cs)"

section \<open>Actions\<close>

text \<open>\<open>ServeWS\<close> after the checks: a new client with an empty channel is put on the register queue.\<close>

definition connect :: "nat \<Rightarrow> uuid \<Rightarrow> 'm hub \<Rightarrow> 'm hub" where
  "connect c u h = h\<lparr>h_walletID := (h_walletID h)(c := Some u),
     h_send := (h_send h)(c := \<lparr>ch_buf = [], ch_closed = False\<rparr>), h_register := h_register h @ [c]\<rparr>"

text \<open>The two cases of the event loop.\<close>

definition handle_register :: "'m hub \<Rightarrow> 'm hub" where
  "handle_register h =
    (case h_register h of
       [] \<Rightarrow> h
     | c # cs \<Rightarrow>
         (case h_walletID h c of
            None \<Rightarrow> h\<lparr>h_register := cs\<rparr>
          | Some u \<Rightarrow> h\<lparr>h_register := cs, h_rooms := (h_rooms h)(u \<mapsto> List.insert c (room h u))\<rparr>))"

definition handle_unregister :: "'m hub \<Rightarrow> 'm hub" where
  "handle_unregister h =
    (case h_unregister h of
       [] \<Rightarrow> h
     | c # cs \<Rightarrow>
         (case h_walletID h c of
            None \<Rightarrow> h\<lparr>h_unregister := cs\<rparr>
          | Some u \<Rightarrow>
              if c \<in> set (room h u)
              then (let rest = removeAll c (room h u)
                    in h\<lparr>h_unregister := cs, h_rooms := (h_rooms h)(u := if rest = [] then None else Some rest),
                         h_send := (h_send h)(c := (h_send h c)\<lparr>ch_closed := True\<rparr>)\<rparr>)
              else h\<lparr>h_unregister := cs\<rparr>))"

text \<open>The read pump of a client ends: the client is put on the unregister queue.\<close>

definition disconnect :: "nat \<Rightarrow> 'm hub \<Rightarrow> 'm hub" where
  "disconnect c h = h\<lparr>h_unregister := h_unregister h @ [c]\<rparr>"

text \<open>\<open>broadcast\<close>: the copy of the room under the read lock, then one send per client outside it.\<close>

definition broadcast_start :: "uuid \<Rightarrow> 'm \<Rightarrow> 'm hub \<Rightarrow> 'm hub" where
  "broadcast_start u m h = h\<lparr>h_casts := h_casts h @ [(room h u, m)]\<rparr>"

definition send_to :: "nat \<Rightarrow> 'm \<Rightarrow> 'm hub \<Rightarrow> 'm hub" where
  "send_to c m h =
    (if ch_closed (h_send h c) then h\<lparr>h_panic := True\<rparr>
     else if length (ch_buf (h_send h c)) < sendBufferSize
     then h\<lparr>h_send := (h_send h)(c := (h_send h c)\<lparr>ch_buf := ch_buf (h_send h c) @ [m]\<rparr>)\<rparr>
     else h)"

definition broadcast_next :: "nat \<Rightarrow> 'm hub \<Rightarrow> 'm hub" where
  "broadcast_next i h =
    (case h_casts h ! i of
       ([], m) \<Rightarrow> h\<lparr>h_casts := take i (h_casts h) @ drop (Suc i) (h_casts h)\<rparr>
     | (c # cs, m) \<Rightarrow> send_to c m (h\<lparr>h_casts := (h_casts h)[i := (cs, m)]\<rparr>))"

text \<open>The write pump takes the oldest message; from an empty closed channel it takes nothing more.\<close>

definition write_pump :: "nat \<Rightarrow> 'm hub \<Rightarrow> 'm hub" where
  "write_pump c h =
    (case ch_buf (h_send h c) of
       [] \<Rightarrow> h
     | m # ms \<Rightarrow> h\<lparr>h_send := (h_send h)(c := (h_send h c)\<lparr>ch_buf := ms\<rparr>),
                  h_wire := (h_wire h)(c := h_wire h c @ [m])\<rparr>)"

text \<open>
  Any interleaving; a message is tagged with the wallet it is broadcast for. A client connects once, with a new address; a full queue blocks the goroutine that
  sends on it; after a panic the process is gone.
\<close>

inductive hub_step :: "(uuid \<times> 'm) hub \<Rightarrow> (uuid \<times> 'm) hub \<Rightarrow> bool" where
  do_connect: "\<not> h_panic h \<Longrightarrow> h_walletID h c = None \<Longrightarrow> length (h_register h) < queueSize \<Longrightarrow> hub_step h (connect c u h)"
| do_register: "\<not> h_panic h \<Longrightarrow> h_register h \<noteq> [] \<Longrightarrow> hub_step h (handle_register h)"
| do_disconnect: "\<not> h_panic h \<Longrightarrow> h_walletID h c \<noteq> None \<Longrightarrow> length (h_unregister h) < queueSize \<Longrightarrow> hub_step h (disconnect c h)"
| do_unregister: "\<not> h_panic h \<Longrightarrow> h_unregister h \<noteq> [] \<Longrightarrow> hub_step h (handle_unregister h)"
| do_cast: "\<not> h_panic h \<Longrightarrow> hub_step h (broadcast_start u (u, m) h)"
| do_send: "\<not> h_panic h \<Longrightarrow> i < length (h_casts h) \<Longrightarrow> hub_step h (broadcast_next i h)"
| do_write: "\<not> h_panic h \<Longrightarrow> hub_step h (write_pump c h)"

inductive_cases hub_stepE: "hub_step h h'"

inductive hub_reach :: "(uuid \<times> 'm) hub \<Rightarrow> bool" where
  init: "hub_reach NewHub"
| step: "hub_reach h \<Longrightarrow> hub_step h h' \<Longrightarrow> hub_reach h'"

definition ConnectedCount :: "uuid list \<Rightarrow> 'm hub \<Rightarrow> nat" where
  "ConnectedCount us h = sum_list (map (\<lambda>u. length (room h u)) us)"

section \<open>What holds in every reachable state\<close>

text \<open>
  A client is in the room of its wallet and in no other, its channel is open while it is in a room or
  about to enter one, buffers are bounded, and every message a client holds or was sent is for its
  wallet.
\<close>

definition rooms_ok :: "(uuid \<times> 'm) hub \<Rightarrow> bool" where
  "rooms_ok h \<longleftrightarrow>
     (\<forall>u c. c \<in> set (room h u) \<longrightarrow> h_walletID h c = Some u \<and> \<not> ch_closed (h_send h c) \<and> c \<notin> set (h_register h)) \<and>
     (\<forall>u. distinct (room h u)) \<and> distinct (h_register h) \<and>
     (\<forall>c \<in> set (h_register h). h_walletID h c \<noteq> None \<and> \<not> ch_closed (h_send h c))"

definition tags_ok :: "(uuid \<times> 'm) hub \<Rightarrow> bool" where
  "tags_ok h \<longleftrightarrow>
     (\<forall>x \<in> set (h_casts h). \<forall>c \<in> set (fst x). h_walletID h c = Some (fst (snd x))) \<and>
     (\<forall>c. \<forall>m \<in> set (ch_buf (h_send h c)). h_walletID h c = Some (fst m)) \<and>
     (\<forall>c. \<forall>m \<in> set (h_wire h c). h_walletID h c = Some (fst m))"

definition bufs_ok :: "(uuid \<times> 'm) hub \<Rightarrow> bool" where
  "bufs_ok h \<longleftrightarrow> (\<forall>c. length (ch_buf (h_send h c)) \<le> sendBufferSize)"

definition hub_inv :: "(uuid \<times> 'm) hub \<Rightarrow> bool" where
  "hub_inv h \<longleftrightarrow> rooms_ok h \<and> tags_ok h \<and> bufs_ok h"

lemmas hub_inv_defs = hub_inv_def rooms_ok_def tags_ok_def bufs_ok_def

lemma room_upd [simp]: "room (h\<lparr>h_rooms := R\<rparr>) u = (case R u of None \<Rightarrow> [] | Some cs \<Rightarrow> cs)"
  by (simp add: room_def)

lemma room_other [simp]:
  "room (h\<lparr>h_register := a\<rparr>) u = room h u" "room (h\<lparr>h_unregister := a\<rparr>) u = room h u"
  "room (h\<lparr>h_walletID := b\<rparr>) u = room h u" "room (h\<lparr>h_send := s\<rparr>) u = room h u"
  "room (h\<lparr>h_casts := x\<rparr>) u = room h u" "room (h\<lparr>h_wire := y\<rparr>) u = room h u"
  "room (h\<lparr>h_panic := z\<rparr>) u = room h u"
  by (simp_all add: room_def)

lemma hub_inv_new: "hub_inv NewHub"
  by (simp add: hub_inv_defs NewHub_def room_def)

lemma rooms_connect: "rooms_ok h \<Longrightarrow> h_walletID h c = None \<Longrightarrow> rooms_ok (connect c u h)"
  unfolding rooms_ok_def connect_def by auto

lemma tags_connect:
  assumes "tags_ok h" and "h_walletID h c = None"
  shows "tags_ok (connect c u h)"
proof -
  have "c \<notin> set (fst x)" if "x \<in> set (h_casts h)" for x
    using assms that unfolding tags_ok_def by (metis option.distinct(1))
  moreover have "h_wire h c = []"
    using assms unfolding tags_ok_def by (metis list.set_intros(1) neq_Nil_conv option.distinct(1))
  ultimately show ?thesis
    using assms(1) unfolding tags_ok_def connect_def by auto
qed

lemma rooms_register:
  assumes "rooms_ok h"
  shows "rooms_ok (handle_register h)"
proof (cases "h_register h")
  case Nil
  with assms show ?thesis by (simp add: handle_register_def)
next
  case (Cons c cs)
  with assms obtain u where u: "h_walletID h c = Some u" "\<not> ch_closed (h_send h c)" "c \<notin> set cs" "c \<notin> set (room h u)"
    by (auto simp: rooms_ok_def)
  have "handle_register h = h\<lparr>h_register := cs, h_rooms := (h_rooms h)(u \<mapsto> c # room h u)\<rparr>"
    using Cons u by (simp add: handle_register_def)
  moreover have "room (handle_register h) v = (if v = u then c # room h u else room h v)" for v
    using Cons u by (auto simp: handle_register_def room_def)
  ultimately show ?thesis
    using assms Cons u unfolding rooms_ok_def by (auto simp: room_def)
qed

lemma rooms_unregister:
  assumes "rooms_ok h"
  shows "rooms_ok (handle_unregister h)"
proof (cases "\<exists>c cs u. h_unregister h = c # cs \<and> h_walletID h c = Some u \<and> c \<in> set (room h u)")
  case True
  then obtain c cs u where c: "h_unregister h = c # cs" "h_walletID h c = Some u" "c \<in> set (room h u)" by auto
  let ?h = "handle_unregister h"
  have "room ?h v = (if v = u then removeAll c (room h u) else room h v)" for v
    using c by (auto simp: handle_unregister_def Let_def room_def)
  moreover have "h_walletID ?h = h_walletID h" "h_register ?h = h_register h"
    "h_send ?h = (h_send h)(c := (h_send h c)\<lparr>ch_closed := True\<rparr>)"
    using c by (simp_all add: handle_unregister_def Let_def)
  moreover have "c \<notin> set (h_register h)" "\<And>v. c \<in> set (room h v) \<Longrightarrow> v = u"
    using assms c unfolding rooms_ok_def by (metis option.inject)+
  ultimately show ?thesis
    using assms unfolding rooms_ok_def by (auto simp: distinct_removeAll)
next
  case False
  then have "rooms_ok (handle_unregister h) = rooms_ok h"
    by (auto simp: handle_unregister_def rooms_ok_def split: list.splits option.splits)
  with assms show ?thesis by simp
qed

lemma unregister_frame:
  "h_walletID (handle_unregister h) = h_walletID h" "h_casts (handle_unregister h) = h_casts h"
  "h_wire (handle_unregister h) = h_wire h" "ch_buf (h_send (handle_unregister h) c) = ch_buf (h_send h c)"
  by (auto simp: handle_unregister_def Let_def split: list.splits option.splits)

lemma register_frame:
  "h_walletID (handle_register h) = h_walletID h" "h_casts (handle_register h) = h_casts h"
  "h_wire (handle_register h) = h_wire h" "h_send (handle_register h) = h_send h"
  by (auto simp: handle_register_def split: list.splits option.splits)

lemma hub_inv_send_to:
  "hub_inv h \<Longrightarrow> h_walletID h c = Some (fst m) \<Longrightarrow> hub_inv (send_to c m h)"
  by (auto simp: hub_inv_defs send_to_def)

lemma hub_inv_cast: "hub_inv h \<Longrightarrow> hub_inv (broadcast_start u (u, m) h)"
  by (auto simp: hub_inv_defs broadcast_start_def)

lemma hub_inv_casts:
  "hub_inv h \<Longrightarrow> (\<And>x. x \<in> set xs \<Longrightarrow> \<forall>c \<in> set (fst x). h_walletID h c = Some (fst (snd x))) \<Longrightarrow>
   hub_inv (h\<lparr>h_casts := xs\<rparr>)"
  by (simp add: hub_inv_defs)

lemma hub_inv_next:
  assumes "hub_inv h" and "i < length (h_casts h)"
  shows "hub_inv (broadcast_next i h)"
proof -
  have ok: "\<forall>c \<in> set (fst x). h_walletID h c = Some (fst (snd x))" if "x \<in> set (h_casts h)" for x
    using assms(1) that by (simp add: hub_inv_defs)
  have in_casts: "h_casts h ! i \<in> set (h_casts h)" using assms(2) by simp
  show ?thesis
  proof (cases "fst (h_casts h ! i)")
    case Nil
    then have "broadcast_next i h = h\<lparr>h_casts := take i (h_casts h) @ drop (Suc i) (h_casts h)\<rparr>"
      by (cases "h_casts h ! i") (simp add: broadcast_next_def)
    moreover have "x \<in> set (h_casts h)" if "x \<in> set (take i (h_casts h) @ drop (Suc i) (h_casts h))" for x
      using that in_set_takeD [of x i "h_casts h"] in_set_dropD [of x "Suc i" "h_casts h"] by auto
    then have "hub_inv (h\<lparr>h_casts := take i (h_casts h) @ drop (Suc i) (h_casts h)\<rparr>)"
      by (intro hub_inv_casts [OF assms(1)] ok)
    ultimately show ?thesis by simp
  next
    case (Cons c cs)
    let ?m = "snd (h_casts h ! i)" and ?h = "h\<lparr>h_casts := (h_casts h)[i := (cs, snd (h_casts h ! i))]\<rparr>"
    have "\<forall>c \<in> set (fst x). h_walletID h c = Some (fst (snd x))" if "x \<in> set ((h_casts h)[i := (cs, ?m)])" for x
    proof -
      have "x = (cs, ?m) \<or> x \<in> set (h_casts h)" using that set_update_subset_insert [of "h_casts h" i "(cs, ?m)"] by blast
      then show ?thesis using ok [of x] ok [OF in_casts] Cons by (elim disjE) simp_all
    qed
    then have "hub_inv ?h" by (intro hub_inv_casts [OF assms(1)])
    moreover have "h_walletID h c = Some (fst ?m)" using ok [OF in_casts] Cons by simp
    ultimately have "hub_inv (send_to c ?m ?h)" by (simp add: hub_inv_send_to)
    moreover have "broadcast_next i h = send_to c ?m ?h"
      using Cons by (cases "h_casts h ! i") (simp add: broadcast_next_def)
    ultimately show ?thesis by simp
  qed
qed

lemma hub_inv_write:
  assumes "hub_inv h"
  shows "hub_inv (write_pump c h)"
proof (cases "ch_buf (h_send h c)")
  case Nil
  with assms show ?thesis by (simp add: write_pump_def)
next
  case (Cons m ms)
  moreover have "length ms \<le> sendBufferSize" "h_walletID h c = Some (fst m)" "\<forall>x \<in> set ms. h_walletID h c = Some (fst x)"
    using assms Cons unfolding hub_inv_defs by (metis Suc_leD length_Cons, metis list.set_intros(1), metis list.set_intros(2))
  ultimately show ?thesis
    using assms by (auto simp: hub_inv_defs write_pump_def)
qed

lemma hub_inv_step: "hub_step h h' \<Longrightarrow> hub_inv h \<Longrightarrow> hub_inv h'"
proof (induction rule: hub_step.induct)
  case (do_connect h c u)
  then show ?case
    using rooms_connect [of h c u] tags_connect [of h c u] by (simp add: hub_inv_def bufs_ok_def connect_def)
next
  case (do_register h)
  then show ?case
    using rooms_register [of h] by (simp add: hub_inv_def tags_ok_def bufs_ok_def register_frame)
next
  case (do_unregister h)
  then show ?case
    using rooms_unregister [of h] by (simp add: hub_inv_def tags_ok_def bufs_ok_def unregister_frame)
next
  case (do_disconnect h c)
  then show ?case by (simp add: hub_inv_defs disconnect_def)
qed (simp_all add: hub_inv_cast hub_inv_next hub_inv_write)

lemma hub_reach_inv: "hub_reach h \<Longrightarrow> hub_inv h"
  by (induction rule: hub_reach.induct) (auto intro: hub_inv_new hub_inv_step)

text \<open>Once the process panicked it takes no step.\<close>

lemma hub_panic_stuck: "h_panic h \<Longrightarrow> \<not> hub_step h h'"
  by (auto elim: hub_stepE)

section \<open>Publish\<close>

text \<open>
  \<open>Publish\<close> as the services call it: with Redis the event goes over the channel and the hub's own
  subscriber broadcasts it to the wallet named inside the event, dropping it when that name does not
  parse; when the call fails, or Redis is not configured, it is broadcast to the given wallet. A lost
  reply delivers it both ways. The broadcasts of this instance are appended to \<open>w_events\<close>; no error
  reaches the caller.
\<close>

definition subscriber_route :: "env \<Rightarrow> event \<Rightarrow> (uuid \<times> event) list" where
  "subscriber_route E ev = (case uuid_Parse E (ev_WalletID ev) of None \<Rightarrow> [] | Some u \<Rightarrow> [(u, ev)])"

definition Publish :: "env \<Rightarrow> bool \<Rightarrow> uuid \<Rightarrow> event \<Rightarrow> (world, unit) io" where
  "Publish E has_redis walletID ev w =
    (if has_redis then
       (let n = w_calls w;
            out = (case fate E n of Up \<Rightarrow> subscriber_route E ev
                   | Down \<Rightarrow> [(walletID, ev)]
                   | LostReply \<Rightarrow> subscriber_route E ev @ [(walletID, ev)])
        in (Inr (), w\<lparr>w_calls := Suc n, w_events := w_events w @ out\<rparr>))
     else (Inr (), w\<lparr>w_events := w_events w @ [(walletID, ev)]\<rparr>))"

lemma Publish_frame [simp]:
  "w_db (snd (Publish E r u ev w)) = w_db w" "w_redis (snd (Publish E r u ev w)) = w_redis w"
  "w_webhooks (snd (Publish E r u ev w)) = w_webhooks w" "fst (Publish E r u ev w) = Inr ()"
  by (auto simp: Publish_def Let_def)

section \<open>Properties\<close>

text \<open>In every interleaving of connections, broadcasts, pumps and the event loop, a client is only
  sent events broadcast for its own wallet, its buffer never exceeds 32 messages, and it is in no
  other wallet's room.\<close>

theorem hub_isolation:
  assumes "hub_reach h"
  shows "(\<forall>m \<in> set (h_wire h c). h_walletID h c = Some (fst m)) \<and>
         length (ch_buf (h_send h c)) \<le> 32 \<and>
         (c \<in> set (room h u) \<longrightarrow> h_walletID h c = Some u)"
  using hub_reach_inv [OF assms] by (simp add: hub_inv_defs sendBufferSize_def)

text \<open>A run with two clients of different wallets and one event for the first.\<close>

lemmas hub_run = NewHub_def connect_def handle_register_def room_def broadcast_start_def queueSize_def
  disconnect_def handle_unregister_def Let_def broadcast_next_def send_to_def write_pump_def sendBufferSize_def

lemma two_clients_reach:
  "\<exists>h. hub_reach h \<and> h_wire h 1 = [(UUID 7, 42 :: nat)] \<and> h_wire h 2 = [] \<and> h_walletID h 2 = Some (UUID 8)"
proof -
  define h1 :: "(uuid \<times> nat) hub" where "h1 = connect 1 (UUID 7) NewHub"
  define h2 where "h2 = handle_register h1"
  define h3 where "h3 = connect 2 (UUID 8) h2"
  define h4 where "h4 = broadcast_start (UUID 7) (UUID 7, 42) h3"
  define h5 where "h5 = broadcast_next 0 h4"
  note defs = h1_def h2_def h3_def h4_def h5_def
  have "hub_reach h1" unfolding h1_def
    by (rule hub_reach.step [OF hub_reach.init], rule do_connect) (simp_all add: hub_run)
  then have "hub_reach h2" unfolding h2_def
    by (rule hub_reach.step, intro do_register) (simp_all add: defs hub_run)
  then have "hub_reach h3" unfolding h3_def
    by (rule hub_reach.step, intro do_connect) (simp_all add: defs hub_run)
  then have "hub_reach h4" unfolding h4_def
    by (rule hub_reach.step, intro do_cast) (simp_all add: defs hub_run)
  then have "hub_reach h5" unfolding h5_def
    by (rule hub_reach.step, intro do_send) (simp_all add: defs hub_run)
  then have "hub_reach (write_pump 1 h5)"
    by (rule hub_reach.step, intro do_write) (simp_all add: defs hub_run)
  moreover have "h_wire (write_pump 1 h5) 1 = [(UUID 7, 42)]" "h_wire (write_pump 1 h5) 2 = []"
    "h_walletID (write_pump 1 h5) 2 = Some (UUID 8)"
    by (simp_all add: defs hub_run)
  ultimately show ?thesis by blast
qed

theorem hub_isolation_witness:
  "\<exists>h. hub_reach h \<and> h_wire h 1 = [(UUID 7, 42 :: nat)] \<and> h_walletID h 1 = Some (UUID 7) \<and> h_wire h 2 = []"
proof -
  obtain h where h: "hub_reach h" "h_wire h 1 = [(UUID 7, 42 :: nat)]" "h_wire h 2 = []"
    using two_clients_reach by blast
  with hub_isolation [OF h(1), of 1] show ?thesis by auto
qed

text \<open>C40: a broadcast that copied a client before the event loop unregistered it sends on the closed
  channel: the hub can reach a panic.\<close>

theorem hub_panic_reachable: "\<exists>h. hub_reach h \<and> h_panic (h :: (uuid \<times> nat) hub)"
proof -
  define h1 :: "(uuid \<times> nat) hub" where "h1 = handle_register (connect 1 (UUID 7) NewHub)"
  define h2 where "h2 = broadcast_start (UUID 7) (UUID 7, 42) h1"
  define h3 where "h3 = handle_unregister (disconnect 1 h2)"
  note defs = h1_def h2_def h3_def
  have "hub_reach (connect 1 (UUID 7) (NewHub :: (uuid \<times> nat) hub))"
    by (rule hub_reach.step [OF hub_reach.init], rule do_connect) (simp_all add: hub_run)
  then have "hub_reach h1" unfolding h1_def
    by (rule hub_reach.step, intro do_register) (simp_all add: hub_run)
  then have "hub_reach h2" unfolding h2_def
    by (rule hub_reach.step, intro do_cast) (simp_all add: defs hub_run)
  then have "hub_reach (disconnect 1 h2)"
    by (rule hub_reach.step, intro do_disconnect) (simp_all add: defs hub_run)
  then have "hub_reach h3" unfolding h3_def
    by (rule hub_reach.step, intro do_unregister) (simp_all add: defs hub_run)
  then have "hub_reach (broadcast_next 0 h3)"
    by (rule hub_reach.step, intro do_send) (simp_all add: defs hub_run)
  moreover have "h_panic (broadcast_next 0 h3)"
    by (simp add: defs hub_run)
  ultimately show ?thesis by blast
qed

end
