(* ===== verification/Payment_Claims.thy ===== *)
theory Payment_Claims
  imports Payment Hub Ledger_Claims
begin

text \<open>
  The payment service against the interface it calls. \<open>ledger_transferer\<close> is the contract of the Go
  interface \<open>ledgerTransferer\<close>; what \<open>Send\<close> promises is proved from it, and the ledger's \<open>Transfer\<close>
  fulfils it.
\<close>

section \<open>The money tables\<close>

text \<open>Only the ledger writes these tables.\<close>

definition money :: "database \<Rightarrow> wallet list \<times> transaction list \<times> ledger_entry list \<times> issuance list" where
  "money d = (wallets d, transactions d, ledger_entries d, cbdc_issuance d)"

lemma money_books: "money d' = money d \<Longrightarrow> books d' = books d"
  by (simp add: money_def books_def accounts_def journal_def money_supply_def minted_def entry_sum_def keys_def
      booked_def entries_of_def)

lemma money_supply_cong: "money d' = money d \<Longrightarrow> money_supply d' = money_supply d"
  by (simp add: money_def money_supply_def)

lemma money_abs: "money d' = money d \<Longrightarrow> abs_ledger d' = abs_ledger d"
  by (rule ext) (simp add: money_def abs_ledger_def live_wallet_def)

lemma Log_money [simp]: "money (w_db (snd (Log E p w))) = money (w_db w)"
  using Log_db [of w E p] by (auto simp: same_but_audit_def money_def)

text \<open>Effects that leave the money tables alone, whether they succeed or fail.\<close>

definition no_money :: "(world, 'a) io \<Rightarrow> bool" where
  "no_money m \<longleftrightarrow> (\<forall>w. money (w_db (snd (m w))) = money (w_db w))"

named_theorems no_money_intros \<open>effects that leave the money tables alone\<close>

lemma no_moneyI: "(\<And>w. money (w_db (snd (m w))) = money (w_db w)) \<Longrightarrow> no_money m"
  by (simp add: no_money_def)

lemma no_money_ret [no_money_intros]: "no_money (ret a)"
  by (simp add: no_money_def ret_def)

lemma no_money_throw [no_money_intros]: "no_money (throw e)"
  by (simp add: no_money_def throw_def)

lemma no_money_get [no_money_intros]: "no_money (get_io f)"
  by (simp add: no_money_def get_io_def)

lemma no_money_catch [no_money_intros]:
  "no_money m \<Longrightarrow> (\<And>e. no_money (h e)) \<Longrightarrow> (\<And>a. no_money (k a)) \<Longrightarrow> no_money (catch_io m h k)"
  by (auto simp: no_money_def catch_io_def split: prod.splits sum.splits) (metis snd_conv)+

lemma no_money_bind [no_money_intros]:
  "no_money m \<Longrightarrow> (\<And>a. no_money (k a)) \<Longrightarrow> no_money (bind_io m k)"
  unfolding bind_io_def by (intro no_money_catch no_money_throw)

lemma no_money_wrap [no_money_intros]: "no_money m \<Longrightarrow> no_money (wrap_io msg m)"
  unfolding wrap_io_def by (intro no_money_catch no_money_throw no_money_ret)

lemma no_money_ignore [no_money_intros]: "no_money m \<Longrightarrow> no_money k \<Longrightarrow> no_money (ignore_io m k)"
  by (simp add: no_money_def ignore_io_def)

lemma no_money_if [no_money_intros]: "(b \<Longrightarrow> no_money m) \<Longrightarrow> (\<not> b \<Longrightarrow> no_money k) \<Longrightarrow> no_money (if b then m else k)"
  by simp

lemma no_money_option [no_money_intros]:
  "no_money n \<Longrightarrow> (\<And>a. x = Some a \<Longrightarrow> no_money (f a)) \<Longrightarrow> no_money (case x of None \<Rightarrow> n | Some a \<Rightarrow> f a)"
  by (cases x) auto

lemma no_money_Log [no_money_intros]: "no_money (Log E p)"
  by (simp add: no_money_def)

lemma no_money_redis [no_money_intros]: "no_money (redis_call E cmd)"
  by (simp add: no_money_def)

lemma no_money_Publish [no_money_intros]: "no_money (Publish E r u ev)"
  by (simp add: no_money_def)

lemma no_money_reads [no_money_intros]: "reads q \<Longrightarrow> no_money (sql E tx q)"
  by (simp add: no_money_def sql_reads_db)

lemma no_money_Idem [no_money_intros]: "no_money (Idem_Check E u k)" "no_money (Idem_Store E u k n j)"
  unfolding Idem_Check_def Idem_Store_def GetString_def SetNX_def by (intro no_money_intros)+

lemma select_detail_reads: "reads (select_detail E i u)"
  by (auto simp: reads_def select_detail_def split: option.splits)

lemma no_money_GetByID [no_money_intros]: "no_money (Payment_GetByID E i u)"
  unfolding Payment_GetByID_def by (intro no_money_intros select_detail_reads)

lemma no_moneyD: "no_money m \<Longrightarrow> m w = (x, w') \<Longrightarrow> money (w_db w') = money (w_db w)"
  by (metis no_money_def snd_conv)

section \<open>The contract of the ledger\<close>

locale ledger_transferer =
  fixes transfer :: "TransferParams \<Rightarrow> (world, TransferResult \<times> gerror option) io"
  assumes keeps_books: "books (w_db w) \<Longrightarrow> books (w_db (snd (transfer p w)))"
    and conserves: "books (w_db w) \<Longrightarrow> money_supply (w_db (snd (transfer p w))) = money_supply (w_db w)"
    and replay_only: "transfer p w = (Inr (r, Some e), w') \<Longrightarrow>
      e = Ledger ErrIdempotentReplay \<and> money (w_db w') = money (w_db w) \<and> tr_SenderBalance r = 0"
    and settles: "transfer p w = (Inr (r, None), w') \<Longrightarrow> books (w_db w) \<Longrightarrow>
      transfer_spec (tp_SenderWalletID p) (tp_ReceiverWalletID p) (sint (tp_AmountCents p)) (abs_ledger (w_db w))
        = Inr (abs_ledger (w_db w')) \<and>
      abs_ledger (w_db w') (tp_SenderWalletID p) = Some (sint (tr_SenderBalance r), False)"
    and remembers: "transfer p w = (Inr (r, None), w') \<Longrightarrow> tp_IdempotencyKey p \<noteq> '''' \<Longrightarrow>
      \<exists>x \<in> set (transactions (w_db w')). keyed x = Some (tp_SenderWalletID p, tp_IdempotencyKey p)"
    and once: "x \<in> set (transactions (w_db w)) \<Longrightarrow> keyed x = Some (tp_SenderWalletID p, tp_IdempotencyKey p) \<Longrightarrow>
      tp_IdempotencyKey p \<noteq> '''' \<Longrightarrow> money (w_db (snd (transfer p w))) = money (w_db w)"
    and replays: "x \<in> set (transactions (w_db w)) \<Longrightarrow> keyed x = Some (tp_SenderWalletID p, tp_IdempotencyKey p) \<Longrightarrow>
      tp_IdempotencyKey p \<noteq> '''' \<Longrightarrow> transfer p w = (Inr (r, err), w') \<Longrightarrow> err \<noteq> None"
    and failed: "transfer p w = (Inl e, w') \<Longrightarrow> e \<noteq> Wrap ''commit transfer'' Driver \<Longrightarrow> money (w_db w') = money (w_db w)"

lemma Transfer_contract: "ledger_transferer (Transfer E)"
proof
  fix w p and r :: TransferResult and e err w' x and er :: "gerror option"
  show "books (w_db w) \<Longrightarrow> books (w_db (snd (Transfer E p w)))"
    "books (w_db w) \<Longrightarrow> money_supply (w_db (snd (Transfer E p w))) = money_supply (w_db w)"
    using Transfer_db [of E p w] moved_books(1,2) by fastforce+
  show "Transfer E p w = (Inr (r, Some e), w') \<Longrightarrow>
      e = Ledger ErrIdempotentReplay \<and> money (w_db w') = money (w_db w) \<and> tr_SenderBalance r = 0"
    using Transfer_Inr(3) [of E p w r "Some e" w'] by auto
  show "Transfer E p w = (Inr (r, None), w') \<Longrightarrow> books (w_db w) \<Longrightarrow>
      transfer_spec (tp_SenderWalletID p) (tp_ReceiverWalletID p) (sint (tp_AmountCents p)) (abs_ledger (w_db w))
        = Inr (abs_ledger (w_db w')) \<and>
      abs_ledger (w_db w') (tp_SenderWalletID p) = Some (sint (tr_SenderBalance r), False)"
    using Transfer_Inr [of E p w r None w'] moved_abs(1,2) [of p "transfer_type p" _ "w_db w" r "w_db w'"]
    by (auto simp: books_def)
  show "Transfer E p w = (Inr (r, None), w') \<Longrightarrow> tp_IdempotencyKey p \<noteq> '''' \<Longrightarrow>
      \<exists>x \<in> set (transactions (w_db w')). keyed x = Some (tp_SenderWalletID p, tp_IdempotencyKey p)"
    using Transfer_Inr(3) [of E p w r None w'] moved_keyed by blast
  show "x \<in> set (transactions (w_db w)) \<Longrightarrow> keyed x = Some (tp_SenderWalletID p, tp_IdempotencyKey p) \<Longrightarrow>
      tp_IdempotencyKey p \<noteq> '''' \<Longrightarrow> money (w_db (snd (Transfer E p w))) = money (w_db w)"
    using Transfer_key_used by metis
  show "x \<in> set (transactions (w_db w)) \<Longrightarrow> keyed x = Some (tp_SenderWalletID p, tp_IdempotencyKey p) \<Longrightarrow>
      tp_IdempotencyKey p \<noteq> '''' \<Longrightarrow> Transfer E p w = (Inr (r, er), w') \<Longrightarrow> er \<noteq> None"
    using Transfer_Inr(3) [of E p w r er w'] key_clashes [of x w p "transfer_type p"] by (auto simp: moved_def)
  show "Transfer E p w = (Inl err, w') \<Longrightarrow> err \<noteq> Wrap ''commit transfer'' Driver \<Longrightarrow> money (w_db w') = money (w_db w)"
    using Transfer_error_db [of E p w err] by auto
qed

interpretation lt: ledger_transferer "Transfer E" for E
  by (rule Transfer_contract)

section \<open>The payment service on any ledger that fulfils the contract\<close>

lemma cached_response_Inr: "\<exists>hit. fst (cached_response E s u k w) = Inr hit"
  by (auto simp: cached_response_def io_run split: sum.splits prod.splits)

lemma no_money_cached [no_money_intros]: "no_money (cached_response E s u k)"
  unfolding cached_response_def by (intro no_money_intros)

lemma send_tail_Inr:
  "\<exists>resp. fst (send_tail E s req a b u k ip r rep w) = Inr resp \<and> sp_NewBalanceCents resp = tr_SenderBalance r"
  by (auto simp: send_tail_def Let_def io_run split: sum.splits prod.splits)

definition send_params :: "env \<Rightarrow> payment_service \<Rightarrow> SendRequest \<Rightarrow> uuid \<Rightarrow> uuid \<Rightarrow> string \<Rightarrow> gotime \<Rightarrow> TransferParams" where
  "send_params E s req senderWalletID toWalletID idempotencyKey t =
    \<lparr>tp_SenderWalletID = senderWalletID, tp_ReceiverWalletID = toWalletID, tp_AmountCents = sr_AmountCents req,
     tp_Reference = sr_Reference req, tp_IdempotencyKey = idempotencyKey,
     tp_Signature = SignTransaction (pay_signingKey s) ''payment'' (uuid_String E senderWalletID)
       (uuid_String E toWalletID) (sr_AmountCents req) (word_of_int (Unix t)), tp_TxnType = None\<rparr>"

lemma send_params_simps [simp]:
  "tp_SenderWalletID (send_params E s req a b k t) = a" "tp_ReceiverWalletID (send_params E s req a b k t) = b"
  "tp_AmountCents (send_params E s req a b k t) = sr_AmountCents req" "tp_IdempotencyKey (send_params E s req a b k t) = k"
  by (simp_all add: send_params_def)

lemma Validate_amount: "SendRequest_Validate r0 = Inr r \<Longrightarrow> sr_AmountCents r = sr_AmountCents r0 \<and> sr_ToWalletID r = sr_ToWalletID r0"
  by (auto simp: SendRequest_Validate_def Let_def split: if_splits)

lemma Send_runs:
  assumes "SendRequest_Validate req0 = Inr req" "uuid_Parse E (sr_ToWalletID req) = Some b" "a \<noteq> b" "k \<noteq> ''''"
    and "cached_response E s a k w = (Inr None, w1)"
  shows "Send E s req0 a u k ip w =
    (case pay_Transfer s (send_params E s req a b k (now E w1)) w1 of
       (Inl e, w2) \<Rightarrow> (Inl e, w2)
     | (Inr (r, None), w2) \<Rightarrow> send_tail E s req a b u k ip r False w2
     | (Inr (r, Some e), w2) \<Rightarrow> if errors_Is e (Ledger ErrIdempotentReplay)
         then send_tail E s req a b u k ip r True w2 else (Inl e, w2))"
  using assms by (auto simp: Send_def io_run send_params_def Let_def throw_def split: sum.splits prod.splits option.splits)

text \<open>
  The three ways \<open>Send\<close> goes: it stops before the ledger, the ledger refuses, or the ledger answers and
  the tail runs. \<open>w1\<close> is the world before the call of the ledger, \<open>w2\<close> after it.
\<close>

lemma Send_cases:
  assumes "Send E s req0 a u k ip w = (res, w')"
  obtains (early) "money (w_db w') = money (w_db w)" "\<And>e. res = Inl e \<Longrightarrow> w' = w"
      "\<And>resp. res = Inr resp \<Longrightarrow> cached_response E s a k w = (Inr (Some resp), w')"
  | (refused) b req w1 w2 err t where "SendRequest_Validate req0 = Inr req" "uuid_Parse E (sr_ToWalletID req0) = Some b"
      "k \<noteq> ''''" "a \<noteq> b" "money (w_db w1) = money (w_db w)"
      "pay_Transfer s (send_params E s req a b k t) w1 = (Inl err, w2)" "res = Inl err" "w' = w2"
  | (answered) b req w1 w2 r err t where "SendRequest_Validate req0 = Inr req" "uuid_Parse E (sr_ToWalletID req0) = Some b"
      "k \<noteq> ''''" "a \<noteq> b" "money (w_db w1) = money (w_db w)"
      "pay_Transfer s (send_params E s req a b k t) w1 = (Inr (r, err), w2)"
      "case err of None \<Rightarrow> (res, w') = send_tail E s req a b u k ip r False w2
       | Some e \<Rightarrow> if errors_Is e (Ledger ErrIdempotentReplay) then (res, w') = send_tail E s req a b u k ip r True w2
                   else res = Inl e \<and> w' = w2"
proof -
  show thesis
  proof (cases "SendRequest_Validate req0")
    case (Inl e)
    with assms early show thesis by (auto simp: Send_def throw_def)
  next
    case (Inr req)
    note va = Validate_amount [OF Inr]
    show thesis
    proof (cases "k = '''' \<or> uuid_Parse E (sr_ToWalletID req) = None \<or> uuid_Parse E (sr_ToWalletID req) = Some a")
      case True
      with Inr assms early show thesis by (auto simp: Send_def throw_def split: if_splits)
    next
      case False
      then obtain b where b: "uuid_Parse E (sr_ToWalletID req) = Some b" "a \<noteq> b" "k \<noteq> ''''" by auto
      obtain hit w1 where hit: "cached_response E s a k w = (Inr hit, w1)"
        using cached_response_Inr [of E s a k w] by (metis prod.collapse)
      then have m: "money (w_db w1) = money (w_db w)" by (rule no_moneyD [OF no_money_cached])
      show thesis
      proof (cases hit)
        case (Some resp)
        with Inr b hit m assms early show thesis by (auto simp: Send_def io_run)
      next
        case None
        note run = Send_runs [OF Inr b hit [unfolded None], of u ip, unfolded assms, symmetric]
        have to: "uuid_Parse E (sr_ToWalletID req0) = Some b" using va b by simp
        obtain x w2 where x: "pay_Transfer s (send_params E s req a b k (now E w1)) w1 = (x, w2)" by fastforce
        show thesis
        proof (cases x)
          case (Inl e)
          with run x show thesis by (intro refused [OF Inr to b(3,2) m]) auto
        next
          case (Inr y)
          with run x show thesis
            by (intro answered [OF \<open>SendRequest_Validate req0 = Inr req\<close> to b(3,2) m, of "now E w1" "fst y" "snd y" w2])
              (auto split: prod.splits option.splits if_splits)
        qed
      qed
    qed
  qed
qed

locale payment_client = ledger_transferer "pay_Transfer s" for s :: payment_service +
  fixes E :: env
  assumes get_quiet: "no_money (pay_GetByID s i u)"
    and publish_quiet: "pay_publisher s = Some f \<Longrightarrow> no_money (f u ev)"
begin

lemma tail_quiet: "no_money (send_tail E s req a b u k ip r rep)"
  unfolding send_tail_def Let_def
  by (intro no_money_intros get_quiet publish_quiet) auto

lemma tail_money: "(res, w') = send_tail E s req a b u k ip r rep w2 \<Longrightarrow> money (w_db w') = money (w_db w2)"
  using tail_quiet [of req a b u k ip r rep] by (metis no_money_def snd_conv)

text \<open>The money after \<open>Send\<close> is the money before it, or the money the ledger left.\<close>

lemma Send_money:
  assumes "Send E s req a u k ip w = (res, w')"
  shows "money (w_db w') = money (w_db w) \<or>
    (\<exists>p w1. tp_SenderWalletID p = a \<and> tp_IdempotencyKey p = k \<and> k \<noteq> '''' \<and> money (w_db w1) = money (w_db w) \<and>
       money (w_db w') = money (w_db (snd (pay_Transfer s p w1))))"
  using assms
proof (cases rule: Send_cases)
  case early
  then show ?thesis by simp
next
  case (refused b req' w1 w2 err t)
  then show ?thesis
    by (intro disjI2 exI [of _ "send_params E s req' a b k t"] exI [of _ w1]) auto
next
  case (answered b req' w1 w2 r err t)
  have "money (w_db w') = money (w_db w2)"
    using answered(7) tail_money by (auto split: option.splits if_splits)
  with answered show ?thesis
    by (intro disjI2 exI [of _ "send_params E s req' a b k t"] exI [of _ w1]) auto
qed

lemma Send_books:
  assumes "books (w_db w)"
  shows "books (w_db (snd (Send E s req a u k ip w)))"
    and "money_supply (w_db (snd (Send E s req a u k ip w))) = money_supply (w_db w)"
proof -
  obtain res w' where run: "Send E s req a u k ip w = (res, w')" by fastforce
  from Send_money [OF run] have "books (w_db w') \<and> money_supply (w_db w') = money_supply (w_db w)"
  proof (elim disjE exE conjE)
    assume "money (w_db w') = money (w_db w)"
    then show ?thesis using assms money_books money_supply_cong by metis
  next
    fix p w1 assume m: "money (w_db w1) = money (w_db w)" "money (w_db w') = money (w_db (snd (pay_Transfer s p w1)))"
    then have "books (w_db w1)" using assms money_books by metis
    with keeps_books [of w1 p] conserves [of w1 p] m show ?thesis
      using money_books money_supply_cong by metis
  qed
  with run show "books (w_db (snd (Send E s req a u k ip w)))"
    "money_supply (w_db (snd (Send E s req a u k ip w))) = money_supply (w_db w)" by simp_all
qed

lemma Send_used_key:
  assumes "x \<in> set (transactions (w_db w))" and "keyed x = Some (a, k)"
  shows "money (w_db (snd (Send E s req a u k ip w))) = money (w_db w)"
proof -
  obtain res w' where run: "Send E s req a u k ip w = (res, w')" by fastforce
  from Send_money [OF run] show ?thesis
  proof (elim disjE exE conjE)
    fix p w1 assume p: "tp_SenderWalletID p = a" "tp_IdempotencyKey p = k" "k \<noteq> ''''"
      and m: "money (w_db w1) = money (w_db w)" "money (w_db w') = money (w_db (snd (pay_Transfer s p w1)))"
    from m(1) assms(1) have "x \<in> set (transactions (w_db w1))" by (simp add: money_def)
    with once [of x w1 p] assms(2) p m run show ?thesis by simp
  qed (simp add: run)
qed

lemma Send_answer:
  assumes run: "Send E s req a u k ip w = (Inr resp, w')" and "books (w_db w)"
    and changed: "money (w_db w') \<noteq> money (w_db w)"
  shows "\<exists>b. uuid_Parse E (sr_ToWalletID req) = Some b \<and>
    transfer_spec a b (sint (sr_AmountCents req)) (abs_ledger (w_db w)) = Inr (abs_ledger (w_db w')) \<and>
    abs_ledger (w_db w') a = Some (sint (sp_NewBalanceCents resp), False) \<and>
    (\<exists>x \<in> set (transactions (w_db w')). keyed x = Some (a, k))"
  using run
proof (cases rule: Send_cases)
  case (answered b req' w1 w2 r err t)
  let ?p = "send_params E s req' a b k t"
  have m1: "books (w_db w1)" "abs_ledger (w_db w1) = abs_ledger (w_db w)"
    using assms(2) answered(5) money_books money_abs by metis+
  have none: "err = None"
  proof (rule ccontr)
    assume "err \<noteq> None"
    then obtain e where "err = Some e" by auto
    then have "money (w_db w2) = money (w_db w1)" "money (w_db w') = money (w_db w2)"
      using replay_only [of ?p w1 r e w2] answered(6,7) tail_money by (auto split: if_splits)
    with changed answered(5) show False by simp
  qed
  then have tail: "(Inr resp, w') = send_tail E s req' a b u k ip r False w2" using answered(7) by simp
  then have m2: "money (w_db w') = money (w_db w2)" by (rule tail_money)
  have bal: "sp_NewBalanceCents resp = tr_SenderBalance r"
    using send_tail_Inr [of E s req' a b u k ip r False w2] by (simp add: tail [symmetric])
  have "transfer_spec a b (sint (sr_AmountCents req)) (abs_ledger (w_db w)) = Inr (abs_ledger (w_db w'))"
    "abs_ledger (w_db w') a = Some (sint (sp_NewBalanceCents resp), False)"
    using settles [of ?p w1 r w2] answered(6) none m1 bal money_abs [OF m2] Validate_amount [OF answered(1)] by auto
  moreover have "\<exists>x \<in> set (transactions (w_db w')). keyed x = Some (a, k)"
    using remembers [of ?p w1 r w2] answered(3,6) none m2 by (auto simp: money_def)
  ultimately show ?thesis using answered(2) by blast
qed (use changed in auto)

lemma Send_replay_balance:
  assumes run: "Send E s req a u k ip w = (Inr resp, w')" and "x \<in> set (transactions (w_db w))" "keyed x = Some (a, k)"
    and miss: "cached_response E s a k w = (Inr None, w0)"
  shows "sp_NewBalanceCents resp = 0"
  using run
proof (cases rule: Send_cases)
  case early
  with miss show ?thesis by auto
next
  case (answered b req' w1 w2 r err t)
  let ?p = "send_params E s req' a b k t"
  have x1: "x \<in> set (transactions (w_db w1))" using answered(5) assms(2) by (simp add: money_def)
  with replays [of x w1 ?p r err w2] answered assms(3) obtain e where e: "err = Some e" by auto
  with replay_only [of ?p w1 r e w2] answered(6) have "e = Ledger ErrIdempotentReplay" "tr_SenderBalance r = 0" by auto
  with answered(7) e send_tail_Inr [of E s req' a b u k ip r True w2] show ?thesis
    by (auto dest: sym)
qed auto

lemma Send_error:
  assumes "Send E s req a u k ip w = (Inl e, w')" and "e \<noteq> Wrap ''commit transfer'' Driver"
  shows "money (w_db w') = money (w_db w)"
  using assms(1)
proof (cases rule: Send_cases)
  case (refused b req' w1 w2 err t)
  with failed [of "send_params E s req' a b k t" w1 err w2] assms(2) show ?thesis by simp
next
  case (answered b req' w1 w2 r err t)
  have False if "(Inl e, w') = send_tail E s req' a b u k ip r rep w2" for rep
    using send_tail_Inr [of E s req' a b u k ip r rep w2] that by (metis Inl_Inr_False fst_conv)
  with answered(7) obtain err' where "err = Some err'" "w' = w2" by (auto split: option.splits if_splits)
  with replay_only [of "send_params E s req' a b k t" w1 r err' w2] answered show ?thesis by simp
qed simp

end

section \<open>The payment service of the server\<close>

text \<open>The wiring of \<open>cmd/server/main.go\<close>.\<close>

definition server_payment :: "env \<Rightarrow> string \<Rightarrow> payment_service" where
  "server_payment E signingKey =
    \<lparr>pay_GetByID = Payment_GetByID E, pay_List = Payment_List E, pay_Transfer = Transfer E, pay_idempotent = True,
     pay_audit = True, pay_publisher = Some (Publish E True), pay_signingKey = signingKey\<rparr>"

lemma server_payment_simps [simp]:
  "pay_GetByID (server_payment E key) = Payment_GetByID E" "pay_Transfer (server_payment E key) = Transfer E"
  "pay_publisher (server_payment E key) = Some (Publish E True)" "pay_idempotent (server_payment E key) = True"
  "pay_audit (server_payment E key) = True" "pay_signingKey (server_payment E key) = key"
  by (simp_all add: server_payment_def)

interpretation pc: payment_client "server_payment E key" E for E key
  by (unfold_locales; simp add: lt.keeps_books lt.conserves lt.replay_only lt.settles lt.remembers lt.once lt.replays lt.failed
      no_money_GetByID) (auto intro: no_money_intros)

text \<open>\<open>Send\<close> keeps the books balanced and creates no money, whatever request, whatever cached entry and
  whatever failure of the database or Redis.\<close>

theorem Send_keeps_books:
  assumes "books (w_db w)"
  shows "books (w_db (snd (Send E (server_payment E key) req walletID userID k ip w))) \<and>
         money_supply (w_db (snd (Send E (server_payment E key) req walletID userID k ip w))) = money_supply (w_db w)"
  using pc.Send_books [OF assms] by blast

definition sample_request :: SendRequest where
  "sample_request = \<lparr>sr_ToWalletID = ''13'', sr_AmountCents = 1200, sr_Reference = ''rent''\<rparr>"

text \<open>A payment that goes through: the world after it and its response.\<close>

lemma sample_uuid [simp]: "uuid_Parse sample_env ''13'' = Some bob_wallet"
  by (simp add: sample_env_def digit_val_def)

lemma sample_valid: "SendRequest_Validate sample_request = Inr sample_request"
proof -
  have "TrimSpace ''rent'' = ''rent''" by code_simp
  then show ?thesis by (simp add: SendRequest_Validate_def sample_request_def Let_def)
qed

lemma cached_sample:
  "cached_response sample_env (server_payment sample_env key) alice_wallet k funded_world = (Inr None, funded_world\<lparr>w_calls := 9\<rparr>)"
  by (simp add: cached_response_def io_run Idem_Check_def GetString_def redis_call_def Let_def rlookup_def
      funded_world_def sample_defs)

lemma Transfer_signed:
  assumes "sr_AmountCents req = 1200" "sr_Reference req = ''rent''" and "length k \<le> 128"
  shows "\<exists>r w2. Transfer sample_env (send_params sample_env s req alice_wallet bob_wallet k t) (funded_world\<lparr>w_calls := 9\<rparr>)
    = (Inr (r, None), w2)"
proof -
  let ?p = "send_params sample_env s req alice_wallet bob_wallet k t" and ?w = "funded_world\<lparr>w_calls := 9\<rparr>"
  have "calm 9 sample_env ?w"
    by (simp add: calm_def sample_env_def funded_world_def funded_db_def sample_db_def empty_db_def used_ids_def
        Let_def upt_conv_Cons)
  moreover have "length (tp_Signature ?p) = 64" by (simp add: send_params_def SignTransaction_def)
  then have "row_fits ?p"
    using assms char_count_le [of k] char_count_le [of "tp_Signature ?p"] char_count_le [of "''rent''"]
    by (simp add: row_fits_def) (simp add: send_params_def)
  moreover have "\<not> clashes (transfer_row ?p (transfer_type ?p)) (w_db ?w)"
    by (simp add: clashes_def transfer_row_def funded_world_def funded_db_def)
  ultimately have "\<exists>r. fst (Transfer sample_env ?p ?w) = Inr (r, None)"
    using Transfer_spec_up [of sample_env ?w ?p] books_funded spec_funded supply_funded assms(1) by auto
  then show ?thesis by (metis prod.collapse)
qed

lemma Send_sample:
  assumes "length k \<le> 128" and "k \<noteq> ''''"
  shows "\<exists>resp w'. Send sample_env (server_payment sample_env key) sample_request alice_wallet alice_id k ip funded_world
      = (Inr resp, w') \<and> money (w_db w') \<noteq> money (w_db funded_world)"
proof -
  let ?s = "server_payment sample_env key" and ?w1 = "funded_world\<lparr>w_calls := 9\<rparr>"
  let ?p = "send_params sample_env ?s sample_request alice_wallet bob_wallet k (now sample_env ?w1)"
  obtain r w2 where T: "Transfer sample_env ?p ?w1 = (Inr (r, None), w2)"
    using Transfer_signed [of sample_request k ?s "now sample_env ?w1"] assms(1) by (auto simp: sample_request_def)
  then have "Send sample_env ?s sample_request alice_wallet alice_id k ip funded_world =
      send_tail sample_env ?s sample_request alice_wallet bob_wallet alice_id k ip r False w2"
    using sample_valid cached_sample [of key k] assms(2)
    by (simp add: Send_def io_run send_params_def Let_def sample_request_def)
  moreover obtain resp w' where tail:
      "send_tail sample_env ?s sample_request alice_wallet bob_wallet alice_id k ip r False w2 = (Inr resp, w')"
    using send_tail_Inr [of sample_env ?s sample_request alice_wallet bob_wallet alice_id k ip r False w2]
    by (metis prod.collapse)
  moreover have "abs_ledger (w_db w') \<noteq> abs_ledger (w_db funded_world)"
  proof -
    have "abs_ledger (w_db w') = abs_ledger (w_db w2)"
      using pc.tail_money [OF tail [symmetric]] by (rule money_abs)
    moreover have "transfer_spec alice_wallet bob_wallet 1200 (abs_ledger (w_db funded_world)) = Inr (abs_ledger (w_db w2))"
      using lt.settles [OF T] books_funded by (simp add: sample_request_def)
    moreover have "abs_ledger (w_db funded_world) alice_wallet = Some (5000, False)"
      by (simp add: abs_ledger_def live_wallet_def funded_world_def funded_db_def sample_wallet_def)
    ultimately show ?thesis using spec_funded by auto
  qed
  then have "money (w_db w') \<noteq> money (w_db funded_world)" using money_abs by metis
  ultimately show ?thesis by auto
qed

theorem Send_keeps_books_witness:
  "books (w_db (snd (Send sample_env (server_payment sample_env ''key'') sample_request alice_wallet alice_id ''k1''
     ''10.0.0.7'' funded_world)))"
  using Send_keeps_books [OF books_funded] by simp

text \<open>C4: a payment that moved money moved exactly the requested amount from the authenticated wallet to
  the requested one, reported the sender's true new balance, and left its key in the ledger.\<close>

theorem Send_moves_the_amount:
  assumes "Send E (server_payment E key) req walletID userID k ip w = (Inr resp, w')" and "books (w_db w)"
    and "money (w_db w') \<noteq> money (w_db w)"
  shows "\<exists>b. uuid_Parse E (sr_ToWalletID req) = Some b \<and>
    transfer_spec walletID b (sint (sr_AmountCents req)) (abs_ledger (w_db w)) = Inr (abs_ledger (w_db w')) \<and>
    abs_ledger (w_db w') walletID = Some (sint (sp_NewBalanceCents resp), False) \<and>
    (\<exists>x \<in> set (transactions (w_db w')). keyed x = Some (walletID, k))"
  using pc.Send_answer [OF assms] .

theorem Send_moves_the_amount_witness:
  "\<exists>w' :: world. transfer_spec alice_wallet bob_wallet 1200 (abs_ledger (w_db funded_world)) = Inr (abs_ledger (w_db w')) \<and>
     (\<exists>x \<in> set (transactions (w_db w')). keyed x = Some (alice_wallet, ''k1''))"
proof -
  obtain resp w' where run: "Send sample_env (server_payment sample_env ''key'') sample_request alice_wallet alice_id
      ''k1'' ''10.0.0.7'' funded_world = (Inr resp, w')" "money (w_db w') \<noteq> money (w_db funded_world)"
    using Send_sample [of "''k1''" "''key''" "''10.0.0.7''"] by auto
  have "uuid_Parse sample_env (sr_ToWalletID sample_request) = Some bob_wallet" "sint (sr_AmountCents sample_request) = 1200"
    by (simp_all add: sample_request_def)
  with Send_moves_the_amount [OF run(1) books_funded run(2)] show ?thesis by auto
qed

text \<open>C5: once the key of a payment is in the ledger, sending it again never moves money: not after the
  cache lost it, not with other contents, not when calls fail.\<close>

theorem Send_never_pays_twice:
  assumes "x \<in> set (transactions (w_db w))" and "keyed x = Some (walletID, k)"
  shows "money (w_db (snd (Send E (server_payment E key) req walletID userID k ip w))) = money (w_db w)"
  using pc.Send_used_key [OF assms] .

theorem Send_never_pays_twice_witness:
  "\<exists>w :: world. (\<exists>x \<in> set (transactions (w_db w)). keyed x = Some (alice_wallet, ''key-1'')) \<and>
     money (w_db (snd (Send sample_env (server_payment sample_env ''key'') sample_request alice_wallet alice_id
       ''key-1'' ''10.0.0.7'' w))) = money (w_db w)"
  using paid_row Send_never_pays_twice by blast

text \<open>An error of \<open>Send\<close> means no money moved, unless the reply to the commit was lost.\<close>

theorem Send_error_moves_nothing:
  assumes "Send E (server_payment E key) req walletID userID k ip w = (Inl e, w')"
    and "e \<noteq> Wrap ''commit transfer'' Driver"
  shows "money (w_db w') = money (w_db w)"
  using pc.Send_error [OF assms] .

theorem Send_error_moves_nothing_witness:
  "money (w_db (snd (Send sample_env (server_payment sample_env ''key'') sample_request alice_wallet alice_id ''''
     ''10.0.0.7'' funded_world))) = money (w_db funded_world)"
proof -
  have run: "Send sample_env (server_payment sample_env ''key'') sample_request alice_wallet alice_id '''' ''10.0.0.7'' funded_world
      = (Inl (Payment payment_error.ErrMissingIdempotencyKey), funded_world)"
    by (simp add: Send_def sample_valid throw_def)
  from Send_error_moves_nothing [OF run] show ?thesis by (simp add: run)
qed

section \<open>The cache\<close>

text \<open>A response that was stored is found again by the same wallet and key until 24 hours have
  passed, unchanged; from then on, and for a key not stored, the payment counts as new.\<close>

theorem Idem_round_trip:
  assumes "fate E (w_calls w) = Up" and "rlookup (clock E (w_calls w)) (w_redis w) (buildKey u k) = None"
    and "Idem_Store E u k n j w = (res, w1)"
    and "w_redis w2 = w_redis w1" and "fate E (w_calls w2) = Up"
  shows "fst (Idem_Check E u k w2) =
    Inr (if clock E (w_calls w2) < clock E (w_calls w) + 86400 * 1000000000
         then Some \<lparr>cr_StatusCode = n, cr_Body = Some j\<rparr> else None)"
proof -
  have ttl: "sint KeyTTL = 86400 * 1000000000" by (simp add: KeyTTL_def second_def)
  then have "KeyTTL \<noteq> 0" by (metis mult_eq_0_iff sint_0 zero_neq_numeral)
  with assms(1-3) have "w_redis w1 = (w_redis w)(buildKey u k \<mapsto>
      (RJson (enc_cached \<lparr>cr_StatusCode = n, cr_Body = Some j\<rparr>), Some (clock E (w_calls w) + 86400 * 1000000000)))"
    using ttl by (auto simp: Idem_Store_def SetNX_def io_run redis_call_def Let_def time_Add_def)
  with assms(4,5) show ?thesis
    by (simp add: Idem_Check_def io_run GetString_def redis_call_def Let_def rlookup_def dec_enc_cached)
qed

theorem Idem_round_trip_witness:
  "fst (Idem_Check sample_env ''12'' ''k1'' (snd (Idem_Store sample_env ''12'' ''k1'' 201 (JInt 5) sample_world))) =
   Inr (Some \<lparr>cr_StatusCode = 201, cr_Body = Some (JInt 5)\<rparr>)"
proof -
  have "rlookup (clock sample_env (w_calls sample_world)) (w_redis sample_world) (buildKey ''12'' ''k1'') = None"
    by (simp add: rlookup_def sample_world_def)
  moreover obtain res w1 where "Idem_Store sample_env ''12'' ''k1'' 201 (JInt 5) sample_world = (res, w1)" by fastforce
  moreover from this have "w_calls w1 = 1"
    by (auto simp: Idem_Store_def SetNX_def io_run redis_call_def Let_def sample_env_def sample_world_def split: if_splits)
  ultimately show ?thesis
    using Idem_round_trip [of sample_env sample_world "''12''" "''k1''" 201 "JInt 5" res w1 w1]
    by (simp add: sample_env_def sample_world_def)
qed

text \<open>C10: while the cache answers, \<open>Send\<close> returns the stored response of the first call, field by field,
  and touches no table and no event.\<close>

theorem Send_replays_cached_response:
  assumes "SendRequest_Validate req = Inr req1" and "uuid_Parse E (sr_ToWalletID req) = Some b" "walletID \<noteq> b" "k \<noteq> ''''"
    and "fate E (w_calls w) = Up"
    and "rlookup (clock E (w_calls w)) (w_redis w) (buildKey (uuid_String E walletID) k)
           = Some (RJson (enc_cached \<lparr>cr_StatusCode = 201, cr_Body = Some (enc_send resp)\<rparr>))"
  shows "Send E (server_payment E key) req walletID userID k ip w = (Inr resp, w\<lparr>w_calls := Suc (w_calls w)\<rparr>)"
proof -
  have "cached_response E (server_payment E key) walletID k w = (Inr (Some resp), w\<lparr>w_calls := Suc (w_calls w)\<rparr>)"
    using assms(5,6)
    by (simp add: cached_response_def io_run Idem_Check_def GetString_def redis_call_def Let_def dec_enc_cached
        UnmarshalBody_def dec_enc_send)
  with assms(1-4) Validate_amount [OF assms(1)] show ?thesis by (simp add: Send_def io_run)
qed

definition sample_response :: SendResponse where
  "sample_response = \<lparr>sp_Transaction = detailFromLedger sample_env (the (find (\<lambda>_. True) (transactions funded_db))) alice_wallet,
     sp_NewBalanceCents = 3800, sp_NewBalanceDisplay = ''DD$ 38.00''\<rparr>"

definition cached_world :: world where
  "cached_world = funded_world\<lparr>w_redis := [buildKey (uuid_String sample_env alice_wallet) ''k1'' \<mapsto>
     (RJson (enc_cached \<lparr>cr_StatusCode = 201, cr_Body = Some (enc_send sample_response)\<rparr>), None)]\<rparr>"

theorem Send_replays_cached_response_witness:
  "fst (Send sample_env (server_payment sample_env ''key'') sample_request alice_wallet alice_id ''k1'' ''ip'' cached_world)
   = Inr sample_response"
proof -
  have "uuid_Parse sample_env (sr_ToWalletID sample_request) = Some bob_wallet" by (simp add: sample_request_def)
  moreover have "fate sample_env (w_calls cached_world) = Up" by (simp add: sample_env_def)
  moreover have "rlookup (clock sample_env (w_calls cached_world)) (w_redis cached_world)
      (buildKey (uuid_String sample_env alice_wallet) ''k1'')
      = Some (RJson (enc_cached \<lparr>cr_StatusCode = 201, cr_Body = Some (enc_send sample_response)\<rparr>))"
    by (simp add: rlookup_def cached_world_def)
  ultimately show ?thesis
    using Send_replays_cached_response [OF sample_valid, where E = sample_env and walletID = alice_wallet and k = "''k1''"
        and w = cached_world and resp = sample_response] by simp
qed

text \<open>When the cache no longer holds the response, a retry of a payment that went through reports a
  new balance of zero, whatever the wallet holds.\<close>

theorem Send_replay_reports_zero:
  assumes "Send E (server_payment E key) req walletID userID k ip w = (Inr resp, w')"
    and "x \<in> set (transactions (w_db w))" and "keyed x = Some (walletID, k)"
    and "cached_response E (server_payment E key) walletID k w = (Inr None, w0)"
  shows "sp_NewBalanceCents resp = 0"
  using pc.Send_replay_balance [OF assms] .

lemma sample_params: "sr_AmountCents sample_request = 1200" "sr_ToWalletID sample_request = ''13''"
  by (simp_all add: sample_request_def)

theorem Send_replay_reports_zero_witness:
  "\<exists>w resp w'. Send sample_env (server_payment sample_env ''key'') sample_request alice_wallet alice_id ''key-1'' ''ip'' w
      = (Inr resp, w') \<and> sp_NewBalanceCents resp = 0"
proof -
  let ?s = "server_payment sample_env ''key''" and ?w = "snd (Transfer sample_env sample_transfer funded_world)"
  obtain x where x: "x \<in> set (transactions (w_db ?w))" "keyed x = Some (alice_wallet, ''key-1'')"
    using paid_row by blast
  have "w_redis ?w = Map.empty"
    by (simp add: funded_world_def funded_db_def sample_transfer_def ledger_run sample_defs)
  then have miss: "cached_response sample_env ?s alice_wallet ''key-1'' ?w = (Inr None, ?w\<lparr>w_calls := Suc (w_calls ?w)\<rparr>)"
    (is "_ = (_, ?w1)")
    by (simp add: cached_response_def io_run Idem_Check_def GetString_up rlookup_def)
  let ?p = "send_params sample_env ?s sample_request alice_wallet bob_wallet ''key-1'' (now sample_env ?w1)"
  have "fst (Transfer sample_env ?p ?w1) = Inr (\<lparr>tr_Transaction = x, tr_SenderBalance = 0, tr_ReceiverBalance = 0\<rparr>,
      Some (Ledger ErrIdempotentReplay))" (is "_ = Inr (?r, _)")
    using x lt.keeps_books [OF books_funded, of sample_env sample_transfer]
    by (intro Transfer_key_answer) (simp_all add: sample_params)
  then obtain w2 where "Transfer sample_env ?p ?w1 = (Inr (?r, Some (Ledger ErrIdempotentReplay)), w2)"
    by (metis prod.collapse)
  then have "Send sample_env ?s sample_request alice_wallet alice_id ''key-1'' ''ip'' ?w =
      send_tail sample_env ?s sample_request alice_wallet bob_wallet alice_id ''key-1'' ''ip'' ?r True w2"
    using sample_valid miss
    by (simp add: Send_def io_run send_params_def Let_def sample_params)
  then obtain resp w' where run: "Send sample_env ?s sample_request alice_wallet alice_id ''key-1'' ''ip'' ?w = (Inr resp, w')"
    using send_tail_Inr [of sample_env ?s sample_request alice_wallet bob_wallet alice_id "''key-1''" "''ip''" ?r True w2]
    by (metis prod.collapse)
  from Send_replay_reports_zero [OF run x miss] run show ?thesis by blast
qed

end
