(* ===== verification/Admin.thy ===== *)
theory Admin
  imports Payment Hub
begin

text \<open>
  \<open>internal/admin\<close>: issuance of currency by an administrator: validation, \<open>Service.IssueCBDC\<close> with its
  cache, audit entry and notification, and the HTTP handler.
\<close>

section \<open>Models\<close>

definition maxIssuanceCents :: int where
  "maxIssuanceCents = 100000000"

record IssueRequest =
  iq_WalletID :: string
  iq_AmountCents :: int64
  iq_Reason :: string

definition IssueRequest_Validate :: "IssueRequest \<Rightarrow> gerror + IssueRequest" where
  "IssueRequest_Validate r0 =
    (if sint (iq_AmountCents r0) \<le> 0 then Inl (Admin admin_error.ErrAmountZero)
     else if maxIssuanceCents < sint (iq_AmountCents r0) then Inl (Admin ErrAmountTooLarge)
     else let r = r0\<lparr>iq_Reason := TrimSpace (iq_Reason r0)\<rparr>
          in if length (iq_Reason r) < 10 then Inl (Admin ErrReasonTooShort) else Inr r)"

record IssuanceDetail =
  id_ID :: string
  id_WalletID :: string
  id_AmountCents :: int64
  id_AmountDisplay :: string
  id_Reason :: string
  id_TransactionID :: string
  id_CreatedAt :: gotime

record IssuanceResponse =
  iz_Issuance :: IssuanceDetail
  iz_NewBalanceCents :: int64
  iz_NewBalanceDisplay :: string

definition enc_issuance :: "IssuanceResponse \<Rightarrow> json" where
  "enc_issuance r =
    (let d = iz_Issuance r in
     JObj [(''issuance'', JObj [(''id'', JStr (id_ID d)), (''wallet_id'', JStr (id_WalletID d)),
              (''amount_cents'', JInt (id_AmountCents d)), (''amount_display'', JStr (id_AmountDisplay d)),
              (''reason'', JStr (id_Reason d)), (''transaction_id'', JStr (id_TransactionID d)),
              (''created_at'', enc_time (id_CreatedAt d))]),
           (''new_balance_cents'', JInt (iz_NewBalanceCents r)),
           (''new_balance_display'', JStr (iz_NewBalanceDisplay r))])"

definition dec_issuance_detail :: "(string \<times> json) list \<Rightarrow> IssuanceDetail option" where
  "dec_issuance_detail fs =
    Option.bind (dec_string (member ''id'' fs)) (\<lambda>i.
    Option.bind (dec_string (member ''wallet_id'' fs)) (\<lambda>wid.
    Option.bind (dec_int (member ''amount_cents'' fs)) (\<lambda>amt.
    Option.bind (dec_string (member ''amount_display'' fs)) (\<lambda>disp.
    Option.bind (dec_string (member ''reason'' fs)) (\<lambda>reason.
    Option.bind (dec_string (member ''transaction_id'' fs)) (\<lambda>txn.
    Option.bind (dec_time (member ''created_at'' fs)) (\<lambda>t.
    Some \<lparr>id_ID = i, id_WalletID = wid, id_AmountCents = amt, id_AmountDisplay = disp, id_Reason = reason,
          id_TransactionID = txn, id_CreatedAt = t\<rparr>)))))))"

definition dec_issuance :: "json \<Rightarrow> IssuanceResponse option" where
  "dec_issuance j =
    (let of_fields = (\<lambda>fs.
       Option.bind (case member ''issuance'' fs of None \<Rightarrow> dec_issuance_detail [] | Some JNull \<Rightarrow> dec_issuance_detail []
                    | Some (JObj gs) \<Rightarrow> dec_issuance_detail gs | _ \<Rightarrow> None) (\<lambda>d.
       Option.bind (dec_int (member ''new_balance_cents'' fs)) (\<lambda>b.
       Option.bind (dec_string (member ''new_balance_display'' fs)) (\<lambda>s.
       Some \<lparr>iz_Issuance = d, iz_NewBalanceCents = b, iz_NewBalanceDisplay = s\<rparr>))))
     in case j of JObj fs \<Rightarrow> of_fields fs | JNull \<Rightarrow> of_fields [] | _ \<Rightarrow> None)"

section \<open>The service\<close>

record admin_service =
  adm_Issue :: "IssueParams \<Rightarrow> (world, IssueResult) io"
  adm_idempotent :: bool
  adm_publisher :: "(uuid \<Rightarrow> event \<Rightarrow> (world, unit) io) option"
  adm_signingKey :: string

definition cached_issuance :: "env \<Rightarrow> admin_service \<Rightarrow> uuid \<Rightarrow> string \<Rightarrow> (world, IssuanceResponse option) io" where
  "cached_issuance E s adminID idempotencyKey =
    (if adm_idempotent s then
       catch_io (Idem_Check E (uuid_String E adminID) idempotencyKey)
         (\<lambda>err. ret None)
         (\<lambda>hit. ret (case hit of None \<Rightarrow> None | Some cached \<Rightarrow> UnmarshalBody dec_issuance cached))
     else ret None)"

definition issue_params :: "env \<Rightarrow> admin_service \<Rightarrow> IssueRequest \<Rightarrow> uuid \<Rightarrow> uuid \<Rightarrow> string \<Rightarrow> IssueParams" where
  "issue_params E s req adminID walletID ip =
    \<lparr>ip_AdminID = adminID, ip_WalletID = walletID, ip_AmountCents = iq_AmountCents req, ip_Reason = iq_Reason req,
     ip_IdempotencyKey = '''',
     ip_Signature = SignTransaction (adm_signingKey s) ''issuance'' (uuid_String E adminID) (uuid_String E walletID)
        (iq_AmountCents req) 0,
     ip_IPAddress = ip\<rparr>"

definition issuance_response :: "env \<Rightarrow> IssueRequest \<Rightarrow> uuid \<Rightarrow> IssueResult \<Rightarrow> IssuanceResponse" where
  "issuance_response E req walletID result =
    \<lparr>iz_Issuance = \<lparr>id_ID = uuid_String E (ir_IssuanceID result), id_WalletID = uuid_String E walletID,
       id_AmountCents = iq_AmountCents req, id_AmountDisplay = Format (iq_AmountCents req) ''DD$'',
       id_Reason = iq_Reason req, id_TransactionID = uuid_String E (t_ID (ir_Transaction result)),
       id_CreatedAt = t_CreatedAt (ir_Transaction result)\<rparr>,
     iz_NewBalanceCents = ir_NewBalance result, iz_NewBalanceDisplay = Format (ir_NewBalance result) ''DD$''\<rparr>"

definition issuance_tail ::
    "env \<Rightarrow> admin_service \<Rightarrow> IssueRequest \<Rightarrow> uuid \<Rightarrow> uuid \<Rightarrow> string \<Rightarrow> string \<Rightarrow> IssueResult \<Rightarrow> (world, IssuanceResponse) io" where
  "issuance_tail E s req adminID walletID idempotencyKey ip result =
    (let resp = issuance_response E req walletID result; txnID = t_ID (ir_Transaction result) in
     ignore_io (if adm_idempotent s
                then Idem_Store E (uuid_String E adminID) idempotencyKey 201 (enc_issuance resp) else ret ()) (
     ignore_io (Log E (no_log\<lparr>lp_ActorID := Some adminID, lp_ActorRole := ''admin'', lp_Action := ''cbdc.issue'',
                  lp_ResourceType := ''wallet'', lp_ResourceID := Some walletID, lp_IPAddress := ip,
                  lp_Metadata := [(''amount_cents'', JInt (iq_AmountCents req)), (''reason'', JStr (iq_Reason req)),
                    (''transaction_id'', JStr (uuid_String E txnID))],
                  lp_Success := True\<rparr>)) (
     ignore_io (case adm_publisher s of
                  None \<Rightarrow> ret ()
                | Some publish \<Rightarrow>
                    bind_io (get_io (now E)) (\<lambda>t.
                    publish walletID \<lparr>ev_Type = TypeIssuanceReceived, ev_WalletID = uuid_String E walletID,
                      ev_Payload = IssuancePayload \<lparr>ie_TransactionID = uuid_String E txnID,
                        ie_AmountCents = iq_AmountCents req, ie_AmountDisplay = Format (iq_AmountCents req) ''DD$'',
                        ie_Reason = iq_Reason req, ie_NewBalanceCents = ir_NewBalance result,
                        ie_NewBalanceDisplay = Format (ir_NewBalance result) ''DD$''\<rparr>,
                      ev_Timestamp = Some t\<rparr>)) (
     ret resp))))"

definition IssueCBDC ::
    "env \<Rightarrow> admin_service \<Rightarrow> IssueRequest \<Rightarrow> uuid \<Rightarrow> string \<Rightarrow> string \<Rightarrow> (world, IssuanceResponse) io" where
  "IssueCBDC E s req0 adminID idempotencyKey ip =
    (case IssueRequest_Validate req0 of
       Inl err \<Rightarrow> throw err
     | Inr req \<Rightarrow>
         if idempotencyKey = '''' then throw (Admin admin_error.ErrMissingIdempotencyKey)
         else case uuid_Parse E (iq_WalletID req) of
           None \<Rightarrow> throw (Wrap ''invalid wallet_id'' (Errorf ''invalid UUID''))
         | Some walletID \<Rightarrow>
             bind_io (cached_issuance E s adminID idempotencyKey) (\<lambda>hit.
             case hit of
               Some resp \<Rightarrow> ret resp
             | None \<Rightarrow>
                 bind_io (adm_Issue s (issue_params E s req adminID walletID ip)) (\<lambda>result.
                 issuance_tail E s req adminID walletID idempotencyKey ip result)))"

section \<open>The handler\<close>

definition dec_IssueRequest :: "json \<Rightarrow> IssueRequest option" where
  "dec_IssueRequest j =
    (let of_fields = (\<lambda>fs.
       Option.bind (dec_string (member ''wallet_id'' fs)) (\<lambda>wid.
       Option.bind (dec_int (member ''amount_cents'' fs)) (\<lambda>amt.
       Option.bind (dec_string (member ''reason'' fs)) (\<lambda>reason.
       Some \<lparr>iq_WalletID = wid, iq_AmountCents = amt, iq_Reason = reason\<rparr>))))
     in case j of JObj fs \<Rightarrow> of_fields fs | JNull \<Rightarrow> of_fields [] | _ \<Rightarrow> None)"

definition admin_handleError :: "env \<Rightarrow> string \<Rightarrow> gerror \<Rightarrow> writer \<Rightarrow> world \<Rightarrow> writer \<times> world" where
  "admin_handleError E requestID err =
    reply E (\<lambda>t.
      if errors_Is err (Admin admin_error.ErrAmountZero)
      then UnprocessableEntity t ''INVALID_AMOUNT'' ''Amount must be greater than zero.'' requestID
      else if errors_Is err (Admin ErrAmountTooLarge)
      then UnprocessableEntity t ''AMOUNT_TOO_LARGE''
             ''Amount exceeds the maximum issuance limit of DD$1,000,000 per action.'' requestID
      else if errors_Is err (Admin ErrReasonTooShort)
      then UnprocessableEntity t ''INVALID_REASON'' ''Reason must be at least 10 characters.'' requestID
      else if errors_Is err (Admin admin_error.ErrMissingIdempotencyKey)
      then BadRequest t ''X-Idempotency-Key header is required'' requestID
      else if errors_Is err (Ledger ledger_error.ErrWalletNotFound) then NotFound t ''wallet'' requestID
      else if errors_Is err (Ledger ErrWalletFrozen)
      then UnprocessableEntity t ''WALLET_FROZEN'' ''Cannot issue CBDC to a frozen wallet.'' requestID
      else InternalError t requestID)"

definition issueCBDC :: "env \<Rightarrow> admin_service \<Rightarrow> handler" where
  "issueCBDC E s r =
    (case context_uuid E (rq_UserID r) of
       None \<Rightarrow> reply E (\<lambda>t. Unauthorized t (rq_RequestID r))
     | Some adminID \<Rightarrow>
       (case Option.bind (rq_Body r) dec_IssueRequest of
          None \<Rightarrow> reply E (\<lambda>t. BadRequest t ''Invalid JSON body'' (rq_RequestID r))
        | Some req \<Rightarrow>
            on_result (IssueCBDC E s req adminID (field ''X-Idempotency-Key'' (rq_Headers r)) (clientIP r))
              (admin_handleError E (rq_RequestID r))
              (\<lambda>result. reply E (\<lambda>t. Created (enc_issuance result)))))"

section \<open>Validation\<close>

lemma IssueRequest_Validate_Inr:
  "IssueRequest_Validate r0 = Inr r \<Longrightarrow>
     0 < sint (iq_AmountCents r0) \<and> sint (iq_AmountCents r0) \<le> 100000000 \<and>
     iq_AmountCents r = iq_AmountCents r0 \<and> iq_WalletID r = iq_WalletID r0 \<and> 10 \<le> length (iq_Reason r)"
  by (auto simp: IssueRequest_Validate_def maxIssuanceCents_def Let_def split: if_splits)

end
