(* ===== verification/Admin_Claims.thy ===== *)
theory Admin_Claims
  imports Admin Payment_Claims
begin

text \<open>
  The administrator's issuance against the contract of the Go interface \<open>ledgerIssuer\<close>, which the ledger's
  \<open>Issue\<close> fulfils.
\<close>

locale ledger_issuer =
  fixes issue :: "IssueParams \<Rightarrow> (world, IssueResult) io"
  assumes keeps_books: "books (w_db w) \<Longrightarrow> books (w_db (snd (issue p w)))"
    and grows: "books (w_db w) \<Longrightarrow>
      money (w_db (snd (issue p w))) = money (w_db w) \<or>
      (0 < sint (ip_AmountCents p) \<and>
       money_supply (w_db (snd (issue p w))) = money_supply (w_db w) + sint (ip_AmountCents p))"
    and credits: "issue p w = (Inr r, w') \<Longrightarrow> books (w_db w) \<Longrightarrow>
      issue_spec (ip_WalletID p) (sint (ip_AmountCents p)) (abs_ledger (w_db w)) = Inr (abs_ledger (w_db w')) \<and>
      abs_ledger (w_db w') (ip_WalletID p) = Some (sint (ir_NewBalance r), False)"

lemma Issue_grows:
  assumes "books (w_db w)"
  shows "money (w_db (snd (Issue E p w))) = money (w_db w) \<or>
      (0 < sint (ip_AmountCents p) \<and>
       money_supply (w_db (snd (Issue E p w))) = money_supply (w_db w) + sint (ip_AmountCents p))"
proof (cases "0 < sint (ip_AmountCents p)")
  case True
  then show ?thesis using Issue_db [of E p w] issued_books(2) [OF assms] by auto
next
  case False
  then show ?thesis by (simp add: Issue_def throw_def)
qed

lemma Issue_contract: "ledger_issuer (Issue E)"
proof
  fix w p and r :: IssueResult and w'
  show "books (w_db w) \<Longrightarrow> books (w_db (snd (Issue E p w)))"
    using Issue_db [of E p w] issued_books(1) by fastforce
  show "books (w_db w) \<Longrightarrow> money (w_db (snd (Issue E p w))) = money (w_db w) \<or>
      (0 < sint (ip_AmountCents p) \<and>
       money_supply (w_db (snd (Issue E p w))) = money_supply (w_db w) + sint (ip_AmountCents p))"
    by (rule Issue_grows)
  show "Issue E p w = (Inr r, w') \<Longrightarrow> books (w_db w) \<Longrightarrow>
      issue_spec (ip_WalletID p) (sint (ip_AmountCents p)) (abs_ledger (w_db w)) = Inr (abs_ledger (w_db w')) \<and>
      abs_ledger (w_db w') (ip_WalletID p) = Some (sint (ir_NewBalance r), False)"
    using Issue_Inr [of E p w r w'] issued_abs [of p _ "w_db w" r "w_db w'"] by (auto simp: books_def)
qed

interpretation li: ledger_issuer "Issue E" for E
  by (rule Issue_contract)

lemma no_money_cached_issuance [no_money_intros]: "no_money (cached_issuance E s u k)"
  unfolding cached_issuance_def by (intro no_money_intros)

lemma cached_issuance_Inr: "\<exists>hit. fst (cached_issuance E s u k w) = Inr hit"
  by (auto simp: cached_issuance_def io_run split: sum.splits prod.splits)

locale admin_client = ledger_issuer "adm_Issue s" for s :: admin_service +
  fixes E :: env
  assumes publish_quiet: "adm_publisher s = Some f \<Longrightarrow> no_money (f u ev)"
begin

lemma tail_quiet: "no_money (issuance_tail E s req a b k ip result)"
  unfolding issuance_tail_def Let_def by (intro no_money_intros publish_quiet) auto

text \<open>The issuance stops early, or it asks the ledger once with the validated amount.\<close>

lemma IssueCBDC_cases:
  obtains (early) "money (w_db (snd (IssueCBDC E s rq a k ip w))) = money (w_db w)"
  | (asked) req b w1 where "IssueRequest_Validate rq = Inr req" "uuid_Parse E (iq_WalletID rq) = Some b"
      "money (w_db w1) = money (w_db w)"
      "money (w_db (snd (IssueCBDC E s rq a k ip w))) = money (w_db (snd (adm_Issue s (issue_params E s req a b ip) w1)))"
proof (cases "IssueRequest_Validate rq")
  case (Inl e)
  then show ?thesis using early by (simp add: IssueCBDC_def throw_def)
next
  case (Inr req)
  note va = IssueRequest_Validate_Inr [OF Inr]
  show ?thesis
  proof (cases "k = '''' \<or> uuid_Parse E (iq_WalletID req) = None")
    case True
    with Inr early show ?thesis by (auto simp: IssueCBDC_def throw_def)
  next
    case False
    then obtain b where b: "uuid_Parse E (iq_WalletID req) = Some b" "k \<noteq> ''''" by auto
    obtain hit w1 where hit: "cached_issuance E s a k w = (Inr hit, w1)"
      using cached_issuance_Inr [of E s a k w] by (metis prod.collapse)
    then have m: "money (w_db w1) = money (w_db w)" by (rule no_moneyD [OF no_money_cached_issuance])
    obtain x w2 where x: "adm_Issue s (issue_params E s req a b ip) w1 = (x, w2)" by fastforce
    have "money (w_db (snd (issuance_tail E s req a b k ip r w2))) = money (w_db w2)" for r
      using tail_quiet by (simp add: no_money_def)
    with Inr b hit m x va early asked [of req b w1] show ?thesis
      by (cases hit; cases x) (simp_all add: IssueCBDC_def io_run)
  qed
qed

lemma IssueCBDC_books:
  assumes "books (w_db w)"
  shows "books (w_db (snd (IssueCBDC E s req a k ip w)))"
proof (cases rule: IssueCBDC_cases [where rq = req and a = a and k = k and ip = ip and w = w])
  case early
  then show ?thesis using assms money_books by metis
next
  case (asked r b w1)
  then have "books (w_db w1)" using assms money_books by metis
  with keeps_books asked(4) money_books show ?thesis by metis
qed

lemma IssueCBDC_grows:
  assumes "books (w_db w)"
  shows "money (w_db (snd (IssueCBDC E s req a k ip w))) = money (w_db w) \<or>
    (0 < sint (iq_AmountCents req) \<and> sint (iq_AmountCents req) \<le> 100000000 \<and>
     money_supply (w_db (snd (IssueCBDC E s req a k ip w))) = money_supply (w_db w) + sint (iq_AmountCents req))"
proof (cases rule: IssueCBDC_cases [where rq = req and a = a and k = k and ip = ip and w = w])
  case early
  then show ?thesis by simp
next
  case (asked r b w1)
  then have b1: "books (w_db w1)" "money_supply (w_db w1) = money_supply (w_db w)"
    using assms money_books money_supply_cong by metis+
  let ?p = "issue_params E s r a b ip"
  have "ip_AmountCents ?p = iq_AmountCents req"
    using IssueRequest_Validate_Inr [OF asked(1)] by (simp add: issue_params_def)
  moreover have "money_supply (w_db (snd (IssueCBDC E s req a k ip w))) = money_supply (w_db (snd (adm_Issue s ?p w1)))"
    using asked(4) by (rule money_supply_cong)
  ultimately show ?thesis
    using grows [OF b1(1), of ?p] b1(2) asked(3,4) IssueRequest_Validate_Inr [OF asked(1)] by auto
qed

end

definition server_admin :: "env \<Rightarrow> string \<Rightarrow> admin_service" where
  "server_admin E signingKey = \<lparr>adm_Issue = Issue E, adm_idempotent = True, adm_publisher = Some (Publish E True),
     adm_signingKey = signingKey\<rparr>"

lemma server_admin_simps [simp]:
  "adm_Issue (server_admin E key) = Issue E" "adm_idempotent (server_admin E key) = True"
  "adm_publisher (server_admin E key) = Some (Publish E True)" "adm_signingKey (server_admin E key) = key"
  by (simp_all add: server_admin_def)

interpretation ac: admin_client "server_admin E key" E for E key
  by (unfold_locales; simp add: li.keeps_books li.grows li.credits) (auto intro: no_money_intros)

text \<open>C11: one request of an administrator keeps the books balanced and issues nothing, or exactly the
  requested amount, which is at most DD$ 1,000,000; whatever call fails.\<close>

theorem IssueCBDC_bounded:
  assumes "books (w_db w)"
  shows "books (w_db (snd (IssueCBDC E (server_admin E key) req adminID k ip w))) \<and>
    (money (w_db (snd (IssueCBDC E (server_admin E key) req adminID k ip w))) = money (w_db w) \<or>
     (0 < sint (iq_AmountCents req) \<and> sint (iq_AmountCents req) \<le> 100000000 \<and>
      money_supply (w_db (snd (IssueCBDC E (server_admin E key) req adminID k ip w)))
        = money_supply (w_db w) + sint (iq_AmountCents req)))"
  using ac.IssueCBDC_books [OF assms] ac.IssueCBDC_grows [OF assms] by blast

definition sample_issue_request :: IssueRequest where
  "sample_issue_request = \<lparr>iq_WalletID = ''12'', iq_AmountCents = 5000, iq_Reason = ''monthly stimulus''\<rparr>"

theorem IssueCBDC_bounded_witness:
  "books (w_db (snd (IssueCBDC sample_env (server_admin sample_env ''key'') sample_issue_request admin_id ''k1'' ''10.0.0.7''
     sample_world)))"
  using IssueCBDC_bounded [OF books_sample] by blast

end
