(* ===== verification/Utf8.thy ===== *)
theory Utf8
  imports GoStd
begin

text \<open>
  Runes: the loop \<open>for _, c := range s\<close> over a Go string, the encoding of a rune, and the functions of
  \<open>unicode\<close> and \<open>strings\<close> that the auth package calls. A byte that starts no valid sequence is the rune
  U+FFFD of width one. The ASCII half of the character classes is written out; the tables above it are
  data of the Unicode standard and a parameter.
\<close>

section \<open>Decoding and encoding\<close>

definition RuneError :: nat where
  "RuneError = 65533"

definition cont :: "nat \<Rightarrow> bool" where
  "cont b \<longleftrightarrow> 128 \<le> b \<and> b < 192"

text \<open>The accepted second bytes of a sequence of three or four bytes.\<close>

definition second_ok :: "nat \<Rightarrow> nat \<Rightarrow> bool" where
  "second_ok b0 b1 \<longleftrightarrow> cont b1 \<and> (b0 = 224 \<longrightarrow> 160 \<le> b1) \<and> (b0 = 237 \<longrightarrow> b1 < 160) \<and>
     (b0 = 240 \<longrightarrow> 144 \<le> b1) \<and> (b0 = 244 \<longrightarrow> b1 < 144)"

text \<open>\<open>utf8.DecodeRune\<close>: the first rune of a non-empty byte string and its width.\<close>

definition DecodeRune :: "nat list \<Rightarrow> nat \<times> nat" where
  "DecodeRune bs =
    (case bs of
       [] \<Rightarrow> (RuneError, 0)
     | b0 # r \<Rightarrow>
         if b0 < 128 then (b0, 1)
         else if 194 \<le> b0 \<and> b0 < 224 then
           (case r of b1 # _ \<Rightarrow> if cont b1 then ((b0 - 192) * 64 + (b1 - 128), 2) else (RuneError, 1)
            | [] \<Rightarrow> (RuneError, 1))
         else if 224 \<le> b0 \<and> b0 < 240 then
           (case r of b1 # b2 # _ \<Rightarrow>
              if second_ok b0 b1 \<and> cont b2 then ((b0 - 224) * 4096 + (b1 - 128) * 64 + (b2 - 128), 3)
              else (RuneError, 1)
            | _ \<Rightarrow> (RuneError, 1))
         else if 240 \<le> b0 \<and> b0 < 245 then
           (case r of b1 # b2 # b3 # _ \<Rightarrow>
              if second_ok b0 b1 \<and> cont b2 \<and> cont b3
              then ((b0 - 240) * 262144 + (b1 - 128) * 4096 + (b2 - 128) * 64 + (b3 - 128), 4)
              else (RuneError, 1)
            | _ \<Rightarrow> (RuneError, 1))
         else (RuneError, 1))"

function runes_of :: "nat list \<Rightarrow> nat list" where
  "runes_of bs = (if bs = [] then [] else fst (DecodeRune bs) # runes_of (drop (max 1 (snd (DecodeRune bs))) bs))"
  by pat_completeness auto
termination by (relation "measure length") auto

declare runes_of.simps [simp del]

definition runes :: "string \<Rightarrow> nat list" where
  "runes s = runes_of (map of_char s)"

definition EncodeRune :: "nat \<Rightarrow> string" where
  "EncodeRune r0 =
    (let r = (if (55296 \<le> r0 \<and> r0 < 57344) \<or> 1114111 < r0 then RuneError else r0)
     in map char_of
       (if r < 128 then [r]
        else if r < 2048 then [192 + r div 64, 128 + r mod 64]
        else if r < 65536 then [224 + r div 4096, 128 + r div 64 mod 64, 128 + r mod 64]
        else [240 + r div 262144, 128 + r div 4096 mod 64, 128 + r div 64 mod 64, 128 + r mod 64]))"

section \<open>Character classes\<close>

record unicode =
  uc_IsUpper :: "nat \<Rightarrow> bool"
  uc_IsLower :: "nat \<Rightarrow> bool"
  uc_IsLetter :: "nat \<Rightarrow> bool"
  uc_IsDigit :: "nat \<Rightarrow> bool"
  uc_ToLower :: "nat \<Rightarrow> nat"

definition IsUpper :: "unicode \<Rightarrow> nat \<Rightarrow> bool" where
  "IsUpper U r = (if r < 128 then 65 \<le> r \<and> r \<le> 90 else uc_IsUpper U r)"

definition IsLower :: "unicode \<Rightarrow> nat \<Rightarrow> bool" where
  "IsLower U r = (if r < 128 then 97 \<le> r \<and> r \<le> 122 else uc_IsLower U r)"

definition IsLetter :: "unicode \<Rightarrow> nat \<Rightarrow> bool" where
  "IsLetter U r = (if r < 128 then (65 \<le> r \<and> r \<le> 90) \<or> (97 \<le> r \<and> r \<le> 122) else uc_IsLetter U r)"

definition IsDigit :: "unicode \<Rightarrow> nat \<Rightarrow> bool" where
  "IsDigit U r = (if r < 128 then 48 \<le> r \<and> r \<le> 57 else uc_IsDigit U r)"

definition rune_ToLower :: "unicode \<Rightarrow> nat \<Rightarrow> nat" where
  "rune_ToLower U r = (if r < 128 then (if 65 \<le> r \<and> r \<le> 90 then r + 32 else r) else uc_ToLower U r)"

definition ToLower :: "unicode \<Rightarrow> string \<Rightarrow> string" where
  "ToLower U s = concat (map (\<lambda>r. EncodeRune (rune_ToLower U r)) (runes s))"

section \<open>ASCII strings\<close>

lemma DecodeRune_ascii: "b < 128 \<Longrightarrow> DecodeRune (b # r) = (b, 1)"
  by (simp add: DecodeRune_def)

lemma runes_Nil [simp]: "runes [] = []"
  by (simp add: runes_def runes_of.simps)

lemma runes_Cons_ascii: "of_char c < (128 :: nat) \<Longrightarrow> runes (c # s) = of_char c # runes s"
  unfolding runes_def by (simp add: runes_of.simps [of "of_char c # map of_char s"] DecodeRune_ascii)

lemma runes_ascii: "\<forall>c \<in> set s. of_char c < (128 :: nat) \<Longrightarrow> runes s = map of_char s"
  by (induction s) (simp_all add: runes_Cons_ascii)

lemma EncodeRune_ascii: "r < 128 \<Longrightarrow> EncodeRune r = [char_of r]"
  by (simp add: EncodeRune_def)

lemma ToLower_ascii:
  assumes "\<forall>c \<in> set s. of_char c < (128 :: nat)"
  shows "ToLower U s = map ascii_lower s"
proof -
  have "EncodeRune (rune_ToLower U (of_char c)) = [ascii_lower c]" if "of_char c < (128 :: nat)" for c
    using that by (simp add: rune_ToLower_def EncodeRune_ascii ascii_lower_def Let_def)
  with assms have "concat (map (\<lambda>r. EncodeRune (rune_ToLower U r)) (map of_char s)) = map ascii_lower s"
    by (induction s) simp_all
  with runes_ascii [OF assms] show ?thesis by (simp add: ToLower_def)
qed

end
