(* ===== verification/Auth.thy ===== *)
theory Auth
  imports Http Audit_Log Crypto Currency Utf8
begin

text \<open>
  \<open>internal/auth\<close>: validation of credentials, the statements of its repository, the service
  (registration, login with lockout, logout, refresh with rotation, access tokens) and the HTTP
  handlers; \<open>HashPassword\<close>, \<open>VerifyPassword\<close> and \<open>GenerateSecureToken\<close> of \<open>pkg/crypto\<close>. bcrypt and
  the JWT package are third-party code: fields of \<open>auth_lib\<close>.
\<close>

section \<open>Libraries\<close>

text \<open>
  A claim of a token: a string, a number (with its shortest decimal form, which is what the code prints)
  or another JSON value (with the text of the verb \<open>%v\<close>). \<open>jwt_Parse\<close> asks the key function for the key
  of the token's signing method, verifies the signature and the dates, and returns the claims and
  \<open>Valid\<close>. \<open>bcrypt_GenerateFromPassword\<close> takes the number of the call, whose randomness is its salt.
\<close>

datatype claim_value = ClaimString string | ClaimNumber string | ClaimOther string

type_synonym MapClaims = "(string \<times> claim_value) list"

datatype jwt_method = SigningMethodHMAC string | OtherMethod string

record auth_lib =
  al_unicode :: unicode
  bcrypt_GenerateFromPassword :: "nat \<Rightarrow> string \<Rightarrow> int \<Rightarrow> string option"
  bcrypt_Compare :: "string \<Rightarrow> string \<Rightarrow> bool"
  jwt_SignedString :: "jwt_method \<Rightarrow> MapClaims \<Rightarrow> string \<Rightarrow> string option"
  jwt_Method :: "string \<Rightarrow> jwt_method option"
  jwt_Parse :: "(jwt_method \<Rightarrow> string option) \<Rightarrow> gotime \<Rightarrow> string \<Rightarrow> (MapClaims \<times> bool) option"

definition HS256 :: jwt_method where
  "HS256 = SigningMethodHMAC ''HS256''"

text \<open>\<open>pkg/crypto\<close>. A draw of randomness moves to the next call number, so that no two coincide.\<close>

definition fresh_call :: "(world, nat) io" where
  "fresh_call w = (Inr (w_calls w), w\<lparr>w_calls := Suc (w_calls w)\<rparr>)"

definition BcryptCost :: int where
  "BcryptCost = 12"

definition HashPassword :: "auth_lib \<Rightarrow> string \<Rightarrow> (world, string) io" where
  "HashPassword L plaintext =
    bind_io fresh_call (\<lambda>n.
    case bcrypt_GenerateFromPassword L n plaintext BcryptCost of
      None \<Rightarrow> throw (Wrap ''hash password'' Driver)
    | Some hash \<Rightarrow> ret hash)"

definition VerifyPassword :: "auth_lib \<Rightarrow> string \<Rightarrow> string \<Rightarrow> bool" where
  "VerifyPassword L hash plaintext = bcrypt_Compare L hash plaintext"

definition GenerateSecureToken :: "env \<Rightarrow> (world, string) io" where
  "GenerateSecureToken E =
    bind_io fresh_call (\<lambda>n.
    case draw_bytes E n of
      None \<Rightarrow> throw (Wrap ''generate random token'' Driver)
    | Some b \<Rightarrow> ret (hex_encode (bytes_of b)))"

section \<open>Models\<close>

definition IsLocked :: "user \<Rightarrow> gotime \<Rightarrow> bool" where
  "IsLocked u t = (case u_LockedUntil u of None \<Rightarrow> False | Some until \<Rightarrow> t < until)"

record RegisterRequest =
  rr_Email :: string
  rr_Password :: string
  rr_FullName :: string

record LoginRequest =
  lr_Email :: string
  lr_Password :: string

text \<open>
  The regular expressions of the e-mail address, on runes: the part before the only \<open>@\<close>, then a domain
  up to the last point, then at least two letters. Go's \<open>(?i)\<close> also folds the long s (U+017F) and the
  Kelvin sign (U+212A) to letters; the check of the table knows ASCII only.
\<close>

definition email_letter :: "bool \<Rightarrow> nat \<Rightarrow> bool" where
  "email_letter icase r \<longleftrightarrow> (65 \<le> r \<and> r \<le> 90) \<or> (97 \<le> r \<and> r \<le> 122) \<or> (icase \<and> (r = 383 \<or> r = 8490))"

definition email_domain :: "bool \<Rightarrow> nat \<Rightarrow> bool" where
  "email_domain icase r \<longleftrightarrow> email_letter icase r \<or> (48 \<le> r \<and> r \<le> 57) \<or> r = 46 \<or> r = 45"

definition email_local :: "bool \<Rightarrow> nat \<Rightarrow> bool" where
  "email_local icase r \<longleftrightarrow> email_domain icase r \<or> r = 95 \<or> r = 37 \<or> r = 43"

definition email_matches :: "bool \<Rightarrow> string \<Rightarrow> bool" where
  "email_matches icase s =
    (let rs = runes s; l = takeWhile (\<lambda>r. r \<noteq> 64) rs; rest = dropWhile (\<lambda>r. r \<noteq> 64) rs
     in l \<noteq> [] \<and> list_all (email_local icase) l \<and> rest \<noteq> [] \<and>
        (let ra = rev (tl rest); tld = takeWhile (\<lambda>r. r \<noteq> 46) ra; d = dropWhile (\<lambda>r. r \<noteq> 46) ra
         in 2 \<le> length tld \<and> list_all (email_letter icase) tld \<and>
            d \<noteq> [] \<and> tl d \<noteq> [] \<and> list_all (email_domain icase) (tl d)))"

definition isValidEmail :: "string \<Rightarrow> bool" where
  "isValidEmail email \<longleftrightarrow> length email \<le> 254 \<and> email_matches True email"

definition validatePassword :: "auth_lib \<Rightarrow> string \<Rightarrow> gerror option" where
  "validatePassword L p =
    (if length p < 10 \<or> 72 < length p then Some (Auth ErrWeakPassword)
     else let U = al_unicode L;
              upper = (\<lambda>c. IsUpper U c);
              lower = (\<lambda>c. \<not> upper c \<and> IsLower U c);
              digit = (\<lambda>c. \<not> upper c \<and> \<not> lower c \<and> IsDigit U c);
              special = (\<lambda>c. \<not> upper c \<and> \<not> lower c \<and> \<not> digit c \<and> \<not> IsLetter U c \<and> \<not> IsDigit U c)
          in if \<not> list_ex upper (runes p) \<or> \<not> list_ex lower (runes p) \<or> \<not> list_ex digit (runes p) \<or>
                \<not> list_ex special (runes p)
             then Some (Auth ErrWeakPassword) else None)"

definition RegisterRequest_Validate :: "auth_lib \<Rightarrow> RegisterRequest \<Rightarrow> gerror + RegisterRequest" where
  "RegisterRequest_Validate L r0 =
    (let r = r0\<lparr>rr_Email := TrimSpace (ToLower (al_unicode L) (rr_Email r0)),
                rr_FullName := TrimSpace (rr_FullName r0)\<rparr>
     in if \<not> isValidEmail (rr_Email r) then Inl (Auth ErrInvalidEmail)
        else if length (rr_FullName r) < 2 \<or> 200 < length (rr_FullName r) then Inl (Auth ErrNameTooShort)
        else case validatePassword L (rr_Password r) of Some e \<Rightarrow> Inl e | None \<Rightarrow> Inr r)"

definition LoginRequest_Validate :: "auth_lib \<Rightarrow> LoginRequest \<Rightarrow> gerror + LoginRequest" where
  "LoginRequest_Validate L r0 =
    (let r = r0\<lparr>lr_Email := TrimSpace (ToLower (al_unicode L) (lr_Email r0))\<rparr>
     in if lr_Email r = '''' \<or> lr_Password r = '''' then Inl (Auth ErrInvalidCredentials) else Inr r)"

section \<open>The repository\<close>

text \<open>
  PostgreSQL keeps a time to the microsecond. The columns of \<open>users\<close> and \<open>sessions\<close> reject a text that
  is too long, an unknown role, a malformed address and a key that is already there.
\<close>

definition timestamptz :: "gotime \<Rightarrow> gotime" where
  "timestamptz t = t div 1000 * 1000"

definition sql_user_roles :: "string list" where
  "sql_user_roles = [''user'', ''merchant'', ''admin'']"

definition insert_user :: "string \<Rightarrow> string \<Rightarrow> string \<Rightarrow> string \<Rightarrow> user statement" where
  "insert_user email passwordHash fullName role u t d =
    (if role \<notin> set sql_user_roles then Inl (PgError ''22P02'')
     else if \<not> (fits 254 (Some email) \<and> fits 60 (Some passwordHash) \<and> fits 200 (Some fullName))
     then Inl (PgError ''22001'')
     else if \<not> email_matches False email then Inl (PgError ''23514'')
     else if u \<in> u_ID ` set (users d) \<or> email \<in> u_Email ` set (users d) then Inl (PgError ''23505'')
     else let row = \<lparr>u_ID = u, u_Email = email, u_PasswordHash = passwordHash, u_FullName = fullName,
            u_Role = role, u_IsActive = True, u_KYCStatus = ''pending'', u_FailedLogins = 0, u_LockedUntil = None,
            u_LastLoginAt = None, u_CreatedAt = t, u_UpdatedAt = t, u_deleted_at = None\<rparr>
          in Inr (row, d\<lparr>users := users d @ [row]\<rparr>))"

definition CreateUser :: "env \<Rightarrow> string \<Rightarrow> string \<Rightarrow> string \<Rightarrow> string \<Rightarrow> (world, user) io" where
  "CreateUser E email passwordHash fullName role =
    catch_io (sql E None (insert_user email passwordHash fullName role))
      (\<lambda>err. if IsUniqueViolation err then throw (Auth ErrEmailTaken) else throw (Wrap ''create user'' err))
      ret"

definition insert_wallet :: "uuid \<Rightarrow> wallet statement" where
  "insert_wallet userID u t d =
    (if u \<in> w_ID ` set (wallets d) \<or> (\<exists>w \<in> set (wallets d). w_UserID w = userID \<and> w_Currency w = ''DD$'')
     then Inl (PgError ''23505'')
     else if userID \<notin> u_ID ` set (users d) then Inl (PgError ''23503'')
     else let row = \<lparr>w_ID = u, w_UserID = userID, w_Currency = ''DD$'', w_Balance = 0, w_IsFrozen = False,
            w_FrozenReason = None, w_FrozenBy = None, w_FrozenAt = None, w_CreatedAt = t, w_UpdatedAt = t,
            w_deleted_at = None\<rparr>
          in Inr (row, d\<lparr>wallets := wallets d @ [row]\<rparr>))"

definition CreateWallet :: "env \<Rightarrow> uuid \<Rightarrow> (world, wallet) io" where
  "CreateWallet E userID = wrap_io ''create wallet'' (sql E None (insert_wallet userID))"

definition select_user :: "(user \<Rightarrow> bool) \<Rightarrow> user statement" where
  "select_user P u t d =
    (case find (\<lambda>x. P x \<and> u_deleted_at x = None) (users d) of None \<Rightarrow> Inl NoRows | Some x \<Rightarrow> Inr (x, d))"

definition FindUserByEmail :: "env \<Rightarrow> string \<Rightarrow> (world, user) io" where
  "FindUserByEmail E email =
    catch_io (sql E None (select_user (\<lambda>x. u_Email x = email)))
      (\<lambda>err. if errors_Is err NoRows then throw (Auth ErrInvalidCredentials)
             else throw (Wrap ''find user by email'' err))
      ret"

definition FindUserByID :: "env \<Rightarrow> uuid \<Rightarrow> (world, user) io" where
  "FindUserByID E i =
    catch_io (sql E None (select_user (\<lambda>x. u_ID x = i)))
      (\<lambda>err. if errors_Is err NoRows then throw (Auth ErrTokenInvalid)
             else throw (Wrap ''find user by id'' err))
      ret"

definition select_primary_wallet :: "uuid \<Rightarrow> wallet statement" where
  "select_primary_wallet userID u t d =
    (case find (\<lambda>w. w_UserID w = userID \<and> w_Currency w = ''DD$'' \<and> w_deleted_at w = None) (wallets d) of
       None \<Rightarrow> Inl NoRows
     | Some w \<Rightarrow> Inr (w, d))"

definition FindWalletByUserID :: "env \<Rightarrow> uuid \<Rightarrow> (world, wallet) io" where
  "FindWalletByUserID E userID =
    catch_io (sql E None (select_primary_wallet userID))
      (\<lambda>err. if errors_Is err NoRows then throw (Errorf ''wallet not found for user'')
             else throw (Wrap ''find wallet by user id'' err))
      ret"

text \<open>\<open>failed_logins\<close> may not exceed 100.\<close>

definition update_failed_logins :: "uuid \<Rightarrow> unit statement" where
  "update_failed_logins userID u t d =
    (if \<exists>x \<in> set (users d). u_ID x = userID \<and> 100 \<le> u_FailedLogins x then Inl (PgError ''23514'')
     else Inr ((), d\<lparr>users := upd_where (\<lambda>x. u_ID x = userID)
            (\<lambda>x. x\<lparr>u_FailedLogins := u_FailedLogins x + 1, u_UpdatedAt := t\<rparr>) (users d)\<rparr>))"

definition IncrementFailedLogins :: "env \<Rightarrow> uuid \<Rightarrow> (world, unit) io" where
  "IncrementFailedLogins E userID = sql E None (update_failed_logins userID)"

definition update_locked_until :: "uuid \<Rightarrow> gotime \<Rightarrow> unit statement" where
  "update_locked_until userID until u t d =
    Inr ((), d\<lparr>users := upd_where (\<lambda>x. u_ID x = userID)
      (\<lambda>x. x\<lparr>u_LockedUntil := Some (timestamptz until), u_UpdatedAt := t\<rparr>) (users d)\<rparr>)"

definition LockUser :: "env \<Rightarrow> uuid \<Rightarrow> gotime \<Rightarrow> (world, unit) io" where
  "LockUser E userID until = sql E None (update_locked_until userID until)"

definition clear_failed_logins :: "uuid \<Rightarrow> unit statement" where
  "clear_failed_logins userID u t d =
    Inr ((), d\<lparr>users := upd_where (\<lambda>x. u_ID x = userID)
      (\<lambda>x. x\<lparr>u_FailedLogins := 0, u_LockedUntil := None, u_LastLoginAt := Some t, u_UpdatedAt := t\<rparr>) (users d)\<rparr>)"

definition ResetFailedLogins :: "env \<Rightarrow> uuid \<Rightarrow> (world, unit) io" where
  "ResetFailedLogins E userID = sql E None (clear_failed_logins userID)"

definition insert_session :: "env \<Rightarrow> uuid \<Rightarrow> string \<Rightarrow> string \<Rightarrow> string \<Rightarrow> gotime \<Rightarrow> session statement" where
  "insert_session E userID tokenHash userAgent ipAddress expiresAt u t d =
    (if \<not> inet_ok E ipAddress then Inl (PgError ''22P02'')
     else if \<not> (fits 128 (Some tokenHash) \<and> fits 500 (Some userAgent)) then Inl (PgError ''22001'')
     else if u \<in> s_ID ` set (sessions d) \<or> tokenHash \<in> s_TokenHash ` set (sessions d) then Inl (PgError ''23505'')
     else if userID \<notin> u_ID ` set (users d) then Inl (PgError ''23503'')
     else let row = \<lparr>s_ID = u, s_UserID = userID, s_TokenHash = tokenHash, s_UserAgent = userAgent,
            s_IPAddress = ipAddress, s_IsRevoked = False, s_ExpiresAt = timestamptz expiresAt, s_CreatedAt = t,
            s_LastUsedAt = t\<rparr>
          in Inr (row, d\<lparr>sessions := sessions d @ [row]\<rparr>))"

definition CreateSession ::
    "env \<Rightarrow> uuid \<Rightarrow> string \<Rightarrow> string \<Rightarrow> string \<Rightarrow> gotime \<Rightarrow> (world, session) io" where
  "CreateSession E userID tokenHash userAgent ipAddress expiresAt =
    wrap_io ''create session'' (sql E None (insert_session E userID tokenHash userAgent ipAddress expiresAt))"

text \<open>The sessions that \<open>FindSessionByTokenHash\<close> accepts at an instant.\<close>

definition live_session :: "gotime \<Rightarrow> session \<Rightarrow> bool" where
  "live_session t s \<longleftrightarrow> \<not> s_IsRevoked s \<and> t < s_ExpiresAt s"

definition select_session :: "string \<Rightarrow> session statement" where
  "select_session tokenHash u t d =
    (case find (\<lambda>s. s_TokenHash s = tokenHash \<and> live_session t s) (sessions d) of
       None \<Rightarrow> Inl NoRows
     | Some s \<Rightarrow> Inr (s, d))"

definition FindSessionByTokenHash :: "env \<Rightarrow> string \<Rightarrow> (world, session) io" where
  "FindSessionByTokenHash E tokenHash =
    catch_io (sql E None (select_session tokenHash))
      (\<lambda>err. if errors_Is err NoRows then throw (Auth ErrTokenRevoked) else throw (Wrap ''find session'' err))
      ret"

definition revoke_where :: "(session \<Rightarrow> bool) \<Rightarrow> unit statement" where
  "revoke_where P u t d = Inr ((), d\<lparr>sessions := upd_where P (\<lambda>s. s\<lparr>s_IsRevoked := True\<rparr>) (sessions d)\<rparr>)"

definition RevokeSession :: "env \<Rightarrow> string \<Rightarrow> (world, unit) io" where
  "RevokeSession E tokenHash = sql E None (revoke_where (\<lambda>s. s_TokenHash s = tokenHash))"

definition delete_session :: "string \<Rightarrow> unit statement" where
  "delete_session tokenHash u t d =
    Inr ((), d\<lparr>sessions := filter (\<lambda>s. s_TokenHash s \<noteq> tokenHash) (sessions d)\<rparr>)"

definition DeleteSession :: "env \<Rightarrow> string \<Rightarrow> (world, unit) io" where
  "DeleteSession E tokenHash = sql E None (delete_session tokenHash)"

definition RevokeAllUserSessions :: "env \<Rightarrow> uuid \<Rightarrow> (world, unit) io" where
  "RevokeAllUserSessions E userID = sql E None (revoke_where (\<lambda>s. s_UserID s = userID \<and> \<not> s_IsRevoked s))"

section \<open>The service\<close>

definition maxFailedLogins :: nat where
  "maxFailedLogins = 5"

definition lockoutDuration :: int64 where
  "lockoutDuration = 30 * 60 * second"

definition refreshTokenCookieName :: string where
  "refreshTokenCookieName = ''refresh_token''"

record Config =
  cfg_JWTSecret :: string
  cfg_AccessTokenTTL :: int64
  cfg_RefreshTokenTTL :: int64
  cfg_SigningKey :: string

text \<open>
  \<open>int(d.Seconds())\<close>. The sum of seconds and fraction is computed in \<open>float64\<close>; for a duration of less
  than \<open>2^23\<close> seconds it stays below the next whole second, so the conversion drops the fraction.
\<close>

definition whole_seconds :: "int64 \<Rightarrow> int64" where
  "whole_seconds d = go_div d second"

record UserResponse =
  ur_ID :: string
  ur_Email :: string
  ur_FullName :: string
  ur_Role :: string
  ur_KYCStatus :: string
  ur_CreatedAt :: string

record WalletResponse =
  wp_ID :: string
  wp_Currency :: string
  wp_BalanceCents :: int64
  wp_BalanceDisplay :: string

record TokenResponse =
  tk_AccessToken :: string
  tk_ExpiresIn :: int64

record AuthResponse =
  ar_User :: UserResponse
  ar_Wallet :: WalletResponse
  ar_Tokens :: TokenResponse

record RefreshResponse =
  rf_AccessToken :: string
  rf_ExpiresIn :: int64

record Claims =
  cl_UserID :: string
  cl_Role :: string
  cl_WalletID :: string

text \<open>\<open>uuid.New()\<close> draws the token's number from the process's own randomness.\<close>

definition issueAccessToken :: "env \<Rightarrow> auth_lib \<Rightarrow> Config \<Rightarrow> user \<Rightarrow> uuid \<Rightarrow> (world, string) io" where
  "issueAccessToken E L cfg user walletID =
    bind_io (get_io (now E)) (\<lambda>t.
    bind_io fresh_call (\<lambda>n.
    case jwt_SignedString L HS256
        [(''uid'', ClaimString (uuid_String E (u_ID user))), (''role'', ClaimString (u_Role user)),
         (''wid'', ClaimString (uuid_String E walletID)), (''iat'', ClaimNumber (show_int (Unix t))),
         (''exp'', ClaimNumber (show_int (Unix (time_Add t (cfg_AccessTokenTTL cfg))))),
         (''jti'', ClaimString (uuid_String E (draw_uuid E n)))]
        (cfg_JWTSecret cfg) of
      None \<Rightarrow> throw (Errorf ''sign token'')
    | Some tok \<Rightarrow> ret tok))"

definition issueRefreshToken :: "env \<Rightarrow> Config \<Rightarrow> uuid \<Rightarrow> string \<Rightarrow> string \<Rightarrow> (world, string) io" where
  "issueRefreshToken E cfg userID ip userAgent =
    bind_io (wrap_io ''generate refresh token'' (GenerateSecureToken E)) (\<lambda>rawToken.
    bind_io (get_io (now E)) (\<lambda>t.
    bind_io (wrap_io ''store session''
      (CreateSession E userID (HashToken rawToken) userAgent ip (time_Add t (cfg_RefreshTokenTTL cfg)))) (\<lambda>_.
    ret rawToken)))"

definition handleFailedLogin :: "env \<Rightarrow> user \<Rightarrow> string \<Rightarrow> string \<Rightarrow> (world, unit) io" where
  "handleFailedLogin E user ip userAgent =
    ignore_io (IncrementFailedLogins E (u_ID user)) (
    ignore_io (Log E (no_log\<lparr>lp_ActorID := Some (u_ID user), lp_Action := ''user.login.failed'', lp_IPAddress := ip,
                 lp_UserAgent := userAgent,
                 lp_Metadata := [(''failed_logins_now'', JInt (word_of_nat (u_FailedLogins user + 1)))],
                 lp_ErrorCode := ''INVALID_CREDENTIALS''\<rparr>)) (
    if maxFailedLogins \<le> u_FailedLogins user + 1
    then bind_io (get_io (now E)) (\<lambda>t.
         let lockUntil = time_Add t lockoutDuration in
         ignore_io (LockUser E (u_ID user) lockUntil) (
         ignore_io (Log E (no_log\<lparr>lp_ActorID := Some (u_ID user), lp_Action := ''user.locked'', lp_IPAddress := ip,
                      lp_Metadata := [(''locked_until'', enc_time lockUntil)], lp_Success := True\<rparr>)) (
         ret ())))
    else ret ()))"

definition buildAuthResponse :: "env \<Rightarrow> Config \<Rightarrow> user \<Rightarrow> wallet \<Rightarrow> string \<Rightarrow> AuthResponse" where
  "buildAuthResponse E cfg user wallet accessToken =
    \<lparr>ar_User = \<lparr>ur_ID = uuid_String E (u_ID user), ur_Email = u_Email user, ur_FullName = u_FullName user,
       ur_Role = u_Role user, ur_KYCStatus = u_KYCStatus user, ur_CreatedAt = format_RFC3339 (u_CreatedAt user)\<rparr>,
     ar_Wallet = \<lparr>wp_ID = uuid_String E (w_ID wallet), wp_Currency = w_Currency wallet,
       wp_BalanceCents = w_Balance wallet, wp_BalanceDisplay = formatBalance (w_Balance wallet) (w_Currency wallet)\<rparr>,
     ar_Tokens = \<lparr>tk_AccessToken = accessToken, tk_ExpiresIn = whole_seconds (cfg_AccessTokenTTL cfg)\<rparr>\<rparr>"

definition Register ::
    "env \<Rightarrow> auth_lib \<Rightarrow> Config \<Rightarrow> RegisterRequest \<Rightarrow> string \<Rightarrow> string \<Rightarrow> (world, AuthResponse \<times> string) io" where
  "Register E L cfg req0 ip userAgent =
    (case RegisterRequest_Validate L req0 of
       Inl err \<Rightarrow> throw err
     | Inr req \<Rightarrow>
         bind_io (wrap_io ''hash password'' (HashPassword L (rr_Password req))) (\<lambda>hash.
         bind_io (CreateUser E (rr_Email req) hash (rr_FullName req) ''user'') (\<lambda>user.
         bind_io (wrap_io ''create wallet'' (CreateWallet E (u_ID user))) (\<lambda>wallet.
         bind_io (wrap_io ''issue access token'' (issueAccessToken E L cfg user (w_ID wallet))) (\<lambda>accessToken.
         bind_io (wrap_io ''issue refresh token'' (issueRefreshToken E cfg (u_ID user) ip userAgent)) (\<lambda>refreshToken.
         ignore_io (Log E (no_log\<lparr>lp_ActorID := Some (u_ID user), lp_ActorRole := u_Role user,
                      lp_Action := ''user.register'', lp_ResourceType := ''user'', lp_ResourceID := Some (u_ID user),
                      lp_IPAddress := ip, lp_UserAgent := userAgent,
                      lp_Metadata := [(''email'', JStr (u_Email user))], lp_Success := True\<rparr>)) (
         ret (buildAuthResponse E cfg user wallet accessToken, refreshToken))))))))"

text \<open>After the password is verified: the wallet for the claims, the tokens, the reset of the counter.\<close>

definition login_tail ::
    "env \<Rightarrow> auth_lib \<Rightarrow> Config \<Rightarrow> user \<Rightarrow> string \<Rightarrow> string \<Rightarrow> (world, AuthResponse \<times> string) io" where
  "login_tail E L cfg user ip userAgent =
    bind_io (wrap_io ''fetch wallet'' (FindWalletByUserID E (u_ID user))) (\<lambda>wallet.
    bind_io (wrap_io ''issue access token'' (issueAccessToken E L cfg user (w_ID wallet))) (\<lambda>accessToken.
    bind_io (wrap_io ''issue refresh token'' (issueRefreshToken E cfg (u_ID user) ip userAgent)) (\<lambda>refreshToken.
    ignore_io (ResetFailedLogins E (u_ID user)) (
    ignore_io (Log E (no_log\<lparr>lp_ActorID := Some (u_ID user), lp_ActorRole := u_Role user,
                 lp_Action := ''user.login'', lp_ResourceType := ''user'', lp_ResourceID := Some (u_ID user),
                 lp_IPAddress := ip, lp_UserAgent := userAgent, lp_Success := True\<rparr>)) (
    ret (buildAuthResponse E cfg user wallet accessToken, refreshToken))))))"

definition Login ::
    "env \<Rightarrow> auth_lib \<Rightarrow> Config \<Rightarrow> LoginRequest \<Rightarrow> string \<Rightarrow> string \<Rightarrow> (world, AuthResponse \<times> string) io" where
  "Login E L cfg req0 ip userAgent =
    (case LoginRequest_Validate L req0 of
       Inl err \<Rightarrow> throw (Auth ErrInvalidCredentials)
     | Inr req \<Rightarrow>
         catch_io (FindUserByEmail E (lr_Email req))
           (\<lambda>err. ignore_io (Log E (no_log\<lparr>lp_Action := ''user.login.failed'', lp_IPAddress := ip,
                     lp_UserAgent := userAgent,
                     lp_Metadata := [(''email'', JStr (lr_Email req)), (''reason'', JStr ''user_not_found'')],
                     lp_ErrorCode := ''INVALID_CREDENTIALS''\<rparr>)) (throw (Auth ErrInvalidCredentials)))
           (\<lambda>user.
              if \<not> u_IsActive user then throw (Auth ErrAccountInactive)
              else bind_io (get_io (now E)) (\<lambda>t.
              if IsLocked user t
              then ignore_io (Log E (no_log\<lparr>lp_ActorID := Some (u_ID user), lp_Action := ''user.login.failed'',
                     lp_IPAddress := ip,
                     lp_Metadata := [(''reason'', JStr ''account_locked''),
                       (''locked_until'', case u_LockedUntil user of None \<Rightarrow> JNull | Some x \<Rightarrow> enc_time x)],
                     lp_ErrorCode := ''ACCOUNT_LOCKED''\<rparr>)) (throw (Auth ErrAccountLocked))
              else if \<not> VerifyPassword L (u_PasswordHash user) (lr_Password req)
              then ignore_io (handleFailedLogin E user ip userAgent) (throw (Auth ErrInvalidCredentials))
              else login_tail E L cfg user ip userAgent)))"

definition Logout :: "env \<Rightarrow> string \<Rightarrow> uuid option \<Rightarrow> string \<Rightarrow> (world, unit) io" where
  "Logout E rawRefreshToken userID ip =
    bind_io (wrap_io ''revoke session'' (RevokeSession E (HashToken rawRefreshToken))) (\<lambda>_.
    ignore_io (Log E (no_log\<lparr>lp_ActorID := userID, lp_Action := ''user.logout'', lp_IPAddress := ip,
                 lp_Success := True\<rparr>)) (
    ret ()))"

definition RefreshToken ::
    "env \<Rightarrow> auth_lib \<Rightarrow> Config \<Rightarrow> string \<Rightarrow> string \<Rightarrow> string \<Rightarrow> (world, RefreshResponse \<times> string) io" where
  "RefreshToken E L cfg rawRefreshToken ip userAgent =
    (let tokenHash = HashToken rawRefreshToken in
     catch_io (FindSessionByTokenHash E tokenHash) (\<lambda>err. throw (Auth ErrTokenRevoked)) (\<lambda>session.
     bind_io (wrap_io ''find user for refresh'' (FindUserByID E (s_UserID session))) (\<lambda>user.
     bind_io (wrap_io ''find wallet for refresh'' (FindWalletByUserID E (u_ID user))) (\<lambda>wallet.
     bind_io (wrap_io ''delete old session'' (DeleteSession E tokenHash)) (\<lambda>_.
     bind_io (wrap_io ''issue access token'' (issueAccessToken E L cfg user (w_ID wallet))) (\<lambda>newAccessToken.
     bind_io (wrap_io ''issue refresh token'' (issueRefreshToken E cfg (u_ID user) ip userAgent)) (\<lambda>newRefreshToken.
     ignore_io (Log E (no_log\<lparr>lp_ActorID := Some (u_ID user), lp_ActorRole := u_Role user,
                  lp_Action := ''user.token.refresh'', lp_IPAddress := ip, lp_Success := True\<rparr>)) (
     ret (\<lparr>rf_AccessToken = newAccessToken, rf_ExpiresIn = whole_seconds (cfg_AccessTokenTTL cfg)\<rparr>,
          newRefreshToken)))))))))"

definition getString :: "MapClaims \<Rightarrow> string \<Rightarrow> string" where
  "getString claims k =
    (case map_of claims k of
       None \<Rightarrow> ''''
     | Some (ClaimString v) \<Rightarrow> v
     | Some (ClaimNumber v) \<Rightarrow> v
     | Some (ClaimOther v) \<Rightarrow> v)"

definition jwt_key :: "Config \<Rightarrow> jwt_method \<Rightarrow> string option" where
  "jwt_key cfg meth = (case meth of SigningMethodHMAC _ \<Rightarrow> Some (cfg_JWTSecret cfg) | OtherMethod _ \<Rightarrow> None)"

definition ValidateAccessToken :: "env \<Rightarrow> auth_lib \<Rightarrow> Config \<Rightarrow> string \<Rightarrow> (world, Claims) io" where
  "ValidateAccessToken E L cfg tokenString =
    bind_io (get_io (now E)) (\<lambda>t.
    case jwt_Parse L (jwt_key cfg) t tokenString of
      None \<Rightarrow> throw (Auth ErrTokenInvalid)
    | Some (mapClaims, valid) \<Rightarrow>
        if \<not> valid then throw (Auth ErrTokenInvalid)
        else let claims = \<lparr>cl_UserID = getString mapClaims ''uid'', cl_Role = getString mapClaims ''role'',
                           cl_WalletID = getString mapClaims ''wid''\<rparr>
             in if cl_UserID claims = '''' \<or> cl_Role claims = '''' then throw (Auth ErrTokenInvalid) else ret claims)"

section \<open>The handlers\<close>

record auth_handler =
  ah_refreshTTL :: int64
  ah_secureCookies :: bool

definition dec_RegisterRequest :: "json \<Rightarrow> RegisterRequest option" where
  "dec_RegisterRequest j =
    (let of_fields = (\<lambda>fs.
       Option.bind (dec_string (member ''email'' fs)) (\<lambda>e.
       Option.bind (dec_string (member ''password'' fs)) (\<lambda>p.
       Option.bind (dec_string (member ''full_name'' fs)) (\<lambda>n.
       Some \<lparr>rr_Email = e, rr_Password = p, rr_FullName = n\<rparr>))))
     in case j of JObj fs \<Rightarrow> of_fields fs | JNull \<Rightarrow> of_fields [] | _ \<Rightarrow> None)"

definition dec_LoginRequest :: "json \<Rightarrow> LoginRequest option" where
  "dec_LoginRequest j =
    (let of_fields = (\<lambda>fs.
       Option.bind (dec_string (member ''email'' fs)) (\<lambda>e.
       Option.bind (dec_string (member ''password'' fs)) (\<lambda>p.
       Some \<lparr>lr_Email = e, lr_Password = p\<rparr>)))
     in case j of JObj fs \<Rightarrow> of_fields fs | JNull \<Rightarrow> of_fields [] | _ \<Rightarrow> None)"

definition enc_auth_response :: "AuthResponse \<Rightarrow> json" where
  "enc_auth_response r =
    (let u = ar_User r; w = ar_Wallet r; t = ar_Tokens r in
     JObj [(''user'', JObj [(''id'', JStr (ur_ID u)), (''email'', JStr (ur_Email u)), (''full_name'', JStr (ur_FullName u)),
              (''role'', JStr (ur_Role u)), (''kyc_status'', JStr (ur_KYCStatus u)), (''created_at'', JStr (ur_CreatedAt u))]),
           (''wallet'', JObj [(''id'', JStr (wp_ID w)), (''currency'', JStr (wp_Currency w)),
              (''balance_cents'', JInt (wp_BalanceCents w)), (''balance_display'', JStr (wp_BalanceDisplay w))]),
           (''tokens'', JObj [(''access_token'', JStr (tk_AccessToken t)), (''expires_in'', JInt (tk_ExpiresIn t))])])"

definition enc_refresh :: "RefreshResponse \<Rightarrow> json" where
  "enc_refresh r = JObj [(''access_token'', JStr (rf_AccessToken r)), (''expires_in'', JInt (rf_ExpiresIn r))]"

definition setRefreshTokenCookie :: "auth_handler \<Rightarrow> string \<Rightarrow> writer \<Rightarrow> writer" where
  "setRefreshTokenCookie h tok = SetCookie
    \<lparr>ck_Name = refreshTokenCookieName, ck_Value = tok, ck_Path = ''/api/v1/auth'',
     ck_MaxAge = whole_seconds (ah_refreshTTL h), ck_HttpOnly = True, ck_Secure = ah_secureCookies h,
     ck_SameSiteStrict = True\<rparr>"

definition clearRefreshTokenCookie :: "auth_handler \<Rightarrow> writer \<Rightarrow> writer" where
  "clearRefreshTokenCookie h = SetCookie
    \<lparr>ck_Name = refreshTokenCookieName, ck_Value = '''', ck_Path = ''/api/v1/auth'', ck_MaxAge = - 1,
     ck_HttpOnly = True, ck_Secure = ah_secureCookies h, ck_SameSiteStrict = True\<rparr>"

definition handleServiceError :: "env \<Rightarrow> string \<Rightarrow> gerror \<Rightarrow> writer \<Rightarrow> world \<Rightarrow> writer \<times> world" where
  "handleServiceError E requestID err =
    reply E (\<lambda>t.
      if errors_Is err (Auth ErrEmailTaken)
      then Conflict t ''EMAIL_TAKEN'' ''This email address is already registered'' requestID
      else if errors_Is err (Auth ErrInvalidCredentials) then Unauthorized t requestID
      else if errors_Is err (Auth ErrAccountLocked)
      then Error t 423 ''ACCOUNT_LOCKED''
             ''Account temporarily locked due to too many failed attempts. Try again in 30 minutes.'' requestID
      else if errors_Is err (Auth ErrAccountInactive)
      then Error t 403 ''ACCOUNT_INACTIVE'' ''This account has been deactivated.'' requestID
      else if errors_Is err (Auth ErrTokenInvalid) \<or> errors_Is err (Auth ErrTokenRevoked)
      then Unauthorized t requestID
      else if errors_Is err (Auth ErrWeakPassword)
      then UnprocessableEntity t ''WEAK_PASSWORD''
             ''Password must be 10-72 characters and include uppercase, number, and special character.'' requestID
      else if errors_Is err (Auth ErrInvalidEmail)
      then UnprocessableEntity t ''INVALID_EMAIL'' ''Email address format is invalid.'' requestID
      else if errors_Is err (Auth ErrNameTooShort)
      then UnprocessableEntity t ''INVALID_NAME'' ''Full name must be at least 2 characters.'' requestID
      else InternalError t requestID)"

definition auth_register :: "env \<Rightarrow> auth_lib \<Rightarrow> Config \<Rightarrow> auth_handler \<Rightarrow> handler" where
  "auth_register E L cfg h r =
    (case Option.bind (rq_Body r) dec_RegisterRequest of
       None \<Rightarrow> reply E (\<lambda>t. BadRequest t ''Invalid JSON body'' (rq_RequestID r))
     | Some req \<Rightarrow>
         on_result (Register E L cfg req (clientIP r) (rq_UserAgent r))
           (handleServiceError E (rq_RequestID r))
           (\<lambda>(authResp, refreshToken).
              reply E (\<lambda>t wr. Created (enc_auth_response authResp) (setRefreshTokenCookie h refreshToken wr))))"

definition auth_login :: "env \<Rightarrow> auth_lib \<Rightarrow> Config \<Rightarrow> auth_handler \<Rightarrow> handler" where
  "auth_login E L cfg h r =
    (case Option.bind (rq_Body r) dec_LoginRequest of
       None \<Rightarrow> reply E (\<lambda>t. Unauthorized t (rq_RequestID r))
     | Some req \<Rightarrow>
         on_result (Login E L cfg req (clientIP r) (rq_UserAgent r))
           (handleServiceError E (rq_RequestID r))
           (\<lambda>(authResp, refreshToken).
              reply E (\<lambda>t wr. OK (enc_auth_response authResp) (setRefreshTokenCookie h refreshToken wr))))"

definition auth_logout :: "env \<Rightarrow> auth_handler \<Rightarrow> handler" where
  "auth_logout E h r =
    (let cookie = field refreshTokenCookieName (rq_Cookies r) in
     if cookie = '''' then reply E (\<lambda>t wr. NoContent (clearRefreshTokenCookie h wr))
     else on_result (Logout E cookie None (clientIP r))
       (\<lambda>err. reply E (\<lambda>t wr. NoContent (clearRefreshTokenCookie h wr)))
       (\<lambda>_. reply E (\<lambda>t wr. NoContent (clearRefreshTokenCookie h wr))))"

definition auth_refresh :: "env \<Rightarrow> auth_lib \<Rightarrow> Config \<Rightarrow> auth_handler \<Rightarrow> handler" where
  "auth_refresh E L cfg h r =
    (let cookie = field refreshTokenCookieName (rq_Cookies r) in
     if cookie = '''' then reply E (\<lambda>t. Unauthorized t (rq_RequestID r))
     else on_result (RefreshToken E L cfg cookie (clientIP r) (rq_UserAgent r))
       (\<lambda>err. reply E (\<lambda>t wr. Unauthorized t (rq_RequestID r) (clearRefreshTokenCookie h wr)))
       (\<lambda>(refreshResp, newRefreshToken).
          reply E (\<lambda>t wr. OK (enc_refresh refreshResp) (setRefreshTokenCookie h newRefreshToken wr))))"

end
