(* ===== verification/Auth_Props.thy ===== *)
theory Auth_Props
  imports Auth
begin

text \<open>
  Facts about the auth package that its properties share: which tables each statement leaves alone,
  what a success of each call means, and the calls of the service as one step of a session history.
\<close>

section \<open>Tables a statement leaves alone\<close>

lemma leaves_select [leaves_intros]:
  "leaves f (select_user P)" "leaves f (select_primary_wallet i)" "leaves f (select_session h)"
  by (auto simp: leaves_def select_user_def select_primary_wallet_def select_session_def split: option.splits)

lemma leaves_sessions [leaves_intros]:
  "leaves sessions (insert_user e h n r)" "leaves sessions (insert_wallet i)" "leaves sessions (update_failed_logins i)"
  "leaves sessions (update_locked_until i x)" "leaves sessions (clear_failed_logins i)" "leaves sessions (insert_log E p)"
  by (auto simp: leaves_def insert_user_def insert_wallet_def update_failed_logins_def update_locked_until_def
      clear_failed_logins_def insert_log_def Let_def split: if_splits)

lemma leaves_users [leaves_intros]:
  "leaves users (insert_wallet i)" "leaves users (insert_session E i h ua ip x)" "leaves users (revoke_where P)"
  "leaves users (delete_session h)" "leaves users (insert_log E p)"
  by (auto simp: leaves_def insert_wallet_def insert_session_def revoke_where_def delete_session_def insert_log_def
      Let_def split: if_splits)

lemma leaves_wallets [leaves_intros]:
  "leaves wallets (insert_user e h n r)" "leaves wallets (insert_session E i h ua ip x)" "leaves wallets (revoke_where P)"
  "leaves wallets (delete_session h)" "leaves wallets (insert_log E p)" "leaves wallets (update_failed_logins i)"
  "leaves wallets (update_locked_until i x)" "leaves wallets (clear_failed_logins i)"
  by (auto simp: leaves_def insert_user_def insert_session_def revoke_where_def delete_session_def insert_log_def
      update_failed_logins_def update_locked_until_def clear_failed_logins_def Let_def split: if_splits)

lemma keeps_Log [keeps_intros]: "leaves f (insert_log E p) \<Longrightarrow> keeps (\<lambda>w. P (f (w_db w))) (Log E p)"
  unfolding Log_def by (intro keeps_intros)

lemma keeps_fresh_call [keeps_intros]: "keeps (\<lambda>w. P (w_db w)) fresh_call"
  by (simp add: keeps_def fresh_call_def)

lemma fresh_call_eq [io_eq]: "fresh_call w = (x, w') \<longleftrightarrow> x = Inr (w_calls w) \<and> w' = w\<lparr>w_calls := Suc (w_calls w)\<rparr>"
  by (auto simp: fresh_call_def)

lemma get_io_eq [io_eq]: "get_io f w = (x, w') \<longleftrightarrow> x = Inr (f w) \<and> w' = w"
  by (auto simp: get_io_def)

lemma ignore_io_eq [io_eq]: "ignore_io m k w = (x, w') \<longleftrightarrow> k (snd (m w)) = (x, w')"
  by (simp add: ignore_io_def)

lemma Log_leaves [simp]:
  "users (w_db (snd (Log E p w))) = users (w_db w)" "wallets (w_db (snd (Log E p w))) = wallets (w_db w)"
  "sessions (w_db (snd (Log E p w))) = sessions (w_db w)"
  by (simp_all add: Log_def io_run sql_leaves leaves_intros)

section \<open>What a success means\<close>

lemma CreateUser_Inr [io_eq]:
  "CreateUser E e h n r w = (Inr x, w') \<longleftrightarrow>
    fate E (w_calls w) = Up \<and>
    (\<exists>d. insert_user e h n r (draw_uuid E (w_calls w)) (clock E (w_calls w)) (w_db w) = Inr (x, d) \<and>
         w' = w\<lparr>w_calls := Suc (w_calls w), w_db := d\<rparr>)"
  by (auto simp: CreateUser_def io_eq split: if_splits)

lemma select_user_Inr [io_eq]:
  "select_user P u t d = Inr (x, d') \<longleftrightarrow> find (\<lambda>x. P x \<and> u_deleted_at x = None) (users d) = Some x \<and> d' = d"
  by (auto simp: select_user_def split: option.splits)

lemma FindUserByEmail_Inr [io_eq]:
  "FindUserByEmail E e w = (Inr x, w') \<longleftrightarrow>
    fate E (w_calls w) = Up \<and> find (\<lambda>x. u_Email x = e \<and> u_deleted_at x = None) (users (w_db w)) = Some x \<and>
    w' = w\<lparr>w_calls := Suc (w_calls w)\<rparr>"
  by (auto simp: FindUserByEmail_def io_eq split: if_splits)

lemma FindUserByID_Inr [io_eq]:
  "FindUserByID E i w = (Inr x, w') \<longleftrightarrow>
    fate E (w_calls w) = Up \<and> find (\<lambda>x. u_ID x = i \<and> u_deleted_at x = None) (users (w_db w)) = Some x \<and>
    w' = w\<lparr>w_calls := Suc (w_calls w)\<rparr>"
  by (auto simp: FindUserByID_def io_eq split: if_splits)

lemma FindSession_Inr [io_eq]:
  "FindSessionByTokenHash E h w = (Inr s, w') \<longleftrightarrow>
    fate E (w_calls w) = Up \<and>
    find (\<lambda>s. s_TokenHash s = h \<and> live_session (clock E (w_calls w)) s) (sessions (w_db w)) = Some s \<and>
    w' = w\<lparr>w_calls := Suc (w_calls w)\<rparr>"
  by (auto simp: FindSessionByTokenHash_def select_session_def io_eq split: if_splits option.splits)

lemma FindWallet_Inr [io_eq]:
  "FindWalletByUserID E i w = (Inr x, w') \<longleftrightarrow>
    fate E (w_calls w) = Up \<and>
    find (\<lambda>w. w_UserID w = i \<and> w_Currency w = ''DD$'' \<and> w_deleted_at w = None) (wallets (w_db w)) = Some x \<and>
    w' = w\<lparr>w_calls := Suc (w_calls w)\<rparr>"
  by (auto simp: FindWalletByUserID_def select_primary_wallet_def io_eq split: if_splits option.splits)

section \<open>A revoked session stays revoked\<close>

text \<open>
  The row of a revoked session blocks its hash: token hashes are unique, no statement sets \<open>is_revoked\<close>
  back, and rotation deletes live sessions only.
\<close>

definition retired :: "string \<Rightarrow> session list \<Rightarrow> bool" where
  "retired h ss \<longleftrightarrow> distinct (map s_TokenHash ss) \<and> (\<exists>s \<in> set ss. s_TokenHash s = h \<and> s_IsRevoked s)"

lemma retired_not_live:
  assumes "retired h ss" and "find (\<lambda>s. s_TokenHash s = h' \<and> live_session t s) ss = Some s"
  shows "h' \<noteq> h"
proof
  assume "h' = h"
  with assms(2) have s: "s \<in> set ss" "s_TokenHash s = h" "\<not> s_IsRevoked s"
    by (auto dest!: find_Some_in simp: live_session_def)
  obtain r where "r \<in> set ss" "s_TokenHash r = h" "s_IsRevoked r" using assms(1) by (auto simp: retired_def)
  with s assms(1) show False by (metis retired_def distinct_map inj_onD)
qed

lemma retired_insert:
  "retired h (sessions d) \<Longrightarrow> insert_session E i h' ua ip x u t d = Inr (a, d') \<Longrightarrow> retired h (sessions d')"
  by (auto simp: retired_def insert_session_def Let_def split: if_splits)

lemma retired_revoke: "retired h ss \<Longrightarrow> retired h (upd_where P (\<lambda>s. s\<lparr>s_IsRevoked := True\<rparr>) ss)"
proof -
  have "map s_TokenHash (upd_where P (\<lambda>s. s\<lparr>s_IsRevoked := True\<rparr>) ss) = map s_TokenHash ss"
    by (rule map_upd_where) simp
  then show "retired h ss \<Longrightarrow> ?thesis"
    unfolding retired_def set_upd_where by force
qed

lemma retired_delete: "retired h ss \<Longrightarrow> h' \<noteq> h \<Longrightarrow> retired h (filter (\<lambda>s. s_TokenHash s \<noteq> h') ss)"
  by (auto simp: retired_def distinct_map_filter)

abbreviation (input) blocked :: "string \<Rightarrow> world \<Rightarrow> bool" where
  "blocked h \<equiv> (\<lambda>w. retired h (sessions (w_db w)))"

named_theorems blocked_intros \<open>effects that keep a revoked session\<close>

lemma blocked_CreateSession: "keeps (blocked h) (CreateSession E i h' ua ip x)"
  unfolding CreateSession_def
  by (intro keeps_wrap sql_keeps) (auto dest: retired_insert)

lemma blocked_RevokeSession: "keeps (blocked h) (RevokeSession E h')"
  unfolding RevokeSession_def by (intro sql_keeps) (auto simp: revoke_where_def retired_revoke)

lemma blocked_DeleteSession: "h' \<noteq> h \<Longrightarrow> keeps (blocked h) (DeleteSession E h')"
  unfolding DeleteSession_def by (intro sql_keeps) (auto simp: delete_session_def retired_delete)

lemma blocked_find:
  "keeps (blocked h) (FindUserByEmail E e)" "keeps (blocked h) (FindUserByID E i)"
  "keeps (blocked h) (FindWalletByUserID E i)" "keeps (blocked h) (FindSessionByTokenHash E h')"
  unfolding FindUserByEmail_def FindUserByID_def FindWalletByUserID_def FindSessionByTokenHash_def
  by (intro keeps_intros leaves_intros)+

lemma blocked_users:
  "keeps (blocked h) (CreateUser E e ph n r)" "keeps (blocked h) (CreateWallet E i)"
  "keeps (blocked h) (IncrementFailedLogins E i)" "keeps (blocked h) (LockUser E i x)"
  "keeps (blocked h) (ResetFailedLogins E i)" "keeps (blocked h) (Log E p)" "keeps (blocked h) fresh_call"
  unfolding CreateUser_def CreateWallet_def IncrementFailedLogins_def LockUser_def ResetFailedLogins_def
  by (intro keeps_intros leaves_intros)+

lemmas blocked_calls = blocked_CreateSession blocked_RevokeSession blocked_find blocked_users

lemma blocked_random: "keeps (blocked h) (HashPassword L p)" "keeps (blocked h) (GenerateSecureToken E)"
  unfolding HashPassword_def GenerateSecureToken_def by (intro keeps_intros)+

lemma blocked_tokens:
  "keeps (blocked h) (issueAccessToken E L cfg x i)" "keeps (blocked h) (issueRefreshToken E cfg j ip ua)"
  unfolding issueAccessToken_def issueRefreshToken_def
  by (intro keeps_intros blocked_random blocked_calls)+

lemma blocked_failed: "keeps (blocked h) (handleFailedLogin E x ip ua)"
  unfolding handleFailedLogin_def Let_def by (intro keeps_intros blocked_calls)

lemma blocked_tail: "keeps (blocked h) (login_tail E L cfg x ip ua)"
  unfolding login_tail_def by (intro keeps_intros blocked_calls blocked_tokens)

lemma blocked_Register: "keeps (blocked h) (Register E L cfg req ip ua)"
  unfolding Register_def by (intro keeps_intros blocked_calls blocked_tokens blocked_random)

lemma blocked_Login: "keeps (blocked h) (Login E L cfg req ip ua)"
  unfolding Login_def by (intro keeps_intros blocked_calls blocked_tail blocked_failed)

lemma blocked_Logout: "keeps (blocked h) (Logout E tok u ip)"
  unfolding Logout_def by (intro keeps_intros blocked_calls)

text \<open>\<open>RefreshToken\<close> deletes the row of a live token only, which is not the revoked one.\<close>

lemma blocked_RefreshToken: "keeps (blocked h) (RefreshToken E L cfg tok ip ua)"
  unfolding keeps_def
proof (intro allI impI)
  fix w :: "world"
  assume w: "retired h (sessions (w_db w))"
  show "retired h (sessions (w_db (snd (RefreshToken E L cfg tok ip ua w))))"
  proof (cases "FindSessionByTokenHash E (HashToken tok) w")
    case (Pair x w1)
    have w1: "retired h (sessions (w_db w1))" using keepsD [OF blocked_find(4) w Pair] .
    show ?thesis
    proof (cases x)
      case (Inl e)
      with Pair w1 show ?thesis by (simp add: RefreshToken_def Let_def io_run)
    next
      case (Inr s)
      with Pair have "HashToken tok \<noteq> h" using retired_not_live [OF w] by (auto simp: io_eq)
      then have "keeps (blocked h)
        (bind_io (wrap_io ''find user for refresh'' (FindUserByID E (s_UserID s))) (\<lambda>user.
         bind_io (wrap_io ''find wallet for refresh'' (FindWalletByUserID E (u_ID user))) (\<lambda>wallet.
         bind_io (wrap_io ''delete old session'' (DeleteSession E (HashToken tok))) (\<lambda>_.
         bind_io (wrap_io ''issue access token'' (issueAccessToken E L cfg user (w_ID wallet))) (\<lambda>newAccessToken.
         bind_io (wrap_io ''issue refresh token'' (issueRefreshToken E cfg (u_ID user) ip ua)) (\<lambda>newRefreshToken.
         ignore_io (Log E (no_log\<lparr>lp_ActorID := Some (u_ID user), lp_ActorRole := u_Role user,
                      lp_Action := ''user.token.refresh'', lp_IPAddress := ip, lp_Success := True\<rparr>)) (
         ret (\<lparr>rf_AccessToken = newAccessToken, rf_ExpiresIn = whole_seconds (cfg_AccessTokenTTL cfg)\<rparr>,
              newRefreshToken))))))))"
        by (intro keeps_intros blocked_calls blocked_tokens blocked_DeleteSession)
      with w1 Pair Inr show ?thesis
        unfolding RefreshToken_def Let_def by (simp add: catch_io_run keeps_def)
    qed
  qed
qed

text \<open>A token without a live session is refused, whatever else happens.\<close>

lemma RefreshToken_refused:
  assumes "find (\<lambda>s. s_TokenHash s = HashToken tok \<and> live_session (clock E (w_calls w)) s) (sessions (w_db w)) = None"
  shows "fst (RefreshToken E L cfg tok ip ua w) = Inl (Auth ErrTokenRevoked)"
proof (cases "FindSessionByTokenHash E (HashToken tok) w")
  case (Pair x w1)
  with assms show ?thesis
    by (cases x) (auto simp: RefreshToken_def Let_def catch_io_run throw_run io_eq)
qed

lemma RefreshToken_retired:
  assumes "retired (HashToken tok) (sessions (w_db w))"
  shows "fst (RefreshToken E L cfg tok ip ua w) = Inl (Auth ErrTokenRevoked)"
  using retired_not_live [OF assms] by (intro RefreshToken_refused) (metis not_None_eq)

section \<open>Histories of the auth service\<close>

datatype auth_op =
    Op_Register RegisterRequest string string
  | Op_Login LoginRequest string string
  | Op_Logout string "uuid option" string
  | Op_Refresh string string string

fun auth_step :: "env \<Rightarrow> auth_lib \<Rightarrow> Config \<Rightarrow> auth_op \<Rightarrow> world \<Rightarrow> world" where
  "auth_step E L cfg (Op_Register req ip ua) w = snd (Register E L cfg req ip ua w)"
| "auth_step E L cfg (Op_Login req ip ua) w = snd (Login E L cfg req ip ua w)"
| "auth_step E L cfg (Op_Logout tok u ip) w = snd (Logout E tok u ip w)"
| "auth_step E L cfg (Op_Refresh tok ip ua) w = snd (RefreshToken E L cfg tok ip ua w)"

definition auth_run :: "env \<Rightarrow> auth_lib \<Rightarrow> Config \<Rightarrow> auth_op list \<Rightarrow> world \<Rightarrow> world" where
  "auth_run E L cfg ops w = fold (auth_step E L cfg) ops w"

lemma auth_step_retired:
  assumes "retired h (sessions (w_db w))"
  shows "retired h (sessions (w_db (auth_step E L cfg op w)))"
  using assms blocked_Register [of h] blocked_Login [of h] blocked_Logout [of h] blocked_RefreshToken [of h]
  by (cases op) (simp_all add: keeps_def)

lemma auth_run_retired:
  "retired h (sessions (w_db w)) \<Longrightarrow> retired h (sessions (w_db (auth_run E L cfg ops w)))"
  unfolding auth_run_def by (induction ops arbitrary: w) (simp_all add: auth_step_retired)

lemma DeleteSession_Inr [io_eq]:
  "DeleteSession E h w = (Inr x, w') \<longleftrightarrow>
    fate E (w_calls w) = Up \<and>
    w' = w\<lparr>w_calls := Suc (w_calls w),
           w_db := (w_db w)\<lparr>sessions := filter (\<lambda>s. s_TokenHash s \<noteq> h) (sessions (w_db w))\<rparr>\<rparr>"
  by (auto simp: DeleteSession_def delete_session_def io_eq)

section \<open>Tokens\<close>

lemma issueAccessToken_Inr:
  assumes "issueAccessToken E L cfg user walletID w = (Inr tok, w')"
  shows "w' = w\<lparr>w_calls := Suc (w_calls w)\<rparr>"
    and "\<exists>iat jti. jwt_SignedString L HS256
        [(''uid'', ClaimString (uuid_String E (u_ID user))), (''role'', ClaimString (u_Role user)),
         (''wid'', ClaimString (uuid_String E walletID)), (''iat'', iat),
         (''exp'', ClaimNumber (show_int (Unix (time_Add (now E w) (cfg_AccessTokenTTL cfg))))), (''jti'', jti)]
        (cfg_JWTSecret cfg) = Some tok"
  using assms by (auto simp: issueAccessToken_def io_eq split: option.splits)

lemma issueAccessToken_db: "w_db (snd (issueAccessToken E L cfg user walletID w)) = w_db w"
  by (simp add: issueAccessToken_def io_run fresh_call_def split: option.splits)

lemma CreateSession_Inr [io_eq]:
  "CreateSession E i h ua ip x w = (Inr s, w') \<longleftrightarrow>
    fate E (w_calls w) = Up \<and>
    (\<exists>d. insert_session E i h ua ip x (draw_uuid E (w_calls w)) (clock E (w_calls w)) (w_db w) = Inr (s, d) \<and>
         w' = w\<lparr>w_calls := Suc (w_calls w), w_db := d\<rparr>)"
  by (auto simp: CreateSession_def io_eq)

lemma insert_session_Inr:
  assumes "insert_session E i h ua ip x u t d = Inr (s, d')"
  shows "d' = d\<lparr>sessions := sessions d @ [s]\<rparr>" and "s_UserID s = i" and "s_TokenHash s = h" and "\<not> s_IsRevoked s"
    and "s_ExpiresAt s = timestamptz x" and "h \<notin> s_TokenHash ` set (sessions d)" and "inet_ok E ip"
  using assms by (auto simp: insert_session_def Let_def split: if_splits)

text \<open>The row \<open>issueRefreshToken\<close> adds: the hash of the token it returns, for the user, not revoked.\<close>

definition new_session :: "uuid \<Rightarrow> string \<Rightarrow> session \<Rightarrow> bool" where
  "new_session userID tok s \<longleftrightarrow> s_UserID s = userID \<and> s_TokenHash s = HashToken tok \<and> \<not> s_IsRevoked s"

lemma issueRefreshToken_Inr:
  assumes "issueRefreshToken E cfg i ip ua w = (Inr tok, w')"
  obtains s where "w_db w' = (w_db w)\<lparr>sessions := sessions (w_db w) @ [s]\<rparr>" "new_session i tok s"
    "HashToken tok \<notin> s_TokenHash ` set (sessions (w_db w))"
    "s_ExpiresAt s = timestamptz (time_Add (now E (w\<lparr>w_calls := Suc (w_calls w)\<rparr>)) (cfg_RefreshTokenTTL cfg))"
proof -
  let ?w = "w\<lparr>w_calls := Suc (w_calls w)\<rparr>" and ?x = "time_Add (now E (w\<lparr>w_calls := Suc (w_calls w)\<rparr>)) (cfg_RefreshTokenTTL cfg)"
  obtain s d u t where ins: "insert_session E i (HashToken tok) ua ip ?x u t (w_db w) = Inr (s, d)" and w': "w_db w' = d"
    using assms by (auto simp: issueRefreshToken_def GenerateSecureToken_def io_eq split: option.splits)
  show thesis
    using that [of s] insert_session_Inr [OF ins] w' by (simp add: new_session_def)
qed

lemma ResetFailedLogins_leaves [simp]:
  "sessions (w_db (snd (ResetFailedLogins E i w))) = sessions (w_db w)"
  "wallets (w_db (snd (ResetFailedLogins E i w))) = wallets (w_db w)"
  by (simp_all add: ResetFailedLogins_def sql_leaves leaves_intros)

lemma insert_user_Inr:
  assumes "insert_user e h n r u t d = Inr (x, d')"
  shows "d' = d\<lparr>users := users d @ [x]\<rparr>" and "u_ID x = u" and "u_Email x = e" and "u_PasswordHash x = h"
    and "u_FullName x = n" and "u_Role x = r" and "u_IsActive x" and "u_FailedLogins x = 0" and "u_LockedUntil x = None"
    and "e \<notin> u_Email ` set (users d)" and "u \<notin> u_ID ` set (users d)" and "email_matches False e"
  using assms by (auto simp: insert_user_def Let_def split: if_splits)

lemma insert_wallet_Inr:
  assumes "insert_wallet i u t d = Inr (x, d')"
  shows "d' = d\<lparr>wallets := wallets d @ [x]\<rparr>" and "w_ID x = u" and "w_UserID x = i" and "w_Balance x = 0"
    and "w_Currency x = ''DD$''" and "\<not> w_IsFrozen x" and "u \<notin> w_ID ` set (wallets d)"
  using assms by (auto simp: insert_wallet_def Let_def split: if_splits)

lemma insert_wallet_ok:
  assumes "u \<notin> w_ID ` set (wallets d)" and "i \<notin> w_UserID ` set (wallets d)" and "i \<in> u_ID ` set (users d)"
  shows "\<exists>x. insert_wallet i u t d = Inr (x, d\<lparr>wallets := wallets d @ [x]\<rparr>)"
proof -
  have "\<not> (\<exists>w \<in> set (wallets d). w_UserID w = i \<and> w_Currency w = ''DD$'')" using assms(2) by force
  with assms(1,3) show ?thesis by (simp add: insert_wallet_def Let_def)
qed

lemma CreateWallet_Inr [io_eq]:
  "CreateWallet E i w = (Inr x, w') \<longleftrightarrow>
    fate E (w_calls w) = Up \<and>
    (\<exists>d. insert_wallet i (draw_uuid E (w_calls w)) (clock E (w_calls w)) (w_db w) = Inr (x, d) \<and>
         w' = w\<lparr>w_calls := Suc (w_calls w), w_db := d\<rparr>)"
  by (auto simp: CreateWallet_def io_eq)

section \<open>Calls that succeed\<close>

lemma upd_where_in:
  "x \<in> set (upd_where P f rs) \<Longrightarrow> \<exists>y \<in> set rs. (P y \<and> x = f y) \<or> (\<not> P y \<and> x = y)"
  by (auto simp: set_upd_where)

text \<open>
  A session can be opened at call \<open>n\<close>: every service is up, the random bytes come, neither the hash of the
  token nor the number of the row is taken, and the columns accept the address and the user agent.
\<close>

definition can_open :: "env \<Rightarrow> uuid \<Rightarrow> string \<Rightarrow> string \<Rightarrow> nat \<Rightarrow> database \<Rightarrow> bool" where
  "can_open E i ip ua n d \<longleftrightarrow> (\<forall>k. fate E k = Up) \<and>
     (\<exists>b. draw_bytes E n = Some b \<and> HashToken (hex_encode (bytes_of b)) \<notin> s_TokenHash ` set (sessions d)) \<and>
     draw_uuid E (Suc n) \<notin> s_ID ` set (sessions d) \<and> inet_ok E ip \<and> fits 500 (Some ua) \<and> i \<in> u_ID ` set (users d)"

definition jwt_signs :: "auth_lib \<Rightarrow> bool" where
  "jwt_signs L \<longleftrightarrow> (\<forall>cs k. jwt_SignedString L HS256 cs k \<noteq> None)"

lemma fits_token [simp]: "fits 128 (Some (HashToken tok))"
  using char_count_le [of "HashToken tok"] by (simp add: fits_def)

lemma issueAccessToken_up:
  "jwt_signs L \<Longrightarrow> \<exists>tok. issueAccessToken E L cfg user i w = (Inr tok, w\<lparr>w_calls := Suc (w_calls w)\<rparr>)"
  unfolding jwt_signs_def issueAccessToken_def by (fastforce simp: io_run fresh_call_def split: option.splits)

lemma issueRefreshToken_up:
  assumes "can_open E i ip ua (w_calls w) (w_db w)"
  shows "\<exists>tok w'. issueRefreshToken E cfg i ip ua w = (Inr tok, w')"
proof -
  obtain b where b: "draw_bytes E (w_calls w) = Some b" "HashToken (hex_encode (bytes_of b)) \<notin> s_TokenHash ` set (sessions (w_db w))"
    and up: "\<forall>k. fate E k = Up" and o: "draw_uuid E (Suc (w_calls w)) \<notin> s_ID ` set (sessions (w_db w))" "inet_ok E ip"
      "fits 500 (Some ua)" "i \<in> u_ID ` set (users (w_db w))"
    using assms unfolding can_open_def by blast
  let ?tok = "hex_encode (bytes_of b)" and ?w = "w\<lparr>w_calls := Suc (w_calls w)\<rparr>"
  obtain s d where "insert_session E i (HashToken ?tok) ua ip (time_Add (now E ?w) (cfg_RefreshTokenTTL cfg))
      (draw_uuid E (Suc (w_calls w))) (clock E (Suc (w_calls w))) (w_db w) = Inr (s, d)"
    using o b(2) by (simp add: insert_session_def Let_def)
  then have "CreateSession E i (HashToken ?tok) ua ip (time_Add (now E ?w) (cfg_RefreshTokenTTL cfg)) ?w
      = (Inr s, w\<lparr>w_calls := Suc (Suc (w_calls w)), w_db := d\<rparr>)"
    using up by (simp add: CreateSession_Inr)
  then show ?thesis
    using b(1) by (simp add: issueRefreshToken_def GenerateSecureToken_def io_run fresh_call_def)
qed

lemma cleared_user:
  assumes "x \<in> set (upd_where (\<lambda>x. u_ID x = i)
      (\<lambda>x. x\<lparr>u_FailedLogins := 0, u_LockedUntil := None, u_LastLoginAt := a, u_UpdatedAt := b\<rparr>) us)"
    and "u_ID x = i"
  shows "u_FailedLogins x = 0 \<and> u_LockedUntil x = None"
proof -
  from upd_where_in [OF assms(1)] obtain y where
    "(u_ID y = i \<and> x = y\<lparr>u_FailedLogins := 0, u_LockedUntil := None, u_LastLoginAt := a, u_UpdatedAt := b\<rparr>) \<or>
     (u_ID y \<noteq> i \<and> x = y)" by blast
  with assms(2) show ?thesis by (elim disjE conjE) simp_all
qed

lemma ResetFailedLogins_up:
  assumes "\<And>k. fate E k = Up" and "x \<in> set (users (w_db (snd (ResetFailedLogins E i w))))" and "u_ID x = i"
  shows "u_FailedLogins x = 0 \<and> u_LockedUntil x = None"
proof (rule cleared_user [OF _ assms(3)])
  show "x \<in> set (upd_where (\<lambda>x. u_ID x = i)
      (\<lambda>x. x\<lparr>u_FailedLogins := 0, u_LockedUntil := None, u_LastLoginAt := Some (clock E (w_calls w)),
             u_UpdatedAt := clock E (w_calls w)\<rparr>) (users (w_db w)))"
    using assms(2) by (simp add: ResetFailedLogins_def sql_def clear_failed_logins_def Let_def assms(1))
qed

lemma login_tail_up:
  assumes "can_open E (u_ID user) ip ua (w_calls w + 2) (w_db w)" and "jwt_signs L"
    and "find (\<lambda>w. w_UserID w = u_ID user \<and> w_Currency w = ''DD$'' \<and> w_deleted_at w = None) (wallets (w_db w)) = Some x"
  shows "\<exists>r w'. login_tail E L cfg user ip ua w = (Inr r, w') \<and>
    (\<forall>x \<in> set (users (w_db w')). u_ID x = u_ID user \<longrightarrow> u_FailedLogins x = 0 \<and> u_LockedUntil x = None)"
proof -
  let ?w = "w\<lparr>w_calls := Suc (w_calls w)\<rparr>"
  have up: "fate E k = Up" for k using assms(1) by (simp add: can_open_def)
  then have f: "FindWalletByUserID E (u_ID user) w = (Inr x, ?w)" using assms(3) by (simp add: FindWallet_Inr)
  obtain a where a: "issueAccessToken E L cfg user (w_ID x) ?w = (Inr a, w\<lparr>w_calls := w_calls w + 2\<rparr>)"
    using issueAccessToken_up [OF assms(2), of E cfg user "w_ID x" ?w] by auto
  obtain tok w' where "issueRefreshToken E cfg (u_ID user) ip ua (w\<lparr>w_calls := w_calls w + 2\<rparr>) = (Inr tok, w')"
    using issueRefreshToken_up [of E "u_ID user" ip ua "w\<lparr>w_calls := w_calls w + 2\<rparr>" cfg] assms(1) by auto
  then have "login_tail E L cfg user ip ua w = (Inr (buildAuthResponse E cfg user x a, tok),
      snd (Log E (no_log\<lparr>lp_ActorID := Some (u_ID user), lp_ActorRole := u_Role user,
                 lp_Action := ''user.login'', lp_ResourceType := ''user'', lp_ResourceID := Some (u_ID user),
                 lp_IPAddress := ip, lp_UserAgent := ua, lp_Success := True\<rparr>) (snd (ResetFailedLogins E (u_ID user) w'))))"
    using f a by (simp add: login_tail_def io_run)
  then show ?thesis using ResetFailedLogins_up [OF up] by auto
qed

text \<open>A login that the service lets through, call by call.\<close>

lemma Login_up:
  assumes "lr_Password req \<noteq> ''''" and "TrimSpace (ToLower (al_unicode L) (lr_Email req)) = email" and "email \<noteq> ''''"
    and "find (\<lambda>x. u_Email x = email \<and> u_deleted_at x = None) (users (w_db w)) = Some user"
    and "u_IsActive user" and "\<not> IsLocked user (clock E (Suc (w_calls w)))"
    and "bcrypt_Compare L (u_PasswordHash user) (lr_Password req)"
    and "find (\<lambda>x. w_UserID x = u_ID user \<and> w_Currency x = ''DD$'' \<and> w_deleted_at x = None) (wallets (w_db w)) = Some x"
    and "jwt_signs L" and "can_open E (u_ID user) ip ua (w_calls w + 3) (w_db w)"
  shows "\<exists>r w'. Login E L cfg req ip ua w = (Inr r, w') \<and>
    (\<forall>x \<in> set (users (w_db w')). u_ID x = u_ID user \<longrightarrow> u_FailedLogins x = 0 \<and> u_LockedUntil x = None)"
proof -
  let ?w = "w\<lparr>w_calls := Suc (w_calls w)\<rparr>"
  have "fate E k = Up" for k using assms(10) by (simp add: can_open_def)
  then have f: "FindUserByEmail E email w = (Inr user, ?w)" using assms(4) by (simp add: FindUserByEmail_Inr)
  obtain r w' where "login_tail E L cfg user ip ua ?w = (Inr r, w')"
      "\<forall>x \<in> set (users (w_db w')). u_ID x = u_ID user \<longrightarrow> u_FailedLogins x = 0 \<and> u_LockedUntil x = None"
    using login_tail_up [of E user ip ua ?w L x cfg] assms(8-10) by (auto simp: eval_nat_numeral)
  with f assms(1-3,5-7) show ?thesis
    by (simp add: Login_def LoginRequest_Validate_def Let_def io_run VerifyPassword_def now_def)
qed

section \<open>Failed logins\<close>

text \<open>The account of an address, as \<open>FindUserByEmail\<close> finds it; a request that presents it.\<close>

definition account :: "string \<Rightarrow> database \<Rightarrow> user option" where
  "account email d = find (\<lambda>x. u_Email x = email \<and> u_deleted_at x = None) (users d)"

definition presents :: "auth_lib \<Rightarrow> string \<Rightarrow> LoginRequest \<Rightarrow> bool" where
  "presents L email req \<longleftrightarrow> email \<noteq> '''' \<and> lr_Password req \<noteq> '''' \<and>
     TrimSpace (ToLower (al_unicode L) (lr_Email req)) = email"

lemma account_upd:
  assumes "account email d = Some u" and "\<And>x. u_Email (f x) = u_Email x" and "\<And>x. u_deleted_at (f x) = u_deleted_at x"
  shows "account email (d\<lparr>users := upd_where (\<lambda>x. u_ID x = u_ID u) f (users d)\<rparr>) = Some (f u)"
  using assms by (simp add: account_def find_upd_where)

lemma account_users: "users d' = users d \<Longrightarrow> account email d' = account email d"
  by (simp add: account_def)

text \<open>A service of five failed attempts: the row after an attempt at an instant, and the lock.\<close>

definition counted :: "gotime \<Rightarrow> user \<Rightarrow> user" where
  "counted t x = x\<lparr>u_FailedLogins := u_FailedLogins x + 1, u_UpdatedAt := t\<rparr>"

definition locked :: "gotime \<Rightarrow> gotime \<Rightarrow> user \<Rightarrow> user" where
  "locked until t x = x\<lparr>u_LockedUntil := Some (timestamptz until), u_UpdatedAt := t\<rparr>"

lemma IncrementFailedLogins_up:
  assumes "\<And>k. fate E k = Up" and "account email (w_db w) = Some u" and "distinct (map u_ID (users (w_db w)))"
    and "u_FailedLogins u < 100"
  shows "snd (IncrementFailedLogins E (u_ID u) w) = w\<lparr>w_calls := Suc (w_calls w),
    w_db := (w_db w)\<lparr>users := upd_where (\<lambda>x. u_ID x = u_ID u) (counted (clock E (w_calls w))) (users (w_db w))\<rparr>\<rparr>"
proof -
  have "u \<in> set (users (w_db w))" using find_Some_in [OF assms(2) [unfolded account_def]] by simp
  then have "u_FailedLogins x = u_FailedLogins u" if "x \<in> set (users (w_db w))" "u_ID x = u_ID u" for x
    using inj_onD [of u_ID "set (users (w_db w))" x u] assms(3) that by (simp add: distinct_map)
  then have "\<not> (\<exists>x \<in> set (users (w_db w)). u_ID x = u_ID u \<and> 100 \<le> u_FailedLogins x)"
    using assms(4) by (metis not_le)
  then have "update_failed_logins (u_ID u) v t (w_db w) =
      Inr ((), (w_db w)\<lparr>users := upd_where (\<lambda>x. u_ID x = u_ID u) (counted t) (users (w_db w))\<rparr>)" for v t
    by (simp only: update_failed_logins_def counted_def [abs_def] if_False)
  then show ?thesis by (simp add: IncrementFailedLogins_def sql_def Let_def assms(1))
qed

lemma LockUser_up:
  assumes "\<And>k. fate E k = Up"
  shows "snd (LockUser E i until w) = w\<lparr>w_calls := Suc (w_calls w),
    w_db := (w_db w)\<lparr>users := upd_where (\<lambda>x. u_ID x = i) (locked until (clock E (w_calls w))) (users (w_db w))\<rparr>\<rparr>"
  by (simp add: LockUser_def sql_def Let_def update_locked_until_def assms locked_def [abs_def])

lemma Log_calls [simp]: "w_calls (snd (Log E p w)) = Suc (w_calls w)"
  by (auto simp: Log_def io_run sql_def Let_def split: fault.splits sum.splits prod.splits)

lemma handleFailedLogin_up:
  fixes ip ua :: string
  assumes up: "\<And>k. fate E k = Up" and u: "account email (w_db w) = Some u" "distinct (map u_ID (users (w_db w)))"
    "u_FailedLogins u < 100"
  defines "w' \<equiv> snd (handleFailedLogin E u ip ua w)"
  shows "account email (w_db w') = Some
      (if 5 \<le> u_FailedLogins u + 1
       then locked (time_Add (clock E (w_calls w' - 2)) lockoutDuration) (clock E (w_calls w' - 2)) (counted (clock E (w_calls w)) u)
       else counted (clock E (w_calls w)) u)" (is ?A)
    and "map u_ID (users (w_db w')) = map u_ID (users (w_db w))" (is ?B)
proof -
  define w1 where "w1 = snd (IncrementFailedLogins E (u_ID u) w)"
  have w1: "w1 = w\<lparr>w_calls := Suc (w_calls w),
    w_db := (w_db w)\<lparr>users := upd_where (\<lambda>x. u_ID x = u_ID u) (counted (clock E (w_calls w))) (users (w_db w))\<rparr>\<rparr>"
    unfolding w1_def by (rule IncrementFailedLogins_up [OF up u])
  have a1: "account email (w_db w1) = Some (counted (clock E (w_calls w)) u)"
    unfolding w1 using account_upd [OF u(1), of "counted (clock E (w_calls w))"] by (simp add: counted_def)
  have m1: "map u_ID (users (w_db w1)) = map u_ID (users (w_db w))"
    by (simp add: w1 map_upd_where counted_def)
  let ?p = "no_log\<lparr>lp_ActorID := Some (u_ID u), lp_Action := ''user.login.failed'', lp_IPAddress := ip,
                 lp_UserAgent := ua, lp_Metadata := [(''failed_logins_now'', JInt (word_of_nat (u_FailedLogins u + 1)))],
                 lp_ErrorCode := ''INVALID_CREDENTIALS''\<rparr>"
  define w2 where "w2 = snd (Log E ?p w1)"
  have a2: "account email (w_db w2) = Some (counted (clock E (w_calls w)) u)" "users (w_db w2) = users (w_db w1)"
    using a1 account_users [of "w_db w2" "w_db w1"] by (simp_all add: w2_def)
  show ?A and ?B
  proof (atomize (full), cases "5 \<le> u_FailedLogins u + 1")
    case False
    then have "w' = w2" by (simp add: w'_def handleFailedLogin_def maxFailedLogins_def io_run w1_def w2_def)
    with False a2 m1 show "?A \<and> ?B" by simp
  next
    case True
    define until where "until = time_Add (clock E (w_calls w2)) lockoutDuration"
    define w3 where "w3 = snd (LockUser E (u_ID u) until w2)"
    have w3: "w3 = w2\<lparr>w_calls := Suc (w_calls w2), w_db := (w_db w2)\<lparr>users :=
        upd_where (\<lambda>x. u_ID x = u_ID u) (locked until (clock E (w_calls w2))) (users (w_db w2))\<rparr>\<rparr>"
      unfolding w3_def by (rule LockUser_up [OF up])
    have "u_ID (counted (clock E (w_calls w)) u) = u_ID u" by (simp add: counted_def)
    then have a3: "account email (w_db w3) = Some (locked until (clock E (w_calls w2)) (counted (clock E (w_calls w)) u))"
      unfolding w3 using account_upd [OF a2(1), of "locked until (clock E (w_calls w2))"] by (simp add: locked_def)
    have m3: "map u_ID (users (w_db w3)) = map u_ID (users (w_db w2))"
      by (simp add: w3 map_upd_where locked_def)
    have w': "w' = snd (Log E (no_log\<lparr>lp_ActorID := Some (u_ID u), lp_Action := ''user.locked'', lp_IPAddress := ip,
                      lp_Metadata := [(''locked_until'', enc_time until)], lp_Success := True\<rparr>) w3)"
      using True by (simp add: w'_def handleFailedLogin_def maxFailedLogins_def io_run w1_def w2_def w3_def until_def now_def Let_def)
    then have "w_calls w' - 2 = w_calls w2" "users (w_db w') = users (w_db w3)" by (simp_all add: w3)
    with True a2(2) a3 m1 m3 account_users [of "w_db w'" "w_db w3"]
    show "?A \<and> ?B"
      by (simp add: until_def)
  qed
qed

text \<open>An attempt with a wrong password on an open account.\<close>

lemma Login_wrong:
  assumes up: "\<And>k. fate E k = Up" and req: "presents L email req"
    and u: "account email (w_db w) = Some u" "distinct (map u_ID (users (w_db w)))" "u_FailedLogins u < 100"
    and ok: "u_IsActive u" "\<not> IsLocked u (clock E (Suc (w_calls w)))" "\<not> bcrypt_Compare L (u_PasswordHash u) (lr_Password req)"
  shows "fst (Login E L cfg req ip ua w) = Inl (Auth ErrInvalidCredentials)"
    and "distinct (map u_ID (users (w_db (snd (Login E L cfg req ip ua w)))))"
    and "account email (w_db (snd (Login E L cfg req ip ua w))) = Some
      (let t = clock E (Suc (w_calls w)); t' = clock E (w_calls (snd (Login E L cfg req ip ua w)) - 2)
       in if 5 \<le> u_FailedLogins u + 1 then locked (time_Add t' lockoutDuration) t' (counted t u) else counted t u)"
proof -
  let ?w = "w\<lparr>w_calls := Suc (w_calls w)\<rparr>"
  have f: "FindUserByEmail E email w = (Inr u, ?w)" using u(1) up by (simp add: FindUserByEmail_Inr account_def)
  have run: "Login E L cfg req ip ua w = (Inl (Auth ErrInvalidCredentials), snd (handleFailedLogin E u ip ua ?w))"
    using req ok f by (simp add: Login_def LoginRequest_Validate_def presents_def Let_def io_run VerifyPassword_def now_def)
  note h = handleFailedLogin_up [OF up, where w = ?w and ip = ip and ua = ua and email = email and u = u]
  show "fst (Login E L cfg req ip ua w) = Inl (Auth ErrInvalidCredentials)" by (simp add: run)
  show "distinct (map u_ID (users (w_db (snd (Login E L cfg req ip ua w)))))" using h(2) u by (simp add: run)
  show "account email (w_db (snd (Login E L cfg req ip ua w))) = Some
      (let t = clock E (Suc (w_calls w)); t' = clock E (w_calls (snd (Login E L cfg req ip ua w)) - 2)
       in if 5 \<le> u_FailedLogins u + 1 then locked (time_Add t' lockoutDuration) t' (counted t u) else counted t u)"
    using h(1) u by (simp add: run Let_def)
qed

lemma Login_locked:
  assumes "\<And>k. fate E k = Up" and "presents L email req" and "account email (w_db w) = Some u"
    and "u_IsActive u" and "IsLocked u (clock E (Suc (w_calls w)))"
  shows "fst (Login E L cfg req ip ua w) = Inl (Auth ErrAccountLocked)"
    and "users (w_db (snd (Login E L cfg req ip ua w))) = users (w_db w)"
    and "sessions (w_db (snd (Login E L cfg req ip ua w))) = sessions (w_db w)"
proof -
  have f: "FindUserByEmail E email w = (Inr u, w\<lparr>w_calls := Suc (w_calls w)\<rparr>)"
    using assms(1,3) by (simp add: FindUserByEmail_Inr account_def)
  with assms(2,4,5) show "fst (Login E L cfg req ip ua w) = Inl (Auth ErrAccountLocked)"
    "users (w_db (snd (Login E L cfg req ip ua w))) = users (w_db w)"
    "sessions (w_db (snd (Login E L cfg req ip ua w))) = sessions (w_db w)"
    by (simp_all add: Login_def LoginRequest_Validate_def presents_def Let_def io_run now_def)
qed

text \<open>A run of attempts, as one fold over the requests.\<close>

definition attempts :: "env \<Rightarrow> auth_lib \<Rightarrow> Config \<Rightarrow> string \<Rightarrow> string \<Rightarrow> LoginRequest list \<Rightarrow> world \<Rightarrow> world" where
  "attempts E L cfg ip ua reqs w = fold (\<lambda>req w. snd (Login E L cfg req ip ua w)) reqs w"

definition wrong :: "auth_lib \<Rightarrow> string \<Rightarrow> string \<Rightarrow> LoginRequest \<Rightarrow> bool" where
  "wrong L email hash req \<longleftrightarrow> presents L email req \<and> \<not> bcrypt_Compare L hash (lr_Password req)"

lemma counted_simps [simp]:
  "u_FailedLogins (counted t x) = u_FailedLogins x + 1" "u_IsActive (counted t x) = u_IsActive x"
  "u_PasswordHash (counted t x) = u_PasswordHash x" "u_LockedUntil (counted t x) = u_LockedUntil x"
  "u_IsActive (locked a t x) = u_IsActive x" "u_LockedUntil (locked a t x) = Some (timestamptz a)"
  "u_PasswordHash (locked a t x) = u_PasswordHash x"
  by (simp_all add: counted_def locked_def)

lemma attempts_below:
  assumes up: "\<And>k. fate E k = Up" and "\<forall>req \<in> set reqs. wrong L email (u_PasswordHash u) req"
    and "account email (w_db w) = Some u" "distinct (map u_ID (users (w_db w)))"
    and "u_IsActive u" "u_LockedUntil u = None" "u_FailedLogins u + length reqs < 5"
  shows "\<exists>u'. account email (w_db (attempts E L cfg ip ua reqs w)) = Some u' \<and>
    distinct (map u_ID (users (w_db (attempts E L cfg ip ua reqs w)))) \<and> u_IsActive u' \<and> u_LockedUntil u' = None \<and>
    u_PasswordHash u' = u_PasswordHash u \<and> u_FailedLogins u' = u_FailedLogins u + length reqs"
  using assms(2-)
proof (induction reqs arbitrary: u w)
  case Nil
  then show ?case by (simp add: attempts_def)
next
  case (Cons req reqs)
  let ?w = "snd (Login E L cfg req ip ua w)" and ?u = "counted (clock E (Suc (w_calls w))) u"
  have s: "account email (w_db ?w) = Some ?u" "distinct (map u_ID (users (w_db ?w)))"
    using Login_wrong [OF up, of L email req w u cfg ip ua] Cons.prems by (simp_all add: wrong_def IsLocked_def Let_def)
  have "attempts E L cfg ip ua (req # reqs) w = attempts E L cfg ip ua reqs ?w" by (simp add: attempts_def)
  with Cons.IH [of ?u ?w] Cons.prems s show ?case by simp
qed

end
