(* ===== verification/Auth_Claims.thy ===== *)
theory Auth_Claims
  imports Auth_Props Samples
begin

text \<open>
  What authentication promises: a login proves the password, registration creates one account with
  one empty wallet, rotation and logout end a session for good, five wrong passwords lock the account,
  and an access token returns the claims it was issued for.
\<close>

section \<open>Login\<close>

lemma Login_Inr:
  assumes "Login E L cfg req ip ua w = (Inr (resp, tok), w')"
  obtains user w1 where
    "find (\<lambda>x. u_Email x = TrimSpace (ToLower (al_unicode L) (lr_Email req)) \<and> u_deleted_at x = None) (users (w_db w)) = Some user"
    "u_IsActive user" "\<not> IsLocked user (clock E (Suc (w_calls w)))"
    "VerifyPassword L (u_PasswordHash user) (lr_Password req)"
    "w1 = w\<lparr>w_calls := Suc (w_calls w)\<rparr>" "login_tail E L cfg user ip ua w1 = (Inr (resp, tok), w')"
  using assms
  by (auto simp: Login_def LoginRequest_Validate_def Let_def io_eq now_def split: sum.splits if_splits)

lemma login_tail_Inr:
  assumes "login_tail E L cfg user ip ua w = (Inr (resp, tok), w')"
  obtains s x a where "sessions (w_db w') = sessions (w_db w) @ [s]" "new_session (u_ID user) tok s"
    "find (\<lambda>w. w_UserID w = u_ID user \<and> w_Currency w = ''DD$'' \<and> w_deleted_at w = None) (wallets (w_db w)) = Some x"
    "resp = buildAuthResponse E cfg user x a"
proof -
  let ?w1 = "w\<lparr>w_calls := Suc (w_calls w)\<rparr>"
  obtain x a w2 w3 where
    x: "find (\<lambda>w. w_UserID w = u_ID user \<and> w_Currency w = ''DD$'' \<and> w_deleted_at w = None) (wallets (w_db w)) = Some x"
    and a: "issueAccessToken E L cfg user (w_ID x) ?w1 = (Inr a, w2)"
    and t: "issueRefreshToken E cfg (u_ID user) ip ua w2 = (Inr tok, w3)"
    and r: "resp = buildAuthResponse E cfg user x a" and w': "sessions (w_db w') = sessions (w_db w3)"
    using assms unfolding login_tail_def by (auto simp: io_eq)
  have "w_db w2 = w_db w" using issueAccessToken_Inr(1) [OF a] by simp
  from t show thesis
  proof (rule issueRefreshToken_Inr)
    fix s assume "w_db w3 = (w_db w2)\<lparr>sessions := sessions (w_db w2) @ [s]\<rparr>" "new_session (u_ID user) tok s"
    then show thesis using that [of s x a] x r w' \<open>w_db w2 = w_db w\<close> by simp
  qed
qed

text \<open>C12: a login succeeds only for an account that exists, is active and not locked at that moment, with a
  password that bcrypt accepts for its hash; it opens exactly one session, for that account and for the hash of
  the refresh token it returns, and the response names that account.\<close>

theorem Login_sound:
  assumes "Login E L cfg req ip ua w = (Inr (resp, tok), w')"
  shows "\<exists>user s. user \<in> set (users (w_db w)) \<and> u_Email user = TrimSpace (ToLower (al_unicode L) (lr_Email req)) \<and>
    u_deleted_at user = None \<and> u_IsActive user \<and> \<not> IsLocked user (clock E (Suc (w_calls w))) \<and>
    bcrypt_Compare L (u_PasswordHash user) (lr_Password req) \<and>
    ur_ID (ar_User resp) = uuid_String E (u_ID user) \<and>
    sessions (w_db w') = sessions (w_db w) @ [s] \<and> s_UserID s = u_ID user \<and> s_TokenHash s = HashToken tok \<and>
    \<not> s_IsRevoked s"
  using assms
proof (rule Login_Inr)
  fix user w1
  assume u: "find (\<lambda>x. u_Email x = TrimSpace (ToLower (al_unicode L) (lr_Email req)) \<and> u_deleted_at x = None)
      (users (w_db w)) = Some user" "u_IsActive user" "\<not> IsLocked user (clock E (Suc (w_calls w)))"
    "VerifyPassword L (u_PasswordHash user) (lr_Password req)"
    and w1: "w1 = w\<lparr>w_calls := Suc (w_calls w)\<rparr>" and "login_tail E L cfg user ip ua w1 = (Inr (resp, tok), w')"
  from this(6) show ?thesis
  proof (rule login_tail_Inr)
    fix s x a assume "sessions (w_db w') = sessions (w_db w1) @ [s]" "new_session (u_ID user) tok s"
      "resp = buildAuthResponse E cfg user x a"
    with u w1 show ?thesis
      using find_Some_in [OF u(1)]
      by (intro exI [of _ user] exI [of _ s]) (simp add: new_session_def buildAuthResponse_def VerifyPassword_def)
  qed
qed

section \<open>A concrete library\<close>

text \<open>
  A transparent stand-in for bcrypt and the JWT package, on which the properties are exercised: the
  hash keeps the password, the token is its key followed by its claims in an escaped form.
\<close>

primrec esc :: "string \<Rightarrow> string" where
  "esc [] = [CHR 0x01]"
| "esc (c # s) = CHR 0x02 # c # esc s"

fun unesc :: "string \<Rightarrow> (string \<times> string) option" where
  "unesc (CHR 0x02 # c # s) = map_option (\<lambda>(r, rest). (c # r, rest)) (unesc s)"
| "unesc (CHR 0x01 # s) = Some ([], s)"
| "unesc _ = None"

lemma unesc_esc [simp]: "unesc (esc s @ rest) = Some (s, rest)"
  by (induction s) auto

fun enc_claims :: "MapClaims \<Rightarrow> string" where
  "enc_claims [] = ''''"
| "enc_claims ((k, ClaimString v) # cs) = esc k @ CHR ''s'' # esc v @ enc_claims cs"
| "enc_claims ((k, ClaimNumber v) # cs) = esc k @ CHR ''n'' # esc v @ enc_claims cs"
| "enc_claims ((k, ClaimOther v) # cs) = esc k @ CHR ''o'' # esc v @ enc_claims cs"

fun dec_claims :: "nat \<Rightarrow> string \<Rightarrow> MapClaims option" where
  "dec_claims 0 s = None"
| "dec_claims (Suc n) s =
    (if s = [] then Some []
     else case unesc s of
       Some (k, c # r) \<Rightarrow>
         (case unesc r of
            Some (v, rest) \<Rightarrow> map_option (\<lambda>cs. (k, if c = CHR ''s'' then ClaimString v else if c = CHR ''n'' then ClaimNumber v
                                                 else ClaimOther v) # cs) (dec_claims n rest)
          | None \<Rightarrow> None)
     | _ \<Rightarrow> None)"

lemma esc_nonempty [simp]: "esc s @ r \<noteq> []"
  by (cases s) auto

lemma dec_enc_claims: "length cs < n \<Longrightarrow> dec_claims n (enc_claims cs) = Some cs"
proof (induction cs arbitrary: n rule: enc_claims.induct)
  case 1
  then show ?case by (cases n) auto
qed (case_tac n; simp)+

declare dec_claims.simps [simp del]

lemma length_enc_claims: "length cs \<le> length (enc_claims cs)"
  by (induction cs rule: enc_claims.induct) auto

lemma dec_enc_all [simp]: "dec_claims (Suc (length (enc_claims cs))) (enc_claims cs) = Some cs"
  using length_enc_claims [of cs] by (simp add: dec_enc_claims)

definition claim_number :: "MapClaims \<Rightarrow> string \<Rightarrow> int option" where
  "claim_number cs k = (case map_of cs k of Some (ClaimNumber s) \<Rightarrow> map_option sint (ParseInt s) | _ \<Rightarrow> None)"

definition sample_lib :: auth_lib where
  "sample_lib = \<lparr>
     al_unicode = \<lparr>uc_IsUpper = (\<lambda>_. False), uc_IsLower = (\<lambda>_. False), uc_IsLetter = (\<lambda>_. False),
       uc_IsDigit = (\<lambda>_. False), uc_ToLower = (\<lambda>r. r)\<rparr>,
     bcrypt_GenerateFromPassword = (\<lambda>n p cost. Some (''$2$'' @ p)),
     bcrypt_Compare = (\<lambda>h p. h = ''$2$'' @ p),
     jwt_SignedString = (\<lambda>m cs k. if m = HS256 then Some (esc k @ enc_claims cs) else None),
     jwt_Method = (\<lambda>s. map_option (\<lambda>_. HS256) (unesc s)),
     jwt_Parse = (\<lambda>kf t s. case (unesc s, kf HS256) of
        (Some (k, r), Some k') \<Rightarrow>
          if k = k' then case dec_claims (Suc (length r)) r of
              Some cs \<Rightarrow> (case claim_number cs ''exp'' of
                  Some x \<Rightarrow> if t < x * 1000000000 then Some (cs, True) else None
                | None \<Rightarrow> Some (cs, True))
            | None \<Rightarrow> None
          else None
      | _ \<Rightarrow> None)\<rparr>"

section \<open>Access tokens\<close>

text \<open>
  What the code relies on of the JWT package. Signing then parsing with the same key returns the claims
  until the instant of \<open>exp\<close>; and a token is accepted only with a key that the key function gave for the
  token's own signing method.
\<close>

definition jwt_round_trip :: "auth_lib \<Rightarrow> bool" where
  "jwt_round_trip L \<longleftrightarrow>
    (\<forall>kf t k cs tok e. jwt_SignedString L HS256 cs k = Some tok \<longrightarrow> kf HS256 = Some k \<longrightarrow>
       map_of cs ''exp'' = Some (ClaimNumber (show_int e)) \<longrightarrow> \<bar>e\<bar> < 2 ^ 53 \<longrightarrow> t < e * 1000000000 \<longrightarrow>
       jwt_Parse L kf t tok = Some (cs, True))"

definition jwt_asks_key :: "auth_lib \<Rightarrow> bool" where
  "jwt_asks_key L \<longleftrightarrow>
    (\<forall>kf t tok c v. jwt_Parse L kf t tok = Some (c, v) \<longrightarrow> (\<exists>m k. jwt_Method L tok = Some m \<and> kf m = Some k))"

lemma sample_lib_jwt: "jwt_round_trip sample_lib" "jwt_asks_key sample_lib"
proof -
  have n: "claim_number cs ''exp'' = Some e"
    if "map_of cs ''exp'' = Some (ClaimNumber (show_int e))" "\<bar>e\<bar> < 2 ^ 53" for cs e
  proof -
    have "int64_ok e" using that(2) unfolding int64_ok_def by (simp add: abs_less_iff)
    with that(1) show ?thesis by (simp add: claim_number_def ParseInt_show_int sint_word_of_int64)
  qed
  show "jwt_round_trip sample_lib"
    unfolding jwt_round_trip_def
  proof (intro allI impI)
    fix kf :: "jwt_method \<Rightarrow> string option" and t k cs tok and e :: int
    assume "jwt_SignedString sample_lib HS256 cs k = Some tok" "kf HS256 = Some k"
      and x: "map_of cs ''exp'' = Some (ClaimNumber (show_int e))" "\<bar>e\<bar> < 2 ^ 53" "t < e * 1000000000"
    then show "jwt_Parse sample_lib kf t tok = Some (cs, True)"
      using n [OF x(1,2)] by (auto simp: sample_lib_def)
  qed
  show "jwt_asks_key sample_lib"
    by (auto simp: jwt_asks_key_def sample_lib_def split: option.splits)
qed


definition sample_config :: Config where
  "sample_config = \<lparr>cfg_JWTSecret = ''jwt-secret'', cfg_AccessTokenTTL = 900 * second,
     cfg_RefreshTokenTTL = 7 * 24 * 3600 * second, cfg_SigningKey = ''key''\<rparr>"

lemma sample_sint: "sint (900 * second) = 900000000000"
  by (simp add: second_def)


text \<open>A token that is not signed with an HMAC method is never accepted, so a public key cannot be passed off
  as the secret.\<close>

theorem access_token_hmac_only:
  assumes "jwt_asks_key L" and "ValidateAccessToken E L cfg tok w = (Inr c, w')"
  shows "\<exists>alg. jwt_Method L tok = Some (SigningMethodHMAC alg)"
proof -
  obtain cs v where "jwt_Parse L (jwt_key cfg) (now E w) tok = Some (cs, v)"
    using assms(2) by (auto simp: ValidateAccessToken_def io_eq split: option.splits)
  then obtain m k where "jwt_Method L tok = Some m" "jwt_key cfg m = Some k"
    using assms(1) unfolding jwt_asks_key_def by blast
  then show ?thesis by (cases m) (auto simp: jwt_key_def)
qed

theorem access_token_hmac_only_witness:
  "\<exists>tok alg. jwt_Method sample_lib tok = Some (SigningMethodHMAC alg)"
proof -
  define tok where "tok = esc ''jwt-secret'' @ enc_claims [(''uid'', ClaimString ''2''), (''role'', ClaimString ''user'')]"
  have "jwt_Parse sample_lib (jwt_key sample_config) (now sample_env sample_world) tok =
      Some ([(''uid'', ClaimString ''2''), (''role'', ClaimString ''user'')], True)"
    by (simp add: tok_def sample_lib_def jwt_key_def sample_config_def HS256_def claim_number_def
        del: enc_claims.simps)
  then have "ValidateAccessToken sample_env sample_lib sample_config tok sample_world =
      (Inr \<lparr>cl_UserID = ''2'', cl_Role = ''user'', cl_WalletID = ''''\<rparr>, sample_world)"
    by (simp add: ValidateAccessToken_def io_run getString_def)
  from access_token_hmac_only [OF sample_lib_jwt(2) this] show ?thesis by blast
qed

section \<open>Sessions end\<close>

definition session_row :: "uuid \<Rightarrow> uuid \<Rightarrow> string \<Rightarrow> session" where
  "session_row i u tok = \<lparr>s_ID = i, s_UserID = u, s_TokenHash = HashToken tok, s_UserAgent = ''ua'',
     s_IPAddress = ''10.0.0.7'', s_IsRevoked = False, s_ExpiresAt = 10 ^ 18, s_CreatedAt = 0, s_LastUsedAt = 0\<rparr>"

text \<open>The sample installation with a password for Alice and one open session of hers.\<close>

definition auth_world :: "world" where
  "auth_world = sample_world\<lparr>w_db := sample_db\<lparr>
     users := [(sample_user alice_id ''alice@x.io'' ''user'')\<lparr>u_PasswordHash := ''$2$Secret-123''\<rparr>],
     sessions := [session_row (UUID 50) alice_id ''tok'']\<rparr>\<rparr>"

lemma Logout_retires:
  assumes "Logout E tok u ip w = (Inr (), w')" and "distinct (map s_TokenHash (sessions (w_db w)))"
    and "HashToken tok \<in> s_TokenHash ` set (sessions (w_db w))"
  shows "retired (HashToken tok) (sessions (w_db w'))"
proof -
  have s: "sessions (w_db w') = upd_where (\<lambda>s. s_TokenHash s = HashToken tok) (\<lambda>s. s\<lparr>s_IsRevoked := True\<rparr>) (sessions (w_db w))"
    using assms(1) by (auto simp: Logout_def RevokeSession_def revoke_where_def io_eq)
  have "map s_TokenHash (sessions (w_db w')) = map s_TokenHash (sessions (w_db w))"
    unfolding s by (rule map_upd_where) simp
  moreover obtain r where "r \<in> set (sessions (w_db w))" "s_TokenHash r = HashToken tok" using assms(3) by auto
  then have "r\<lparr>s_IsRevoked := True\<rparr> \<in> set (sessions (w_db w'))" by (force simp: s set_upd_where)
  ultimately show ?thesis
    using assms(2) \<open>s_TokenHash r = _\<close> unfolding retired_def by (intro conjI bexI [of _ "r\<lparr>s_IsRevoked := True\<rparr>"]) simp_all
qed

text \<open>C14: after a logout the refresh token is dead: in every later history of registrations, logins, logouts and
  refreshes, whatever call fails in it, presenting the token again is refused.\<close>

theorem logout_is_final:
  assumes "Logout E tok u ip w = (Inr (), w')" and "distinct (map s_TokenHash (sessions (w_db w)))"
    and "HashToken tok \<in> s_TokenHash ` set (sessions (w_db w))"
  shows "fst (RefreshToken E L cfg tok ip' ua (auth_run E L cfg ops w')) = Inl (Auth ErrTokenRevoked)"
  using RefreshToken_retired auth_run_retired Logout_retires [OF assms] by blast

theorem logout_is_final_witness:
  "fst (RefreshToken sample_env sample_lib sample_config ''tok'' ''10.0.0.7'' ''ua''
     (auth_run sample_env sample_lib sample_config [Op_Refresh ''tok'' ''10.0.0.7'' ''ua'', Op_Logout ''tok'' None ''10.0.0.7'']
       (snd (Logout sample_env ''tok'' None ''10.0.0.7'' auth_world)))) = Inl (Auth ErrTokenRevoked)"
proof -
  obtain w' where "Logout sample_env ''tok'' None ''10.0.0.7'' auth_world = (Inr (), w')"
    by (simp add: Logout_def RevokeSession_def revoke_where_def io_run sql_def Let_def)
  then show ?thesis
    using logout_is_final [of sample_env "''tok''" None "''10.0.0.7''" auth_world w']
    by (simp add: auth_world_def session_row_def)
qed

lemma RefreshToken_Inr:
  assumes "RefreshToken E L cfg tok ip ua w = (Inr (resp, tok'), w')"
  obtains old user new where
    "find (\<lambda>s. s_TokenHash s = HashToken tok \<and> live_session (clock E (w_calls w)) s) (sessions (w_db w)) = Some old"
    "user \<in> set (users (w_db w))" "u_ID user = s_UserID old"
    "sessions (w_db w') = filter (\<lambda>s. s_TokenHash s \<noteq> HashToken tok) (sessions (w_db w)) @ [new]"
    "new_session (s_UserID old) tok' new"
proof -
  let ?w2 = "w\<lparr>w_calls := w_calls w + 4,
    w_db := (w_db w)\<lparr>sessions := filter (\<lambda>s. s_TokenHash s \<noteq> HashToken tok) (sessions (w_db w))\<rparr>\<rparr>"
  have "\<exists>old user x a w3 w4.
      find (\<lambda>s. s_TokenHash s = HashToken tok \<and> live_session (clock E (w_calls w)) s) (sessions (w_db w)) = Some old \<and>
      find (\<lambda>x. u_ID x = s_UserID old \<and> u_deleted_at x = None) (users (w_db w)) = Some user \<and>
      issueAccessToken E L cfg user x ?w2 = (Inr a, w3) \<and>
      issueRefreshToken E cfg (u_ID user) ip ua w3 = (Inr tok', w4) \<and> sessions (w_db w') = sessions (w_db w4)"
    using assms unfolding RefreshToken_def Let_def by (fastforce simp: io_eq numeral_eq_Suc)
  then obtain old user x a w3 w4 where
    f: "find (\<lambda>s. s_TokenHash s = HashToken tok \<and> live_session (clock E (w_calls w)) s) (sessions (w_db w)) = Some old"
      "find (\<lambda>x. u_ID x = s_UserID old \<and> u_deleted_at x = None) (users (w_db w)) = Some user"
    and a: "issueAccessToken E L cfg user x ?w2 = (Inr a, w3)"
    and t: "issueRefreshToken E cfg (u_ID user) ip ua w3 = (Inr tok', w4)" and w': "sessions (w_db w') = sessions (w_db w4)"
    by blast
  have w3: "sessions (w_db w3) = filter (\<lambda>s. s_TokenHash s \<noteq> HashToken tok) (sessions (w_db w))"
    using issueAccessToken_Inr(1) [OF a] by simp
  have u: "user \<in> set (users (w_db w))" "u_ID user = s_UserID old" using find_Some_in [OF f(2)] by auto
  from t show thesis
  proof (rule issueRefreshToken_Inr)
    fix s assume "w_db w4 = (w_db w3)\<lparr>sessions := sessions (w_db w3) @ [s]\<rparr>" "new_session (u_ID user) tok' s"
    then show thesis using that [OF f(1) u, of s] u w' w3 by simp
  qed
qed

text \<open>C15: a refresh rotates: it consumes one live session of the presented token, opens one session of the same
  account for the new token and touches no other session; unless the hashes of the two tokens collide, the old
  token is refused from then on.\<close>

theorem refresh_rotates:
  assumes "RefreshToken E L cfg tok ip ua w = (Inr (resp, tok'), w')"
  shows "(\<exists>old new. old \<in> set (sessions (w_db w)) \<and> s_TokenHash old = HashToken tok \<and>
      live_session (clock E (w_calls w)) old \<and> s_UserID old \<in> u_ID ` set (users (w_db w)) \<and>
      sessions (w_db w') = filter (\<lambda>s. s_TokenHash s \<noteq> HashToken tok) (sessions (w_db w)) @ [new] \<and>
      s_UserID new = s_UserID old \<and> s_TokenHash new = HashToken tok' \<and> \<not> s_IsRevoked new) \<and>
    (HashToken tok' \<noteq> HashToken tok \<longrightarrow> fst (RefreshToken E L cfg tok ip' ua' w') = Inl (Auth ErrTokenRevoked))"
  using assms
proof (rule RefreshToken_Inr)
  fix old user new
  assume a: "find (\<lambda>s. s_TokenHash s = HashToken tok \<and> live_session (clock E (w_calls w)) s) (sessions (w_db w)) = Some old"
    "user \<in> set (users (w_db w))" "u_ID user = s_UserID old"
    "sessions (w_db w') = filter (\<lambda>s. s_TokenHash s \<noteq> HashToken tok) (sessions (w_db w)) @ [new]"
    "new_session (s_UserID old) tok' new"
  have "fst (RefreshToken E L cfg tok ip' ua' w') = Inl (Auth ErrTokenRevoked)" if "HashToken tok' \<noteq> HashToken tok"
    by (rule RefreshToken_refused) (use a(4,5) that in \<open>auto simp: find_None_iff new_session_def\<close>)
  moreover have "s_UserID old \<in> u_ID ` set (users (w_db w))" using a(2,3) by (metis imageI)
  ultimately show ?thesis
    using a(4,5) find_Some_in [OF a(1)] unfolding new_session_def by blast
qed

section \<open>Login succeeds\<close>

definition login_world :: "world" where
  "login_world = auth_world\<lparr>w_db := (w_db auth_world)\<lparr>sessions := []\<rparr>\<rparr>"

definition alice_login :: LoginRequest where
  "alice_login = \<lparr>lr_Email = '' Alice@x.io '', lr_Password = ''Secret-123''\<rparr>"

lemma alice_normal: "TrimSpace (ToLower (al_unicode sample_lib) (lr_Email alice_login)) = ''alice@x.io''"
proof -
  have "ToLower (al_unicode sample_lib) (lr_Email alice_login) = '' alice@x.io ''"
    by (simp add: alice_login_def, subst ToLower_ascii) (simp_all add: ascii_lower_def, code_simp)
  moreover have "TrimSpace '' alice@x.io '' = ''alice@x.io''"
    by (simp add: TrimSpace_def space_runes_def trim_left.simps)
  ultimately show ?thesis by simp
qed

lemma sample_signs: "jwt_signs sample_lib"
  by (simp add: jwt_signs_def sample_lib_def)

lemma sample_bcrypt [simp]: "bcrypt_Compare sample_lib h pw \<longleftrightarrow> h = ''$2$'' @ pw"
  by (simp add: sample_lib_def)

lemma fits_ua [simp]: "fits 500 (Some ''ua'')"
  by (simp add: fits_def char_count_def)

lemma sample_env_open: "draw_bytes sample_env n = Some (replicate 32 CHR ''k'')" "inet_ok sample_env ''10.0.0.7''"
  by (simp_all add: sample_env_def)

lemma login_world_tables: "sessions (w_db login_world) = []" "alice_id \<in> u_ID ` set (users (w_db login_world))"
  by (simp_all add: login_world_def auth_world_def sample_user_def)

lemma sample_open: "can_open sample_env alice_id ''10.0.0.7'' ''ua'' n (w_db login_world)"
  unfolding can_open_def login_world_tables using login_world_tables(2) by (simp add: sample_env_open)

lemma alice_logs_in:
  obtains resp tok w' where
    "Login sample_env sample_lib sample_config alice_login ''10.0.0.7'' ''ua'' login_world = (Inr (resp, tok), w')"
proof -
  let ?alice = "(sample_user alice_id ''alice@x.io'' ''user'')\<lparr>u_PasswordHash := ''$2$Secret-123''\<rparr>"
  have o: "can_open sample_env (u_ID ?alice) ''10.0.0.7'' ''ua'' (w_calls login_world + 3) (w_db login_world)"
    using sample_open by (simp add: sample_user_def)
  have "\<exists>r w'. Login sample_env sample_lib sample_config alice_login ''10.0.0.7'' ''ua'' login_world = (Inr r, w') \<and>
    (\<forall>x \<in> set (users (w_db w')). u_ID x = u_ID ?alice \<longrightarrow> u_FailedLogins x = 0 \<and> u_LockedUntil x = None)"
    by (rule Login_up [OF _ alice_normal _ _ _ _ _ _ sample_signs o])
      (simp_all add: alice_login_def login_world_def auth_world_def sample_world_def sample_db_def sample_user_def
        sample_wallet_def IsLocked_def)
  with that show thesis by auto
qed

text \<open>C18: when every service is up and the random draws are fresh, an account that is active and not locked and
  has a wallet logs in with its password, and its counter of failures and its lock are cleared.\<close>

theorem Login_live:
  assumes "presents L email req" and "account email (w_db w) = Some user"
    and "u_IsActive user" and "\<not> IsLocked user (clock E (Suc (w_calls w)))"
    and "bcrypt_Compare L (u_PasswordHash user) (lr_Password req)"
    and "find (\<lambda>x. w_UserID x = u_ID user \<and> w_Currency x = ''DD$'' \<and> w_deleted_at x = None) (wallets (w_db w)) = Some x"
    and "jwt_signs L" and "can_open E (u_ID user) ip ua (w_calls w + 3) (w_db w)"
  shows "\<exists>r w'. Login E L cfg req ip ua w = (Inr r, w') \<and>
    (\<forall>x \<in> set (users (w_db w')). u_ID x = u_ID user \<longrightarrow> u_FailedLogins x = 0 \<and> u_LockedUntil x = None)"
  using Login_up [of req L email w user E x ip ua cfg] assms by (simp add: presents_def account_def)

lemma alice_presents: "presents sample_lib ''alice@x.io'' alice_login"
  using alice_normal by (simp add: presents_def alice_login_def)

definition alice :: user where
  "alice = (sample_user alice_id ''alice@x.io'' ''user'')\<lparr>u_PasswordHash := ''$2$Secret-123''\<rparr>"

lemma alice_account: "account ''alice@x.io'' (w_db login_world) = Some alice"
  by (simp add: account_def login_world_def auth_world_def alice_def sample_user_def)

lemma alice_fields [simp]: "u_ID alice = alice_id" "u_IsActive alice" "u_LockedUntil alice = None" "u_FailedLogins alice = 0"
  "u_PasswordHash alice = ''$2$Secret-123''"
  by (simp_all add: alice_def sample_user_def)

lemma alice_wallet_row:
  "find (\<lambda>x. w_UserID x = alice_id \<and> w_Currency x = ''DD$'' \<and> w_deleted_at x = None) (wallets (w_db login_world))
     = Some (sample_wallet alice_wallet alice_id)"
  by (simp add: login_world_def auth_world_def sample_db_def sample_wallet_def)

theorem Login_live_witness:
  "\<exists>r w'. Login sample_env sample_lib sample_config alice_login ''10.0.0.7'' ''ua'' login_world = (Inr r, w')"
  using Login_live [OF alice_presents alice_account, of sample_env] alice_wallet_row sample_signs
    sample_open by (fastforce simp: IsLocked_def alice_login_def)

text \<open>C13: five wrong passwords in a row lock the account for thirty minutes from the fifth: until then every login
  for the address is refused, even one with the right password, and opens no session.\<close>

theorem five_wrong_passwords_lock:
  assumes "\<And>k. fate E k = Up" and "account email (w_db w) = Some u" and "distinct (map u_ID (users (w_db w)))"
    and "u_IsActive u" and "u_LockedUntil u = None" and "u_FailedLogins u = 0"
    and "length reqs = 5" and "\<forall>req \<in> set reqs. wrong L email (u_PasswordHash u) req"
  shows "let w5 = attempts E L cfg ip ua reqs w; until = timestamptz (time_Add (clock E (w_calls w5 - 2)) lockoutDuration) in
    (\<exists>u5. account email (w_db w5) = Some u5 \<and> u_LockedUntil u5 = Some until) \<and>
    (\<forall>req. presents L email req \<longrightarrow> clock E (Suc (w_calls w5)) < until \<longrightarrow>
       fst (Login E L cfg req ip' ua' w5) = Inl (Auth ErrAccountLocked) \<and>
       sessions (w_db (snd (Login E L cfg req ip' ua' w5))) = sessions (w_db w5))"
proof -
  obtain rs last where reqs: "reqs = rs @ [last]" "length rs = 4" using assms(7) by (cases reqs rule: rev_cases) auto
  let ?w4 = "attempts E L cfg ip ua rs w"
  let ?w5 = "snd (Login E L cfg last ip ua ?w4)"
  obtain u4 where u4: "account email (w_db ?w4) = Some u4" "distinct (map u_ID (users (w_db ?w4)))" "u_IsActive u4"
      "u_LockedUntil u4 = None" "u_PasswordHash u4 = u_PasswordHash u" "u_FailedLogins u4 = 4"
    using attempts_below [OF assms(1) _ assms(2-5), of rs L cfg ip ua] assms(6,8) reqs by auto
  have w5: "attempts E L cfg ip ua reqs w = ?w5" by (simp add: attempts_def reqs)
  have "wrong L email (u_PasswordHash u4) last" using assms(8) reqs u4(5) by simp
  then obtain u5 where u5: "account email (w_db ?w5) = Some u5" "u_IsActive u5"
      "u_LockedUntil u5 = Some (timestamptz (time_Add (clock E (w_calls ?w5 - 2)) lockoutDuration))"
    using Login_wrong(3) [OF assms(1), of L email last ?w4 u4 cfg ip ua] u4 by (simp add: wrong_def IsLocked_def Let_def)
  then have "fst (Login E L cfg req ip' ua' ?w5) = Inl (Auth ErrAccountLocked) \<and>
       sessions (w_db (snd (Login E L cfg req ip' ua' ?w5))) = sessions (w_db ?w5)"
    if "presents L email req" "clock E (Suc (w_calls ?w5)) < timestamptz (time_Add (clock E (w_calls ?w5 - 2)) lockoutDuration)"
    for req
    using Login_locked(1,3) [OF assms(1) that(1) u5(1,2)] that(2) by (simp add: IsLocked_def)
  with u5 show ?thesis by (simp add: w5 Let_def)
qed

definition wrong_login :: LoginRequest where
  "wrong_login = alice_login\<lparr>lr_Password := ''guess''\<rparr>"

lemma wrong_login_wrong: "wrong sample_lib ''alice@x.io'' (u_PasswordHash alice) wrong_login"
  using alice_presents by (simp add: wrong_def presents_def wrong_login_def)

lemma login_world_keys: "distinct (map u_ID (users (w_db login_world)))"
  by (simp add: login_world_def auth_world_def)

theorem five_wrong_passwords_lock_witness:
  "\<exists>u5 until. account ''alice@x.io'' (w_db (attempts sample_env sample_lib sample_config ''10.0.0.7'' ''ua''
     (replicate 5 wrong_login) login_world)) = Some u5 \<and> u_LockedUntil u5 = Some until"
  using five_wrong_passwords_lock [OF _ alice_account login_world_keys, of sample_env "replicate 5 wrong_login" sample_lib]
    wrong_login_wrong
  by (simp add: Let_def) blast

text \<open>The counter of failures is reset by a success only: on an account that was locked once, a single wrong
  password after the lock has expired locks it for another thirty minutes.\<close>

theorem relock_after_expiry:
  assumes "\<And>k. fate E k = Up" and "account email (w_db w) = Some u" and "distinct (map u_ID (users (w_db w)))"
    and "u_IsActive u" and "\<not> IsLocked u (clock E (Suc (w_calls w)))" and "5 \<le> u_FailedLogins u" and "u_FailedLogins u < 100"
    and "wrong L email (u_PasswordHash u) req"
  shows "\<exists>u'. account email (w_db (snd (Login E L cfg req ip ua w))) = Some u' \<and>
    u_LockedUntil u' = Some (timestamptz (time_Add (clock E (w_calls (snd (Login E L cfg req ip ua w)) - 2)) lockoutDuration)) \<and>
    u_FailedLogins u' = u_FailedLogins u + 1"
  using Login_wrong(3) [OF assms(1) _ assms(2,3,7,4,5), of L req cfg ip ua] assms(6,8)
  by (simp add: wrong_def Let_def locked_def)

definition expired_world :: "world" where
  "expired_world = login_world\<lparr>w_db := (w_db login_world)\<lparr>
     users := [alice\<lparr>u_FailedLogins := 5, u_LockedUntil := Some 7\<rparr>]\<rparr>\<rparr>"

theorem relock_after_expiry_witness:
  "\<exists>u'. account ''alice@x.io'' (w_db (snd (Login sample_env sample_lib sample_config wrong_login ''10.0.0.7'' ''ua'' expired_world)))
     = Some u' \<and> u_FailedLogins u' = 6"
proof -
  let ?u = "alice\<lparr>u_FailedLogins := 5, u_LockedUntil := Some 7\<rparr>"
  have "account ''alice@x.io'' (w_db expired_world) = Some ?u" "distinct (map u_ID (users (w_db expired_world)))"
    "\<not> IsLocked ?u (clock sample_env (Suc (w_calls expired_world)))"
    by (simp_all add: account_def expired_world_def alice_def sample_user_def IsLocked_def sample_env_def)
  then show ?thesis
    using relock_after_expiry [of sample_env "''alice@x.io''" expired_world ?u sample_lib wrong_login sample_config
        "''10.0.0.7''" "''ua''"] wrong_login_wrong by auto
qed

theorem Login_sound_witness:
  "\<exists>resp tok w' s. Login sample_env sample_lib sample_config alice_login ''10.0.0.7'' ''ua'' login_world = (Inr (resp, tok), w') \<and>
     sessions (w_db w') = [s] \<and> s_TokenHash s = HashToken tok"
proof -
  obtain resp tok w' where r:
    "Login sample_env sample_lib sample_config alice_login ''10.0.0.7'' ''ua'' login_world = (Inr (resp, tok), w')"
    by (rule alice_logs_in)
  from Login_sound [OF this] obtain s where "sessions (w_db w') = sessions (w_db login_world) @ [s]" "s_TokenHash s = HashToken tok"
    by blast
  with r show ?thesis by (simp add: login_world_def)
qed

section \<open>Registration\<close>

text \<open>C16: a registration that succeeds added exactly one account with the normalised address, the role of a user
  and a bcrypt hash of the password, one wallet of it with a zero balance, and one session for the returned token;
  the address was not registered before.\<close>

theorem Register_creates:
  assumes "Register E L cfg req0 ip ua w = (Inr (resp, tok), w')"
  shows "\<exists>req u x s n. RegisterRequest_Validate L req0 = Inr req \<and>
    users (w_db w') = users (w_db w) @ [u] \<and> wallets (w_db w') = wallets (w_db w) @ [x] \<and>
    sessions (w_db w') = sessions (w_db w) @ [s] \<and>
    u_Email u = rr_Email req \<and> rr_Email req \<notin> u_Email ` set (users (w_db w)) \<and> u_Role u = ''user'' \<and>
    bcrypt_GenerateFromPassword L n (rr_Password req) 12 = Some (u_PasswordHash u) \<and>
    w_UserID x = u_ID u \<and> w_Balance x = 0 \<and> s_UserID s = u_ID u \<and> s_TokenHash s = HashToken tok \<and>
    ur_ID (ar_User resp) = uuid_String E (u_ID u)"
proof -
  obtain req where req: "RegisterRequest_Validate L req0 = Inr req"
    using assms by (cases "RegisterRequest_Validate L req0") (auto simp: Register_def throw_def)
  have "\<exists>n hash u d1 w1 x w2 a w3 w4. bcrypt_GenerateFromPassword L n (rr_Password req) 12 = Some hash \<and>
      insert_user (rr_Email req) hash (rr_FullName req) ''user'' (draw_uuid E (Suc (w_calls w))) (clock E (Suc (w_calls w))) (w_db w)
        = Inr (u, d1) \<and> w1 = w\<lparr>w_calls := Suc (Suc (w_calls w)), w_db := d1\<rparr> \<and>
      CreateWallet E (u_ID u) w1 = (Inr x, w2) \<and> issueAccessToken E L cfg u (w_ID x) w2 = (Inr a, w3) \<and>
      issueRefreshToken E cfg (u_ID u) ip ua w3 = (Inr tok, w4) \<and> users (w_db w') = users (w_db w4) \<and>
      wallets (w_db w') = wallets (w_db w4) \<and> sessions (w_db w') = sessions (w_db w4) \<and>
      resp = buildAuthResponse E cfg u x a"
    using assms req unfolding Register_def HashPassword_def BcryptCost_def
    by (fastforce simp: bind_io_eq wrap_io_eq fresh_call_eq ret_eq throw_eq ignore_io_eq CreateUser_Inr split: option.splits)
  then obtain n hash u d1 w1 x w2 a w3 w4 where h: "bcrypt_GenerateFromPassword L n (rr_Password req) 12 = Some hash"
    and iu: "insert_user (rr_Email req) hash (rr_FullName req) ''user'' (draw_uuid E (Suc (w_calls w)))
        (clock E (Suc (w_calls w))) (w_db w) = Inr (u, d1)" and w1: "w1 = w\<lparr>w_calls := Suc (Suc (w_calls w)), w_db := d1\<rparr>"
    and cw: "CreateWallet E (u_ID u) w1 = (Inr x, w2)" and ia: "issueAccessToken E L cfg u (w_ID x) w2 = (Inr a, w3)"
    and ir: "issueRefreshToken E cfg (u_ID u) ip ua w3 = (Inr tok, w4)"
    and w': "users (w_db w') = users (w_db w4)" "wallets (w_db w') = wallets (w_db w4)" "sessions (w_db w') = sessions (w_db w4)"
      "resp = buildAuthResponse E cfg u x a"
    by blast
  obtain t v d2 where "insert_wallet (u_ID u) v t (w_db w1) = Inr (x, d2)" and w2: "w_db w2 = d2"
    using cw by (auto simp: CreateWallet_Inr)
  note ix = insert_wallet_Inr [OF this(1)]
  have w3: "w_db w3 = w_db w2" using issueAccessToken_Inr(1) [OF ia] by simp
  from ir show ?thesis
  proof (rule issueRefreshToken_Inr)
    fix s assume "w_db w4 = (w_db w3)\<lparr>sessions := sessions (w_db w3) @ [s]\<rparr>" "new_session (u_ID u) tok s"
    with req h insert_user_Inr [OF iu] w1 ix w2 w3 w' show ?thesis
      by (intro exI [of _ req] exI [of _ u] exI [of _ x] exI [of _ s] exI [of _ n])
        (simp add: new_session_def buildAuthResponse_def)
  qed
qed

definition carol_register :: RegisterRequest where
  "carol_register = \<lparr>rr_Email = ''carol@x.io'', rr_Password = ''Secret-1234'', rr_FullName = ''Carol''\<rparr>"

lemma carol_valid: "RegisterRequest_Validate sample_lib carol_register = Inr carol_register"
proof -
  have e: "ToLower U ''carol@x.io'' = ''carol@x.io''" for U
    by (subst ToLower_ascii) (simp_all add: ascii_lower_def)
  have t: "TrimSpace ''carol@x.io'' = ''carol@x.io''" "TrimSpace ''Carol'' = ''Carol''"
    by (simp_all add: TrimSpace_def space_runes_def trim_left.simps)
  have r: "runes ''carol@x.io'' = map of_char ''carol@x.io''" "runes ''Secret-1234'' = map of_char ''Secret-1234''"
    by (rule runes_ascii; simp)+
  have "isValidEmail ''carol@x.io''"
    by (simp add: isValidEmail_def email_matches_def r Let_def email_local_def email_domain_def email_letter_def)
  moreover have "validatePassword sample_lib ''Secret-1234'' = None"
    by (simp add: validatePassword_def Let_def r IsUpper_def IsLower_def IsDigit_def IsLetter_def)
  ultimately show ?thesis by (simp add: RegisterRequest_Validate_def carol_register_def Let_def e t)
qed

lemma carol_db: "email_matches False ''carol@x.io''"
proof -
  have "runes ''carol@x.io'' = map of_char ''carol@x.io''" by (rule runes_ascii) simp
  then show ?thesis by (simp add: email_matches_def Let_def email_local_def email_domain_def email_letter_def)
qed

theorem Register_creates_witness:
  "\<exists>resp tok w' u x. Register sample_env sample_lib sample_config carol_register ''10.0.0.7'' ''ua'' login_world = (Inr (resp, tok), w') \<and>
     users (w_db w') = users (w_db login_world) @ [u] \<and> u_Email u = ''carol@x.io'' \<and>
     wallets (w_db w') = wallets (w_db login_world) @ [x] \<and> w_Balance x = 0"
proof -
  let ?w1 = "login_world\<lparr>w_calls := Suc (w_calls login_world)\<rparr>" and ?hash = "''$2$Secret-1234''"
  have tables: "users (w_db login_world) = [alice]"
      "wallets (w_db login_world) = [sample_wallet alice_wallet alice_id, sample_wallet bob_wallet bob_id]" "w_calls login_world = 0"
    by (simp_all add: login_world_def auth_world_def alice_def sample_db_def sample_world_def)
  have mail: "u_Email alice = ''alice@x.io''" by (simp add: alice_def sample_user_def)
  define u where "u = \<lparr>u_ID = UUID 101, u_Email = ''carol@x.io'', u_PasswordHash = ?hash, u_FullName = ''Carol'',
    u_Role = ''user'', u_IsActive = True, u_KYCStatus = ''pending'', u_FailedLogins = 0, u_LockedUntil = None,
    u_LastLoginAt = None, u_CreatedAt = 1001000000000, u_UpdatedAt = 1001000000000, u_deleted_at = None\<rparr>"
  have f: "fits 254 (Some ''carol@x.io'')" "fits 60 (Some ?hash)" "fits 200 (Some ''Carol'')"
    by (simp_all add: fits_def char_count_def)
  have "insert_user ''carol@x.io'' ?hash ''Carol'' ''user'' (UUID 101) 1001000000000 (w_db login_world)
      = Inr (u, (w_db login_world)\<lparr>users := [alice, u]\<rparr>)"
    by (simp add: insert_user_def sql_user_roles_def f carol_db tables mail u_def Let_def)
  then have u: "CreateUser sample_env ''carol@x.io'' ?hash ''Carol'' ''user'' ?w1
      = (Inr u, ?w1\<lparr>w_calls := 2, w_db := (w_db login_world)\<lparr>users := [alice, u]\<rparr>\<rparr>)"
    by (simp add: CreateUser_Inr tables sample_env_def)
  have ui: "u_ID u = UUID 101" "u_Email u = ''carol@x.io''" by (simp_all add: u_def)
  let ?w2 = "?w1\<lparr>w_calls := 2, w_db := (w_db login_world)\<lparr>users := [alice, u]\<rparr>\<rparr>"
  have "\<exists>x. insert_wallet (u_ID u) (UUID 102) 1002000000000 (w_db ?w2) =
      Inr (x, (w_db ?w2)\<lparr>wallets := wallets (w_db login_world) @ [x]\<rparr>)"
    using insert_wallet_ok [of "UUID 102" "w_db ?w2" "u_ID u" 1002000000000] by (simp add: ui tables sample_wallet_def)
  then obtain x where x: "CreateWallet sample_env (u_ID u) ?w2
      = (Inr x, ?w2\<lparr>w_calls := 3, w_db := (w_db ?w2)\<lparr>wallets := wallets (w_db login_world) @ [x]\<rparr>\<rparr>)"
    by (auto simp: CreateWallet_Inr sample_env_def)
  let ?w3 = "?w2\<lparr>w_calls := 3, w_db := (w_db ?w2)\<lparr>wallets := wallets (w_db login_world) @ [x]\<rparr>\<rparr>"
  obtain a where a: "issueAccessToken sample_env sample_lib sample_config u (w_ID x) ?w3 = (Inr a, ?w3\<lparr>w_calls := 4\<rparr>)"
    using issueAccessToken_up [OF sample_signs, of sample_env sample_config u "w_ID x" ?w3] by auto
  have "can_open sample_env (u_ID u) ''10.0.0.7'' ''ua'' 4 (w_db (?w3\<lparr>w_calls := 4\<rparr>))"
    using sample_open [of 4] by (simp add: can_open_def)
  then obtain tok w' where t: "issueRefreshToken sample_env sample_config (u_ID u) ''10.0.0.7'' ''ua'' (?w3\<lparr>w_calls := 4\<rparr>) = (Inr tok, w')"
    using issueRefreshToken_up [of sample_env "u_ID u" "''10.0.0.7''" "''ua''" "?w3\<lparr>w_calls := 4\<rparr>" sample_config] by auto
  have h: "HashPassword sample_lib (rr_Password carol_register) login_world = (Inr ?hash, ?w1)"
    by (simp add: HashPassword_def io_run fresh_call_def sample_lib_def carol_register_def)
  have "\<exists>r w'. Register sample_env sample_lib sample_config carol_register ''10.0.0.7'' ''ua'' login_world = (Inr r, w')"
    unfolding Register_def carol_valid using h u x a t by (simp add: io_run carol_register_def)
  then obtain resp tok w' where
    r: "Register sample_env sample_lib sample_config carol_register ''10.0.0.7'' ''ua'' login_world = (Inr (resp, tok), w')"
    by (metis surj_pair)
  obtain req u x where n: "RegisterRequest_Validate sample_lib carol_register = Inr req"
      "users (w_db w') = users (w_db login_world) @ [u]" "u_Email u = rr_Email req"
      "wallets (w_db w') = wallets (w_db login_world) @ [x]" "w_Balance x = 0"
    using Register_creates [OF r] by blast
  have "rr_Email req = ''carol@x.io''" using n(1) carol_valid by (simp add: carol_register_def)
  with n(3) have "u_Email u = ''carol@x.io''" by simp
  with r n(2,4,5) show ?thesis by blast
qed

lemma alice_refreshes:
  obtains resp tok' w' where
    "RefreshToken sample_env sample_lib sample_config ''tok'' ''10.0.0.7'' ''ua'' auth_world = (Inr (resp, tok'), w')"
proof -
  have tables: "users (w_db auth_world) = [alice]" "sessions (w_db auth_world) = [session_row (UUID 50) alice_id ''tok'']"
      "wallets (w_db auth_world) = wallets (w_db login_world)" "w_calls auth_world = 0"
    by (simp_all add: auth_world_def login_world_def alice_def sample_world_def)
  let ?w1 = "auth_world\<lparr>w_calls := Suc 0\<rparr>"
  have live: "live_session 1000000000000 (session_row (UUID 50) alice_id ''tok'')"
    by (simp add: live_session_def session_row_def)
  have f: "FindSessionByTokenHash sample_env (HashToken ''tok'') auth_world = (Inr (session_row (UUID 50) alice_id ''tok''), ?w1)"
    using live by (simp add: FindSession_Inr tables session_row_def sample_env_def)
  have u: "FindUserByID sample_env alice_id ?w1 = (Inr alice, auth_world\<lparr>w_calls := 2\<rparr>)"
    by (simp add: FindUserByID_Inr tables) (simp add: alice_def sample_user_def)
  let ?w2 = "auth_world\<lparr>w_calls := 2\<rparr>"
  have x: "FindWalletByUserID sample_env alice_id ?w2 = (Inr (sample_wallet alice_wallet alice_id), auth_world\<lparr>w_calls := 3\<rparr>)"
    using alice_wallet_row by (simp add: FindWallet_Inr tables)
  let ?w4 = "auth_world\<lparr>w_calls := 4, w_db := (w_db auth_world)\<lparr>sessions := []\<rparr>\<rparr>"
  have d: "DeleteSession sample_env (HashToken ''tok'') (auth_world\<lparr>w_calls := 3\<rparr>) = (Inr (), ?w4)"
    by (simp add: DeleteSession_Inr tables session_row_def)
  obtain a where a: "issueAccessToken sample_env sample_lib sample_config alice alice_wallet ?w4 = (Inr a, ?w4\<lparr>w_calls := 5\<rparr>)"
    using issueAccessToken_up [OF sample_signs, of sample_env sample_config alice alice_wallet ?w4] by auto
  have "can_open sample_env alice_id ''10.0.0.7'' ''ua'' 5 (w_db ?w4)"
    using sample_open [of 5] by (simp add: can_open_def tables login_world_def auth_world_def)
  then obtain tok w' where t: "issueRefreshToken sample_env sample_config alice_id ''10.0.0.7'' ''ua'' (?w4\<lparr>w_calls := 5\<rparr>) = (Inr tok, w')"
    using issueRefreshToken_up [of sample_env alice_id "''10.0.0.7''" "''ua''" "?w4\<lparr>w_calls := 5\<rparr>" sample_config] by auto
  have "\<exists>r w'. RefreshToken sample_env sample_lib sample_config ''tok'' ''10.0.0.7'' ''ua'' auth_world = (Inr r, w')"
    unfolding RefreshToken_def Let_def catch_io_run f
    using u x d a t by (simp add: bind_io_run wrap_io_run ignore_io_run ret_run session_row_def sample_wallet_def)
  with that show thesis by auto
qed

theorem refresh_rotates_witness:
  "\<exists>resp tok' new w'. RefreshToken sample_env sample_lib sample_config ''tok'' ''10.0.0.7'' ''ua'' auth_world = (Inr (resp, tok'), w') \<and>
     sessions (w_db w') = [new] \<and> s_UserID new = alice_id \<and> s_TokenHash new = HashToken tok'"
proof -
  obtain resp tok' w' where
    r: "RefreshToken sample_env sample_lib sample_config ''tok'' ''10.0.0.7'' ''ua'' auth_world = (Inr (resp, tok'), w')"
    by (rule alice_refreshes)
  from refresh_rotates [OF r] obtain old new where n: "old \<in> set (sessions (w_db auth_world))"
      "sessions (w_db w') = filter (\<lambda>s. s_TokenHash s \<noteq> HashToken ''tok'') (sessions (w_db auth_world)) @ [new]"
      "s_UserID new = s_UserID old" "s_TokenHash new = HashToken tok'"
    by blast
  then have "sessions (w_db w') = [new]" "s_UserID new = alice_id" by (simp_all add: auth_world_def session_row_def)
  with r n(4) show ?thesis by blast
qed

section \<open>What a failed login reveals\<close>

lemma Login_refused:
  assumes "presents L email req"
    and "account email (w_db w) = None \<or>
      (\<exists>u. account email (w_db w) = Some u \<and> u_IsActive u \<and> \<not> IsLocked u (clock E (Suc (w_calls w))) \<and>
           \<not> bcrypt_Compare L (u_PasswordHash u) (lr_Password req))"
  shows "fst (Login E L cfg req ip ua w) = Inl (Auth ErrInvalidCredentials)"
proof (cases "FindUserByEmail E email w")
  case (Pair x w1)
  show ?thesis
  proof (cases x)
    case (Inl e)
    with Pair assms(1) show ?thesis
      by (simp add: Login_def LoginRequest_Validate_def presents_def Let_def io_run)
  next
    case (Inr u)
    with Pair have "account email (w_db w) = Some u" "w1 = w\<lparr>w_calls := Suc (w_calls w)\<rparr>"
      by (auto simp: FindUserByEmail_Inr account_def)
    with assms Pair Inr show ?thesis
      by (simp add: Login_def LoginRequest_Validate_def presents_def Let_def io_run VerifyPassword_def now_def)
  qed
qed

text \<open>C19: a failed login does not tell an unknown address from a wrong password: in both cases, whatever service
  call fails, the response is the same 401 without a cookie (only its timestamp is the moment's).\<close>

theorem login_hides_accounts:
  assumes "Option.bind (rq_Body r) dec_LoginRequest = Some req" and "presents L email req"
    and "account email (w_db w) = None \<or>
      (\<exists>u. account email (w_db w) = Some u \<and> u_IsActive u \<and> \<not> IsLocked u (clock E (Suc (w_calls w))) \<and>
           \<not> bcrypt_Compare L (u_PasswordHash u) (lr_Password req))"
  shows "\<exists>t. fst (auth_login E L cfg h r new_writer w) = Unauthorized t (rq_RequestID r) new_writer"
    (is "\<exists>t. ?resp = _")
proof -
  obtain w' where "Login E L cfg req (clientIP r) (rq_UserAgent r) w = (Inl (Auth ErrInvalidCredentials), w')"
    using Login_refused [OF assms(2,3)] by (metis prod.collapse)
  then have "?resp = Unauthorized (now E w') (rq_RequestID r) new_writer"
    using assms(1) by (simp add: auth_login_def on_result_def handleServiceError_def)
  then show ?thesis by blast
qed

definition sample_request :: request where
  "sample_request = \<lparr>rq_Headers = [], rq_Query = [], rq_Params = [], rq_Cookies = [], rq_RemoteAddr = ''10.0.0.7:4000'',
     rq_UserAgent = ''ua'', rq_Body = None, rq_RequestID = ''req-1'', rq_UserID = None, rq_Role = None, rq_WalletID = None\<rparr>"

definition guess_request :: request where
  "guess_request = sample_request\<lparr>rq_Body := Some (JObj [(''email'', JStr '' Alice@x.io ''), (''password'', JStr ''guess'')])\<rparr>"

theorem login_hides_accounts_witness:
  "\<exists>t t'. fst (auth_login sample_env sample_lib sample_config \<lparr>ah_refreshTTL = 7, ah_secureCookies = True\<rparr> guess_request new_writer login_world)
      = Unauthorized t ''req-1'' new_writer \<and>
    fst (auth_login sample_env sample_lib sample_config \<lparr>ah_refreshTTL = 7, ah_secureCookies = True\<rparr> guess_request new_writer
      (login_world\<lparr>w_db := (w_db login_world)\<lparr>users := []\<rparr>\<rparr>)) = Unauthorized t' ''req-1'' new_writer"
proof -
  have d: "Option.bind (rq_Body guess_request) dec_LoginRequest = Some wrong_login"
    by (simp add: guess_request_def dec_LoginRequest_def Let_def member_def dec_string_def wrong_login_def alice_login_def)
  have p: "presents sample_lib ''alice@x.io'' wrong_login" using wrong_login_wrong by (simp add: wrong_def)
  have i: "rq_RequestID guess_request = ''req-1''" by (simp add: guess_request_def sample_request_def)
  have "account ''alice@x.io'' (w_db (login_world\<lparr>w_db := (w_db login_world)\<lparr>users := []\<rparr>\<rparr>)) = None"
    by (simp add: account_def)
  from login_hides_accounts [OF d p disjI1 [OF this]] i
  have a: "\<exists>t. fst (auth_login sample_env sample_lib sample_config \<lparr>ah_refreshTTL = 7, ah_secureCookies = True\<rparr> guess_request new_writer
      (login_world\<lparr>w_db := (w_db login_world)\<lparr>users := []\<rparr>\<rparr>)) = Unauthorized t ''req-1'' new_writer"
    by simp
  have "\<not> bcrypt_Compare sample_lib (u_PasswordHash alice) (lr_Password wrong_login)" using wrong_login_wrong by (simp add: wrong_def)
  with alice_account have "\<exists>u. account ''alice@x.io'' (w_db login_world) = Some u \<and> u_IsActive u \<and>
      \<not> IsLocked u (clock sample_env (Suc (w_calls login_world))) \<and> \<not> bcrypt_Compare sample_lib (u_PasswordHash u) (lr_Password wrong_login)"
    by (intro exI [of _ alice]) (simp add: IsLocked_def)
  from login_hides_accounts [OF d p disjI2 [OF this]] i a show ?thesis by metis
qed

end
