(* ===== verification/QRCode.thy ===== *)
theory QRCode
  imports Database Crypto
begin

text \<open>
  \<open>pkg/qrcode\<close>: the signed payment URIs \<open>cbdc://pay?\<dots>\<close>, with the parts of \<open>net/url\<close> they go through:
  escaping, the encoding and parsing of a query, and the split of a URI into scheme, host and query.
\<close>

section \<open>net/url\<close>

definition url_unreserved :: "char \<Rightarrow> bool" where
  "url_unreserved c = (let n = of_char c :: nat in
     (48 \<le> n \<and> n \<le> 57) \<or> (65 \<le> n \<and> n \<le> 90) \<or> (97 \<le> n \<and> n \<le> 122) \<or> c \<in> {CHR ''-'', CHR ''_'', CHR ''.'', CHR ''~''})"

definition hex_upper :: "nat \<Rightarrow> char" where
  "hex_upper n = (if n < 10 then char_of (48 + n) else char_of (55 + n))"

definition escape_byte :: "char \<Rightarrow> string" where
  "escape_byte c =
    (if url_unreserved c then [c]
     else if c = CHR '' '' then ''+''
     else [CHR ''%'', hex_upper (of_char c div 16), hex_upper (of_char c mod 16)])"

definition QueryEscape :: "string \<Rightarrow> string" where
  "QueryEscape s = concat (map escape_byte s)"

definition unhex :: "char \<Rightarrow> nat option" where
  "unhex c = (let n = of_char c :: nat in
     if 48 \<le> n \<and> n \<le> 57 then Some (n - 48) else if 97 \<le> n \<and> n \<le> 102 then Some (n - 87)
     else if 65 \<le> n \<and> n \<le> 70 then Some (n - 55) else None)"

text \<open>\<open>unescape\<close>: an incomplete or wrong escape is an error; in a query (\<open>pl\<close>) a plus is a space.\<close>

fun unescape :: "bool \<Rightarrow> string \<Rightarrow> string option" where
  "unescape pl [] = Some []"
| "unescape pl (c # s) =
    (if c = CHR ''%''
     then (case s of
             a # b # r \<Rightarrow> (case (unhex a, unhex b) of
                 (Some x, Some y) \<Rightarrow> map_option ((#) (char_of (16 * x + y))) (unescape pl r)
               | _ \<Rightarrow> None)
           | _ \<Rightarrow> None)
     else map_option ((#) (if pl \<and> c = CHR ''+'' then CHR '' '' else c)) (unescape pl s))"

declare unescape.simps(2) [simp del]

text \<open>\<open>strings.Cut\<close> with a one-byte separator.\<close>

definition Cut :: "char \<Rightarrow> string \<Rightarrow> string \<times> string" where
  "Cut sep s = (takeWhile (\<lambda>c. c \<noteq> sep) s, tl (dropWhile (\<lambda>c. c \<noteq> sep) s))"

fun split_on :: "char \<Rightarrow> string \<Rightarrow> string list" where
  "split_on sep [] = [[]]"
| "split_on sep (c # s) =
    (if c = sep then [] # split_on sep s
     else case split_on sep s of [] \<Rightarrow> [[c]] | p # ps \<Rightarrow> (c # p) # ps)"

text \<open>\<open>url.ParseQuery\<close>, whose errors \<open>Query()\<close> drops: a pair that does not parse is left out.\<close>

definition parse_pair :: "string \<Rightarrow> (string \<times> string) list" where
  "parse_pair p =
    (if CHR '';'' \<in> set p \<or> p = [] then []
     else let (k, v) = Cut CHR ''='' p in
       case (unescape True k, unescape True v) of (Some k', Some v') \<Rightarrow> [(k', v')] | _ \<Rightarrow> [])"

definition ParseQuery :: "string \<Rightarrow> (string \<times> string) list" where
  "ParseQuery q = concat (map parse_pair (split_on CHR ''&'' q))"

definition query_get :: "string \<Rightarrow> (string \<times> string) list \<Rightarrow> string" where
  "query_get k q = (case map_of q k of None \<Rightarrow> '''' | Some v \<Rightarrow> v)"

text \<open>\<open>Values.Encode\<close> of the pairs, already in the order of their keys.\<close>

fun encode_pairs :: "(string \<times> string) list \<Rightarrow> string" where
  "encode_pairs [] = ''''"
| "encode_pairs [(k, v)] = QueryEscape k @ ''='' @ QueryEscape v"
| "encode_pairs ((k, v) # p # ps) = QueryEscape k @ ''='' @ QueryEscape v @ ''&'' @ encode_pairs (p # ps)"

text \<open>
  \<open>url.Parse\<close> as far as a payment URI depends on it: the query of a URI of the given scheme and host, or
  \<open>None\<close> when the URI is malformed or has another scheme or host. Control bytes before the fragment, a wrong
  escape in the path, the user information or the fragment, or a forbidden byte in the user information
  make it malformed. An escape cannot stand for an ASCII byte of a host, so the host is compared as it is.
\<close>

definition userinfo_ok :: "string \<Rightarrow> bool" where
  "userinfo_ok s \<longleftrightarrow> list_all (\<lambda>c. url_unreserved c \<or> c \<in> set '':!$&()*+,;=%@'' \<or> c = CHR 0x27) s \<and> unescape False s \<noteq> None"

definition uri_query :: "string \<Rightarrow> string \<Rightarrow> string \<Rightarrow> string option" where
  "uri_query scheme host raw =
    (let (u, frag) = Cut CHR ''#'' raw;
         (sch, rest0) = Cut CHR '':'' u;
         (rest, query) = Cut CHR ''?'' rest0;
         (authority, path) = (takeWhile (\<lambda>c. c \<noteq> CHR ''/'') (drop 2 rest), dropWhile (\<lambda>c. c \<noteq> CHR ''/'') (drop 2 rest));
         rh = takeWhile (\<lambda>c. c \<noteq> CHR ''@'') (rev authority);
         userinfo = rev (tl (dropWhile (\<lambda>c. c \<noteq> CHR ''@'') (rev authority)))
     in if list_all (\<lambda>c. 32 \<le> (of_char c :: nat) \<and> of_char c \<noteq> (127 :: nat)) u \<and> unescape False frag \<noteq> None \<and>
           CHR '':'' \<in> set u \<and> map ascii_lower sch = scheme \<and> take 2 rest = ''//'' \<and> unescape False path \<noteq> None \<and>
           (CHR ''@'' \<in> set authority \<longrightarrow> userinfo_ok userinfo) \<and> rev rh = host
        then Some query else None)"

section \<open>The package\<close>

definition uri_scheme :: string where
  "uri_scheme = ''cbdc''"

record Params =
  qp_MerchantID :: uuid
  qp_AmountCents :: int64
  qp_Reference :: string
  qp_Description :: string
  qp_ExpiresAt :: gotime
  qp_Signature :: string

text \<open>\<open>time.Unix(sec, 0)\<close>: the seconds since year 1 are kept in 64 bits.\<close>

definition time_Unix :: "int64 \<Rightarrow> gotime" where
  "time_Unix sec = (sint (sec + 62135596800) - 62135596800) * 1000000000"

definition Unix64 :: "gotime \<Rightarrow> int64" where
  "Unix64 t = word_of_int (Unix t)"

definition qr_sign :: "string \<Rightarrow> string \<Rightarrow> string \<Rightarrow> string \<Rightarrow> string" where
  "qr_sign k merchantID amount expires =
    hmacSHA256 k (''merchant='' @ merchantID @ ''&amount='' @ amount @ ''&expires='' @ expires)"

definition qr_pairs :: "string \<Rightarrow> string \<Rightarrow> string \<Rightarrow> string \<Rightarrow> string \<Rightarrow> string \<Rightarrow> (string \<times> string) list" where
  "qr_pairs amount description expires merchantID reference sig =
    [(''amount'', amount)] @ (if description \<noteq> '''' then [(''desc'', description)] else []) @
    [(''expires'', expires), (''merchant'', merchantID)] @
    (if reference \<noteq> '''' then [(''ref'', reference)] else []) @ [(''sig'', sig)]"

definition BuildURI :: "env \<Rightarrow> uuid \<Rightarrow> int64 \<Rightarrow> string \<Rightarrow> string \<Rightarrow> gotime \<Rightarrow> string \<Rightarrow> string" where
  "BuildURI E merchantID amountCents reference description expiresAt signingKey =
    (let expiresUnix = FormatInt (Unix64 expiresAt);
         sig = qr_sign signingKey (uuid_String E merchantID) (FormatInt amountCents) expiresUnix
     in uri_scheme @ ''://pay?'' @
        encode_pairs (qr_pairs (FormatInt amountCents) description expiresUnix (uuid_String E merchantID) reference sig))"

definition ParseURI :: "env \<Rightarrow> string \<Rightarrow> gerror + Params" where
  "ParseURI E raw =
    (case uri_query uri_scheme ''pay'' raw of
       None \<Rightarrow> Inl (Errorf ''invalid URI'')
     | Some query \<Rightarrow>
         let q = ParseQuery query in
         case uuid_Parse E (query_get ''merchant'' q) of
           None \<Rightarrow> Inl (Errorf ''invalid merchant ID'')
         | Some merchantID \<Rightarrow>
             (case ParseInt (query_get ''amount'' q) of
                None \<Rightarrow> Inl (Errorf ''invalid amount'')
              | Some amountCents \<Rightarrow>
                  if sint amountCents \<le> 0 then Inl (Errorf ''invalid amount'')
                  else case ParseInt (query_get ''expires'' q) of
                    None \<Rightarrow> Inl (Errorf ''invalid expires timestamp'')
                  | Some expiresUnix \<Rightarrow>
                      let sig = TrimSpace (query_get ''sig'' q) in
                      if sig = '''' then Inl (Errorf ''missing signature'')
                      else Inr \<lparr>qp_MerchantID = merchantID, qp_AmountCents = amountCents,
                        qp_Reference = query_get ''ref'' q, qp_Description = query_get ''desc'' q,
                        qp_ExpiresAt = time_Unix expiresUnix, qp_Signature = sig\<rparr>))"

definition Verify :: "env \<Rightarrow> Params \<Rightarrow> string \<Rightarrow> gotime \<Rightarrow> gerror option" where
  "Verify E p signingKey t =
    (if qp_ExpiresAt p < t then Some (Errorf ''payment URI has expired'')
     else let expected = qr_sign signingKey (uuid_String E (qp_MerchantID p)) (FormatInt (qp_AmountCents p))
                (FormatInt (Unix64 (qp_ExpiresAt p)))
          in if qp_Signature p \<noteq> expected then Some (Errorf ''invalid payment URI signature'') else None)"

end
