(* ===== verification/QRCode_Claims.thy ===== *)
theory QRCode_Claims
  imports QRCode Samples
begin

text \<open>A payment URI is read back as it was written, and verifies until it expires.\<close>

section \<open>Escaping\<close>

lemma unhex_hex_upper: "n < 16 \<Longrightarrow> unhex (hex_upper n) = Some n"
  by (auto simp: unhex_def hex_upper_def Let_def)

lemma hex_upper_unreserved: "n < 16 \<Longrightarrow> url_unreserved (hex_upper n)"
  by (auto simp: url_unreserved_def hex_upper_def Let_def)

lemma char_split: "char_of (16 * (of_char c div 16) + of_char c mod 16) = (c :: char)"
  by simp

lemma of_char_less: "(of_char c :: nat) < 256"
  by (cases c) (simp add: of_char_def split: if_splits)

lemma of_char_digits: "(of_char c :: nat) div 16 < 16" "(of_char c :: nat) mod 16 < 16"
  using of_char_less [of c] by (simp_all add: less_mult_imp_div_less)

lemma unescape_escape_byte: "unescape True (escape_byte c @ r) = map_option ((#) c) (unescape True r)"
proof (cases "url_unreserved c \<or> c = CHR '' ''")
  case True
  then have "c \<noteq> CHR ''%''" "c \<noteq> CHR ''+''" by (auto simp: url_unreserved_def Let_def)
  with True show ?thesis by (auto simp: escape_byte_def unescape.simps(2))
next
  case False
  have "unescape True (escape_byte c @ r) = map_option ((#) (char_of (16 * (of_char c div 16) + of_char c mod 16))) (unescape True r)"
    using False by (simp add: escape_byte_def unescape.simps(2) unhex_hex_upper of_char_digits del: mult_div_mod_eq)
  then show ?thesis by (simp only: char_split)
qed

lemma unescape_QueryEscape [simp]: "unescape True (QueryEscape s) = Some s"
  by (induction s) (simp_all add: QueryEscape_def unescape_escape_byte)

text \<open>The bytes an escaped text is made of; none is a separator.\<close>

definition url_safe :: "char \<Rightarrow> bool" where
  "url_safe c \<longleftrightarrow> url_unreserved c \<or> c = CHR ''+'' \<or> c = CHR ''%''"

lemma QueryEscape_safe: "c \<in> set (QueryEscape s) \<Longrightarrow> url_safe c"
proof -
  have "url_safe c" if "c \<in> set (escape_byte d)" for d
    using that by (auto simp: escape_byte_def url_safe_def hex_upper_unreserved of_char_digits split: if_splits)
  then show "c \<in> set (QueryEscape s) \<Longrightarrow> ?thesis" by (auto simp: QueryEscape_def)
qed

lemma url_safe_not:
  "\<not> url_safe CHR ''&''" "\<not> url_safe CHR ''=''" "\<not> url_safe CHR '';''" "\<not> url_safe CHR ''#''"
  by (simp_all add: url_safe_def url_unreserved_def)

lemma url_safe_printable: "url_safe c \<Longrightarrow> 32 \<le> (of_char c :: nat) \<and> of_char c \<noteq> (127 :: nat)"
  by (auto simp: url_safe_def url_unreserved_def Let_def)

lemma QueryEscape_no [simp]:
  "CHR ''&'' \<notin> set (QueryEscape s)" "CHR ''='' \<notin> set (QueryEscape s)" "CHR '';'' \<notin> set (QueryEscape s)"
  "CHR ''#'' \<notin> set (QueryEscape s)"
  using QueryEscape_safe url_safe_not by blast+

section \<open>Queries\<close>

lemma split_on_none: "sep \<notin> set s \<Longrightarrow> split_on sep s = [s]"
  by (induction s) auto

lemma split_on_append: "sep \<notin> set s \<Longrightarrow> split_on sep (s @ sep # t) = s # split_on sep t"
  by (induction s) auto

lemma Cut_append [simp]: "sep \<notin> set s \<Longrightarrow> Cut sep (s @ sep # t) = (s, t)"
  by (induction s) (auto simp: Cut_def)

lemma Cut_none: "sep \<notin> set s \<Longrightarrow> Cut sep s = (s, [])"
  by (induction s) (auto simp: Cut_def)

lemma parse_pair_escaped: "parse_pair (QueryEscape k @ CHR ''='' # QueryEscape v) = [(k, v)]"
  by (simp add: parse_pair_def)

lemma ParseQuery_encode [simp]: "ParseQuery (encode_pairs ps) = ps"
proof (induction ps rule: encode_pairs.induct)
  case 1
  then show ?case by (simp add: ParseQuery_def parse_pair_def)
next
  case (2 k v)
  then show ?case by (simp add: ParseQuery_def split_on_none parse_pair_escaped)
next
  case (3 k v p ps)
  have "QueryEscape k @ ''='' @ QueryEscape v @ ''&'' @ encode_pairs (p # ps)
      = (QueryEscape k @ CHR ''='' # QueryEscape v) @ CHR ''&'' # encode_pairs (p # ps)" by simp
  moreover have "CHR ''&'' \<notin> set (QueryEscape k @ CHR ''='' # QueryEscape v)" by simp
  ultimately have "split_on CHR ''&'' (encode_pairs ((k, v) # p # ps))
      = (QueryEscape k @ CHR ''='' # QueryEscape v) # split_on CHR ''&'' (encode_pairs (p # ps))"
    using split_on_append by (metis encode_pairs.simps(3))
  with 3 show ?case by (simp add: ParseQuery_def parse_pair_escaped del: encode_pairs.simps)
qed

lemma encode_pairs_printable:
  "c \<in> set (encode_pairs ps) \<Longrightarrow> url_safe c \<or> c = CHR ''='' \<or> c = CHR ''&''"
  by (induction ps rule: encode_pairs.induct) (auto dest: QueryEscape_safe)

lemma uri_query_built: "uri_query ''cbdc'' ''pay'' (''cbdc://pay?'' @ encode_pairs ps) = Some (encode_pairs ps)"
proof -
  let ?q = "encode_pairs ps"
  have h: "CHR ''#'' \<notin> set ?q" using encode_pairs_printable url_safe_not by blast
  have p: "list_all (\<lambda>c. 32 \<le> (of_char c :: nat) \<and> of_char c \<noteq> (127 :: nat)) ?q"
    using encode_pairs_printable url_safe_printable by (fastforce simp: list_all_iff)
  have "Cut CHR ''#'' (''cbdc://pay?'' @ ?q) = (''cbdc://pay?'' @ ?q, [])" by (rule Cut_none) (use h in simp)
  moreover have "Cut CHR '':'' (''cbdc://pay?'' @ ?q) = (''cbdc'', ''//pay?'' @ ?q)"
    "Cut CHR ''?'' (''//pay?'' @ ?q) = (''//pay'', ?q)" by (simp_all add: Cut_def)
  moreover have "map ascii_lower ''cbdc'' = ''cbdc''" by (simp add: ascii_lower_def)
  ultimately show ?thesis using p by (simp add: uri_query_def)
qed


section \<open>Signatures in hex\<close>

definition printable :: "char \<Rightarrow> bool" where
  "printable c \<longleftrightarrow> 32 < (of_char c :: nat) \<and> of_char c < (128 :: nat)"

lemma hex_digit_printable: "printable (hex_digit n)"
proof -
  have "n mod 16 \<in> set [0..<16]" by simp
  moreover have "list_all (\<lambda>i. printable (''0123456789abcdef'' ! i)) [0..<16]"
    by code_simp
  ultimately show ?thesis unfolding list_all_iff hex_digit_def by blast
qed

lemma space_runes_ends:
  "list_all (\<lambda>p. p \<noteq> [] \<and> \<not> printable (hd p)) space_runes" "list_all (\<lambda>p. p \<noteq> [] \<and> \<not> printable (hd p)) (map rev space_runes)"
  by code_simp+

lemma no_space_prefix:
  assumes "s \<noteq> []" and "printable (hd s)" and "list_all (\<lambda>p. p \<noteq> [] \<and> \<not> printable (hd p)) R"
  shows "trim_left R s = s"
proof (rule trim_left_id, unfold find_None_iff, rule notI)
  assume "\<exists>p. p \<in> set R \<and> prefix p s"
  then obtain p where "p \<in> set R" "prefix p s" by blast
  with assms have "p \<noteq> []" "hd p = hd s" "\<not> printable (hd p)" by (auto simp: list_all_iff prefix_def hd_append)
  with assms(2) show False by simp
qed

lemma TrimSpace_hex:
  assumes "s = hex_encode bs" and "bs \<noteq> []"
  shows "TrimSpace s = s"
proof -
  obtain b r where "bs = b # r" using assms(2) by (cases bs) auto
  then have h: "s \<noteq> []" "hd s = hex_digit (b div 16)" using assms(1) by (simp_all add: hex_encode_def)
  obtain b' r' where "bs = r' @ [b']" using assms(2) by (cases bs rule: rev_cases) auto
  then have "rev s = hex_digit b' # hex_digit (b' div 16) # rev (hex_encode r')" using assms(1) by (simp add: hex_encode_def)
  then have l: "rev s \<noteq> []" "hd (rev s) = hex_digit b'" by simp_all
  have "trim_left space_runes s = s"
    by (rule no_space_prefix [OF h(1) _ space_runes_ends(1)]) (simp add: h(2) hex_digit_printable)
  moreover have "trim_left (map rev space_runes) (rev s) = rev s"
    by (rule no_space_prefix [OF l(1) _ space_runes_ends(2)]) (simp add: l(2) hex_digit_printable)
  ultimately show ?thesis by (simp add: TrimSpace_def)
qed

lemma TrimSpace_hmac [simp]: "TrimSpace (hmacSHA256 k m) = hmacSHA256 k m"
proof (rule TrimSpace_hex)
  show "hmacSHA256 k m = hex_encode (hmac_sum (bytes_of k) (bytes_of m))" by (simp add: hmacSHA256_def)
  have "length (hex_encode (hmac_sum (bytes_of k) (bytes_of m))) = 64" using length_hmac [of k m] by (simp add: hmacSHA256_def)
  then show "hmac_sum (bytes_of k) (bytes_of m) \<noteq> []" by (auto simp: hex_encode_def)
qed

lemma hmac_nonempty [simp]: "hmacSHA256 k m \<noteq> []"
  using length_hmac [of k m] by (metis list.size(3) zero_neq_numeral)


section \<open>The round trip\<close>

lemma query_get_built:
  "query_get ''amount'' (qr_pairs a d x m r s) = a" "query_get ''expires'' (qr_pairs a d x m r s) = x"
  "query_get ''merchant'' (qr_pairs a d x m r s) = m" "query_get ''sig'' (qr_pairs a d x m r s) = s"
  "query_get ''ref'' (qr_pairs a d x m r s) = r" "query_get ''desc'' (qr_pairs a d x m r s) = d"
  by (simp_all add: query_get_def qr_pairs_def)

lemma BuildURI_parsed:
  "uri_query uri_scheme ''pay'' (BuildURI E m a r d t k) =
    Some (encode_pairs (qr_pairs (FormatInt a) d (FormatInt (Unix64 t)) (uuid_String E m) r
      (qr_sign k (uuid_String E m) (FormatInt a) (FormatInt (Unix64 t)))))"
  unfolding BuildURI_def Let_def uri_scheme_def using uri_query_built by simp

definition truncated :: "gotime \<Rightarrow> gotime" where
  "truncated t = 1000000000 * Unix t"

definition unix_in_range :: "gotime \<Rightarrow> bool" where
  "unix_in_range t \<longleftrightarrow> int64_ok (Unix t) \<and> int64_ok (Unix t + 62135596800)"

lemma time_Unix_Unix64:
  assumes "unix_in_range t"
  shows "time_Unix (Unix64 t) = truncated t"
proof -
  have c: "sint (62135596800 :: int64) = 62135596800" by code_simp
  from assms have u: "sint (Unix64 t) = Unix t" by (simp add: unix_in_range_def Unix64_def int64_simps)
  have "sint (Unix64 t + 62135596800) = Unix t + 62135596800"
    using assms c u by (subst sint_add64) (simp_all add: unix_in_range_def)
  then show ?thesis by (simp add: time_Unix_def truncated_def)
qed

lemma Unix64_truncated: "Unix64 (truncated t) = Unix64 t"
  by (simp add: Unix64_def truncated_def Unix_def)

lemma ParseURI_built:
  assumes "uuid_lib_ok E" and "0 < sint a" and "unix_in_range t"
  shows "ParseURI E (BuildURI E m a r d t k) = Inr \<lparr>qp_MerchantID = m, qp_AmountCents = a, qp_Reference = r,
    qp_Description = d, qp_ExpiresAt = truncated t,
    qp_Signature = qr_sign k (uuid_String E m) (FormatInt a) (FormatInt (Unix64 t))\<rparr>"
  using assms unfolding ParseURI_def BuildURI_parsed
  by (simp add: query_get_built uuid_lib_ok_def qr_sign_def time_Unix_Unix64)

text \<open>C21: A payment URI is read back by ParseURI as it was built by BuildURI: the same merchant, amount,
  reference and description, whatever bytes the last two hold, and the expiry to the second; and Verify under
  the key it was signed with accepts it exactly until that second.\<close>

theorem payment_URI_round_trip:
  assumes "uuid_lib_ok E" and "0 < sint amount" and "unix_in_range t"
  shows "\<exists>p. ParseURI E (BuildURI E m amount r d t k) = Inr p \<and>
    (qp_MerchantID p, qp_AmountCents p, qp_Reference p, qp_Description p) = (m, amount, r, d) \<and>
    qp_ExpiresAt p \<le> t \<and> t < qp_ExpiresAt p + 1000000000 \<and>
    (Verify E p k t' = None \<longleftrightarrow> t' \<le> qp_ExpiresAt p)"
proof -
  have "truncated t \<le> t" "t < truncated t + 1000000000"
    using div_mult_mod_eq [of t "1000000000"] by (auto simp: truncated_def Unix_def)
  then show ?thesis
    using ParseURI_built [OF assms] by (auto simp: Verify_def Unix64_truncated Let_def not_less)
qed

theorem payment_URI_round_trip_witness:
  "\<exists>p. ParseURI sample_env (BuildURI sample_env (UUID 7) 2500 ''inv & co'' ''50% off'' 1700000000500000000 ''key'') = Inr p \<and>
    (qp_MerchantID p, qp_AmountCents p, qp_Reference p, qp_Description p) = (UUID 7, 2500, ''inv & co'', ''50% off'') \<and>
    qp_ExpiresAt p \<le> 1700000000500000000 \<and> 1700000000500000000 < qp_ExpiresAt p + 1000000000 \<and>
    (Verify sample_env p ''key'' 0 = None \<longleftrightarrow> 0 \<le> qp_ExpiresAt p)"
  by (rule payment_URI_round_trip [OF sample_env_uuid]) (simp_all add: unix_in_range_def Unix_def int64_ok_def)

end
