(* ===== verification/Middleware.thy ===== *)
theory Middleware
  imports Auth
begin

text \<open>
  \<open>internal/middleware\<close>: what stands between the router and the handlers. A middleware takes the next
  handler and gives a handler. The two interfaces of the package (\<open>tokenValidator\<close>, \<open>redisIncrementer\<close>)
  are the functions it is given; the server passes \<open>ValidateAccessToken\<close> and \<open>IncrWithExpiry\<close>.
\<close>

type_synonym middleware = "handler \<Rightarrow> handler"

section \<open>auth.go\<close>

text \<open>
  \<open>strings.EqualFold(p, "Bearer")\<close>: none of its letters folds to a rune outside ASCII.
\<close>

definition is_bearer :: "string \<Rightarrow> bool" where
  "is_bearer p \<longleftrightarrow> map ascii_lower p = ''bearer''"

definition Authenticate :: "env \<Rightarrow> (string \<Rightarrow> (world, Claims) io) \<Rightarrow> middleware" where
  "Authenticate E validate next r =
    (let unauthorized = reply E (\<lambda>t. Unauthorized t (rq_RequestID r));
         authHeader = field ''Authorization'' (rq_Headers r)
     in if authHeader = '''' then unauthorized
        else case SplitN2 CHR '' '' authHeader of
          [scheme, tokenString] \<Rightarrow>
            if \<not> is_bearer scheme then unauthorized
            else if tokenString = '''' then unauthorized
            else on_result (validate tokenString) (\<lambda>err. unauthorized)
              (\<lambda>claims. next (r\<lparr>rq_UserID := Some (cl_UserID claims), rq_Role := Some (cl_Role claims),
                              rq_WalletID := Some (cl_WalletID claims)\<rparr>))
        | _ \<Rightarrow> unauthorized)"

definition context_value :: "string option \<Rightarrow> string option" where
  "context_value v = (case v of None \<Rightarrow> None | Some s \<Rightarrow> if s = '''' then None else Some s)"

definition GetUserID :: "request \<Rightarrow> string option" where
  "GetUserID r = context_value (rq_UserID r)"

definition GetUserRole :: "request \<Rightarrow> string option" where
  "GetUserRole r = context_value (rq_Role r)"

definition GetWalletID :: "request \<Rightarrow> string option" where
  "GetWalletID r = context_value (rq_WalletID r)"

section \<open>role.go\<close>

definition RequireRole :: "env \<Rightarrow> string list \<Rightarrow> middleware" where
  "RequireRole E allowedRoles next r =
    (case GetUserRole r of
       None \<Rightarrow> reply E (\<lambda>t. Unauthorized t (rq_RequestID r))
     | Some role \<Rightarrow>
         if role \<notin> set allowedRoles then reply E (\<lambda>t. Forbidden t (rq_RequestID r))
         else next r)"

definition RequireAdmin :: "env \<Rightarrow> middleware" where
  "RequireAdmin E = RequireRole E [''admin'']"

definition RequireMerchant :: "env \<Rightarrow> middleware" where
  "RequireMerchant E = RequireRole E [''merchant'', ''admin'']"

definition RequireUser :: "env \<Rightarrow> middleware" where
  "RequireUser E = RequireRole E [''user'', ''admin'']"

section \<open>ratelimit.go\<close>

record RateLimitConfig =
  rl_Limit :: int64
  rl_Window :: int64
  rl_KeyFunc :: "request \<Rightarrow> string"

definition max_int64 :: "int64 \<Rightarrow> int64 \<Rightarrow> int64" where
  "max_int64 a b = (if sint b < sint a then a else b)"

definition limit_headers :: "RateLimitConfig \<Rightarrow> int64 \<Rightarrow> writer \<Rightarrow> writer" where
  "limit_headers cfg count wr =
    Header_Set ''X-RateLimit-Remaining'' (FormatInt (max_int64 0 (rl_Limit cfg - count)))
      (Header_Set ''X-RateLimit-Limit'' (FormatInt (rl_Limit cfg)) wr)"

definition too_many :: "env \<Rightarrow> RateLimitConfig \<Rightarrow> handler" where
  "too_many E cfg r wr =
    (let retryAfterSeconds = whole_seconds (rl_Window cfg)
     in reply E (\<lambda>t. TooManyRequests t retryAfterSeconds (rq_RequestID r))
          (Header_Set ''Retry-After'' (FormatInt retryAfterSeconds) wr))"

definition rate_key :: "RateLimitConfig \<Rightarrow> request \<Rightarrow> string" where
  "rate_key cfg r = ''ratelimit:'' @ rl_KeyFunc cfg r"

definition RateLimit :: "env \<Rightarrow> (string \<Rightarrow> int64 \<Rightarrow> (world, int64) io) \<Rightarrow> RateLimitConfig \<Rightarrow> middleware" where
  "RateLimit E incr cfg next r =
    on_result (incr (rate_key cfg r) (rl_Window cfg))
      (\<lambda>err. next r)
      (\<lambda>count wr.
         let wr1 = limit_headers cfg count wr
         in if sint (rl_Limit cfg) < sint count then too_many E cfg r wr1 else next r wr1)"

text \<open>The limits the program uses: by address for the authentication, by account for the rest.\<close>

definition auth_limit :: RateLimitConfig where
  "auth_limit = \<lparr>rl_Limit = 10, rl_Window = 15 * 60 * second, rl_KeyFunc = (\<lambda>r. ''auth:'' @ rq_RemoteAddr r)\<rparr>"

definition user_or_ip :: "string \<Rightarrow> request \<Rightarrow> string" where
  "user_or_ip name r =
    (case GetUserID r of Some userID \<Rightarrow> name @ '':user:'' @ userID | None \<Rightarrow> name @ '':ip:'' @ rq_RemoteAddr r)"

definition general_limit :: RateLimitConfig where
  "general_limit = \<lparr>rl_Limit = 60, rl_Window = 60 * second, rl_KeyFunc = user_or_ip ''general''\<rparr>"

definition payment_limit :: RateLimitConfig where
  "payment_limit = \<lparr>rl_Limit = 20, rl_Window = 60 * second, rl_KeyFunc = user_or_ip ''payment''\<rparr>"

definition AuthRateLimit :: "env \<Rightarrow> (string \<Rightarrow> int64 \<Rightarrow> (world, int64) io) \<Rightarrow> middleware" where
  "AuthRateLimit E incr = RateLimit E incr auth_limit"

definition GeneralRateLimit :: "env \<Rightarrow> (string \<Rightarrow> int64 \<Rightarrow> (world, int64) io) \<Rightarrow> middleware" where
  "GeneralRateLimit E incr = RateLimit E incr general_limit"

definition PaymentRateLimit :: "env \<Rightarrow> (string \<Rightarrow> int64 \<Rightarrow> (world, int64) io) \<Rightarrow> middleware" where
  "PaymentRateLimit E incr = RateLimit E incr payment_limit"

end
