(* ===== verification/Middleware_Claims.thy ===== *)
theory Middleware_Claims
  imports Middleware Auth_Props Samples
begin

text \<open>
  What the middleware promises: the gate of \<open>Authenticate\<close> and \<open>RequireRole\<close>, proved once for every
  validator that only reads, and the rate limiter over Redis as a relation on bursts of requests.
\<close>

section \<open>The interfaces of the package\<close>

text \<open>\<open>tokenValidator\<close>: validation only looks. \<open>redisIncrementer\<close>: counting leaves the tables alone.\<close>

locale token_validator =
  fixes validate :: "string \<Rightarrow> (world, Claims) io"
  assumes validate_reads: "snd (validate tok w) = w"

definition bearer_token :: "request \<Rightarrow> string option" where
  "bearer_token r =
    (case SplitN2 CHR '' '' (field ''Authorization'' (rq_Headers r)) of
       [scheme, tok] \<Rightarrow> if is_bearer scheme \<and> tok \<noteq> '''' then Some tok else None
     | _ \<Rightarrow> None)"

definition with_claims :: "Claims \<Rightarrow> request \<Rightarrow> request" where
  "with_claims c r = r\<lparr>rq_UserID := Some (cl_UserID c), rq_Role := Some (cl_Role c), rq_WalletID := Some (cl_WalletID c)\<rparr>"

definition unauthorized :: "env \<Rightarrow> handler" where
  "unauthorized E r = reply E (\<lambda>t. Unauthorized t (rq_RequestID r))"

context token_validator
begin

lemma Authenticate_cases:
  "Authenticate E validate next r wr w =
    (case bearer_token r of
       None \<Rightarrow> unauthorized E r wr w
     | Some tok \<Rightarrow> (case fst (validate tok w) of
           Inl _ \<Rightarrow> unauthorized E r wr w
         | Inr c \<Rightarrow> next (with_claims c r) wr w))"
proof -
  have v: "on_result (validate tok) h k wr w = (case fst (validate tok w) of Inl e \<Rightarrow> h e wr w | Inr c \<Rightarrow> k c wr w)"
    for tok and h :: "gerror \<Rightarrow> writer \<Rightarrow> world \<Rightarrow> writer \<times> world" and k
    using validate_reads [of tok w] by (cases "validate tok w") (auto simp: on_result_def split: sum.splits)
  show ?thesis
    unfolding Authenticate_def bearer_token_def unauthorized_def with_claims_def Let_def
    by (auto simp: v split: list.splits sum.splits)
qed

end

lemma ValidateAccessToken_reads: "snd (ValidateAccessToken E L cfg tok w) = w"
  by (auto simp: ValidateAccessToken_def io_run Let_def split: option.splits prod.splits)

interpretation tv: token_validator "ValidateAccessToken E L cfg" for E L cfg
  by unfold_locales (rule ValidateAccessToken_reads)

section \<open>The counter\<close>

lemma IncrWithExpiry_absent:
  assumes "fate E (w_calls w) = Up" and "rlookup (now E w) (w_redis w) k = None"
  shows "IncrWithExpiry E k ttl w =
    (Inr 1, w\<lparr>w_calls := Suc (w_calls w), w_redis := (w_redis w)(k \<mapsto> (RText (FormatInt 1), Some (time_Add (now E w) ttl)))\<rparr>)"
  using assms
  by (simp add: IncrWithExpiry_def io_run redis_call_def redis_incr_def redis_expire_def rlookup_def now_def Let_def)

lemma IncrWithExpiry_present:
  assumes "fate E (w_calls w) = Up" and "w_redis w k = Some (RText (FormatInt n), Some e)" and "now E w < e"
    and "int64_ok (sint n + 1)"
  shows "IncrWithExpiry E k ttl w =
    (Inr (n + 1), w\<lparr>w_calls := Suc (w_calls w), w_redis := (w_redis w)(k \<mapsto> (RText (FormatInt (n + 1)), Some (time_Add (now E w) ttl)))\<rparr>)"
  using assms
  by (simp add: IncrWithExpiry_def io_run redis_call_def redis_incr_def redis_expire_def rlookup_def now_def Let_def)

section \<open>Bursts\<close>

text \<open>
  A visit is a request with the response and the world it met, and what came of it. In a burst of visits
  under the key \<open>k\<close>, the key is absent (or expired) at the first, Redis answers, and each visit comes less
  than a window after the one before; whatever else happens in between leaves the key alone.
\<close>

type_synonym visit = "world \<times> writer \<times> request \<times> (writer \<times> world)"

inductive burst :: "env \<Rightarrow> RateLimitConfig \<Rightarrow> handler \<Rightarrow> string \<Rightarrow> visit list \<Rightarrow> gotime \<Rightarrow> world \<Rightarrow> bool"
  for E cfg h k where
  first: "rlookup (now E w) (w_redis w) k = None \<Longrightarrow> fate E (w_calls w) = Up \<Longrightarrow> rate_key cfg r = k \<Longrightarrow>
    res = RateLimit E (IncrWithExpiry E) cfg h r wr w \<Longrightarrow> burst E cfg h k [(w, wr, r, res)] (now E w) (snd res)"
| again: "burst E cfg h k vs t w' \<Longrightarrow> w_redis w k = w_redis w' k \<Longrightarrow> now E w < t + sint (rl_Window cfg) \<Longrightarrow>
    fate E (w_calls w) = Up \<Longrightarrow> rate_key cfg r = k \<Longrightarrow> res = RateLimit E (IncrWithExpiry E) cfg h r wr w \<Longrightarrow>
    burst E cfg h k (vs @ [(w, wr, r, res)]) (now E w) (snd res)"

definition passed :: "RateLimitConfig \<Rightarrow> handler \<Rightarrow> int64 \<Rightarrow> visit \<Rightarrow> bool" where
  "passed cfg h n v = (case v of (w, wr, r, res) \<Rightarrow>
     \<exists>w1. w_db w1 = w_db w \<and> w_events w1 = w_events w \<and> res = h r (limit_headers cfg n wr) w1)"

definition refused :: "visit \<Rightarrow> bool" where
  "refused v = (case v of (w, wr, r, wr', w') \<Rightarrow>
     (wr_Status wr = None \<longrightarrow> wr_Status wr' = Some 429) \<and> w_db w' = w_db w \<and> w_events w' = w_events w)"

definition counted_visit :: "RateLimitConfig \<Rightarrow> handler \<Rightarrow> nat \<Rightarrow> visit \<Rightarrow> bool" where
  "counted_visit cfg h i v =
    (if int i < sint (rl_Limit cfg) then passed cfg h (word_of_int (int i + 1)) v else refused v)"

lemma limit_headers_status [simp]: "wr_Status (limit_headers cfg n wr) = wr_Status wr"
  by (simp add: limit_headers_def Header_Set_def)

lemma too_many_refuses:
  "wr_Status (fst (too_many E cfg r wr w)) = (case wr_Status wr of None \<Rightarrow> Some 429 | Some s \<Rightarrow> Some s)"
  "snd (too_many E cfg r wr w) = w"
  by (simp_all add: too_many_def TooManyRequests_def Error_def Let_def Header_Set_def split: option.splits)

text \<open>One visit, given what the counter says.\<close>

lemma visit_counted:
  assumes count: "IncrWithExpiry E k (rl_Window cfg) w = (Inr (word_of_int (int i + 1)), w1)"
    and frame: "w_db w1 = w_db w" "w_events w1 = w_events w" "w_redis w1 k = x"
    and k: "rate_key cfg r = k" and res: "res = RateLimit E (IncrWithExpiry E) cfg h r wr w"
    and i: "int i + 1 < 2 ^ 63" and h: "\<And>r wr w. w_redis (snd (h r wr w)) k = w_redis w k"
  shows "counted_visit cfg h i (w, wr, r, res) \<and> w_redis (snd res) k = x"
proof -
  have "sint (word_of_int (int i + 1) :: int64) = int i + 1" using i by (intro sint_word_of_int64) (simp add: int64_ok_def)
  then show ?thesis
    using frame h too_many_refuses [of E cfg r "limit_headers cfg (word_of_int (int i + 1)) wr" w1] count k
    by (auto simp: res RateLimit_def on_result_def counted_visit_def passed_def refused_def Let_def)
qed

lemma burst_invariant:
  assumes "burst E cfg h k vs t w" and "\<And>r wr w. w_redis (snd (h r wr w)) k = w_redis w k" and "int (length vs) < 2 ^ 63"
  shows "w_redis w k = Some (RText (FormatInt (word_of_int (int (length vs)))), Some (t + sint (rl_Window cfg))) \<and>
    (\<forall>i < length vs. counted_visit cfg h i (vs ! i))"
  using assms(1,3)
proof (induction rule: burst.induct)
  case (first w r res wr)
  from visit_counted [where i = 0, OF _ _ _ _ first(3,4) _ assms(2)] IncrWithExpiry_absent [OF first(2,1)] show ?case
    by (simp add: time_Add_def)
next
  case (again vs t w' w r res wr)
  let ?n = "word_of_int (int (length vs)) :: int64"
  from again have IH: "w_redis w k = Some (RText (FormatInt ?n), Some (t + sint (rl_Window cfg)))"
    "\<forall>i < length vs. counted_visit cfg h i (vs ! i)" by simp_all
  have n: "sint ?n = int (length vs)" using again.prems by (intro sint_word_of_int64) (simp add: int64_ok_def)
  have "int64_ok (sint ?n + 1)" using again.prems n by (simp add: int64_ok_def)
  from IncrWithExpiry_present [OF again(4) IH(1) again(3) this]
  have c: "IncrWithExpiry E k (rl_Window cfg) w = (Inr (word_of_int (int (length vs) + 1)), w\<lparr>w_calls := Suc (w_calls w),
      w_redis := (w_redis w)(k \<mapsto> (RText (FormatInt (word_of_int (int (length vs) + 1))), Some (time_Add (now E w) (rl_Window cfg))))\<rparr>)"
    by (simp add: wi_hom_add)
  have "counted_visit cfg h (length vs) (w, wr, r, res) \<and>
      w_redis (snd res) k = Some (RText (FormatInt (word_of_int (int (length vs) + 1))), Some (time_Add (now E w) (rl_Window cfg)))"
    by (rule visit_counted [OF c _ _ _ again(5,6) _ assms(2)]) (use again.prems in simp_all)
  with IH(2) show ?case by (auto simp: nth_append time_Add_def less_Suc_eq add.commute)
qed


text \<open>C20: The rate limiter lets exactly the first Limit requests of a burst through, handing them on with the
  remaining number in the headers, and refuses every later one with 429 and no effect on the tables or the
  events, for as long as less than a window passes between two requests: the window starts again with each.\<close>

theorem rate_limit_burst:
  assumes "burst E cfg h k vs t w" and "\<forall>r wr w. w_redis (snd (h r wr w)) k = w_redis w k"
    and "int (length vs) < 2 ^ 63" and "i < length vs"
  shows "if int i < sint (rl_Limit cfg) then passed cfg h (word_of_int (int i + 1)) (vs ! i) else refused (vs ! i)"
proof -
  have "counted_visit cfg h i (vs ! i)" using burst_invariant [OF assms(1) _ assms(3)] assms(2,4) by blast
  then show ?thesis by (simp only: counted_visit_def)
qed

definition one_per_minute :: RateLimitConfig where
  "one_per_minute = \<lparr>rl_Limit = 1, rl_Window = 60 * second, rl_KeyFunc = (\<lambda>r. rq_RemoteAddr r)\<rparr>"

definition empty_request :: request where
  "empty_request = \<lparr>rq_Headers = [], rq_Query = [], rq_Params = [], rq_Cookies = [], rq_RemoteAddr = ''10.0.0.7:5'',
     rq_UserAgent = ''ua'', rq_Body = None, rq_RequestID = ''req-1'', rq_UserID = None, rq_Role = None, rq_WalletID = None\<rparr>"

definition ok_handler :: "env \<Rightarrow> handler" where
  "ok_handler E r = reply E (\<lambda>t. OK JNull)"

lemma sample_burst:
  "\<exists>vs t w. burst sample_env one_per_minute (ok_handler sample_env) ''ratelimit:10.0.0.7:5'' vs t w \<and> length vs = 2 \<and>
     fst (vs ! 1) = snd (snd (snd (snd (vs ! 0))))"
proof -
  let ?h = "ok_handler sample_env" and ?k = "''ratelimit:10.0.0.7:5''"
  let ?res = "RateLimit sample_env (IncrWithExpiry sample_env) one_per_minute ?h empty_request new_writer"
  have k: "rate_key one_per_minute empty_request = ?k" by (simp add: rate_key_def one_per_minute_def empty_request_def)
  have one: "burst sample_env one_per_minute ?h ?k [(sample_world, new_writer, empty_request, ?res sample_world)]
      (now sample_env sample_world) (snd (?res sample_world))"
    by (rule burst.first [OF _ _ k]) (simp_all add: sample_world_def rlookup_def)
  have c: "w_calls (snd (?res sample_world)) = 1"
    using IncrWithExpiry_absent [of sample_env sample_world ?k "rl_Window one_per_minute"]
    by (simp add: RateLimit_def on_result_def k too_many_refuses ok_handler_def sample_world_def rlookup_def Let_def)
  have "burst sample_env one_per_minute ?h ?k ([(sample_world, new_writer, empty_request, ?res sample_world)] @
      [(snd (?res sample_world), new_writer, empty_request, ?res (snd (?res sample_world)))])
      (now sample_env (snd (?res sample_world))) (snd (?res (snd (?res sample_world))))"
  proof (rule burst.again [OF one refl _ _ k refl])
    have "sint (60 * second) = 60000000000" by (simp add: second_def)
    then show "now sample_env (snd (?res sample_world)) < now sample_env sample_world + sint (rl_Window one_per_minute)"
      using c by (simp add: now_def sample_env_def sample_world_def one_per_minute_def)
  qed simp
  then show ?thesis by (intro exI conjI) (assumption, simp_all)
qed

theorem rate_limit_burst_witness:
  "\<exists>vs. length vs = 2 \<and> passed one_per_minute (ok_handler sample_env) 1 (vs ! 0) \<and> refused (vs ! 1)"
proof -
  obtain vs t w where b: "burst sample_env one_per_minute (ok_handler sample_env) ''ratelimit:10.0.0.7:5'' vs t w" "length vs = 2"
    using sample_burst by blast
  note r = rate_limit_burst [OF b(1), unfolded b(2) one_per_minute_def [THEN arg_cong, of rl_Limit, simplified]]
  have "passed one_per_minute (ok_handler sample_env) 1 (vs ! 0)" using r [of 0] by (simp add: ok_handler_def)
  moreover have "refused (vs ! 1)" using r [of 1] by (simp add: ok_handler_def)
  ultimately show ?thesis using b(2) by blast
qed

text \<open>
  The seconds a refused client should wait never reach it: \<open>TooManyRequests\<close> overwrites the header with the
  text of the status code of that number.
\<close>

lemma retry_after_empty: "field ''Retry-After'' (wr_Header (fst (too_many E auth_limit r wr w))) = ''''"
proof -
  have "StatusText (whole_seconds (15 * 60 * second)) = ''''" by code_simp
  then show ?thesis
    by (simp add: too_many_def TooManyRequests_def Error_def JSON_def WriteHeader_def Let_def Header_Set_def field_def auth_limit_def
        split: option.splits)
qed

end
