(* ===== verification/Wallet.thy ===== *)
theory Wallet
  imports Payment Utf8
begin

text \<open>
  \<open>internal/wallet\<close>: the read side of wallets. Its repository (one wallet, the search, the history of a
  wallet), the service that checks who may read what, and the HTTP handler. \<open>ListParams\<close>, \<open>Pagination\<close>
  and the filters of a history are those of \<open>internal/payment\<close>, field by field.
\<close>

section \<open>Models\<close>

record WalletResponse =
  wl_ID :: string
  wl_UserID :: string
  wl_Currency :: string
  wl_BalanceCents :: int64
  wl_BalanceDisplay :: string
  wl_IsFrozen :: bool
  wl_CreatedAt :: string
  wl_UpdatedAt :: string

record BalanceResponse =
  bl_WalletID :: string
  bl_BalanceCents :: int64
  bl_BalanceDisplay :: string
  bl_IsFrozen :: bool
  bl_AsOf :: string

record TransactionRow =
  tr_ID :: string
  tr_Type :: string
  tr_Status :: string
  tr_Direction :: string
  tr_CounterpartyName :: "string option"
  tr_CounterpartyWallet :: "string option"
  tr_AmountCents :: int64
  tr_AmountDisplay :: string
  tr_Reference :: "string option"
  tr_CreatedAt :: string
  tr_SettledAt :: "string option"

record TransactionListResponse =
  tl_Transactions :: "TransactionRow list"
  tl_Pagination :: Pagination

record WalletSearchResult =
  ws_WalletID :: string
  ws_OwnerName :: string
  ws_OwnerEmail :: string
  ws_BalanceCents :: int64
  ws_BalanceDisplay :: string
  ws_IsFrozen :: bool

section \<open>The repository\<close>

definition select_live_wallet :: "uuid \<Rightarrow> wallet statement" where
  "select_live_wallet walletID u t d =
    (case live_wallet walletID d of None \<Rightarrow> Inl NoRows | Some w \<Rightarrow> Inr (w, d))"

definition Wallet_FindByID :: "env \<Rightarrow> uuid \<Rightarrow> (world, wallet) io" where
  "Wallet_FindByID E walletID =
    catch_io (sql E None (select_live_wallet walletID))
      (\<lambda>err. if errors_Is err NoRows then throw (Wallet wallet_error.ErrWalletNotFound)
             else throw (Wrap ''find wallet by id'' err))
      ret"

definition select_user_wallet :: "uuid \<Rightarrow> wallet statement" where
  "select_user_wallet userID u t d =
    (case find (\<lambda>w. w_UserID w = userID \<and> w_Currency w = ''DD$'' \<and> w_deleted_at w = None) (wallets d) of
       None \<Rightarrow> Inl NoRows
     | Some w \<Rightarrow> Inr (w, d))"

definition Wallet_FindByUserID :: "env \<Rightarrow> uuid \<Rightarrow> (world, wallet) io" where
  "Wallet_FindByUserID E userID =
    catch_io (sql E None (select_user_wallet userID))
      (\<lambda>err. if errors_Is err NoRows then throw (Wallet wallet_error.ErrWalletNotFound)
             else throw (Wrap ''find wallet by user'' err))
      ret"

text \<open>
  \<open>ILIKE\<close>: a percent sign matches any runes, an underscore one rune, a backslash makes the next rune
  literal. Lower-casing and the order of \<open>ORDER BY full_name\<close> depend on the collation of the database:
  \<open>co_lower\<close>, and a sort key.
\<close>

fun like_match :: "nat list \<Rightarrow> nat list \<Rightarrow> bool" where
  "like_match [] s = (s = [])"
| "like_match (p # ps) s =
    (if p = 92 then (case (ps, s) of (q # qs, c # cs) \<Rightarrow> c = q \<and> like_match qs cs | _ \<Rightarrow> False)
     else if p = 37 then like_match ps s \<or> (case s of [] \<Rightarrow> False | c # cs \<Rightarrow> like_match (p # ps) cs)
     else (case s of [] \<Rightarrow> False | c # cs \<Rightarrow> (p = 95 \<or> c = p) \<and> like_match ps cs))"

declare like_match.simps(2) [simp del]

record collation =
  co_lower :: "string \<Rightarrow> string"
  co_key :: "string \<Rightarrow> string"

definition ilike :: "collation \<Rightarrow> string \<Rightarrow> string \<Rightarrow> bool" where
  "ilike C s pattern = like_match (runes (co_lower C pattern)) (runes (co_lower C s))"

definition search_pattern :: "string \<Rightarrow> string" where
  "search_pattern q = ''%'' @ filter (\<lambda>c. c \<noteq> CHR ''%'') (TrimSpace q) @ ''%''"

definition searchable :: "collation \<Rightarrow> string \<Rightarrow> wallet \<times> user \<Rightarrow> bool" where
  "searchable C pattern = (\<lambda>(w, u). u_ID u = w_UserID w \<and> u_deleted_at u = None \<and> u_IsActive u \<and>
     w_deleted_at w = None \<and> u_Role u \<noteq> ''admin'' \<and> (ilike C (u_FullName u) pattern \<or> ilike C (u_Email u) pattern))"

definition search_row :: "env \<Rightarrow> wallet \<times> user \<Rightarrow> WalletSearchResult" where
  "search_row E = (\<lambda>(w, u). \<lparr>ws_WalletID = uuid_String E (w_ID w), ws_OwnerName = u_FullName u, ws_OwnerEmail = u_Email u,
     ws_BalanceCents = w_Balance w, ws_BalanceDisplay = search_display (w_Balance w), ws_IsFrozen = w_IsFrozen w\<rparr>)"

definition select_search :: "env \<Rightarrow> collation \<Rightarrow> string \<Rightarrow> nat \<Rightarrow> WalletSearchResult list statement" where
  "select_search E C pattern lim u t d =
    Inr (map (search_row E) (take lim
           (sort_key (\<lambda>(w, u). co_key C (u_FullName u))
             (filter (searchable C pattern) (List.product (wallets d) (users d))))), d)"

definition Wallet_Search :: "env \<Rightarrow> collation \<Rightarrow> string \<Rightarrow> int64 \<Rightarrow> (world, WalletSearchResult list) io" where
  "Wallet_Search E C q lim0 =
    (let lim = (if sint lim0 \<le> 0 \<or> 50 < sint lim0 then 20 else lim0)
     in wrap_io ''search wallets'' (sql E None (select_search E C (search_pattern q) (nat (sint lim)))))"

text \<open>One row of a history; the display of the amount is filled in by the service.\<close>

definition history_row :: "env \<Rightarrow> database \<Rightarrow> uuid \<Rightarrow> transaction \<Rightarrow> TransactionRow" where
  "history_row E d walletID x =
    \<lparr>tr_ID = uuid_String E (t_ID x), tr_Type = type_label (t_Type x), tr_Status = status_label (t_Status x),
     tr_Direction = (if t_SenderWalletID x = Some walletID then ''DEBIT'' else ''CREDIT''),
     tr_CounterpartyName = counterparty d walletID x,
     tr_CounterpartyWallet = map_option (uuid_String E)
       (if t_SenderWalletID x = Some walletID then t_ReceiverWalletID x else t_SenderWalletID x),
     tr_AmountCents = t_AmountCents x, tr_AmountDisplay = '''', tr_Reference = t_Reference x,
     tr_CreatedAt = format_RFC3339 (t_CreatedAt x), tr_SettledAt = map_option format_RFC3339 (t_SettledAt x)\<rparr>"

definition select_history :: "env \<Rightarrow> uuid \<Rightarrow> ListParams \<Rightarrow> int64 \<Rightarrow> TransactionRow list statement" where
  "select_history E walletID p offset u t d =
    (if bad_filter p then Inl (PgError ''22P02'')
     else if sint (lq_Limit p) < 0 then Inl (PgError ''2201W'')
     else if sint offset < 0 then Inl (PgError ''2201X'')
     else Inr (map (history_row E d walletID)
                 (page_of (lq_Limit p) offset
                    (sort_key (\<lambda>x. - t_CreatedAt x) (filter (list_matches walletID p) (transactions d)))), d))"

definition GetTransactionHistory :: "env \<Rightarrow> uuid \<Rightarrow> ListParams \<Rightarrow> (world, TransactionRow list \<times> int64) io" where
  "GetTransactionHistory E walletID p =
    bind_io (wrap_io ''count transactions'' (sql E None (count_payments walletID p))) (\<lambda>totalCount.
    let offset = (lq_Page p - 1) * lq_Limit p in
    bind_io (wrap_io ''query transactions'' (sql E None (select_history E walletID p offset))) (\<lambda>result.
    ret (result, totalCount)))"

section \<open>The service\<close>

text \<open>The methods of the interface \<open>repository\<close> that the service calls.\<close>

record wallet_repository =
  wre_FindByID :: "uuid \<Rightarrow> (world, wallet) io"
  wre_GetTransactionHistory :: "uuid \<Rightarrow> ListParams \<Rightarrow> (world, TransactionRow list \<times> int64) io"
  wre_Search :: "string \<Rightarrow> int64 \<Rightarrow> (world, WalletSearchResult list) io"

definition authorize :: "wallet \<Rightarrow> uuid \<Rightarrow> string \<Rightarrow> gerror option" where
  "authorize w requesterUserID requesterRole =
    (if requesterRole = ''admin'' then None
     else if w_UserID w \<noteq> requesterUserID then Some (Wallet wallet_error.ErrAccessDenied)
     else None)"

definition toWalletResponse :: "env \<Rightarrow> wallet \<Rightarrow> WalletResponse" where
  "toWalletResponse E w =
    \<lparr>wl_ID = uuid_String E (w_ID w), wl_UserID = uuid_String E (w_UserID w), wl_Currency = w_Currency w,
     wl_BalanceCents = w_Balance w, wl_BalanceDisplay = Format (w_Balance w) (w_Currency w),
     wl_IsFrozen = w_IsFrozen w, wl_CreatedAt = format_RFC3339 (w_CreatedAt w), wl_UpdatedAt = format_RFC3339 (w_UpdatedAt w)\<rparr>"

definition GetWallet :: "env \<Rightarrow> wallet_repository \<Rightarrow> uuid \<Rightarrow> uuid \<Rightarrow> string \<Rightarrow> (world, WalletResponse) io" where
  "GetWallet E s walletID requesterUserID requesterRole =
    bind_io (wre_FindByID s walletID) (\<lambda>w.
    case authorize w requesterUserID requesterRole of
      Some err \<Rightarrow> throw err
    | None \<Rightarrow> ret (toWalletResponse E w))"

definition GetBalance :: "env \<Rightarrow> wallet_repository \<Rightarrow> uuid \<Rightarrow> uuid \<Rightarrow> string \<Rightarrow> (world, BalanceResponse) io" where
  "GetBalance E s walletID requesterUserID requesterRole =
    bind_io (wre_FindByID s walletID) (\<lambda>w.
    case authorize w requesterUserID requesterRole of
      Some err \<Rightarrow> throw err
    | None \<Rightarrow> bind_io (get_io (now E)) (\<lambda>t.
        ret \<lparr>bl_WalletID = uuid_String E (w_ID w), bl_BalanceCents = w_Balance w,
             bl_BalanceDisplay = Format (w_Balance w) (w_Currency w), bl_IsFrozen = w_IsFrozen w,
             bl_AsOf = format_RFC3339 t\<rparr>))"

definition clamp_params :: "ListParams \<Rightarrow> ListParams" where
  "clamp_params p =
    p\<lparr>lq_Page := (if sint (lq_Page p) < 1 then 1 else lq_Page p),
      lq_Limit := (if sint (lq_Limit p) < 1 \<or> 100 < sint (lq_Limit p) then 20 else lq_Limit p)\<rparr>"

definition page_count :: "int64 \<Rightarrow> int64 \<Rightarrow> int64" where
  "page_count n lim = (let pages = go_div (n + lim - 1) lim in if pages = 0 then 1 else pages)"

definition GetTransactions ::
    "wallet_repository \<Rightarrow> uuid \<Rightarrow> uuid \<Rightarrow> string \<Rightarrow> ListParams \<Rightarrow> (world, TransactionListResponse) io" where
  "GetTransactions s walletID requesterUserID requesterRole p0 =
    bind_io (wre_FindByID s walletID) (\<lambda>w.
    case authorize w requesterUserID requesterRole of
      Some err \<Rightarrow> throw err
    | None \<Rightarrow>
        let p = clamp_params p0 in
        bind_io (wre_GetTransactionHistory s walletID p) (\<lambda>(rows, n).
        ret \<lparr>tl_Transactions = map (\<lambda>x. x\<lparr>tr_AmountDisplay := Format (tr_AmountCents x) ''DD$''\<rparr>) rows,
             tl_Pagination = \<lparr>pg_Page = lq_Page p, pg_Limit = lq_Limit p, pg_Total = n,
               pg_Pages = page_count n (lq_Limit p)\<rparr>\<rparr>))"

definition SearchWallets :: "wallet_repository \<Rightarrow> string \<Rightarrow> (world, WalletSearchResult list) io" where
  "SearchWallets s query0 =
    (let q = TrimSpace query0 in if length q < 2 then ret [] else wre_Search s q 20)"

section \<open>The handler\<close>

definition enc_wallet :: "WalletResponse \<Rightarrow> json" where
  "enc_wallet w = JObj [(''id'', JStr (wl_ID w)), (''user_id'', JStr (wl_UserID w)), (''currency'', JStr (wl_Currency w)),
     (''balance_cents'', JInt (wl_BalanceCents w)), (''balance_display'', JStr (wl_BalanceDisplay w)),
     (''is_frozen'', JBool (wl_IsFrozen w)), (''created_at'', JStr (wl_CreatedAt w)), (''updated_at'', JStr (wl_UpdatedAt w))]"

definition enc_balance :: "BalanceResponse \<Rightarrow> json" where
  "enc_balance b = JObj [(''wallet_id'', JStr (bl_WalletID b)), (''balance_cents'', JInt (bl_BalanceCents b)),
     (''balance_display'', JStr (bl_BalanceDisplay b)), (''is_frozen'', JBool (bl_IsFrozen b)), (''as_of'', JStr (bl_AsOf b))]"

definition enc_row :: "TransactionRow \<Rightarrow> json" where
  "enc_row x = JObj ([(''id'', JStr (tr_ID x)), (''type'', JStr (tr_Type x)), (''status'', JStr (tr_Status x)),
     (''direction'', JStr (tr_Direction x)), (''counterparty_name'', enc_opt (tr_CounterpartyName x))]
     @ (case tr_CounterpartyWallet x of None \<Rightarrow> [] | Some c \<Rightarrow> [(''counterparty_wallet_id'', JStr c)])
     @ [(''amount_cents'', JInt (tr_AmountCents x)), (''amount_display'', JStr (tr_AmountDisplay x)),
        (''reference'', enc_opt (tr_Reference x)), (''created_at'', JStr (tr_CreatedAt x)),
        (''settled_at'', enc_opt (tr_SettledAt x))])"

definition enc_search :: "WalletSearchResult \<Rightarrow> json" where
  "enc_search x = JObj [(''wallet_id'', JStr (ws_WalletID x)), (''owner_name'', JStr (ws_OwnerName x)),
     (''owner_email'', JStr (ws_OwnerEmail x)), (''balance_cents'', JInt (ws_BalanceCents x)),
     (''balance_display'', JStr (ws_BalanceDisplay x)), (''is_frozen'', JBool (ws_IsFrozen x))]"

definition wallet_handleError :: "env \<Rightarrow> string \<Rightarrow> gerror \<Rightarrow> writer \<Rightarrow> world \<Rightarrow> writer \<times> world" where
  "wallet_handleError E requestID err =
    reply E (\<lambda>t.
      if errors_Is err (Wallet wallet_error.ErrWalletNotFound) then NotFound t ''wallet'' requestID
      else if errors_Is err (Wallet wallet_error.ErrAccessDenied) then Forbidden t requestID
      else InternalError t requestID)"

definition parseWalletID :: "env \<Rightarrow> request \<Rightarrow> (uuid \<Rightarrow> writer \<Rightarrow> world \<Rightarrow> writer \<times> world) \<Rightarrow> writer \<Rightarrow> world \<Rightarrow> writer \<times> world" where
  "parseWalletID E r k =
    (case uuid_Parse E (field ''id'' (rq_Params r)) of
       None \<Rightarrow> reply E (\<lambda>t. BadRequest t ''Invalid wallet ID format'' (rq_RequestID r))
     | Some i \<Rightarrow> k i)"

definition requesterFromContext ::
    "env \<Rightarrow> request \<Rightarrow> (uuid \<Rightarrow> string \<Rightarrow> writer \<Rightarrow> world \<Rightarrow> writer \<times> world) \<Rightarrow> writer \<Rightarrow> world \<Rightarrow> writer \<times> world" where
  "requesterFromContext E r k =
    (case context_uuid E (rq_UserID r) of
       None \<Rightarrow> reply E (\<lambda>t. Unauthorized t (rq_RequestID r))
     | Some userID \<Rightarrow> k userID (case rq_Role r of None \<Rightarrow> '''' | Some role \<Rightarrow> role))"

definition wallet_parseListParams :: "request \<Rightarrow> string + ListParams" where
  "wallet_parseListParams r =
    (case query_int ''page'' 1 (\<lambda>n. 1 \<le> sint n) ''page must be a positive integer'' r of
       Inl m \<Rightarrow> Inl m
     | Inr page \<Rightarrow>
       (case query_int ''limit'' 20 (\<lambda>n. 1 \<le> sint n \<and> sint n \<le> 100) ''limit must be between 1 and 100'' r of
          Inl m \<Rightarrow> Inl m
        | Inr limit \<Rightarrow>
          (case query_time ''from'' ''from must be ISO8601 format (e.g. 2026-01-01T00:00:00Z)'' r of
             Inl m \<Rightarrow> Inl m
           | Inr f \<Rightarrow>
             (case query_time ''to'' ''to must be ISO8601 format (e.g. 2026-12-31T23:59:59Z)'' r of
                Inl m \<Rightarrow> Inl m
              | Inr g \<Rightarrow> Inr \<lparr>lq_Page = page, lq_Limit = limit, lq_Type = field ''type'' (rq_Query r),
                              lq_Status = field ''status'' (rq_Query r), lq_From = f, lq_To = g\<rparr>))))"

definition wallet_get :: "env \<Rightarrow> wallet_repository \<Rightarrow> handler" where
  "wallet_get E s r =
    parseWalletID E r (\<lambda>walletID. requesterFromContext E r (\<lambda>requesterID requesterRole.
      on_result (GetWallet E s walletID requesterID requesterRole) (wallet_handleError E (rq_RequestID r))
        (\<lambda>w. reply E (\<lambda>t. OK (enc_wallet w)))))"

definition wallet_getBalance :: "env \<Rightarrow> wallet_repository \<Rightarrow> handler" where
  "wallet_getBalance E s r =
    parseWalletID E r (\<lambda>walletID. requesterFromContext E r (\<lambda>requesterID requesterRole.
      on_result (GetBalance E s walletID requesterID requesterRole) (wallet_handleError E (rq_RequestID r))
        (\<lambda>b. reply E (\<lambda>t. OK (enc_balance b)))))"

definition wallet_getTransactions :: "env \<Rightarrow> wallet_repository \<Rightarrow> handler" where
  "wallet_getTransactions E s r =
    parseWalletID E r (\<lambda>walletID. requesterFromContext E r (\<lambda>requesterID requesterRole.
      case wallet_parseListParams r of
        Inl m \<Rightarrow> reply E (\<lambda>t. BadRequest t m (rq_RequestID r))
      | Inr p \<Rightarrow>
          on_result (GetTransactions s walletID requesterID requesterRole p) (wallet_handleError E (rq_RequestID r))
            (\<lambda>x. reply E (\<lambda>t. OK (JObj [(''transactions'', JArr (map enc_row (tl_Transactions x))),
                                        (''pagination'', enc_pagination (tl_Pagination x))])))))"

definition wallet_search :: "env \<Rightarrow> wallet_repository \<Rightarrow> handler" where
  "wallet_search E s r =
    (let q = TrimSpace (field ''q'' (rq_Query r)) in
     if q = '''' then reply E (\<lambda>t. OK (JObj [(''wallets'', JArr [])]))
     else on_result (SearchWallets s q) (\<lambda>err. reply E (\<lambda>t. InternalError t (rq_RequestID r)))
       (\<lambda>results. reply E (\<lambda>t. OK (JObj [(''wallets'', JArr (map enc_search results))]))))"

end
