(* ===== verification/Wallet_Claims.thy ===== *)
theory Wallet_Claims
  imports Wallet Samples
begin

text \<open>
  Who may read a wallet, what the pages of a history add up to, what the search finds, and the agreement
  of the three formatters of amounts.
\<close>

text \<open>A collation for the examples: ASCII lower case, the order of the bytes.\<close>

definition ascii_db :: collation where
  "ascii_db = \<lparr>co_lower = map ascii_lower, co_key = id\<rparr>"

section \<open>Reading is reading\<close>

text \<open>The contract of the service's \<open>repository\<close>: its calls leave the tables alone, and a wallet that is
  found is a live row of them.\<close>

locale wallet_reader =
  fixes s :: wallet_repository
  assumes find_reads: "read_only (wre_FindByID s i)"
    and history_reads: "read_only (wre_GetTransactionHistory s i p)"
    and search_reads: "read_only (wre_Search s q n)"
    and find_live: "wre_FindByID s i w = (Inr x, w') \<Longrightarrow> live_wallet i (w_db w) = Some x"

definition may_read :: "database \<Rightarrow> uuid \<Rightarrow> uuid \<Rightarrow> string \<Rightarrow> bool" where
  "may_read d walletID userID role \<longleftrightarrow>
    (\<exists>x. live_wallet walletID d = Some x \<and> (role = ''admin'' \<or> w_UserID x = userID))"

context wallet_reader
begin

lemma authorized:
  assumes "m = bind_io (wre_FindByID s i) (\<lambda>x. case authorize x u role of Some err \<Rightarrow> throw err | None \<Rightarrow> k x)"
    and "fst (m w) = Inr a"
  shows "may_read (w_db w) i u role"
proof -
  obtain w' where "m w = (Inr a, w')" using assms(2) by (metis prod.collapse)
  then obtain x w1 where "wre_FindByID s i w = (Inr x, w1)" "authorize x u role = None"
    by (auto simp: assms(1) io_eq split: option.splits)
  moreover from this have "live_wallet i (w_db w) = Some x" by (intro find_live)
  ultimately show ?thesis by (auto simp: may_read_def authorize_def split: if_splits)
qed

lemmas reader_intros = read_intros find_reads history_reads search_reads

lemma service_reads:
  "read_only (GetWallet E s i u role)" "read_only (GetBalance E s i u role)"
  "read_only (GetTransactions s i u role p)" "read_only (SearchWallets s q)"
  unfolding GetWallet_def GetBalance_def GetTransactions_def SearchWallets_def Let_def
  by (intro reader_intros)+

lemma GetTransactions_private: "fst (GetTransactions s i u role p w) = Inr a \<Longrightarrow> may_read (w_db w) i u role"
  by (rule authorized) (auto simp: GetTransactions_def Let_def)

lemma GetWallet_private: "fst (GetWallet E s i u role w) = Inr a \<Longrightarrow> may_read (w_db w) i u role"
  by (rule authorized) (auto simp: GetWallet_def)

lemma GetBalance_private: "fst (GetBalance E s i u role w) = Inr a \<Longrightarrow> may_read (w_db w) i u role"
  by (rule authorized) (auto simp: GetBalance_def)

end

definition server_wallets :: "env \<Rightarrow> collation \<Rightarrow> wallet_repository" where
  "server_wallets E C = \<lparr>wre_FindByID = Wallet_FindByID E, wre_GetTransactionHistory = GetTransactionHistory E,
     wre_Search = Wallet_Search E C\<rparr>"

lemma server_wallets_simps [simp]:
  "wre_FindByID (server_wallets E C) = Wallet_FindByID E"
  "wre_GetTransactionHistory (server_wallets E C) = GetTransactionHistory E"
  "wre_Search (server_wallets E C) = Wallet_Search E C"
  by (simp_all add: server_wallets_def)

lemma reads_selects [read_intros]:
  "reads (select_live_wallet i)" "reads (count_payments i p)" "reads (select_history E i p off)" "reads (select_search E C q n)"
  by (auto simp: reads_def select_live_wallet_def count_payments_def select_history_def select_search_def Let_def split: option.splits if_splits)

lemma repository_reads:
  "read_only (Wallet_FindByID E i)" "read_only (GetTransactionHistory E i p)" "read_only (Wallet_Search E C q n)"
  unfolding Wallet_FindByID_def GetTransactionHistory_def Wallet_Search_def Let_def by (intro read_intros)+

lemma Wallet_FindByID_live: "Wallet_FindByID E i w = (Inr x, w') \<Longrightarrow> live_wallet i (w_db w) = Some x"
  by (auto simp: Wallet_FindByID_def io_eq select_live_wallet_def split: option.splits if_splits)

interpretation wr: wallet_reader "server_wallets E C" for E C
  by unfold_locales (auto simp: repository_reads dest: Wallet_FindByID_live)




section \<open>The pages of a history\<close>

lemma chunks: "concat (map (\<lambda>i. take l (drop (i * l) xs)) [0..<k]) = take (k * l) xs"
  by (induction k) (simp_all add: take_add [symmetric] add.commute)

definition newest_first :: "transaction list \<Rightarrow> transaction list" where
  "newest_first xs = sort_key (\<lambda>x. - t_CreatedAt x) xs"

definition history :: "uuid \<Rightarrow> ListParams \<Rightarrow> database \<Rightarrow> transaction list" where
  "history walletID p d = newest_first (filter (list_matches walletID p) (transactions d))"

definition shown_row :: "env \<Rightarrow> database \<Rightarrow> uuid \<Rightarrow> transaction \<Rightarrow> TransactionRow" where
  "shown_row E d walletID x = (history_row E d walletID x)\<lparr>tr_AmountDisplay := Format (t_AmountCents x) ''DD$''\<rparr>"

lemma list_matches_page [simp]: "list_matches walletID (p\<lparr>lq_Page := n\<rparr>) = list_matches walletID p"
  by (rule ext) (simp add: list_matches_def)

lemma Wallet_FindByID_up:
  "fate E (w_calls w) = Up \<Longrightarrow> live_wallet i (w_db w) = Some x \<Longrightarrow>
   Wallet_FindByID E i w = (Inr x, w\<lparr>w_calls := Suc (w_calls w)\<rparr>)"
  by (cases w) (simp add: Wallet_FindByID_def io_run sql_def select_live_wallet_def Let_def)

lemma GetTransactionHistory_up:
  assumes "\<And>n. fate E n = Up" and "\<not> bad_filter p" and "0 \<le> sint (lq_Limit p)" and "0 \<le> sint ((lq_Page p - 1) * lq_Limit p)"
  shows "fst (GetTransactionHistory E i p w) =
    Inr (map (history_row E (w_db w) i) (page_of (lq_Limit p) ((lq_Page p - 1) * lq_Limit p) (history i p (w_db w))),
         word_of_nat (length (history i p (w_db w))))"
  using assms by (simp add: GetTransactionHistory_def io_run sql_def count_payments_def select_history_def Let_def
      history_def newest_first_def count_where_def)

lemma page_count_exact:
  assumes "0 < sint l" and "sint l \<le> 100" and "int n < 2 ^ 62"
  shows "sint (page_count (word_of_nat n) l) = (if n = 0 then 1 else (int n + sint l - 1) div sint l)"
proof -
  have n: "sint (word_of_nat n :: int64) = int n"
    using assms(3) sint_word_of_int64 [of "int n"] by (simp add: int64_ok_def)
  have "sint (word_of_nat n + l - 1 :: int64) = int n + sint l - 1"
    using assms n by (simp add: int64_simps int64_ok_def)
  then have q: "sint (go_div (word_of_nat n + l - 1) l) = (int n + sint l - 1) div sint l"
    using assms by (subst go_div_pos) auto
  show ?thesis
  proof (cases "n = 0")
    case True
    then have "(int n + sint l - 1) div sint l = 0" using assms(1) by (simp add: div_pos_pos_trivial)
    then have "go_div (word_of_nat n + l - 1) l = 0" using q by (metis signed_eq_0_iff)
    with True show ?thesis by (simp add: page_count_def Let_def)
  next
    case False
    then have "1 \<le> (int n + sint l - 1) div sint l"
      using assms(1) zdiv_mono1 [of "sint l" "int n + sint l - 1" "sint l"] by simp
    then have "go_div (word_of_nat n + l - 1) l \<noteq> 0" using q by auto
    with False q show ?thesis by (simp add: page_count_def Let_def)
  qed
qed


definition pages_of :: "nat \<Rightarrow> nat \<Rightarrow> nat" where
  "pages_of n l = max 1 ((n + l - 1) div l)"

lemma page_count_pages_of:
  assumes "0 < sint l" and "sint l \<le> 100" and "int n < 2 ^ 62"
  shows "sint (page_count (word_of_nat n) l) = int (pages_of n (nat (sint l)))"
proof -
  let ?l = "nat (sint l)"
  have l: "int ?l = sint l" "0 < ?l" using assms(1) by auto
  have "(int n + sint l - 1) div sint l = int ((n + ?l - 1) div ?l)"
    using l by (simp add: zdiv_int of_nat_diff)
  moreover have "1 \<le> (n + ?l - 1) div ?l" if "n \<noteq> 0"
    using that l(2) div_le_mono [of ?l "n + ?l - 1" ?l] by simp
  moreover have "(?l - 1) div ?l = 0" using l(2) by simp
  ultimately show ?thesis using page_count_exact [OF assms] by (auto simp: pages_of_def)
qed

lemma pages_cover:
  assumes "0 < l"
  shows "n \<le> pages_of n l * l" "k < pages_of n l \<Longrightarrow> k * l \<le> n"
proof -
  have d: "(n + l - 1) div l * l + (n + l - 1) mod l = n + l - 1" by simp
  have "(n + l - 1) mod l < l" using assms by simp
  then have "n \<le> (n + l - 1) div l * l" using d assms by linarith
  also have "\<dots> \<le> pages_of n l * l" by (simp add: pages_of_def)
  finally show "n \<le> pages_of n l * l" .
  assume k: "k < pages_of n l"
  show "k * l \<le> n"
  proof (cases "k = 0")
    case False
    with k have "Suc k \<le> (n + l - 1) div l" by (auto simp: pages_of_def)
    then have "Suc k * l \<le> (n + l - 1) div l * l" by (rule mult_le_mono1)
    then have "Suc k * l \<le> n + l - 1" using d by linarith
    then show ?thesis using assms by simp
  qed simp
qed

lemma page_offset:
  assumes "0 < sint l" and "k * nat (sint l) \<le> n" and "int n < 2 ^ 62"
  shows "sint ((word_of_nat (k + 1) - 1) * l :: int64) = int (k * nat (sint l))"
proof -
  have "word_of_nat (k + 1) - 1 = (word_of_nat k :: int64)" by simp
  moreover have "word_of_nat k * l = (word_of_int (int k * sint l) :: int64)"
    by (metis of_int_of_nat_eq wi_hom_mult word_of_int_sint64)
  moreover have "int k * sint l = int (k * nat (sint l))" using assms(1) by simp
  moreover have "int (k * nat (sint l)) \<le> int n" using assms(2) by (simp only: of_nat_le_iff)
  then have "int64_ok (int (k * nat (sint l)))" using assms(3) by (simp add: int64_ok_def del: of_nat_mult int_nat_eq)
  ultimately show ?thesis by (simp only: sint_word_of_int64)
qed

lemma GetTransactions_page:
  assumes up: "\<And>n. fate E n = Up" and x: "live_wallet i (w_db w) = Some x" "role = ''admin'' \<or> w_UserID x = u"
    and p: "\<not> bad_filter p" "1 \<le> sint (lq_Limit p)" "sint (lq_Limit p) \<le> 100"
    and n: "int (length (history i p (w_db w))) < 2 ^ 62" and k: "k < pages_of (length (history i p (w_db w))) (nat (sint (lq_Limit p)))"
  shows "fst (GetTransactions (server_wallets E C) i u role (p\<lparr>lq_Page := word_of_nat (k + 1)\<rparr>) w) =
    Inr \<lparr>tl_Transactions = map (shown_row E (w_db w) i) (take (nat (sint (lq_Limit p))) (drop (k * nat (sint (lq_Limit p))) (history i p (w_db w)))),
      tl_Pagination = \<lparr>pg_Page = word_of_nat (k + 1), pg_Limit = lq_Limit p, pg_Total = word_of_nat (length (history i p (w_db w))),
        pg_Pages = page_count (word_of_nat (length (history i p (w_db w)))) (lq_Limit p)\<rparr>\<rparr>"
proof -
  let ?p = "p\<lparr>lq_Page := word_of_nat (k + 1)\<rparr>" and ?w = "w\<lparr>w_calls := Suc (w_calls w)\<rparr>" and ?l = "nat (sint (lq_Limit p))"
  let ?n = "length (history i p (w_db w))"
  have l: "0 < sint (lq_Limit p)" "0 < ?l" "?l \<le> 100" using p by auto
  have kl: "k * ?l \<le> ?n" using pages_cover(2) [OF l(2) k] .
  have off: "sint ((word_of_nat (k + 1) - 1) * lq_Limit p :: int64) = int (k * ?l)"
    using page_offset [OF l(1) kl n] .
  have "k * 1 \<le> k * ?l" using l(2) by (intro mult_le_mono2) linarith
  with kl have "k \<le> ?n" by (metis le_trans mult_1_right)
  then have "int (k + 1) < 2 ^ 63" using n by simp
  then have "sint (word_of_nat (k + 1) :: int64) = int (k + 1)"
    using sint_word_of_int64 [of "int (k + 1)"] by (simp add: int64_ok_def)
  then have clamp: "clamp_params ?p = ?p" using p by (simp add: clamp_params_def)
  have h: "history i ?p = history i p" by (rule ext) (simp add: history_def)
  have row: "shown_row E d i = (\<lambda>y. y\<lparr>tr_AmountDisplay := Format (tr_AmountCents y) ''DD$''\<rparr>) \<circ> history_row E d i" for d
    by (rule ext) (simp add: shown_row_def history_row_def)
  have pl: "lq_Limit ?p = lq_Limit p" "lq_Page ?p = word_of_nat (k + 1)" "w_db ?w = w_db w" by simp_all
  have bf: "\<not> bad_filter ?p" using p(1) by (simp add: bad_filter_def)
  have "fst (GetTransactionHistory E i ?p ?w) = Inr (map (history_row E (w_db w) i) (take ?l (drop (k * ?l) (history i p (w_db w)))),
      word_of_nat ?n)"
    using GetTransactionHistory_up [of E ?p i ?w, OF up bf, unfolded pl h off] l(1) by (simp only: page_of_def off nat_int)
  then obtain w2 where hist: "GetTransactionHistory E i ?p ?w = (Inr (map (history_row E (w_db w) i)
      (take ?l (drop (k * ?l) (history i p (w_db w)))), word_of_nat ?n), w2)"
    by (cases "GetTransactionHistory E i ?p ?w") simp
  have auth: "authorize x u role = None" using x(2) by (auto simp: authorize_def)
  show ?thesis
    unfolding GetTransactions_def server_wallets_simps bind_io_run Wallet_FindByID_up [OF up x(1)]
      prod.case sum.case auth option.case Let_def clamp hist pl row
    by (simp add: ret_run del: of_nat_add)
qed



definition all_payments :: ListParams where
  "all_payments = \<lparr>lq_Page = 1, lq_Limit = 20, lq_Type = '''', lq_Status = '''', lq_From = None, lq_To = None\<rparr>"

lemma history_funded: "map t_ID (history alice_wallet all_payments (w_db funded_world)) = [UUID 102]"
  by (simp add: history_def newest_first_def funded_world_def funded_db_def list_matches_def party_def all_payments_def)



section \<open>Formatters\<close>

lemma display_spec_inject:
  assumes "0 \<le> i" and "0 \<le> j" and "display_spec i s = display_spec j s"
  shows "i = j"
  using assms display_tail_inject [of "nat i" "nat j"] by (simp add: display_spec_def)

text \<open>C24: On every amount a balance can be, the formatter of pkg/currency, the one the auth package carries
  in models.go and the format string of the wallet search print the same text, and the text determines the
  amount.\<close>

theorem formatters_agree:
  assumes "0 \<le> sint c"
  shows "formatBalance c symbol = Format c symbol \<and> search_display c = Format c ''DD$'' \<and>
    (\<forall>c'. 0 \<le> sint c' \<and> Format c' symbol = Format c symbol \<longrightarrow> c' = c)"
proof -
  have f: "Format x s = display_spec (sint x) s" if "0 \<le> sint x" for x s
    using that Format_spec [of x s] by fastforce
  have "c' = c" if "0 \<le> sint c'" "Format c' symbol = Format c symbol" for c'
    using that f [OF that(1)] f [OF assms] display_spec_inject [OF that(1) assms] by (metis word_of_int_sint64)
  then show ?thesis using f [OF assms] formatBalance_nonneg [OF assms] search_display_nonneg [OF assms] by simp
qed

theorem formatters_agree_witness:
  "formatBalance 5 ''DD$'' = Format 5 ''DD$'' \<and> Format 5 ''DD$'' = ''DD$ 0.05'' \<and> search_display 5 = ''DD$ 0.05''"
proof -
  have "Format 5 ''DD$'' = ''DD$ 0.05''" by code_simp
  then show ?thesis using formatters_agree [of 5 "''DD$''"] by simp
qed

text \<open>On a negative amount of less than one unit the second formatter loses the sign.\<close>

lemma formatBalance_loses_sign: "Format (- 5) ''DD$'' = ''-DD$ 0.05''" "formatBalance (- 5) ''DD$'' = ''DD$ 0.05''"
  by code_simp+

lemma length_show_nat: "n < 10 ^ Suc k \<Longrightarrow> length (show_nat n) \<le> Suc k"
proof (induction k arbitrary: n)
  case 0
  then show ?case by (simp add: show_nat_lt10)
next
  case (Suc k)
  then have "n div 10 < 10 ^ Suc k" by (simp add: less_mult_imp_div_less mult.commute)
  with Suc.IH have "length (show_nat (n div 10)) \<le> Suc k" by blast
  then show ?case by (subst show_nat.simps) simp
qed

lemma divisions: "0 \<le> sint n \<Longrightarrow> sint (((\<lambda>n. go_div n 10) ^^ k) n) = sint n div 10 ^ k"
proof (induction k)
  case 0
  then show ?case by simp
next
  case (Suc k)
  then have "sint (((\<lambda>n. go_div n 10) ^^ Suc k) n) = sint n div 10 ^ k div 10"
    by (simp add: go_div_pos pos_imp_zdiv_nonneg_iff)
  also have "\<dots> = sint n div (10 ^ k * 10)" by (simp add: zdiv_zmult2_eq)
  finally show ?case by (simp add: mult.commute)
qed

text \<open>The digit loop of itoa ends within 19 divisions whatever number it is given, what it writes with the
  sign fits its buffer of 20 bytes, and the result is the decimal form of every number but the smallest, of
  which it prints the sign alone.\<close>

theorem itoa_ends_in_its_buffer:
  "(\<exists>k \<le> 19. \<not> 0 < sint (((\<lambda>n. go_div n 10) ^^ k) n)) \<and> length (itoa n) \<le> 20 \<and>
   itoa n = (if sint n = - (2 ^ 63) then ''-'' else show_int (sint n))"
proof -
  have "\<exists>k \<le> 19. \<not> 0 < sint (((\<lambda>n. go_div n 10) ^^ k) n)"
  proof (cases "0 < sint n")
    case True
    have "sint n div 10 ^ 19 = 0" using True sint64_le [of n] by (intro div_pos_pos_trivial) simp_all
    then show ?thesis using divisions [of n 19] True by (intro exI [of _ 19]) simp
  qed (intro exI [of _ 0], simp)
  moreover have i: "itoa n = (if sint n = - (2 ^ 63) then ''-'' else show_int (sint n))"
  proof (cases "sint n = - (2 ^ 63)")
    case True
    then have "n = - 9223372036854775808" using sint_min64 by (metis word_of_int_sint64)
    moreover have "itoa (- 9223372036854775808) = ''-''" by code_simp
    ultimately show ?thesis using True by simp
  qed (simp add: itoa_show)
  moreover have "length (show_int (sint n)) \<le> 20"
  proof -
    have "nat (- sint n) < 10 ^ Suc 18" "nat (sint n) < 10 ^ Suc 18"
      using sint64_le [of n] sint64_ge [of n] by simp_all
    then have "length (show_nat (nat (- sint n))) \<le> 19" "length (show_nat (nat (sint n))) \<le> 19"
      using length_show_nat [where k = 18] by force+
    then show ?thesis by (simp add: show_int_def)
  qed
  ultimately show ?thesis by simp
qed


section \<open>The search\<close>

definition literal :: "nat list \<Rightarrow> bool" where
  "literal ps \<longleftrightarrow> 37 \<notin> set ps \<and> 92 \<notin> set ps \<and> 95 \<notin> set ps"

lemma like_any: "like_match (37 # ps) s \<longleftrightarrow> (\<exists>a b. s = a @ b \<and> like_match ps b)"
proof (induction s)
  case Nil
  then show ?case by (simp add: like_match.simps(2))
next
  case (Cons c s)
  have "like_match (37 # ps) (c # s) \<longleftrightarrow> like_match ps (c # s) \<or> like_match (37 # ps) s"
    by (subst like_match.simps(2)) simp
  also have "\<dots> \<longleftrightarrow> (\<exists>a b. c # s = a @ b \<and> like_match ps b)"
    unfolding Cons.IH by (auto simp: Cons_eq_append_conv)
  finally show ?case .
qed

lemma like_literal: "literal ps \<Longrightarrow> like_match (ps @ qs) s \<longleftrightarrow> (\<exists>b. s = ps @ b \<and> like_match qs b)"
  by (induction ps arbitrary: s) (auto simp: literal_def like_match.simps(2) split: list.splits)

lemma like_contains: "literal ps \<Longrightarrow> like_match (37 # ps @ [37]) s \<longleftrightarrow> sublist ps s"
  using like_any [of "[]"] by (auto simp: like_any like_literal sublist_def)

definition ascii_text :: "string \<Rightarrow> bool" where
  "ascii_text s \<longleftrightarrow> (\<forall>c \<in> set s. of_char c < (128 :: nat))"

text \<open>On ASCII text the lower case of the database is the usual one.\<close>

definition ascii_collation :: "collation \<Rightarrow> bool" where
  "ascii_collation C \<longleftrightarrow> (\<forall>s. ascii_text s \<longrightarrow> co_lower C s = map ascii_lower s)"

lemma ascii_lower_code:
  assumes "of_char c < (128 :: nat)"
  shows "of_char (ascii_lower c) < (128 :: nat)"
    "m \<in> {37, 92, 95} \<Longrightarrow> of_char (ascii_lower c) = (m :: nat) \<longleftrightarrow> of_char c = m"
  using assms by (auto simp: ascii_lower_def Let_def)

lemma sublist_map_inj:
  assumes "inj f"
  shows "sublist (map f xs) (map f ys) \<longleftrightarrow> sublist xs ys"
proof
  assume "sublist (map f xs) (map f ys)"
  then obtain a b where "map f ys = a @ map f xs @ b" by (auto simp: sublist_def)
  then obtain ya yx yb where "ys = ya @ yx @ yb" "map f yx = map f xs" by (metis map_eq_append_conv)
  moreover from this have "yx = xs" using assms by (metis map_injective)
  ultimately show "sublist xs ys" by (auto simp: sublist_def)
next
  assume "sublist xs ys"
  then obtain a b where "ys = a @ xs @ b" by (auto simp: sublist_def)
  then have "map f ys = map f a @ map f xs @ map f b" by simp
  then show "sublist (map f xs) (map f ys)" by (simp only: sublist_appendI)
qed

lemma ilike_contains:
  assumes C: "ascii_collation C" and q: "ascii_text q" "CHR ''_'' \<notin> set q" "CHR 0x5C \<notin> set q" "CHR ''%'' \<notin> set q" "TrimSpace q = q"
    and s: "ascii_text s"
  shows "ilike C s (search_pattern q) \<longleftrightarrow> sublist (map ascii_lower q) (map ascii_lower s)"
proof -
  let ?lo = "\<lambda>x. map (of_char :: char \<Rightarrow> nat) (map ascii_lower x)"
  have "filter (\<lambda>c. c \<noteq> CHR ''%'') q = q" using q(4) by (auto simp: filter_id_conv)
  then have pat: "search_pattern q = ''%'' @ q @ ''%''" using q(5) by (simp add: search_pattern_def)
  have p: "ascii_lower CHR ''%'' = CHR ''%''" by (simp add: ascii_lower_def)
  have ascii: "ascii_text (''%'' @ q @ ''%'')" using q(1) by (auto simp: ascii_text_def)
  then have "co_lower C (search_pattern q) = ''%'' @ map ascii_lower q @ ''%''"
    using C pat p by (simp add: ascii_collation_def)
  then have rp: "runes (co_lower C (search_pattern q)) = 37 # ?lo q @ [37]"
    using q(1) by (subst runes_ascii) (auto simp: ascii_text_def ascii_lower_code)
  have rs: "runes (co_lower C s) = ?lo s"
    using C s by (subst runes_ascii) (auto simp: ascii_collation_def ascii_text_def ascii_lower_code)
  have "literal (?lo q)"
  proof -
    have "of_char (ascii_lower c) \<noteq> (m :: nat)" if "c \<in> set q" "m \<in> {37, 92, 95}" for c m
    proof
      assume "of_char (ascii_lower c) = m"
      then have "of_char c = m" using that q(1) ascii_lower_code(2) [of c m] by (auto simp: ascii_text_def)
      then have "c = char_of m" by (metis char_of_char)
      moreover have "char_of (37 :: nat) = CHR ''%''" "char_of (92 :: nat) = CHR 0x5C" "char_of (95 :: nat) = CHR ''_''" by code_simp+
      ultimately show False using that q(2-4) by auto
    qed
    then show ?thesis by (auto simp: literal_def)
  qed
  then have "ilike C s (search_pattern q) \<longleftrightarrow> sublist (?lo q) (?lo s)" by (simp add: ilike_def rp rs like_contains)
  also have "\<dots> \<longleftrightarrow> sublist (map ascii_lower q) (map ascii_lower s)"
    by (rule sublist_map_inj) (simp add: inj_on_def)
  finally show ?thesis .
qed

lemma SearchWallets_up:
  assumes "fate E (w_calls w) = Up" and "TrimSpace q = q" and "2 \<le> length q"
  shows "fst (SearchWallets (server_wallets E C) q w) =
    Inr (map (search_row E) (take 20 (sort_key (\<lambda>(x, u). co_key C (u_FullName u))
      (filter (searchable C (search_pattern q)) (List.product (wallets (w_db w)) (users (w_db w)))))))"
  using assms by (simp add: SearchWallets_def Wallet_Search_def io_run sql_def select_search_def Let_def)

text \<open>For an ASCII query without wild cards the search gives only wallets of active accounts that are not
  administrators and whose name or address contains the query, letter case aside, at most 20 of them with
  their true balances; and all of them when there are fewer than 20.\<close>

theorem search_finds_substrings:
  assumes "fate E (w_calls w) = Up" and "ascii_collation C" and "TrimSpace q = q" and "2 \<le> length q"
    and "ascii_text q" and "CHR ''_'' \<notin> set q" and "CHR 0x5C \<notin> set q" and "CHR ''%'' \<notin> set q"
    and "\<forall>u \<in> set (users (w_db w)). ascii_text (u_FullName u) \<and> ascii_text (u_Email u)"
  shows "\<exists>results. fst (SearchWallets (server_wallets E C) q w) = Inr results \<and> length results \<le> 20 \<and>
    (let found = search_row E ` {(x, u). x \<in> set (wallets (w_db w)) \<and> u \<in> set (users (w_db w)) \<and> u_ID u = w_UserID x \<and>
         u_deleted_at u = None \<and> w_deleted_at x = None \<and> u_IsActive u \<and> u_Role u \<noteq> ''admin'' \<and>
         (sublist (map ascii_lower q) (map ascii_lower (u_FullName u)) \<or>
          sublist (map ascii_lower q) (map ascii_lower (u_Email u)))}
     in set results \<subseteq> found \<and> (length results < 20 \<longrightarrow> set results = found))"
proof -
  let ?hits = "filter (searchable C (search_pattern q)) (List.product (wallets (w_db w)) (users (w_db w)))"
  let ?sorted = "sort_key (\<lambda>(x, u). co_key C (u_FullName u)) ?hits"
  have hits: "set ?hits = {(x, u). x \<in> set (wallets (w_db w)) \<and> u \<in> set (users (w_db w)) \<and> u_ID u = w_UserID x \<and>
         u_deleted_at u = None \<and> w_deleted_at x = None \<and> u_IsActive u \<and> u_Role u \<noteq> ''admin'' \<and>
         (sublist (map ascii_lower q) (map ascii_lower (u_FullName u)) \<or>
          sublist (map ascii_lower q) (map ascii_lower (u_Email u)))}"
    using ilike_contains [OF assms(2,5,6,7,8,3)] assms(9) by (auto simp: searchable_def)
  have "set (take 20 ?sorted) \<subseteq> set ?hits" using set_take_subset [of 20 ?sorted] by simp
  moreover have "set (take 20 ?sorted) = set ?hits" if "length (take 20 ?sorted) < 20" using that by simp
  ultimately show ?thesis
    unfolding SearchWallets_up [OF assms(1,3,4)] hits [symmetric] Let_def
    by (intro exI conjI) (rule refl, auto simp: image_mono)
qed


lemma sample_matches:
  "\<not> sublist (map ascii_lower ''ALICE'') (map ascii_lower ''name'')" "\<not> sublist (map ascii_lower ''ALICE'') (map ascii_lower ''admin@x.io'')"
  "sublist (map ascii_lower ''ALICE'') (map ascii_lower ''alice@x.io'')" "\<not> sublist (map ascii_lower ''ALICE'') (map ascii_lower ''bob@x.io'')"
  by code_simp+

theorem search_finds_substrings_witness:
  "\<exists>results. fst (SearchWallets (server_wallets sample_env ascii_db) ''ALICE'' funded_world) = Inr results \<and>
     results \<noteq> [] \<and> (\<forall>r \<in> set results. ws_OwnerEmail r = ''alice@x.io'')"
proof -
  let ?w = funded_world
  have users: "users (w_db ?w) = [sample_user admin_id ''admin@x.io'' ''admin'', sample_user alice_id ''alice@x.io'' ''user'',
               sample_user bob_id ''bob@x.io'' ''user'']"
    by (simp add: funded_world_def funded_db_def sample_db_def)
  have wallet: "\<exists>x \<in> set (wallets (w_db ?w)). w_UserID x = alice_id \<and> w_deleted_at x = None"
    by (simp add: funded_world_def funded_db_def sample_wallet_def)
  have names: "u_FullName (sample_user i m r) = ''name''" "u_Email (sample_user i m r) = m" "u_ID (sample_user i m r) = i"
    "u_deleted_at (sample_user i m r) = None" "u_IsActive (sample_user i m r)" "u_Role (sample_user i m r) = r" for i m r
    by (simp_all add: sample_user_def)
  note m = sample_matches
  let ?found = "search_row sample_env ` {(x, u). x \<in> set (wallets (w_db ?w)) \<and> u \<in> set (users (w_db ?w)) \<and> u_ID u = w_UserID x \<and>
         u_deleted_at u = None \<and> w_deleted_at x = None \<and> u_IsActive u \<and> u_Role u \<noteq> ''admin'' \<and>
         (sublist (map ascii_lower ''ALICE'') (map ascii_lower (u_FullName u)) \<or>
          sublist (map ascii_lower ''ALICE'') (map ascii_lower (u_Email u)))}"
  have mails: "ws_OwnerEmail (search_row sample_env (x, u)) = u_Email u" for x u by (simp add: search_row_def)
  have "\<forall>r \<in> ?found. ws_OwnerEmail r = ''alice@x.io''"
    unfolding users using m(1,2,4) by (force simp only: mails names set_simps insert_iff empty_iff mem_Collect_eq)
  moreover obtain x where "x \<in> set (wallets (w_db ?w))" "w_UserID x = alice_id" "w_deleted_at x = None" using wallet by blast
  then have "search_row sample_env (x, sample_user alice_id ''alice@x.io'' ''user'') \<in> ?found"
    by (intro imageI) (simp add: users names m(3) del: list.map)
  then have "?found \<noteq> {}" by blast
  moreover have "\<forall>u \<in> set (users (w_db ?w)). ascii_text (u_FullName u) \<and> ascii_text (u_Email u)"
    unfolding users by (simp add: names ascii_text_def)
  moreover have "TrimSpace ''ALICE'' = ''ALICE''" by code_simp
  moreover have "ascii_collation ascii_db" by (simp add: ascii_collation_def ascii_db_def)
  moreover have "ascii_text ''ALICE''" by (simp add: ascii_text_def)
  ultimately obtain results where "fst (SearchWallets (server_wallets sample_env ascii_db) ''ALICE'' ?w) = Inr results"
    "set results \<subseteq> ?found" "length results < 20 \<longrightarrow> set results = ?found"
    using search_finds_substrings [OF sample_fate, of ascii_db "''ALICE''" ?w, unfolded Let_def] by auto
  then show ?thesis using \<open>\<forall>r \<in> ?found. ws_OwnerEmail r = ''alice@x.io''\<close> \<open>?found \<noteq> {}\<close>
    by (cases "results = []") (simp_all, blast+)
qed

end
