(* ===== verification/Merchant.thy ===== *)
theory Merchant
  imports QRCode Auth Payment Hub
begin

text \<open>
  \<open>internal/merchant\<close>: merchant profiles, payment requests with their QR codes, the payment of a QR code by
  a customer, and the HTTP handlers. Rows of \<open>merchants\<close> and \<open>payment_requests\<close> are those of the database;
  the errors are \<open>merchant_error\<close>.
\<close>

section \<open>Models\<close>

primrec pr_label :: "PaymentRequestStatus \<Rightarrow> string" where
  "pr_label PRPending = ''PENDING''"
| "pr_label PRPaid = ''PAID''"
| "pr_label PRExpired = ''EXPIRED''"
| "pr_label PRCancelled = ''CANCELLED''"

definition DefaultExpirySeconds :: int64 where
  "DefaultExpirySeconds = 900"

primrec merchant_error_text :: "merchant_error \<Rightarrow> string" where
  "merchant_error_text ErrMerchantNotFound = ''merchant profile not found''"
| "merchant_error_text ErrMerchantAlreadyExists = ''merchant profile already exists for this user''"
| "merchant_error_text ErrMerchantInactive = ''merchant account is inactive''"
| "merchant_error_text ErrPaymentRequestNotFound = ''payment request not found''"
| "merchant_error_text ErrPaymentRequestExpired = ''payment request has expired''"
| "merchant_error_text ErrPaymentRequestAlreadyPaid = ''payment request already paid''"
| "merchant_error_text ErrPaymentRequestCancelled = ''payment request has been cancelled''"
| "merchant_error_text merchant_error.ErrAmountZero = ''amount must be greater than zero''"
| "merchant_error_text ErrDescriptionTooLong = ''description must be 500 characters or fewer''"
| "merchant_error_text merchant_error.ErrReferenceTooLong = ''reference must be 64 characters or fewer''"
| "merchant_error_text ErrNotMerchant = ''user does not have merchant role''"
| "merchant_error_text merchant_error.ErrSelfPayment = ''merchant cannot pay their own payment request''"

text \<open>\<open>err.Error()\<close> of the errors whose text the handlers send: the sentinels and those of \<open>Validate\<close>.\<close>

definition error_text :: "gerror \<Rightarrow> string" where
  "error_text e = (case e of Merchant m \<Rightarrow> merchant_error_text m | Errorf m \<Rightarrow> m | _ \<Rightarrow> '''')"

record MerchantRegisterRequest =
  mr_BusinessName :: string
  mr_BusinessType :: string
  mr_WebhookURL :: string

definition MerchantRegisterRequest_Validate :: "MerchantRegisterRequest \<Rightarrow> gerror + MerchantRegisterRequest" where
  "MerchantRegisterRequest_Validate r0 =
    (let r = \<lparr>mr_BusinessName = TrimSpace (mr_BusinessName r0), mr_BusinessType = TrimSpace (mr_BusinessType r0),
              mr_WebhookURL = TrimSpace (mr_WebhookURL r0)\<rparr>
     in if mr_BusinessName r = '''' then Inl (Errorf ''business_name is required'')
        else if 200 < length (mr_BusinessName r) then Inl (Errorf ''business_name must be 200 characters or fewer'')
        else Inr r)"

record CreatePaymentRequestInput =
  ci_AmountCents :: int64
  ci_Reference :: string
  ci_Description :: string
  ci_ExpirySecs :: int64

definition CreatePaymentRequestInput_Validate :: "CreatePaymentRequestInput \<Rightarrow> gerror + CreatePaymentRequestInput" where
  "CreatePaymentRequestInput_Validate r0 =
    (let r = r0\<lparr>ci_Reference := TrimSpace (ci_Reference r0), ci_Description := TrimSpace (ci_Description r0)\<rparr>
     in if sint (ci_AmountCents r) \<le> 0 then Inl (Merchant merchant_error.ErrAmountZero)
        else if 500 < length (ci_Description r) then Inl (Merchant ErrDescriptionTooLong)
        else if 64 < length (ci_Reference r) then Inl (Merchant merchant_error.ErrReferenceTooLong)
        else if sint (ci_ExpirySecs r) \<le> 0 then Inr (r\<lparr>ci_ExpirySecs := DefaultExpirySeconds\<rparr>)
        else Inr r)"

record MerchantProfile =
  mp_ID :: string
  mp_BusinessName :: string
  mp_BusinessType :: "string option"
  mp_WebhookURL :: "string option"
  mp_APIKeyPrefix :: string
  mp_IsActive :: bool
  mp_CreatedAt :: string

record PaymentRequestDetail =
  pd_ID :: string
  pd_MerchantID :: string
  pd_BusinessName :: string
  pd_AmountCents :: int64
  pd_AmountDisplay :: string
  pd_Currency :: string
  pd_Reference :: "string option"
  pd_Description :: "string option"
  pd_QRPayload :: string
  pd_Status :: PaymentRequestStatus
  pd_ExpiresAt :: string
  pd_CreatedAt :: string
  pd_PaidAt :: "string option"

record PaymentRequestListResponse =
  prl_PaymentRequests :: "PaymentRequestDetail list"
  prl_Pagination :: Pagination

record PayQRResponse =
  py_TransactionID :: string
  py_AmountCents :: int64
  py_AmountDisplay :: string
  py_MerchantName :: string
  py_Reference :: string
  py_NewBalanceCents :: int64
  py_NewBalanceDisplay :: string

section \<open>The repository\<close>

definition select_merchant :: "(merchant \<Rightarrow> bool) \<Rightarrow> merchant statement" where
  "select_merchant P u t d = (case find P (merchants d) of None \<Rightarrow> Inl NoRows | Some m \<Rightarrow> Inr (m, d))"

definition Merchant_FindByUserID :: "env \<Rightarrow> uuid \<Rightarrow> (world, merchant) io" where
  "Merchant_FindByUserID E userID =
    catch_io (sql E None (select_merchant (\<lambda>m. m_UserID m = userID)))
      (\<lambda>err. if errors_Is err NoRows then throw (Merchant ErrMerchantNotFound)
             else throw (Wrap ''find merchant by user_id'' err))
      ret"

definition Merchant_FindByID :: "env \<Rightarrow> uuid \<Rightarrow> (world, merchant) io" where
  "Merchant_FindByID E merchantID =
    catch_io (sql E None (select_merchant (\<lambda>m. m_ID m = merchantID)))
      (\<lambda>err. if errors_Is err NoRows then throw (Merchant ErrMerchantNotFound)
             else throw (Wrap ''find merchant by id'' err))
      ret"

record CreateMerchantParams =
  cm_UserID :: uuid
  cm_BusinessName :: string
  cm_BusinessType :: "string option"
  cm_WebhookURL :: "string option"
  cm_APIKeyHash :: string
  cm_APIKeyPrefix :: string

definition insert_merchant :: "CreateMerchantParams \<Rightarrow> merchant statement" where
  "insert_merchant p u t d =
    (if \<not> fits 200 (Some (cm_BusinessName p)) \<or> \<not> fits 100 (cm_BusinessType p) \<or> \<not> fits 500 (cm_WebhookURL p) \<or>
        \<not> fits 128 (Some (cm_APIKeyHash p)) \<or> \<not> fits 20 (Some (cm_APIKeyPrefix p))
     then Inl (PgError ''22001'')
     else if u \<in> m_ID ` set (merchants d) \<or> cm_UserID p \<in> m_UserID ` set (merchants d) then Inl (PgError ''23505'')
     else if cm_UserID p \<notin> u_ID ` set (users d) then Inl (PgError ''23503'')
     else let row = \<lparr>m_ID = u, m_UserID = cm_UserID p, m_BusinessName = cm_BusinessName p, m_BusinessType = cm_BusinessType p,
            m_WebhookURL = cm_WebhookURL p, m_APIKeyHash = cm_APIKeyHash p, m_APIKeyPrefix = cm_APIKeyPrefix p,
            m_IsActive = True, m_CreatedAt = t, m_UpdatedAt = t\<rparr>
          in Inr (row, d\<lparr>merchants := merchants d @ [row]\<rparr>))"

definition Merchant_Create :: "env \<Rightarrow> CreateMerchantParams \<Rightarrow> (world, merchant) io" where
  "Merchant_Create E p =
    catch_io (sql E None (insert_merchant p))
      (\<lambda>err. if IsUniqueViolation err then throw (Merchant ErrMerchantAlreadyExists)
             else throw (Wrap ''create merchant'' err))
      ret"

record CreatePaymentRequestParams =
  cp_MerchantID :: uuid
  cp_AmountCents :: int64
  cp_Currency :: string
  cp_Reference :: "string option"
  cp_Description :: "string option"
  cp_QRPayload :: string
  cp_ExpiresAt :: gotime

text \<open>The checks of the table: lengths, a positive amount, an expiry after the creation, the merchant.\<close>

definition insert_payment_request :: "CreatePaymentRequestParams \<Rightarrow> payment_request statement" where
  "insert_payment_request p u t d =
    (if \<not> fits 10 (Some (cp_Currency p)) \<or> \<not> fits 64 (cp_Reference p) \<or> \<not> fits 500 (cp_Description p)
     then Inl (PgError ''22001'')
     else if sint (cp_AmountCents p) \<le> 0 \<or> timestamptz (cp_ExpiresAt p) \<le> timestamptz t then Inl (PgError ''23514'')
     else if u \<in> pr_ID ` set (payment_requests d) then Inl (PgError ''23505'')
     else if cp_MerchantID p \<notin> m_ID ` set (merchants d) then Inl (PgError ''23503'')
     else let row = \<lparr>pr_ID = u, pr_MerchantID = cp_MerchantID p, pr_AmountCents = cp_AmountCents p, pr_Currency = cp_Currency p,
            pr_Reference = cp_Reference p, pr_Description = cp_Description p, pr_QRPayload = cp_QRPayload p,
            pr_Status = PRPending, pr_PaidByWalletID = None, pr_TransactionID = None,
            pr_ExpiresAt = timestamptz (cp_ExpiresAt p), pr_CreatedAt = t, pr_PaidAt = None\<rparr>
          in Inr (row, d\<lparr>payment_requests := payment_requests d @ [row]\<rparr>))"

definition Repo_CreatePaymentRequest :: "env \<Rightarrow> CreatePaymentRequestParams \<Rightarrow> (world, payment_request) io" where
  "Repo_CreatePaymentRequest E p = wrap_io ''create payment request'' (sql E None (insert_payment_request p))"

definition select_payment_request :: "uuid \<Rightarrow> payment_request statement" where
  "select_payment_request i u t d =
    (case find (\<lambda>r. pr_ID r = i) (payment_requests d) of None \<Rightarrow> Inl NoRows | Some r \<Rightarrow> Inr (r, d))"

definition FindPaymentRequestByID :: "env \<Rightarrow> uuid \<Rightarrow> (world, payment_request) io" where
  "FindPaymentRequestByID E i =
    catch_io (sql E None (select_payment_request i))
      (\<lambda>err. if errors_Is err NoRows then throw (Merchant ErrPaymentRequestNotFound)
             else throw (Wrap ''find payment request'' err))
      ret"

text \<open>A statement that may only move a pending request; it returns the number of rows it changed.\<close>

definition update_requests :: "(payment_request \<Rightarrow> bool) \<Rightarrow> (payment_request \<Rightarrow> payment_request) \<Rightarrow> database \<Rightarrow> database" where
  "update_requests P f d = d\<lparr>payment_requests := upd_where P f (payment_requests d)\<rparr>"

definition payable :: "uuid \<Rightarrow> gotime \<Rightarrow> payment_request \<Rightarrow> bool" where
  "payable i t r \<longleftrightarrow> pr_ID r = i \<and> pr_Status r = PRPending \<and> t < pr_ExpiresAt r"

definition update_paid :: "uuid \<Rightarrow> uuid \<Rightarrow> uuid \<Rightarrow> nat statement" where
  "update_paid i paidByWalletID transactionID u t d =
    (let n = count_where (payable i t) (payment_requests d)
     in if 0 < n \<and> (paidByWalletID \<notin> w_ID ` set (wallets d) \<or> transactionID \<notin> t_ID ` set (transactions d))
        then Inl (PgError ''23503'')
        else Inr (n, update_requests (payable i t)
          (\<lambda>r. r\<lparr>pr_Status := PRPaid, pr_PaidByWalletID := Some paidByWalletID, pr_TransactionID := Some transactionID,
                 pr_PaidAt := Some t\<rparr>) d))"

definition MarkPaid :: "env \<Rightarrow> uuid \<Rightarrow> uuid \<Rightarrow> uuid \<Rightarrow> (world, unit) io" where
  "MarkPaid E i paidByWalletID transactionID =
    bind_io (wrap_io ''mark payment request paid'' (sql E None (update_paid i paidByWalletID transactionID))) (\<lambda>rows.
    if rows = 0
    then catch_io (FindPaymentRequestByID E i)
      (\<lambda>fetchErr. throw (Merchant ErrPaymentRequestNotFound))
      (\<lambda>pr. case pr_Status pr of
          PRPaid \<Rightarrow> throw (Merchant ErrPaymentRequestAlreadyPaid)
        | PRExpired \<Rightarrow> throw (Merchant ErrPaymentRequestExpired)
        | PRCancelled \<Rightarrow> throw (Merchant ErrPaymentRequestCancelled)
        | PRPending \<Rightarrow> throw (Merchant ErrPaymentRequestExpired))
    else ret ())"

definition cancellable :: "uuid \<Rightarrow> uuid \<Rightarrow> payment_request \<Rightarrow> bool" where
  "cancellable i merchantID r \<longleftrightarrow> pr_ID r = i \<and> pr_MerchantID r = merchantID \<and> pr_Status r = PRPending"

definition update_cancelled :: "uuid \<Rightarrow> uuid \<Rightarrow> nat statement" where
  "update_cancelled i merchantID u t d =
    Inr (count_where (cancellable i merchantID) (payment_requests d),
         update_requests (cancellable i merchantID) (\<lambda>r. r\<lparr>pr_Status := PRCancelled\<rparr>) d)"

definition Repo_CancelPaymentRequest :: "env \<Rightarrow> uuid \<Rightarrow> uuid \<Rightarrow> (world, unit) io" where
  "Repo_CancelPaymentRequest E i merchantID =
    bind_io (wrap_io ''cancel payment request'' (sql E None (update_cancelled i merchantID))) (\<lambda>rows.
    if rows = 0 then throw (Merchant ErrPaymentRequestNotFound) else ret ())"

record RequestListParams =
  rp_Page :: int64
  rp_Limit :: int64
  rp_Status :: string

definition request_matches :: "uuid \<Rightarrow> string \<Rightarrow> payment_request \<Rightarrow> bool" where
  "request_matches merchantID status r \<longleftrightarrow> pr_MerchantID r = merchantID \<and> (status = '''' \<or> pr_label (pr_Status r) = status)"

definition bad_status :: "string \<Rightarrow> bool" where
  "bad_status status \<longleftrightarrow> status \<noteq> '''' \<and> status \<notin> {''PENDING'', ''PAID'', ''EXPIRED'', ''CANCELLED''}"

definition count_requests :: "uuid \<Rightarrow> string \<Rightarrow> int64 statement" where
  "count_requests merchantID status u t d =
    (if bad_status status then Inl (PgError ''22P02'')
     else Inr (word_of_nat (count_where (request_matches merchantID status) (payment_requests d)), d))"

definition select_requests :: "uuid \<Rightarrow> string \<Rightarrow> int64 \<Rightarrow> int64 \<Rightarrow> payment_request list statement" where
  "select_requests merchantID status lim offset u t d =
    (if bad_status status then Inl (PgError ''22P02'')
     else if sint offset < 0 then Inl (PgError ''2201X'')
     else Inr (page_of lim offset (sort_key (\<lambda>r. - pr_CreatedAt r)
                 (filter (request_matches merchantID status) (payment_requests d))), d))"

definition ListByMerchant :: "env \<Rightarrow> uuid \<Rightarrow> RequestListParams \<Rightarrow> (world, payment_request list \<times> int64) io" where
  "ListByMerchant E merchantID p =
    (let page = (if sint (rp_Page p) < 1 then 1 else rp_Page p);
         lim = (if sint (rp_Limit p) < 1 \<or> 100 < sint (rp_Limit p) then 20 else rp_Limit p);
         offset = (page - 1) * lim
     in bind_io (wrap_io ''count payment requests'' (sql E None (count_requests merchantID (rp_Status p)))) (\<lambda>n.
        bind_io (wrap_io ''list payment requests'' (sql E None (select_requests merchantID (rp_Status p) lim offset))) (\<lambda>results.
        ret (results, n))))"

section \<open>The service\<close>

text \<open>
  The fields of \<open>Service\<close>: the interfaces \<open>repository\<close>, \<open>WalletIDLookup\<close> and \<open>ledgerTransferer\<close>, the
  optional publisher, and the key of the QR signatures. (\<open>idempotent\<close> is wired but never used.)
\<close>

record merchant_service =
  mer_FindByUserID :: "uuid \<Rightarrow> (world, merchant) io"
  mer_FindByID :: "uuid \<Rightarrow> (world, merchant) io"
  mer_Create :: "CreateMerchantParams \<Rightarrow> (world, merchant) io"
  mer_CreatePaymentRequest :: "CreatePaymentRequestParams \<Rightarrow> (world, payment_request) io"
  mer_FindPaymentRequestByID :: "uuid \<Rightarrow> (world, payment_request) io"
  mer_MarkPaid :: "uuid \<Rightarrow> uuid \<Rightarrow> uuid \<Rightarrow> (world, unit) io"
  mer_CancelPaymentRequest :: "uuid \<Rightarrow> uuid \<Rightarrow> (world, unit) io"
  mer_ListByMerchant :: "uuid \<Rightarrow> RequestListParams \<Rightarrow> (world, payment_request list \<times> int64) io"
  mer_wallets :: "uuid \<Rightarrow> (world, uuid) io"
  mer_Transfer :: "TransferParams \<Rightarrow> (world, TransferResult \<times> gerror option) io"
  mer_publisher :: "(uuid \<Rightarrow> event \<Rightarrow> (world, unit) io) option"
  mer_signingKey :: string

definition toProfile :: "env \<Rightarrow> merchant \<Rightarrow> MerchantProfile" where
  "toProfile E m =
    \<lparr>mp_ID = uuid_String E (m_ID m), mp_BusinessName = m_BusinessName m, mp_BusinessType = m_BusinessType m,
     mp_WebhookURL = m_WebhookURL m, mp_APIKeyPrefix = m_APIKeyPrefix m, mp_IsActive = m_IsActive m,
     mp_CreatedAt = format_RFC3339 (m_CreatedAt m)\<rparr>"

definition toDetail :: "env \<Rightarrow> payment_request \<Rightarrow> string \<Rightarrow> PaymentRequestDetail" where
  "toDetail E pr businessName =
    \<lparr>pd_ID = uuid_String E (pr_ID pr), pd_MerchantID = uuid_String E (pr_MerchantID pr), pd_BusinessName = businessName,
     pd_AmountCents = pr_AmountCents pr, pd_AmountDisplay = Format (pr_AmountCents pr) ''DD$'', pd_Currency = pr_Currency pr,
     pd_Reference = pr_Reference pr, pd_Description = pr_Description pr, pd_QRPayload = pr_QRPayload pr,
     pd_Status = pr_Status pr, pd_ExpiresAt = format_RFC3339 (pr_ExpiresAt pr), pd_CreatedAt = format_RFC3339 (pr_CreatedAt pr),
     pd_PaidAt = map_option format_RFC3339 (pr_PaidAt pr)\<rparr>"

text \<open>Any failure of the first lookup, not only a missing profile, goes on to the insertion.\<close>

definition Merchant_Register :: "env \<Rightarrow> merchant_service \<Rightarrow> uuid \<Rightarrow> MerchantRegisterRequest \<Rightarrow> (world, MerchantProfile \<times> string) io" where
  "Merchant_Register E s userID req =
    catch_io (mer_FindByUserID s userID)
      (\<lambda>err.
        bind_io (wrap_io ''generate api key'' (GenerateSecureToken E)) (\<lambda>rawKey.
        bind_io (mer_Create s \<lparr>cm_UserID = userID, cm_BusinessName = mr_BusinessName req,
            cm_BusinessType = nonempty (mr_BusinessType req), cm_WebhookURL = nonempty (mr_WebhookURL req),
            cm_APIKeyHash = HashToken rawKey, cm_APIKeyPrefix = take 8 rawKey\<rparr>) (\<lambda>m.
        ret (toProfile E m, rawKey))))
      (\<lambda>m. throw (Merchant ErrMerchantAlreadyExists))"

definition GetProfile :: "env \<Rightarrow> merchant_service \<Rightarrow> uuid \<Rightarrow> (world, MerchantProfile) io" where
  "GetProfile E s userID = bind_io (mer_FindByUserID s userID) (\<lambda>m. ret (toProfile E m))"

definition CreatePaymentRequest ::
    "env \<Rightarrow> merchant_service \<Rightarrow> uuid \<Rightarrow> CreatePaymentRequestInput \<Rightarrow> (world, PaymentRequestDetail) io" where
  "CreatePaymentRequest E s userID input =
    bind_io (mer_FindByUserID s userID) (\<lambda>m.
    if \<not> m_IsActive m then throw (Merchant ErrMerchantInactive)
    else bind_io (get_io (now E)) (\<lambda>t.
      let expiresAt = time_Add t (ci_ExpirySecs input * second);
          qrPayload = BuildURI E (m_ID m) (ci_AmountCents input) (ci_Reference input) (ci_Description input) expiresAt (mer_signingKey s)
      in bind_io (mer_CreatePaymentRequest s \<lparr>cp_MerchantID = m_ID m, cp_AmountCents = ci_AmountCents input, cp_Currency = ''DD$'',
             cp_Reference = nonempty (ci_Reference input), cp_Description = nonempty (ci_Description input),
             cp_QRPayload = qrPayload, cp_ExpiresAt = expiresAt\<rparr>) (\<lambda>pr.
         ret (toDetail E pr (m_BusinessName m)))))"

definition GetPaymentRequest :: "env \<Rightarrow> merchant_service \<Rightarrow> uuid \<Rightarrow> uuid \<Rightarrow> (world, PaymentRequestDetail) io" where
  "GetPaymentRequest E s userID requestID =
    bind_io (mer_FindByUserID s userID) (\<lambda>m.
    bind_io (mer_FindPaymentRequestByID s requestID) (\<lambda>pr.
    if pr_MerchantID pr \<noteq> m_ID m then throw (Merchant ErrPaymentRequestNotFound)
    else ret (toDetail E pr (m_BusinessName m))))"

text \<open>
  The pages are counted with the limit of the request, not with the one the repository used.
  \<open>int(math.Ceil(float64(total) / float64(limit)))\<close> is exact for tables below \<open>2\<^sup>5\<^sup>3\<close> rows and any limit but
  zero; for zero Go leaves the conversion of an infinity or a not-a-number to the implementation: \<open>inf_int\<close>.
\<close>

definition request_pages :: "int64 \<Rightarrow> int64 \<Rightarrow> int64 \<Rightarrow> int64" where
  "request_pages inf_int n lim =
    (let pages = (if lim = 0 then inf_int else word_of_int (- ((- sint n) div sint lim)))
     in if sint pages < 1 then 1 else pages)"

definition ListPaymentRequests ::
    "env \<Rightarrow> int64 \<Rightarrow> merchant_service \<Rightarrow> uuid \<Rightarrow> RequestListParams \<Rightarrow> (world, PaymentRequestListResponse) io" where
  "ListPaymentRequests E inf_int s userID p =
    bind_io (mer_FindByUserID s userID) (\<lambda>m.
    bind_io (mer_ListByMerchant s (m_ID m) p) (\<lambda>(results, n).
    ret \<lparr>prl_PaymentRequests = map (\<lambda>pr. toDetail E pr (m_BusinessName m)) results,
         prl_Pagination = \<lparr>pg_Page = rp_Page p, pg_Limit = rp_Limit p, pg_Total = n,
           pg_Pages = request_pages inf_int n (rp_Limit p)\<rparr>\<rparr>))"

definition CancelPaymentRequest :: "merchant_service \<Rightarrow> uuid \<Rightarrow> uuid \<Rightarrow> (world, unit) io" where
  "CancelPaymentRequest s userID requestID =
    bind_io (mer_FindByUserID s userID) (\<lambda>m. mer_CancelPaymentRequest s requestID (m_ID m))"

text \<open>
  The caller has parsed the payload already, so its second parse does not fail (the code would use a nil
  pointer if it did).
\<close>

definition findPaymentRequestByPayload :: "env \<Rightarrow> merchant_service \<Rightarrow> string \<Rightarrow> (world, payment_request) io" where
  "findPaymentRequestByPayload E s payload =
    (case ParseURI E payload of
       Inl err \<Rightarrow> throw (Errorf ''nil pointer dereference'')
     | Inr params \<Rightarrow>
         bind_io (mer_ListByMerchant s (qp_MerchantID params) \<lparr>rp_Page = 1, rp_Limit = 100, rp_Status = pr_label PRPending\<rparr>)
           (\<lambda>(list, _).
         case find (\<lambda>r. pr_QRPayload r = payload) list of
           Some r \<Rightarrow> ret r
         | None \<Rightarrow>
             bind_io (mer_ListByMerchant s (qp_MerchantID params) \<lparr>rp_Page = 1, rp_Limit = 100, rp_Status = ''''\<rparr>) (\<lambda>(all, _).
             case find (\<lambda>r. pr_QRPayload r = payload) all of
               Some r \<Rightarrow> ret r
             | None \<Rightarrow> throw (Merchant ErrPaymentRequestNotFound))))"

text \<open>
  The webhook goroutine: the call is made at some moment after the payment (the model makes it at once), and
  what comes of it is only logged.
\<close>

definition fireWebhook :: "env \<Rightarrow> string \<Rightarrow> uuid \<Rightarrow> uuid \<Rightarrow> int64 \<Rightarrow> (world, unit) io" where
  "fireWebhook E webhookURL requestID transactionID amountCents w =
    (Inr (), w\<lparr>w_webhooks := w_webhooks w @ [\<lparr>wh_URL = webhookURL, wh_PaymentRequestID = uuid_String E requestID,
       wh_TransactionID = uuid_String E transactionID, wh_AmountCents = amountCents, wh_Timestamp = now E w\<rparr>]\<rparr>)"

text \<open>The event of a QR payment names neither its wallet nor its time.\<close>

definition qr_event :: "env \<Rightarrow> uuid \<Rightarrow> int64 \<Rightarrow> int64 \<Rightarrow> event" where
  "qr_event E transactionID amt bal =
    \<lparr>ev_Type = TypePaymentReceived, ev_WalletID = '''',
     ev_Payload = PaymentPayload \<lparr>pe_TransactionID = uuid_String E transactionID, pe_Direction = ''CREDIT'', pe_AmountCents = amt,
       pe_AmountDisplay = Format amt ''DD$'', pe_CounterpartyName = None, pe_Reference = None,
       pe_NewBalanceCents = bal, pe_NewBalanceDisplay = Format bal ''DD$''\<rparr>,
     ev_Timestamp = None\<rparr>"

text \<open>What follows a transfer: the request is marked, the webhook and the event are sent, errors are dropped.\<close>

definition pay_tail ::
    "env \<Rightarrow> merchant_service \<Rightarrow> Params \<Rightarrow> merchant \<Rightarrow> uuid \<Rightarrow> payment_request \<Rightarrow> uuid \<Rightarrow> TransferResult \<Rightarrow> (world, PayQRResponse) io" where
  "pay_tail E s params m merchantWalletID pr payerWalletID result =
    (let txnID = t_ID (tr_Transaction result) in
     ignore_io (mer_MarkPaid s (pr_ID pr) payerWalletID txnID) (
     ignore_io (case m_WebhookURL m of None \<Rightarrow> ret () | Some url \<Rightarrow> fireWebhook E url (pr_ID pr) txnID (qp_AmountCents params)) (
     ignore_io (case mer_publisher s of None \<Rightarrow> ret ()
                | Some publish \<Rightarrow> publish merchantWalletID (qr_event E txnID (qp_AmountCents params) (tr_ReceiverBalance result))) (
     ret \<lparr>py_TransactionID = uuid_String E txnID, py_AmountCents = qp_AmountCents params,
          py_AmountDisplay = Format (qp_AmountCents params) ''DD$'', py_MerchantName = m_BusinessName m,
          py_Reference = qp_Reference params, py_NewBalanceCents = tr_SenderBalance result,
          py_NewBalanceDisplay = Format (tr_SenderBalance result) ''DD$''\<rparr>))))"

definition PayViaQR ::
    "env \<Rightarrow> merchant_service \<Rightarrow> uuid \<Rightarrow> uuid \<Rightarrow> string \<Rightarrow> string \<Rightarrow> (world, PayQRResponse) io" where
  "PayViaQR E s payerUserID payerWalletID idempotencyKey payload =
    (case ParseURI E payload of
       Inl err \<Rightarrow> throw (Wrap ''invalid QR payload'' err)
     | Inr params \<Rightarrow>
       bind_io (get_io (now E)) (\<lambda>t.
       case Verify E params (mer_signingKey s) t of
         Some err \<Rightarrow> throw (Wrap ''QR verification failed'' err)
       | None \<Rightarrow>
         bind_io (mer_FindByID s (qp_MerchantID params)) (\<lambda>m.
         if \<not> m_IsActive m then throw (Merchant ErrMerchantInactive)
         else if m_UserID m = payerUserID then throw (Merchant merchant_error.ErrSelfPayment)
         else
           bind_io (wrap_io ''find merchant wallet'' (mer_wallets s (m_UserID m))) (\<lambda>merchantWalletID.
           bind_io (findPaymentRequestByPayload E s payload) (\<lambda>pr.
           case pr_Status pr of
             PRPaid \<Rightarrow> throw (Merchant ErrPaymentRequestAlreadyPaid)
           | PRExpired \<Rightarrow> throw (Merchant ErrPaymentRequestExpired)
           | PRCancelled \<Rightarrow> throw (Merchant ErrPaymentRequestCancelled)
           | PRPending \<Rightarrow>
               bind_io (mer_Transfer s \<lparr>tp_SenderWalletID = payerWalletID, tp_ReceiverWalletID = merchantWalletID,
                   tp_AmountCents = qp_AmountCents params, tp_Reference = qp_Reference params,
                   tp_IdempotencyKey = idempotencyKey, tp_Signature = '''', tp_TxnType = Some TypePayment\<rparr>)
                 (\<lambda>(result, transferErr).
               case transferErr of
                 Some err \<Rightarrow> throw err
               | None \<Rightarrow> pay_tail E s params m merchantWalletID pr payerWalletID result))))))"

section \<open>The handlers\<close>

definition enc_profile :: "MerchantProfile \<Rightarrow> json" where
  "enc_profile p = JObj [(''id'', JStr (mp_ID p)), (''business_name'', JStr (mp_BusinessName p)),
     (''business_type'', enc_opt (mp_BusinessType p)), (''webhook_url'', enc_opt (mp_WebhookURL p)),
     (''api_key_prefix'', JStr (mp_APIKeyPrefix p)), (''is_active'', JBool (mp_IsActive p)), (''created_at'', JStr (mp_CreatedAt p))]"

definition enc_request_detail :: "PaymentRequestDetail \<Rightarrow> json" where
  "enc_request_detail d = JObj [(''id'', JStr (pd_ID d)), (''merchant_id'', JStr (pd_MerchantID d)),
     (''business_name'', JStr (pd_BusinessName d)), (''amount_cents'', JInt (pd_AmountCents d)),
     (''amount_display'', JStr (pd_AmountDisplay d)), (''currency'', JStr (pd_Currency d)), (''reference'', enc_opt (pd_Reference d)),
     (''description'', enc_opt (pd_Description d)), (''qr_payload'', JStr (pd_QRPayload d)),
     (''status'', JStr (pr_label (pd_Status d))), (''expires_at'', JStr (pd_ExpiresAt d)), (''created_at'', JStr (pd_CreatedAt d)),
     (''paid_at'', enc_opt (pd_PaidAt d))]"

definition enc_pay :: "PayQRResponse \<Rightarrow> json" where
  "enc_pay p = JObj [(''transaction_id'', JStr (py_TransactionID p)), (''amount_cents'', JInt (py_AmountCents p)),
     (''amount_display'', JStr (py_AmountDisplay p)), (''merchant_name'', JStr (py_MerchantName p)),
     (''reference'', JStr (py_Reference p)), (''new_balance_cents'', JInt (py_NewBalanceCents p)),
     (''new_balance_display'', JStr (py_NewBalanceDisplay p))]"

definition json_fields :: "json \<Rightarrow> (string \<times> json) list option" where
  "json_fields j = (case j of JObj fs \<Rightarrow> Some fs | JNull \<Rightarrow> Some [] | _ \<Rightarrow> None)"

definition dec_MerchantRegisterRequest :: "json \<Rightarrow> MerchantRegisterRequest option" where
  "dec_MerchantRegisterRequest j =
    Option.bind (json_fields j) (\<lambda>fs.
    Option.bind (dec_string (member ''business_name'' fs)) (\<lambda>n.
    Option.bind (dec_string (member ''business_type'' fs)) (\<lambda>t.
    Option.bind (dec_string (member ''webhook_url'' fs)) (\<lambda>u.
    Some \<lparr>mr_BusinessName = n, mr_BusinessType = t, mr_WebhookURL = u\<rparr>))))"

definition dec_CreatePaymentRequestInput :: "json \<Rightarrow> CreatePaymentRequestInput option" where
  "dec_CreatePaymentRequestInput j =
    Option.bind (json_fields j) (\<lambda>fs.
    Option.bind (dec_int (member ''amount_cents'' fs)) (\<lambda>a.
    Option.bind (dec_string (member ''reference'' fs)) (\<lambda>r.
    Option.bind (dec_string (member ''description'' fs)) (\<lambda>d.
    Option.bind (dec_int (member ''expiry_seconds'' fs)) (\<lambda>x.
    Some \<lparr>ci_AmountCents = a, ci_Reference = r, ci_Description = d, ci_ExpirySecs = x\<rparr>)))))"

definition dec_PayQRRequest :: "json \<Rightarrow> string option" where
  "dec_PayQRRequest j = Option.bind (json_fields j) (\<lambda>fs. dec_string (member ''qr_payload'' fs))"

definition parseUserID :: "env \<Rightarrow> request \<Rightarrow> (uuid \<Rightarrow> writer \<Rightarrow> world \<Rightarrow> writer \<times> world) \<Rightarrow> writer \<Rightarrow> world \<Rightarrow> writer \<times> world" where
  "parseUserID E r k =
    (case context_uuid E (rq_UserID r) of
       None \<Rightarrow> reply E (\<lambda>t. Unauthorized t (rq_RequestID r))
     | Some userID \<Rightarrow> k userID)"

definition parse_request_id :: "env \<Rightarrow> request \<Rightarrow> (uuid \<Rightarrow> writer \<Rightarrow> world \<Rightarrow> writer \<times> world) \<Rightarrow> writer \<Rightarrow> world \<Rightarrow> writer \<times> world" where
  "parse_request_id E r k =
    (case uuid_Parse E (field ''id'' (rq_Params r)) of
       None \<Rightarrow> reply E (\<lambda>t. BadRequest t ''invalid payment request ID'' (rq_RequestID r))
     | Some i \<Rightarrow> k i)"

definition not_found_or_internal :: "env \<Rightarrow> string \<Rightarrow> merchant_error list \<Rightarrow> string \<Rightarrow> gerror \<Rightarrow> writer \<Rightarrow> world \<Rightarrow> writer \<times> world" where
  "not_found_or_internal E resource errs requestID err =
    reply E (\<lambda>t. if list_ex (\<lambda>e. errors_Is err (Merchant e)) errs then NotFound t resource requestID else InternalError t requestID)"

definition merchant_register :: "env \<Rightarrow> merchant_service \<Rightarrow> handler" where
  "merchant_register E s r =
    parseUserID E r (\<lambda>userID.
    case Option.bind (rq_Body r) dec_MerchantRegisterRequest of
      None \<Rightarrow> reply E (\<lambda>t. BadRequest t ''invalid JSON body'' (rq_RequestID r))
    | Some req0 \<Rightarrow>
        (case MerchantRegisterRequest_Validate req0 of
           Inl err \<Rightarrow> reply E (\<lambda>t. UnprocessableEntity t ''VALIDATION_ERROR'' (error_text err) (rq_RequestID r))
         | Inr req \<Rightarrow>
             on_result (Merchant_Register E s userID req)
               (\<lambda>err. reply E (\<lambda>t. if errors_Is err (Merchant ErrMerchantAlreadyExists)
                  then Conflict t ''ALREADY_EXISTS'' (error_text err) (rq_RequestID r) else InternalError t (rq_RequestID r)))
               (\<lambda>(profile, rawKey). reply E (\<lambda>t. Created (JObj [(''api_key'', JStr rawKey), (''merchant'', enc_profile profile),
                  (''warning'', JStr (''Store this API key securely '' @ [CHR 0xE2, CHR 0x80, CHR 0x94] @ '' it will not be shown again.''))])))))"

definition merchant_getProfile :: "env \<Rightarrow> merchant_service \<Rightarrow> handler" where
  "merchant_getProfile E s r =
    parseUserID E r (\<lambda>userID.
    on_result (GetProfile E s userID) (not_found_or_internal E ''merchant profile'' [ErrMerchantNotFound] (rq_RequestID r))
      (\<lambda>p. reply E (\<lambda>t. OK (enc_profile p))))"

definition merchant_createPaymentRequest :: "env \<Rightarrow> merchant_service \<Rightarrow> handler" where
  "merchant_createPaymentRequest E s r =
    parseUserID E r (\<lambda>userID.
    case Option.bind (rq_Body r) dec_CreatePaymentRequestInput of
      None \<Rightarrow> reply E (\<lambda>t. BadRequest t ''invalid JSON body'' (rq_RequestID r))
    | Some input0 \<Rightarrow>
        (case CreatePaymentRequestInput_Validate input0 of
           Inl err \<Rightarrow> reply E (\<lambda>t. UnprocessableEntity t ''VALIDATION_ERROR'' (error_text err) (rq_RequestID r))
         | Inr input \<Rightarrow>
             on_result (CreatePaymentRequest E s userID input)
               (\<lambda>err. reply E (\<lambda>t. if errors_Is err (Merchant ErrMerchantNotFound) then NotFound t ''merchant profile'' (rq_RequestID r)
                  else if errors_Is err (Merchant ErrMerchantInactive) then Forbidden t (rq_RequestID r)
                  else InternalError t (rq_RequestID r)))
               (\<lambda>d. reply E (\<lambda>t. Created (enc_request_detail d)))))"

definition merchant_listPaymentRequests :: "env \<Rightarrow> int64 \<Rightarrow> merchant_service \<Rightarrow> handler" where
  "merchant_listPaymentRequests E inf_int s r =
    parseUserID E r (\<lambda>userID.
    on_result (ListPaymentRequests E inf_int s userID \<lparr>rp_Page = Atoi_value (field ''page'' (rq_Query r)),
        rp_Limit = Atoi_value (field ''limit'' (rq_Query r)), rp_Status = field ''status'' (rq_Query r)\<rparr>)
      (not_found_or_internal E ''merchant profile'' [ErrMerchantNotFound] (rq_RequestID r))
      (\<lambda>x. reply E (\<lambda>t. OK (JObj [(''payment_requests'', JArr (map enc_request_detail (prl_PaymentRequests x))),
                                  (''pagination'', enc_pagination (prl_Pagination x))]))))"

definition merchant_getPaymentRequest :: "env \<Rightarrow> merchant_service \<Rightarrow> handler" where
  "merchant_getPaymentRequest E s r =
    parseUserID E r (\<lambda>userID. parse_request_id E r (\<lambda>reqID.
    on_result (GetPaymentRequest E s userID reqID)
      (not_found_or_internal E ''payment request'' [ErrPaymentRequestNotFound, ErrMerchantNotFound] (rq_RequestID r))
      (\<lambda>d. reply E (\<lambda>t. OK (enc_request_detail d)))))"

definition merchant_cancelPaymentRequest :: "env \<Rightarrow> merchant_service \<Rightarrow> handler" where
  "merchant_cancelPaymentRequest E s r =
    parseUserID E r (\<lambda>userID. parse_request_id E r (\<lambda>reqID.
    on_result (CancelPaymentRequest s userID reqID)
      (not_found_or_internal E ''payment request'' [ErrPaymentRequestNotFound, ErrMerchantNotFound] (rq_RequestID r))
      (\<lambda>_. reply E (\<lambda>t. NoContent))))"

definition pay_handleError :: "env \<Rightarrow> string \<Rightarrow> gerror \<Rightarrow> writer \<Rightarrow> world \<Rightarrow> writer \<times> world" where
  "pay_handleError E requestID err =
    reply E (\<lambda>t.
      if errors_Is err (Merchant ErrPaymentRequestNotFound) \<or> errors_Is err (Merchant ErrMerchantNotFound)
      then NotFound t ''payment request'' requestID
      else if errors_Is err (Merchant ErrPaymentRequestAlreadyPaid) then Conflict t ''ALREADY_PAID'' (error_text err) requestID
      else if errors_Is err (Merchant ErrPaymentRequestExpired) then UnprocessableEntity t ''EXPIRED'' (error_text err) requestID
      else if errors_Is err (Merchant ErrPaymentRequestCancelled) then UnprocessableEntity t ''CANCELLED'' (error_text err) requestID
      else if errors_Is err (Merchant merchant_error.ErrSelfPayment) then UnprocessableEntity t ''SELF_PAYMENT'' (error_text err) requestID
      else if errors_Is err (Merchant ErrMerchantInactive) then UnprocessableEntity t ''MERCHANT_INACTIVE'' (error_text err) requestID
      else InternalError t requestID)"

definition merchant_payViaQR :: "env \<Rightarrow> merchant_service \<Rightarrow> handler" where
  "merchant_payViaQR E s r =
    parseUserID E r (\<lambda>userID.
    case context_uuid E (rq_WalletID r) of
      None \<Rightarrow> reply E (\<lambda>t. Unauthorized t (rq_RequestID r))
    | Some walletID \<Rightarrow>
        (let idempotencyKey = field ''X-Idempotency-Key'' (rq_Headers r) in
         if idempotencyKey = ''''
         then reply E (\<lambda>t. UnprocessableEntity t ''MISSING_IDEMPOTENCY_KEY'' ''X-Idempotency-Key header is required'' (rq_RequestID r))
         else case Option.bind (rq_Body r) dec_PayQRRequest of
           None \<Rightarrow> reply E (\<lambda>t. BadRequest t ''invalid JSON body'' (rq_RequestID r))
         | Some payload \<Rightarrow>
             if payload = ''''
             then reply E (\<lambda>t. UnprocessableEntity t ''VALIDATION_ERROR'' ''qr_payload is required'' (rq_RequestID r))
             else on_result (PayViaQR E s userID walletID idempotencyKey payload)
               (pay_handleError E (rq_RequestID r))
               (\<lambda>result. reply E (\<lambda>t. Created (enc_pay result)))))"

end
