(* ===== verification/Merchant_Props.thy ===== *)
theory Merchant_Props
  imports Merchant Wallet Payment_Claims Samples
begin

text \<open>
  The merchant service against the interfaces it calls: \<open>merchant_client\<close> is the contract of its
  repository, its wallet lookup, its ledger and its publisher; and the wiring of the server, which fulfils it.
\<close>

section \<open>The ways of a payment\<close>

definition qr_transfer :: "uuid \<Rightarrow> uuid \<Rightarrow> string \<Rightarrow> Params \<Rightarrow> TransferParams" where
  "qr_transfer payerWalletID merchantWalletID idempotencyKey params =
    \<lparr>tp_SenderWalletID = payerWalletID, tp_ReceiverWalletID = merchantWalletID, tp_AmountCents = qp_AmountCents params,
     tp_Reference = qp_Reference params, tp_IdempotencyKey = idempotencyKey, tp_Signature = '''', tp_TxnType = Some TypePayment\<rparr>"

lemma qr_transfer_simps [simp]:
  "tp_SenderWalletID (qr_transfer a b k p) = a" "tp_ReceiverWalletID (qr_transfer a b k p) = b"
  "tp_AmountCents (qr_transfer a b k p) = qp_AmountCents p" "tp_IdempotencyKey (qr_transfer a b k p) = k"
  "transfer_type (qr_transfer a b k p) = TypePayment"
  by (simp_all add: qr_transfer_def transfer_type_def)

text \<open>The part of \<open>PayViaQR\<close> before the ledger is asked: it only looks.\<close>

definition admit :: "env \<Rightarrow> merchant_service \<Rightarrow> uuid \<Rightarrow> string \<Rightarrow> (world, Params \<times> merchant \<times> uuid \<times> payment_request) io" where
  "admit E s payerUserID payload =
    (case ParseURI E payload of
       Inl err \<Rightarrow> throw (Wrap ''invalid QR payload'' err)
     | Inr params \<Rightarrow>
       bind_io (get_io (now E)) (\<lambda>t.
       case Verify E params (mer_signingKey s) t of
         Some err \<Rightarrow> throw (Wrap ''QR verification failed'' err)
       | None \<Rightarrow>
         bind_io (mer_FindByID s (qp_MerchantID params)) (\<lambda>m.
         if \<not> m_IsActive m then throw (Merchant ErrMerchantInactive)
         else if m_UserID m = payerUserID then throw (Merchant merchant_error.ErrSelfPayment)
         else bind_io (wrap_io ''find merchant wallet'' (mer_wallets s (m_UserID m))) (\<lambda>mw.
           bind_io (findPaymentRequestByPayload E s payload) (\<lambda>pr.
           case pr_Status pr of
             PRPaid \<Rightarrow> throw (Merchant ErrPaymentRequestAlreadyPaid)
           | PRExpired \<Rightarrow> throw (Merchant ErrPaymentRequestExpired)
           | PRCancelled \<Rightarrow> throw (Merchant ErrPaymentRequestCancelled)
           | PRPending \<Rightarrow> ret (params, m, mw, pr))))))"

lemma PayViaQR_admit:
  "PayViaQR E s payer a k payload w =
    (case admit E s payer payload w of
       (Inl e, w') \<Rightarrow> (Inl e, w')
     | (Inr (params, m, mw, pr), w1) \<Rightarrow>
         (case mer_Transfer s (qr_transfer a mw k params) w1 of
            (Inl e, w2) \<Rightarrow> (Inl e, w2)
          | (Inr (r, Some e), w2) \<Rightarrow> (Inl e, w2)
          | (Inr (r, None), w2) \<Rightarrow> pay_tail E s params m mw pr a r w2))"
  unfolding PayViaQR_def admit_def
  by (auto simp: io_run qr_transfer_def split: sum.splits prod.splits option.splits PaymentRequestStatus.splits)

lemma PayViaQR_cases:
  assumes "PayViaQR E s payer a k payload w = (res, w')"
  obtains (away) e where "admit E s payer payload w = (Inl e, w')" "res = Inl e"
  | (refused) params m mw pr w1 e where "admit E s payer payload w = (Inr (params, m, mw, pr), w1)"
      "mer_Transfer s (qr_transfer a mw k params) w1 = (Inl e, w')" "res = Inl e"
  | (replayed) params m mw pr w1 r e where "admit E s payer payload w = (Inr (params, m, mw, pr), w1)"
      "mer_Transfer s (qr_transfer a mw k params) w1 = (Inr (r, Some e), w')" "res = Inl e"
  | (paid) params m mw pr w1 r w2 where "admit E s payer payload w = (Inr (params, m, mw, pr), w1)"
      "mer_Transfer s (qr_transfer a mw k params) w1 = (Inr (r, None), w2)"
      "pay_tail E s params m mw pr a r w2 = (res, w')"
  using assms unfolding PayViaQR_admit
  by (auto split: sum.splits prod.splits option.splits)

text \<open>The answer to a payment is decided by the transfer: the tail cannot fail.\<close>

lemma pay_tail_Inr:
  "\<exists>w'. pay_tail E s params m mw pr a r w2 = (Inr \<lparr>py_TransactionID = uuid_String E (t_ID (tr_Transaction r)),
     py_AmountCents = qp_AmountCents params, py_AmountDisplay = Format (qp_AmountCents params) ''DD$'',
     py_MerchantName = m_BusinessName m, py_Reference = qp_Reference params, py_NewBalanceCents = tr_SenderBalance r,
     py_NewBalanceDisplay = Format (tr_SenderBalance r) ''DD$''\<rparr>, w')"
  by (auto simp: pay_tail_def Let_def io_run)

lemma no_money_fireWebhook [no_money_intros]: "no_money (fireWebhook E u i x n)"
  by (simp add: no_money_def fireWebhook_def)

section \<open>The contract\<close>

locale merchant_client = ledger_transferer "mer_Transfer s" for s :: merchant_service +
  fixes E :: env
  assumes merchant_reads: "read_only (mer_FindByID s i)"
    and merchant_found: "mer_FindByID s i w = (Inr m, w') \<Longrightarrow> m \<in> set (merchants (w_db w)) \<and> m_ID m = i"
    and wallet_reads: "read_only (mer_wallets s u)"
    and wallet_found: "mer_wallets s u w = (Inr mw, w') \<Longrightarrow>
      \<exists>x \<in> set (wallets (w_db w)). w_ID x = mw \<and> w_UserID x = u \<and> w_Currency x = ''DD$'' \<and> w_deleted_at x = None"
    and list_reads: "read_only (mer_ListByMerchant s i p)"
    and list_found: "mer_ListByMerchant s i p w = (Inr (rs, n), w') \<Longrightarrow> r \<in> set rs \<Longrightarrow>
      r \<in> set (payment_requests (w_db w)) \<and> pr_MerchantID r = i"
    and mark_quiet: "no_money (mer_MarkPaid s i a x)"
    and publish_quiet: "mer_publisher s = Some f \<Longrightarrow> no_money (f u ev)"
begin

lemma find_request_reads: "read_only (findPaymentRequestByPayload E s payload)"
  unfolding findPaymentRequestByPayload_def
  by (cases "ParseURI E payload") (auto intro!: read_intros list_reads)

lemma admit_reads: "read_only (admit E s payer payload)"
  unfolding admit_def
  by (cases "ParseURI E payload")
    (auto intro!: read_intros merchant_reads wallet_reads find_request_reads split: PaymentRequestStatus.splits)

lemma admit_db: "admit E s payer payload w = (x, w') \<Longrightarrow> w_db w' = w_db w"
  using read_onlyD [OF admit_reads, of payer payload w] by simp

lemma find_request_found:
  assumes "findPaymentRequestByPayload E s payload w = (Inr pr, w')" and "ParseURI E payload = Inr params"
  shows "pr \<in> set (payment_requests (w_db w)) \<and> pr_QRPayload pr = payload \<and> pr_MerchantID pr = qp_MerchantID params"
proof -
  have mem: "r \<in> set rs \<and> pr_QRPayload r = payload" if "find (\<lambda>r. pr_QRPayload r = payload) rs = Some r" for r rs
    using find_Some_in [OF that] .
  have in_list: "pr \<in> set (payment_requests (w_db v)) \<and> pr_QRPayload pr = payload \<and> pr_MerchantID pr = qp_MerchantID params"
    if "mer_ListByMerchant s (qp_MerchantID params) p v = (Inr (rs, n), v')" "find (\<lambda>r. pr_QRPayload r = payload) rs = Some pr" for p rs n v v'
    using list_found [OF that(1)] mem [OF that(2)] by blast
  let ?p1 = "\<lparr>rp_Page = 1, rp_Limit = 100, rp_Status = pr_label PRPending\<rparr>" and ?p2 = "\<lparr>rp_Page = 1, rp_Limit = 100, rp_Status = ''''\<rparr>"
  obtain x w0 where 1: "mer_ListByMerchant s (qp_MerchantID params) ?p1 w = (x, w0)" by fastforce
  note run = assms
  then obtain rs n where x: "x = Inr (rs, n)" using 1 by (cases x) (auto simp: findPaymentRequestByPayload_def io_run)
  show ?thesis
  proof (cases "find (\<lambda>r. pr_QRPayload r = payload) rs")
    case (Some r)
    then have "r = pr" using run 1 x by (simp add: findPaymentRequestByPayload_def io_run)
    with Some 1 x show ?thesis using in_list by blast
  next
    case None
    have w0: "w_db w0 = w_db w" using read_onlyD [OF list_reads, of "qp_MerchantID params" ?p1 w] 1 by simp
    obtain y w1 where 2: "mer_ListByMerchant s (qp_MerchantID params) ?p2 w0 = (y, w1)" by fastforce
    then obtain all m where y: "y = Inr (all, m)"
      using run 1 x None by (cases y) (auto simp: findPaymentRequestByPayload_def io_run)
    then have "find (\<lambda>r. pr_QRPayload r = payload) all = Some pr"
      using run 1 2 x None by (cases "find (\<lambda>r. pr_QRPayload r = payload) all") (simp_all add: findPaymentRequestByPayload_def io_run)
    with in_list [OF 2 [unfolded y]] w0 show ?thesis by simp
  qed
qed

lemma admit_sound:
  assumes "admit E s payer payload w = (Inr (params, m, mw, pr), w1)"
  shows "ParseURI E payload = Inr params" "Verify E params (mer_signingKey s) (now E w) = None"
    "m \<in> set (merchants (w_db w))" "m_ID m = qp_MerchantID params" "m_IsActive m" "m_UserID m \<noteq> payer"
    "\<exists>x \<in> set (wallets (w_db w)). w_ID x = mw \<and> w_UserID x = m_UserID m \<and> w_Currency x = ''DD$'' \<and> w_deleted_at x = None"
    "pr \<in> set (payment_requests (w_db w))" "pr_QRPayload pr = payload" "pr_Status pr = PRPending"
proof -
  show p: "ParseURI E payload = Inr params" and "Verify E params (mer_signingKey s) (now E w) = None"
    using assms by (auto simp: admit_def io_eq get_io_run split: sum.splits option.splits if_splits PaymentRequestStatus.splits)
      (meson PaymentRequestStatus.exhaust)+
  from assms p obtain wa wb where r: "mer_FindByID s (qp_MerchantID params) w = (Inr m, wa)" "m_IsActive m" "m_UserID m \<noteq> payer"
    "mer_wallets s (m_UserID m) wa = (Inr mw, wb)" "findPaymentRequestByPayload E s payload wb = (Inr pr, w1)" "pr_Status pr = PRPending"
    by (auto simp: admit_def io_eq get_io_run split: sum.splits option.splits if_splits PaymentRequestStatus.splits)
      (meson PaymentRequestStatus.exhaust)+
  have db: "w_db wa = w_db w" "w_db wb = w_db wa"
    using read_onlyD [OF merchant_reads] read_onlyD [OF wallet_reads] r(1,4) by (metis snd_conv)+
  show "m \<in> set (merchants (w_db w))" "m_ID m = qp_MerchantID params" "m_IsActive m" "m_UserID m \<noteq> payer" "pr_Status pr = PRPending"
    using merchant_found [OF r(1)] r by auto
  show "\<exists>x \<in> set (wallets (w_db w)). w_ID x = mw \<and> w_UserID x = m_UserID m \<and> w_Currency x = ''DD$'' \<and> w_deleted_at x = None"
    using wallet_found [OF r(4)] db by simp
  show "pr \<in> set (payment_requests (w_db w))" "pr_QRPayload pr = payload" using find_request_found [OF r(5) p] db by auto
qed

lemma tail_money: "pay_tail E s params m mw pr a r w2 = (res, w') \<Longrightarrow> money (w_db w') = money (w_db w2)"
proof -
  have "no_money (pay_tail E s params m mw pr a r)"
    unfolding pay_tail_def Let_def
    by (cases "m_WebhookURL m"; cases "mer_publisher s") (auto intro!: no_money_intros mark_quiet intro: publish_quiet)
  then show "pay_tail E s params m mw pr a r w2 = (res, w') \<Longrightarrow> ?thesis" by (rule no_moneyD)
qed

lemma PayViaQR_money:
  assumes "PayViaQR E s payer a k payload w = (res, w')"
  shows "w_db w' = w_db w \<or>
    (\<exists>p w1. w_db w1 = w_db w \<and> money (w_db w') = money (w_db (snd (mer_Transfer s p w1))))"
  using assms
proof (cases rule: PayViaQR_cases)
  case away
  then show ?thesis by (auto dest: admit_db)
next
  case (paid params m mw pr w1 r w2)
  then have "w_db w1 = w_db w" "money (w_db w') = money (w_db (snd (mer_Transfer s (qr_transfer a mw k params) w1)))"
    using admit_db [OF paid(1)] tail_money [OF paid(3)] by simp_all
  then show ?thesis by blast
qed (metis admit_db snd_conv)+

lemma PayViaQR_books:
  assumes "books (w_db w)" and "PayViaQR E s payer a k payload w = (res, w')"
  shows "books (w_db w') \<and> money_supply (w_db w') = money_supply (w_db w)"
  using PayViaQR_money [OF assms(2)]
proof (elim disjE exE conjE)
  fix p w1 assume "w_db w1 = w_db w" "money (w_db w') = money (w_db (snd (mer_Transfer s p w1)))"
  then show ?thesis using keeps_books [of w1 p] conserves [of w1 p] assms(1) money_books money_supply_cong by metis
qed (use assms(1) in simp)

lemma PayViaQR_error:
  assumes "PayViaQR E s payer a k payload w = (Inl e, w')" and "e \<noteq> Wrap ''commit transfer'' Driver"
  shows "money (w_db w') = money (w_db w)"
  using assms(1)
proof (cases rule: PayViaQR_cases)
  case away
  then show ?thesis by (auto dest: admit_db)
next
  case (refused params m mw pr w1 e')
  then show ?thesis using failed [OF refused(2)] admit_db [OF refused(1)] assms(2) by simp
next
  case (replayed params m mw pr w1 r e')
  then show ?thesis using replay_only [OF replayed(2)] admit_db [OF replayed(1)] by simp
next
  case (paid params m mw pr w1 r w2)
  then show ?thesis using pay_tail_Inr [of E s params m mw pr a r w2] by auto
qed

lemma PayViaQR_answer:
  assumes "PayViaQR E s payer a k payload w = (Inr resp, w')" and "books (w_db w)"
  shows "\<exists>params m mw pr w1. admit E s payer payload w = (Inr (params, m, mw, pr), w1) \<and>
    transfer_spec a mw (sint (qp_AmountCents params)) (abs_ledger (w_db w)) = Inr (abs_ledger (w_db w')) \<and>
    abs_ledger (w_db w') a = Some (sint (py_NewBalanceCents resp), False) \<and> py_AmountCents resp = qp_AmountCents params"
  using assms(1)
proof (cases rule: PayViaQR_cases)
  case (paid params m mw pr w1 r w2)
  have db: "w_db w1 = w_db w" by (rule admit_db [OF paid(1)])
  have m2: "abs_ledger (w_db w') = abs_ledger (w_db w2)" by (rule money_abs [OF tail_money [OF paid(3)]])
  have "py_NewBalanceCents resp = tr_SenderBalance r" "py_AmountCents resp = qp_AmountCents params"
    using pay_tail_Inr [of E s params m mw pr a r w2] paid(3) by auto
  with settles [OF paid(2)] paid(1) db m2 assms(2) show ?thesis by auto
qed simp_all

end

section \<open>The service of the server\<close>

text \<open>The closure over \<open>walletRepo\<close> in \<open>cmd/server/main.go\<close>, and the wiring there.\<close>

definition walletIDLookup :: "env \<Rightarrow> uuid \<Rightarrow> (world, uuid) io" where
  "walletIDLookup E userID = bind_io (Wallet_FindByUserID E userID) (\<lambda>w. ret (w_ID w))"

definition server_merchants :: "env \<Rightarrow> string \<Rightarrow> merchant_service" where
  "server_merchants E signingKey =
    \<lparr>mer_FindByUserID = Merchant_FindByUserID E, mer_FindByID = Merchant_FindByID E, mer_Create = Merchant_Create E,
     mer_CreatePaymentRequest = Repo_CreatePaymentRequest E, mer_FindPaymentRequestByID = FindPaymentRequestByID E,
     mer_MarkPaid = MarkPaid E, mer_CancelPaymentRequest = Repo_CancelPaymentRequest E, mer_ListByMerchant = ListByMerchant E,
     mer_wallets = walletIDLookup E, mer_Transfer = Transfer E, mer_publisher = Some (Publish E True), mer_signingKey = signingKey\<rparr>"

lemma server_merchants_simps [simp]:
  "mer_FindByUserID (server_merchants E key) = Merchant_FindByUserID E" "mer_FindByID (server_merchants E key) = Merchant_FindByID E"
  "mer_Create (server_merchants E key) = Merchant_Create E" "mer_CreatePaymentRequest (server_merchants E key) = Repo_CreatePaymentRequest E"
  "mer_FindPaymentRequestByID (server_merchants E key) = FindPaymentRequestByID E" "mer_MarkPaid (server_merchants E key) = MarkPaid E"
  "mer_CancelPaymentRequest (server_merchants E key) = Repo_CancelPaymentRequest E" "mer_ListByMerchant (server_merchants E key) = ListByMerchant E"
  "mer_wallets (server_merchants E key) = walletIDLookup E" "mer_Transfer (server_merchants E key) = Transfer E"
  "mer_publisher (server_merchants E key) = Some (Publish E True)" "mer_signingKey (server_merchants E key) = key"
  by (simp_all add: server_merchants_def)

lemma merchant_selects [read_intros]:
  "reads (select_merchant P)" "reads (select_payment_request i)" "reads (count_requests i st)" "reads (select_requests i st lim off)"
  "reads (select_user_wallet u)"
  by (auto simp: reads_def select_merchant_def select_payment_request_def count_requests_def select_requests_def
      select_user_wallet_def split: option.splits if_splits)

lemma repository_only_reads [read_intros]:
  "read_only (Merchant_FindByUserID E u)" "read_only (Merchant_FindByID E i)" "read_only (FindPaymentRequestByID E i)"
  "read_only (ListByMerchant E i p)" "read_only (walletIDLookup E u)"
  unfolding Merchant_FindByUserID_def Merchant_FindByID_def FindPaymentRequestByID_def ListByMerchant_def walletIDLookup_def
    Wallet_FindByUserID_def Let_def
  by (intro read_intros)+

lemma Merchant_FindByID_Inr: "Merchant_FindByID E i w = (Inr m, w') \<Longrightarrow> m \<in> set (merchants (w_db w)) \<and> m_ID m = i"
  by (auto simp: Merchant_FindByID_def io_eq select_merchant_def split: option.splits if_splits dest: find_Some_in)

lemma walletIDLookup_Inr:
  "walletIDLookup E u w = (Inr mw, w') \<Longrightarrow>
   \<exists>x \<in> set (wallets (w_db w)). w_ID x = mw \<and> w_UserID x = u \<and> w_Currency x = ''DD$'' \<and> w_deleted_at x = None"
  by (auto simp: walletIDLookup_def Wallet_FindByUserID_def io_eq select_user_wallet_def split: option.splits if_splits dest: find_Some_in)

lemma set_page_of: "r \<in> set (page_of lim off xs) \<Longrightarrow> r \<in> set xs"
  by (auto simp: page_of_def dest: in_set_takeD in_set_dropD)

lemma ListByMerchant_Inr:
  "ListByMerchant E i p w = (Inr (rs, n), w') \<Longrightarrow> r \<in> set rs \<Longrightarrow> r \<in> set (payment_requests (w_db w)) \<and> request_matches i (rp_Status p) r"
  by (auto simp: ListByMerchant_def io_eq Let_def count_requests_def select_requests_def split: if_splits dest!: set_page_of)

lemma no_money_update: "no_money (sql E tx (update_paid i a x))" "no_money (sql E tx (update_cancelled i m))"
  "no_money (sql E tx (insert_merchant p))" "no_money (sql E tx (insert_payment_request q))"
proof -
  have "leaves money (update_paid i a x)" "leaves money (update_cancelled i m)" "leaves money (insert_merchant p)"
    "leaves money (insert_payment_request q)"
    by (auto simp: leaves_def update_paid_def update_cancelled_def insert_merchant_def insert_payment_request_def update_requests_def
        money_def Let_def split: if_splits)
  then show "no_money (sql E tx (update_paid i a x))" "no_money (sql E tx (update_cancelled i m))"
    "no_money (sql E tx (insert_merchant p))" "no_money (sql E tx (insert_payment_request q))"
    by (auto simp: no_money_def sql_leaves)
qed

lemma read_only_no_money: "read_only m \<Longrightarrow> no_money m"
  by (simp add: no_money_def read_onlyD)

lemma no_money_MarkPaid [no_money_intros]: "no_money (MarkPaid E i a x)"
  unfolding MarkPaid_def
  by (intro no_money_intros no_money_update read_only_no_money [OF repository_only_reads(3)])
    (auto intro!: no_money_intros split: PaymentRequestStatus.splits)

interpretation mc: merchant_client "server_merchants E key" E for E key
  by (unfold_locales; simp add: lt.keeps_books lt.conserves lt.replay_only lt.settles lt.remembers lt.once lt.replays lt.failed
      repository_only_reads)
    (auto intro: no_money_intros dest: Merchant_FindByID_Inr walletIDLookup_Inr ListByMerchant_Inr simp: request_matches_def)

end
