(* ===== verification/Merchant_Up.thy ===== *)
theory Merchant_Up
  imports Merchant_Props QRCode_Claims
begin

text \<open>
  The merchant service when no call fails: what its reads find, the whole way of a payment, and the payment of
  a request that \<open>CreatePaymentRequest\<close> has just created.
\<close>

section \<open>Reads and writes that succeed\<close>

lemma enter_frame:
  "payment_requests (enter x es d) = payment_requests d" "merchants (enter x es d) = merchants d"
  "users (enter x es d) = users d" "sessions (enter x es d) = sessions d" "transactions (enter x es d) = transactions d @ [x]"
  by (simp_all add: enter_def)

lemma Transfer_frame:
  "payment_requests (w_db (snd (Transfer E p w))) = payment_requests (w_db w)"
  "merchants (w_db (snd (Transfer E p w))) = merchants (w_db w)"
  "users (w_db (snd (Transfer E p w))) = users (w_db w)"
  "sessions (w_db (snd (Transfer E p w))) = sessions (w_db w)"
  using Transfer_db [of E p w] by (auto simp: moved_def enter_frame)

lemma find_unique: "r \<in> set xs \<Longrightarrow> P r \<Longrightarrow> (\<And>x. x \<in> set xs \<Longrightarrow> P x \<Longrightarrow> x = r) \<Longrightarrow> find P xs = Some r"
proof -
  assume a: "r \<in> set xs" "P r" and u: "\<And>x. x \<in> set xs \<Longrightarrow> P x \<Longrightarrow> x = r"
  obtain x where x: "find P xs = Some x" using find_exists [of r xs P] a by blast
  then have "x = r" using u find_Some_in [OF x] by blast
  with x show ?thesis by simp
qed

lemma Merchant_FindByID_up:
  assumes "fate E (w_calls w) = Up" and "find (\<lambda>m. m_ID m = i) (merchants (w_db w)) = Some m"
  shows "Merchant_FindByID E i w = (Inr m, w\<lparr>w_calls := Suc (w_calls w)\<rparr>)"
  using assms by (cases w) (simp add: Merchant_FindByID_def io_run sql_def select_merchant_def Let_def)

lemma walletIDLookup_up:
  assumes "fate E (w_calls w) = Up"
    and "find (\<lambda>x. w_UserID x = u \<and> w_Currency x = ''DD$'' \<and> w_deleted_at x = None) (wallets (w_db w)) = Some x"
  shows "walletIDLookup E u w = (Inr (w_ID x), w\<lparr>w_calls := Suc (w_calls w)\<rparr>)"
  using assms by (cases w) (simp add: walletIDLookup_def Wallet_FindByUserID_def io_run sql_def select_user_wallet_def Let_def)

definition pending_of :: "uuid \<Rightarrow> database \<Rightarrow> payment_request list" where
  "pending_of i d = sort_key (\<lambda>r. - pr_CreatedAt r) (filter (request_matches i (pr_label PRPending)) (payment_requests d))"

lemma pr_label_pending: "pr_label s = ''PENDING'' \<longleftrightarrow> s = PRPending"
  by (cases s) simp_all

lemma matches_pending: "request_matches i ''PENDING'' = (\<lambda>r. pr_MerchantID r = i \<and> pr_Status r = PRPending)"
  using pr_label_pending by (auto simp: request_matches_def fun_eq_iff)

lemma set_pending_of: "set (pending_of i d) = {r \<in> set (payment_requests d). pr_MerchantID r = i \<and> pr_Status r = PRPending}"
  by (auto simp: pending_of_def request_matches_def pr_label_pending)

lemma ListByMerchant_pending:
  assumes "\<And>n. fate E n = Up" and "length (pending_of i (w_db w)) \<le> 100"
  shows "ListByMerchant E i \<lparr>rp_Page = 1, rp_Limit = 100, rp_Status = pr_label PRPending\<rparr> w =
    (Inr (pending_of i (w_db w), word_of_nat (length (pending_of i (w_db w)))), w\<lparr>w_calls := Suc (Suc (w_calls w))\<rparr>)"
  using assms
  by (cases w) (simp add: ListByMerchant_def io_run sql_def count_requests_def select_requests_def bad_status_def Let_def page_of_def
      pending_of_def count_where_def)

lemma find_request_up:
  assumes "\<And>n. fate E n = Up" and "length (pending_of (qp_MerchantID params) (w_db w)) \<le> 100"
    and "ParseURI E payload = Inr params" and "r \<in> set (pending_of (qp_MerchantID params) (w_db w))" and "pr_QRPayload r = payload"
    and "\<And>x. x \<in> set (payment_requests (w_db w)) \<Longrightarrow> pr_QRPayload x = payload \<Longrightarrow> x = r"
  shows "findPaymentRequestByPayload E (server_merchants E key) payload w = (Inr r, w\<lparr>w_calls := Suc (Suc (w_calls w))\<rparr>)"
proof -
  have "find (\<lambda>r. pr_QRPayload r = payload) (pending_of (qp_MerchantID params) (w_db w)) = Some r"
    using assms(4-6) by (intro find_unique) (auto simp: set_pending_of)
  then show ?thesis
    using ListByMerchant_pending [OF assms(1,2)] assms(3) by (simp add: findPaymentRequestByPayload_def io_run)
qed

lemma admit_up:
  assumes "\<And>n. fate E n = Up" and "ParseURI E payload = Inr params" and "Verify E params key (now E w) = None"
    and "find (\<lambda>m. m_ID m = qp_MerchantID params) (merchants (w_db w)) = Some m" and "m_IsActive m" and "m_UserID m \<noteq> payer"
    and "find (\<lambda>x. w_UserID x = m_UserID m \<and> w_Currency x = ''DD$'' \<and> w_deleted_at x = None) (wallets (w_db w)) = Some x"
    and "length (pending_of (qp_MerchantID params) (w_db w)) \<le> 100"
    and "r \<in> set (pending_of (qp_MerchantID params) (w_db w))" and "pr_QRPayload r = payload"
    and "\<And>y. y \<in> set (payment_requests (w_db w)) \<Longrightarrow> pr_QRPayload y = payload \<Longrightarrow> y = r"
  shows "admit E (server_merchants E key) payer payload w = (Inr (params, m, w_ID x, r), w\<lparr>w_calls := w_calls w + 4\<rparr>)"
proof -
  have "pr_Status r = PRPending" using assms(9) by (simp add: set_pending_of)
  moreover have "walletIDLookup E (m_UserID m) (w\<lparr>w_calls := Suc (w_calls w)\<rparr>) = (Inr (w_ID x), w\<lparr>w_calls := Suc (Suc (w_calls w))\<rparr>)"
    using walletIDLookup_up [of E "w\<lparr>w_calls := Suc (w_calls w)\<rparr>"] assms(1,7) by simp
  moreover have "findPaymentRequestByPayload E (server_merchants E key) payload (w\<lparr>w_calls := Suc (Suc (w_calls w))\<rparr>) =
      (Inr r, w\<lparr>w_calls := w_calls w + 4\<rparr>)"
    using find_request_up [of E params "w\<lparr>w_calls := Suc (Suc (w_calls w))\<rparr>" payload r key] assms by simp
  ultimately show ?thesis
    using Merchant_FindByID_up [OF assms(1,4)] assms(2,3,5,6) by (simp add: admit_def io_run)
qed

lemma MarkPaid_up:
  assumes "fate E (w_calls w) = Up" and "r \<in> set (payment_requests (w_db w))" and "payable (pr_ID r) (clock E (w_calls w)) r"
    and "a \<in> w_ID ` set (wallets (w_db w))" and "x \<in> t_ID ` set (transactions (w_db w))"
  shows "MarkPaid E (pr_ID r) a x w = (Inr (), w\<lparr>w_calls := Suc (w_calls w),
     w_db := update_requests (payable (pr_ID r) (clock E (w_calls w)))
        (\<lambda>r. r\<lparr>pr_Status := PRPaid, pr_PaidByWalletID := Some a, pr_TransactionID := Some x, pr_PaidAt := Some (clock E (w_calls w))\<rparr>) (w_db w)\<rparr>)"
proof -
  obtain n where n: "count_where (payable (pr_ID r) (clock E (w_calls w))) (payment_requests (w_db w)) = Suc n"
    using assms(2,3) count_where_0 [of "payable (pr_ID r) (clock E (w_calls w))"] by (metis not0_implies_Suc)
  then show ?thesis
    using assms(1,4,5) by (cases w) (simp add: MarkPaid_def io_run sql_def update_paid_def Let_def)
qed

lemma pay_tail_up:
  assumes "\<And>n. fate E n = Up" and "r \<in> set (payment_requests (w_db w))" and "payable (pr_ID r) (clock E (w_calls w)) r"
    and "a \<in> w_ID ` set (wallets (w_db w))" and "t_ID (tr_Transaction x) \<in> t_ID ` set (transactions (w_db w))"
    and "pay_tail E (server_merchants E key) params m mw r a x w = (res, w')"
  shows "\<exists>r' \<in> set (payment_requests (w_db w')). pr_ID r' = pr_ID r \<and> pr_QRPayload r' = pr_QRPayload r \<and> pr_Status r' = PRPaid \<and>
    pr_PaidByWalletID r' = Some a \<and> pr_TransactionID r' = Some (t_ID (tr_Transaction x))"
proof -
  let ?x = "t_ID (tr_Transaction x)"
  let ?f = "\<lambda>r. r\<lparr>pr_Status := PRPaid, pr_PaidByWalletID := Some a, pr_TransactionID := Some ?x, pr_PaidAt := Some (clock E (w_calls w))\<rparr>"
  have "w_db w' = update_requests (payable (pr_ID r) (clock E (w_calls w))) ?f (w_db w)"
    using assms(6) MarkPaid_up [OF assms(1-5)]
    by (auto simp: pay_tail_def Let_def io_run fireWebhook_def split: option.splits)
  then have "?f r \<in> set (payment_requests (w_db w'))"
    using assms(2,3) by (auto simp: update_requests_def set_upd_where)
  then show ?thesis by (intro bexI [of _ "?f r"]) simp_all
qed

lemma pay_tail_calls:
  assumes "pay_tail E (server_merchants E key) params m mw r a x w = (res, w')"
  shows "Suc (w_calls w) \<le> w_calls w'"
proof -
  have q: "Suc (w_calls v) \<le> w_calls v1" if "sql E tx (q :: 'x statement) v = (z, v1)" for v v1 tx q z
    using that by (auto simp: sql_def Let_def split: fault.splits sum.splits prod.splits)
  have f: "w_calls v \<le> w_calls v1" if "FindPaymentRequestByID E i v = (z, v1)" for v v1 i z
  proof (cases "sql E None (select_payment_request i) v")
    case (Pair y v2)
    with that q [OF Pair] show ?thesis by (cases y) (auto simp: FindPaymentRequestByID_def io_run split: if_splits)
  qed
  have mark: "Suc (w_calls v) \<le> w_calls v1" if "MarkPaid E i b y v = (z, v1)" for v v1 i b y z
  proof (cases "sql E None (update_paid i b y) v")
    case (Pair z' v2)
    show ?thesis
    proof (cases z')
      case (Inl e)
      with that Pair q [OF Pair] show ?thesis by (simp add: MarkPaid_def io_run)
    next
      case (Inr n)
      obtain y2 v3 where g: "FindPaymentRequestByID E i v2 = (y2, v3)" by fastforce
      have "v1 = (if n = 0 then v3 else v2)"
        using that Pair Inr g by (auto simp: MarkPaid_def io_run split: sum.splits PaymentRequestStatus.splits)
      with q [OF Pair] f [OF g] show ?thesis by simp
    qed
  qed
  obtain z v1 where 1: "MarkPaid E (pr_ID r) a (t_ID (tr_Transaction x)) w = (z, v1)" by fastforce
  then obtain v2 where 2: "(case m_WebhookURL m of None \<Rightarrow> ret ()
      | Some url \<Rightarrow> fireWebhook E url (pr_ID r) (t_ID (tr_Transaction x)) (qp_AmountCents params)) v1 = (Inr (), v2)" "w_calls v2 = w_calls v1"
    by (cases "m_WebhookURL m") (auto simp: io_run fireWebhook_def)
  obtain y v3 where 3: "Publish E True mw (qr_event E (t_ID (tr_Transaction x)) (qp_AmountCents params) (tr_ReceiverBalance x)) v2 = (y, v3)"
    by fastforce
  then have "w_calls v2 \<le> w_calls v3" by (auto simp: Publish_def Let_def split: if_splits fault.splits)
  moreover have "w' = v3" using assms 1 2 3 by (simp add: pay_tail_def Let_def io_run)
  ultimately show ?thesis using mark [OF 1] 2 by simp
qed

lemma moved_found:
  assumes "moved p ty tx d r d'"
  shows "t_ID (tr_Transaction r) \<in> t_ID ` set (transactions d')" "tp_SenderWalletID p \<in> w_ID ` set (wallets d')"
proof -
  from assms obtain u e f b where d': "d' = enter (settle tx (txn_row (transfer_row p ty) u tx)) [e, f] d"
    and r: "tr_Transaction r = (txn_row (transfer_row p ty) u tx)\<lparr>t_Status := StatusSettled\<rparr>"
    and b: "live_wallet (tp_SenderWalletID p) d = Some b" by (auto simp: moved_def)
  show "t_ID (tr_Transaction r) \<in> t_ID ` set (transactions d')" by (simp add: d' r enter_def settle_def txn_row_def)
  have "w_ID ` set (wallets d') = w_ID ` set (wallets d)"
    using fold_post_fields(9) [of "[e, f]" "d\<lparr>transactions := transactions d @ [settle tx (txn_row (transfer_row p ty) u tx)]\<rparr>"]
    unfolding d' enter_def by (metis database.select_convs(2) database.surjective database.update_convs(3) list.set_map)
  moreover have "tp_SenderWalletID p \<in> w_ID ` set (wallets d)"
    using live_walletD [OF b] by (auto intro: rev_image_eqI)
  ultimately show "tp_SenderWalletID p \<in> w_ID ` set (wallets d')" by simp
qed

section \<open>From the creation of a request to its payment\<close>

definition request_row :: "uuid \<Rightarrow> CreatePaymentRequestInput \<Rightarrow> string \<Rightarrow> gotime \<Rightarrow> uuid \<Rightarrow> gotime \<Rightarrow> payment_request" where
  "request_row m input payload expires u t =
    \<lparr>pr_ID = u, pr_MerchantID = m, pr_AmountCents = ci_AmountCents input, pr_Currency = ''DD$'',
     pr_Reference = nonempty (ci_Reference input), pr_Description = nonempty (ci_Description input), pr_QRPayload = payload,
     pr_Status = PRPending, pr_PaidByWalletID = None, pr_TransactionID = None,
     pr_ExpiresAt = timestamptz expires, pr_CreatedAt = t, pr_PaidAt = None\<rparr>"

lemma request_row_simps [simp]:
  "pr_MerchantID (request_row m input q e u t) = m" "pr_QRPayload (request_row m input q e u t) = q"
  "pr_Status (request_row m input q e u t) = PRPending" "pr_ExpiresAt (request_row m input q e u t) = timestamptz e"
  by (simp_all add: request_row_def)

lemma CreatePaymentRequest_Inr:
  assumes "CreatePaymentRequest E (server_merchants E key) owner input w = (Inr d, w1)"
  obtains m n u t where "find (\<lambda>m. m_UserID m = owner) (merchants (w_db w)) = Some m" "m_IsActive m" "n = Suc (w_calls w)"
    "pd_QRPayload d = BuildURI E (m_ID m) (ci_AmountCents input) (ci_Reference input) (ci_Description input)
       (time_Add (clock E n) (ci_ExpirySecs input * second)) key"
    "w_db w1 = (w_db w)\<lparr>payment_requests := payment_requests (w_db w) @
       [request_row (m_ID m) input (pd_QRPayload d) (time_Add (clock E n) (ci_ExpirySecs input * second)) u t]\<rparr>"
    "0 < sint (ci_AmountCents input)" "char_count (ci_Reference input) \<le> 64" "n \<le> w_calls w1"
proof -
  obtain x w0 where 1: "Merchant_FindByUserID E owner w = (x, w0)" by fastforce
  with assms obtain m where x: "x = Inr m" by (cases x) (auto simp: CreatePaymentRequest_def io_run)
  from 1 [unfolded x] have m: "find (\<lambda>m. m_UserID m = owner) (merchants (w_db w)) = Some m"
    and w0: "w_db w0 = w_db w" "w_calls w0 = Suc (w_calls w)"
    by (auto simp: Merchant_FindByUserID_def io_run sql_def select_merchant_def Let_def
        split: fault.splits option.splits sum.splits prod.splits if_splits)
  let ?x = "time_Add (now E w0) (ci_ExpirySecs input * second)"
  let ?q = "BuildURI E (m_ID m) (ci_AmountCents input) (ci_Reference input) (ci_Description input) ?x key"
  define p where "p = \<lparr>cp_MerchantID = m_ID m, cp_AmountCents = ci_AmountCents input, cp_Currency = ''DD$'',
             cp_Reference = nonempty (ci_Reference input), cp_Description = nonempty (ci_Description input),
             cp_QRPayload = ?q, cp_ExpiresAt = ?x\<rparr>"
  have run: "m_IsActive m" "bind_io (Repo_CreatePaymentRequest E p) (\<lambda>pr. ret (toDetail E pr (m_BusinessName m))) w0 = (Inr d, w1)"
    using assms 1 x by (auto simp: CreatePaymentRequest_def io_run Let_def p_def split: if_splits)
  then obtain r where r: "Repo_CreatePaymentRequest E p w0 = (Inr r, w1)" "d = toDetail E r (m_BusinessName m)"
    by (auto simp: io_eq)
  from r(1) obtain u t where "insert_payment_request p u t (w_db w0) = Inr (r, w_db w1)"
    by (auto simp: Repo_CreatePaymentRequest_def io_eq sql_def Let_def split: fault.splits sum.splits prod.splits)
  then have "r = request_row (m_ID m) input ?q ?x u t" "w_db w1 = (w_db w0)\<lparr>payment_requests := payment_requests (w_db w0) @ [r]\<rparr>"
    "0 < sint (ci_AmountCents input)" "char_count (ci_Reference input) \<le> 64"
    by (auto simp: insert_payment_request_def p_def request_row_def Let_def fits_def nonempty_def char_count_def split: if_splits)
  then show thesis using that [OF m run(1) refl, of u t] w0 r(2) r(1) by (auto simp: now_def toDetail_def Repo_CreatePaymentRequest_def io_eq sql_def Let_def
        split: fault.splits sum.splits prod.splits)
qed

lemma PayViaQR_up:
  assumes calm: "calm 13 E w" and books: "books (w_db w)" "money_supply (w_db w) < 2 ^ 63"
    and fit: "char_count key' \<le> 128" "char_count (qp_Reference params) \<le> 256"
    and nc: "\<forall>t \<in> set (transactions (w_db w)). t_IdempotencyKey t \<noteq> Some key'" and ne: "key' \<noteq> ''''"
    and adm: "admit E (server_merchants E key) payer payload w = (Inr (params, m, mw, r), w\<lparr>w_calls := w_calls w + 4\<rparr>)"
    and spec: "transfer_spec a mw (sint (qp_AmountCents params)) (abs_ledger (w_db w)) = Inr l"
    and r: "r \<in> set (payment_requests (w_db w))" "pr_Status r = PRPending"
    and run: "PayViaQR E (server_merchants E key) payer a key' payload w = (res, w')"
    and soon: "\<And>n. n \<le> w_calls w' \<Longrightarrow> clock E n < pr_ExpiresAt r"
  shows "(\<exists>resp. res = Inr resp \<and> py_AmountCents resp = qp_AmountCents params) \<and>
    (\<exists>r' \<in> set (payment_requests (w_db w')). pr_ID r' = pr_ID r \<and> pr_QRPayload r' = pr_QRPayload r \<and> pr_Status r' = PRPaid \<and>
       pr_PaidByWalletID r' = Some a \<and> (\<exists>t \<in> set (transactions (w_db w')). pr_TransactionID r' = Some (t_ID t)))"
proof -
  let ?p = "qr_transfer a mw key' params" and ?w = "w\<lparr>w_calls := w_calls w + 4\<rparr>"
  have up: "fate E n = Up" for n using calm by (simp add: calm_def)
  have fit': "row_fits ?p" using fit by (simp add: row_fits_def qr_transfer_def char_count_def)
  have nc': "\<not> clashes (transfer_row ?p (transfer_type ?p)) (w_db ?w)"
    using nc ne by (auto simp: clashes_def transfer_row_def nonempty_def)
  have calm': "calm 9 E ?w" by (rule calm_calls [OF calm]) simp_all
  from Transfer_spec_up [OF calm' _ _ fit' nc'] books spec obtain x w2 where T: "Transfer E ?p ?w = (Inr (x, None), w2)"
    by (cases "Transfer E ?p ?w") auto
  then have tail: "pay_tail E (server_merchants E key) params m mw r a x w2 = (res, w')"
    using run adm by (simp add: PayViaQR_admit)
  obtain tx where mv: "moved ?p (transfer_type ?p) tx (w_db w) x (w_db w2)"
    using Transfer_Inr(3) [OF T] by auto
  have same: "r \<in> set (payment_requests (w_db w2))" using Transfer_frame(1) [of E ?p ?w] r T by simp
  have pay: "payable (pr_ID r) (clock E (w_calls w2)) r"
    using r soon pay_tail_calls [OF tail] by (simp add: payable_def)
  have in_tables: "a \<in> w_ID ` set (wallets (w_db w2))" "t_ID (tr_Transaction x) \<in> t_ID ` set (transactions (w_db w2))"
    using moved_found [OF mv] by simp_all
  have t: "transactions (w_db w') = transactions (w_db w2)"
    using mc.tail_money [OF tail] by (simp add: money_def)
  from in_tables(2) t obtain t where "t \<in> set (transactions (w_db w'))" "t_ID (tr_Transaction x) = t_ID t" by (auto simp: image_iff)
  with pay_tail_up [OF up same pay in_tables tail] have
    "\<exists>r' \<in> set (payment_requests (w_db w')). pr_ID r' = pr_ID r \<and> pr_QRPayload r' = pr_QRPayload r \<and> pr_Status r' = PRPaid \<and>
       pr_PaidByWalletID r' = Some a \<and> (\<exists>t \<in> set (transactions (w_db w')). pr_TransactionID r' = Some (t_ID t))"
    by metis
  with pay_tail_Inr [of E "server_merchants E key" params m mw r a x w2] tail show ?thesis by auto
qed

lemma truncated_timestamptz: "truncated t \<le> timestamptz t"
proof -
  have "t div 1000000000 * 1000000 \<le> t div 1000" by linarith
  then show ?thesis by (simp add: truncated_def timestamptz_def Unix_def)
qed

lemma expiry_in_range:
  assumes "0 \<le> t \<and> t < 2 ^ 62" and "0 < sint s" and "sint s < 2 ^ 33"
  shows "unix_in_range (time_Add t (s * second))"
proof -
  have c: "sint second = 1000000000" by code_simp
  have "sint (s * second) = sint s * 1000000000"
    using assms(2,3) sint_word_of_int64 [of "sint s * sint second"] by (simp add: c int64_ok_def wi_hom_mult [symmetric]) (simp add: second_def)
  then have "0 \<le> time_Add t (s * second)" "time_Add t (s * second) < 2 ^ 64"
    using assms by (simp_all add: time_Add_def)
  then have "0 \<le> Unix (time_Add t (s * second))" "Unix (time_Add t (s * second)) < 18446744074"
    unfolding Unix_def by simp_all
  then show ?thesis by (simp add: unix_in_range_def int64_ok_def)
qed

lemma created_admitted:
  assumes created: "CreatePaymentRequest E (server_merchants E key) owner input v = (Inr d, v1)" and same: "w_db w = w_db v1"
    and lib: "uuid_lib_ok E" and up: "\<And>n. fate E n = Up"
    and expiry: "0 < sint (ci_ExpirySecs input)" "sint (ci_ExpirySecs input) < 2 ^ 33"
    and time: "\<And>n. n \<le> w_calls v1 \<Longrightarrow> 0 \<le> clock E n \<and> clock E n < 2 ^ 62"
    and new: "\<forall>r \<in> set (payment_requests (w_db v)). pr_QRPayload r \<noteq> pd_QRPayload d"
    and few: "\<forall>i. count_where (\<lambda>r. pr_MerchantID r = i \<and> pr_Status r = PRPending) (payment_requests (w_db v)) < 100"
    and keys: "distinct (map m_ID (merchants (w_db v)))" and payer: "payer \<noteq> owner"
    and mw: "find (\<lambda>x. w_UserID x = owner \<and> w_Currency x = ''DD$'' \<and> w_deleted_at x = None) (wallets (w_db v)) = Some x"
    and soon: "\<And>p. ParseURI E (pd_QRPayload d) = Inr p \<Longrightarrow> clock E (w_calls w) < qp_ExpiresAt p"
  obtains p m r where "ParseURI E (pd_QRPayload d) = Inr p"
    "admit E (server_merchants E key) payer (pd_QRPayload d) w = (Inr (p, m, w_ID x, r), w\<lparr>w_calls := w_calls w + 4\<rparr>)"
    "qp_AmountCents p = ci_AmountCents input" "char_count (qp_Reference p) \<le> 64" "qp_ExpiresAt p \<le> pr_ExpiresAt r"
    "pr_QRPayload r = pd_QRPayload d" "pr_Status r = PRPending"
    "w_db w = (w_db v)\<lparr>payment_requests := payment_requests (w_db v) @ [r]\<rparr>"
proof -
  from created obtain m n u t where m: "find (\<lambda>m. m_UserID m = owner) (merchants (w_db v)) = Some m" "m_IsActive m" "n = Suc (w_calls v)"
    and q: "pd_QRPayload d = BuildURI E (m_ID m) (ci_AmountCents input) (ci_Reference input) (ci_Description input)
       (time_Add (clock E n) (ci_ExpirySecs input * second)) key"
    and v1: "w_db v1 = (w_db v)\<lparr>payment_requests := payment_requests (w_db v) @
       [request_row (m_ID m) input (pd_QRPayload d) (time_Add (clock E n) (ci_ExpirySecs input * second)) u t]\<rparr>"
    and pos: "0 < sint (ci_AmountCents input)" and fit: "char_count (ci_Reference input) \<le> 64" and nv: "n \<le> w_calls v1"
    by (rule CreatePaymentRequest_Inr)
  define e where "e = time_Add (clock E n) (ci_ExpirySecs input * second)"
  define r where "r = request_row (m_ID m) input (pd_QRPayload d) e u t"
  define p where "p = \<lparr>qp_MerchantID = m_ID m, qp_AmountCents = ci_AmountCents input, qp_Reference = ci_Reference input,
    qp_Description = ci_Description input, qp_ExpiresAt = truncated e,
    qp_Signature = qr_sign key (uuid_String E (m_ID m)) (FormatInt (ci_AmountCents input)) (FormatInt (Unix64 e))\<rparr>"
  note m' = find_Some_in [OF m(1)]
  have db: "w_db w = (w_db v)\<lparr>payment_requests := payment_requests (w_db v) @ [r]\<rparr>" using same v1 by (simp add: r_def e_def)
  have "unix_in_range e" unfolding e_def using expiry_in_range [OF time [OF nv] expiry] .
  then have parse: "ParseURI E (pd_QRPayload d) = Inr p"
    using ParseURI_built [OF lib pos] by (simp add: q p_def e_def)
  have adm: "admit E (server_merchants E key) payer (pd_QRPayload d) w = (Inr (p, m, w_ID x, r), w\<lparr>w_calls := w_calls w + 4\<rparr>)"
  proof (rule admit_up [OF up parse])
    show "Verify E p key (now E w) = None"
      using soon [OF parse] by (simp add: Verify_def Let_def p_def Unix64_truncated now_def)
    show "find (\<lambda>x. m_ID x = qp_MerchantID p) (merchants (w_db w)) = Some m"
      using m' keys by (intro find_unique) (auto simp: db p_def distinct_map inj_on_def)
    show "find (\<lambda>x. w_UserID x = m_UserID m \<and> w_Currency x = ''DD$'' \<and> w_deleted_at x = None) (wallets (w_db w)) = Some x"
      using mw m' by (simp add: db)
    show "length (pending_of (qp_MerchantID p) (w_db w)) \<le> 100"
      using few [rule_format, of "m_ID m"] by (simp add: pending_of_def db p_def count_where_def matches_pending r_def)
    show "r \<in> set (pending_of (qp_MerchantID p) (w_db w))" by (simp add: set_pending_of db p_def r_def)
    show "y = r" if "y \<in> set (payment_requests (w_db w))" "pr_QRPayload y = pd_QRPayload d" for y using that new by (auto simp: db)
  qed (use m m' payer in \<open>simp_all add: r_def\<close>)
  show thesis
    by (rule that [OF parse adm]) (use fit truncated_timestamptz [of e] in \<open>simp_all add: p_def r_def db\<close>)
qed

lemma created_request_paid:
  assumes created: "CreatePaymentRequest E (server_merchants E key) owner input v = (Inr d, v1)" and same: "w_db w = w_db v1"
    and lib: "uuid_lib_ok E" and calm: "calm 13 E w" and books: "books (w_db w)" "money_supply (w_db w) < 2 ^ 63"
    and expiry: "0 < sint (ci_ExpirySecs input)" "sint (ci_ExpirySecs input) < 2 ^ 33"
    and time: "\<And>n. n \<le> w_calls v1 \<Longrightarrow> 0 \<le> clock E n \<and> clock E n < 2 ^ 62"
    and new: "\<forall>r \<in> set (payment_requests (w_db v)). pr_QRPayload r \<noteq> pd_QRPayload d"
    and few: "\<forall>i. count_where (\<lambda>r. pr_MerchantID r = i \<and> pr_Status r = PRPending) (payment_requests (w_db v)) < 100"
    and keys: "distinct (map m_ID (merchants (w_db v)))" and payer: "payer \<noteq> owner"
    and mw: "find (\<lambda>x. w_UserID x = owner \<and> w_Currency x = ''DD$'' \<and> w_deleted_at x = None) (wallets (w_db v)) = Some x"
    and spec: "transfer_spec a (w_ID x) (sint (ci_AmountCents input)) (abs_ledger (w_db v)) = Inr l"
    and idem: "k \<noteq> ''''" "char_count k \<le> 128" "\<forall>t \<in> set (transactions (w_db v)). t_IdempotencyKey t \<noteq> Some k"
    and run: "PayViaQR E (server_merchants E key) payer a k (pd_QRPayload d) w = (res, w')"
    and soon: "\<And>p n. ParseURI E (pd_QRPayload d) = Inr p \<Longrightarrow> n \<le> max (w_calls w) (w_calls w') \<Longrightarrow> clock E n < qp_ExpiresAt p"
  shows "\<exists>resp. res = Inr resp \<and> py_AmountCents resp = ci_AmountCents input \<and> abs_ledger (w_db w') = l \<and>
    (\<exists>r \<in> set (payment_requests (w_db w')). pr_QRPayload r = pd_QRPayload d \<and> pr_Status r = PRPaid \<and> pr_PaidByWalletID r = Some a \<and>
       (\<exists>t \<in> set (transactions (w_db w')). pr_TransactionID r = Some (t_ID t)))"
proof -
  have up: "\<And>n. fate E n = Up" using calm by (simp add: calm_def)
  obtain p m r where parse: "ParseURI E (pd_QRPayload d) = Inr p"
    and adm: "admit E (server_merchants E key) payer (pd_QRPayload d) w = (Inr (p, m, w_ID x, r), w\<lparr>w_calls := w_calls w + 4\<rparr>)"
    and p: "qp_AmountCents p = ci_AmountCents input" "char_count (qp_Reference p) \<le> 64" "qp_ExpiresAt p \<le> pr_ExpiresAt r"
    and r: "pr_QRPayload r = pd_QRPayload d" "pr_Status r = PRPending"
    and db: "w_db w = (w_db v)\<lparr>payment_requests := payment_requests (w_db v) @ [r]\<rparr>"
    by (rule created_admitted [OF created same lib up expiry time new few keys payer mw]) (use soon in auto)
  have sp: "transfer_spec a (w_ID x) (sint (qp_AmountCents p)) (abs_ledger (w_db w)) = Inr l"
    using spec money_abs [of "w_db w" "w_db v"] by (simp add: p db money_def)
  have "(\<exists>resp. res = Inr resp \<and> py_AmountCents resp = qp_AmountCents p) \<and>
    (\<exists>r' \<in> set (payment_requests (w_db w')). pr_ID r' = pr_ID r \<and> pr_QRPayload r' = pr_QRPayload r \<and> pr_Status r' = PRPaid \<and>
       pr_PaidByWalletID r' = Some a \<and> (\<exists>t \<in> set (transactions (w_db w')). pr_TransactionID r' = Some (t_ID t)))"
  proof (rule PayViaQR_up [OF calm books idem(2) _ _ idem(1) adm sp _ _ run])
    show "clock E i < pr_ExpiresAt r" if "i \<le> w_calls w'" for i
      using soon [OF parse, of i] that p(3) by (simp add: le_max_iff_disj)
  qed (use p r idem in \<open>simp_all add: db\<close>)
  then obtain resp r' where ok: "res = Inr resp" "py_AmountCents resp = qp_AmountCents p"
    "r' \<in> set (payment_requests (w_db w'))" "pr_QRPayload r' = pr_QRPayload r" "pr_Status r' = PRPaid"
    "pr_PaidByWalletID r' = Some a" "\<exists>t \<in> set (transactions (w_db w')). pr_TransactionID r' = Some (t_ID t)" by blast
  have "abs_ledger (w_db w') = l"
    using mc.PayViaQR_answer [OF run [unfolded ok(1)] books(1)] adm sp by auto
  with ok show ?thesis by (intro exI [of _ resp]) (auto simp: p r)
qed

end
