(* ===== verification/Merchant_Claims.thy ===== *)
theory Merchant_Claims
  imports Merchant_Up
begin

text \<open>
  What the payment of a QR code guarantees, with the ledger, the repository and the publisher of the server.
\<close>

section \<open>A shop\<close>

text \<open>Bob's shop: a merchant profile in the installation where Alice has received money, and a clock that stands still.\<close>

definition steady_env :: env where
  "steady_env = sample_env\<lparr>clock := (\<lambda>_. 2000000000000)\<rparr>"

definition shop_db :: database where
  "shop_db = funded_db\<lparr>merchants := [\<lparr>m_ID = UUID 7, m_UserID = bob_id, m_BusinessName = ''Tea'', m_BusinessType = None,
     m_WebhookURL = None, m_APIKeyHash = ''h'', m_APIKeyPrefix = ''p'', m_IsActive = True, m_CreatedAt = 0, m_UpdatedAt = 0\<rparr>]\<rparr>"

definition shop_world :: "world" where
  "shop_world = funded_world\<lparr>w_db := shop_db\<rparr>"

definition shop_input :: CreatePaymentRequestInput where
  "shop_input = \<lparr>ci_AmountCents = 1200, ci_Reference = ''tea'', ci_Description = '''', ci_ExpirySecs = 900\<rparr>"

definition shop_payload :: string where
  "shop_payload = BuildURI steady_env (UUID 7) 1200 ''tea'' '''' (time_Add 2000000000000 (900 * second)) ''key''"

definition shop_after :: "world" where
  "shop_after = shop_world\<lparr>w_calls := 10, w_db := shop_db\<lparr>payment_requests :=
     [request_row (UUID 7) shop_input shop_payload (time_Add 2000000000000 (900 * second)) (UUID 109) 2000000000000]\<rparr>\<rparr>"

lemma steady_simps [simp]: "fate steady_env n = Up" "clock steady_env n = 2000000000000"
  "draw_uuid steady_env n = UUID (word_of_nat (n + 100))"
  by (simp_all add: steady_env_def sample_env_def)

lemma steady_lib: "uuid_lib_ok steady_env"
  using sample_env_uuid by (simp add: uuid_lib_ok_def steady_env_def)

lemma shop_expiry: "time_Add 2000000000000 (900 * second) = 2900000000000"
  by (simp add: time_Add_def second_def)

lemma shop_db_simps [simp]:
  "merchants shop_db = [\<lparr>m_ID = UUID 7, m_UserID = bob_id, m_BusinessName = ''Tea'', m_BusinessType = None,
     m_WebhookURL = None, m_APIKeyHash = ''h'', m_APIKeyPrefix = ''p'', m_IsActive = True, m_CreatedAt = 0, m_UpdatedAt = 0\<rparr>]"
  "payment_requests shop_db = []"
  by (simp_all add: shop_db_def funded_db_def sample_db_def empty_db_def)

lemma shop_created:
  "\<exists>d. CreatePaymentRequest steady_env (server_merchants steady_env ''key'') bob_id shop_input shop_world = (Inr d, shop_after) \<and>
     pd_QRPayload d = shop_payload"
  by (simp add: CreatePaymentRequest_def io_run sql_def Let_def Merchant_FindByUserID_def select_merchant_def
      Repo_CreatePaymentRequest_def insert_payment_request_def shop_world_def funded_world_def sample_world_def fits_def nonempty_def
      char_count_def shop_input_def toDetail_def now_def shop_payload_def shop_expiry timestamptz_def shop_after_def request_row_def)

lemma shop_money: "money (w_db shop_after) = money (w_db funded_world)" "money shop_db = money (w_db funded_world)"
  by (simp_all add: shop_after_def shop_world_def shop_db_def money_def funded_world_def)

lemma shop_books: "books (w_db shop_after)" "money_supply (w_db shop_after) < 2 ^ 63"
  using books_funded money_books [OF shop_money(1)] money_supply_cong [OF shop_money(1)]
  by (simp_all add: funded_world_def funded_db_def money_supply_def sample_wallet_def)

lemma shop_calm: "calm 13 steady_env shop_after"
  by (simp add: calm_def shop_after_def shop_world_def funded_world_def shop_db_def funded_db_def sample_db_def empty_db_def used_ids_def
      Let_def upt_conv_Cons)

lemma shop_spec: "transfer_spec alice_wallet bob_wallet 1200 (abs_ledger shop_db) =
    Inr ((abs_ledger shop_db)(alice_wallet := Some (3800, False), bob_wallet := Some (1200, False)))"
  by (simp add: money_abs [OF shop_money(2)]) (simp add: transfer_spec_def abs_ledger_def live_wallet_def funded_world_def funded_db_def sample_wallet_def)

lemma shop_rows: "w_db shop_world = shop_db" "wallets shop_db = wallets (w_db funded_world)" "transactions shop_db = transactions (w_db funded_world)"
  using shop_money(2) by (simp_all add: shop_world_def money_def)

lemma shop_keys: "\<forall>t \<in> set (transactions (w_db shop_world)). t_IdempotencyKey t \<noteq> Some ''k''"
  by (simp add: shop_rows funded_world_def funded_db_def)

lemma shop_payee: "find (\<lambda>x. w_UserID x = bob_id \<and> w_Currency x = ''DD$'' \<and> w_deleted_at x = None) (wallets (w_db shop_world)) =
    Some (sample_wallet bob_wallet bob_id)"
  by (simp add: shop_rows funded_world_def funded_db_def sample_wallet_def)

lemma shop_soon: "ParseURI steady_env shop_payload = Inr p \<Longrightarrow> clock steady_env n < qp_ExpiresAt p"
  using ParseURI_built [OF steady_lib, of 1200 2900000000000 "UUID 7" "''tea''" "''''" "''key''"]
  by (auto simp: shop_payload_def shop_expiry unix_in_range_def Unix_def int64_ok_def truncated_def)

lemma shop_pay:
  assumes "PayViaQR steady_env (server_merchants steady_env ''key'') alice_id alice_wallet ''k'' shop_payload shop_after = (res, w')"
  shows "\<exists>resp. res = Inr resp"
proof -
  obtain d where d: "CreatePaymentRequest steady_env (server_merchants steady_env ''key'') bob_id shop_input shop_world = (Inr d, shop_after)"
    "pd_QRPayload d = shop_payload" using shop_created by blast
  have time: "0 \<le> clock steady_env n \<and> clock steady_env n < 2 ^ 62" for n by simp
  have run: "PayViaQR steady_env (server_merchants steady_env ''key'') alice_id alice_wallet ''k'' (pd_QRPayload d) shop_after = (res, w')"
    using assms d(2) by simp
  show ?thesis
    using created_request_paid [OF d(1) refl steady_lib shop_calm shop_books _ _ time _ _ _ _ shop_payee _ _ _ shop_keys run]
      shop_spec shop_soon d(2)
    by (auto simp: shop_input_def shop_world_def sample_wallet_def count_where_def char_count_def)
qed

section \<open>The properties\<close>

text \<open>C25: A QR payment is accepted only for a URI that carries the signature of the service's key and has not
  expired, of an active merchant other than the payer; and then it has moved exactly the signed amount from
  the payer's wallet to a wallet of the merchant, and reports the payer's new balance.\<close>

theorem QR_payment_sound:
  assumes "PayViaQR E (server_merchants E key) payer a k payload w = (Inr resp, w')" and "books (w_db w)"
  shows "\<exists>params m mw. ParseURI E payload = Inr params \<and> Verify E params key (now E w) = None \<and>
    m \<in> set (merchants (w_db w)) \<and> m_ID m = qp_MerchantID params \<and> m_IsActive m \<and> m_UserID m \<noteq> payer \<and>
    (\<exists>x \<in> set (wallets (w_db w)). w_ID x = mw \<and> w_UserID x = m_UserID m \<and> w_Currency x = ''DD$'' \<and> w_deleted_at x = None) \<and>
    (\<exists>pr \<in> set (payment_requests (w_db w)). pr_QRPayload pr = payload \<and> pr_Status pr = PRPending) \<and>
    transfer_spec a mw (sint (qp_AmountCents params)) (abs_ledger (w_db w)) = Inr (abs_ledger (w_db w')) \<and>
    abs_ledger (w_db w') a = Some (sint (py_NewBalanceCents resp), False) \<and> py_AmountCents resp = qp_AmountCents params"
proof -
  from mc.PayViaQR_answer [OF assms] obtain params m mw pr w1 where
    a: "admit E (server_merchants E key) payer payload w = (Inr (params, m, mw, pr), w1)" and
    b: "transfer_spec a mw (sint (qp_AmountCents params)) (abs_ledger (w_db w)) = Inr (abs_ledger (w_db w'))"
      "abs_ledger (w_db w') a = Some (sint (py_NewBalanceCents resp), False)" "py_AmountCents resp = qp_AmountCents params"
    by blast
  from mc.admit_sound [OF a] b show ?thesis
    by (intro exI [of _ params] exI [of _ m] exI [of _ mw]) auto
qed

theorem QR_payment_sound_witness:
  "\<exists>resp w' params m mw. PayViaQR steady_env (server_merchants steady_env ''key'') alice_id alice_wallet ''k'' shop_payload shop_after = (Inr resp, w') \<and>
    ParseURI steady_env shop_payload = Inr params \<and> Verify steady_env params ''key'' (now steady_env shop_after) = None \<and>
    m \<in> set (merchants shop_db) \<and> m_ID m = qp_MerchantID params \<and>
    transfer_spec alice_wallet mw (sint (qp_AmountCents params)) (abs_ledger (w_db shop_after)) = Inr (abs_ledger (w_db w'))"
proof -
  obtain res w' where run: "PayViaQR steady_env (server_merchants steady_env ''key'') alice_id alice_wallet ''k'' shop_payload shop_after = (res, w')"
    by fastforce
  with shop_pay obtain resp where "res = Inr resp" by blast
  with run have ok: "PayViaQR steady_env (server_merchants steady_env ''key'') alice_id alice_wallet ''k'' shop_payload shop_after = (Inr resp, w')"
    by simp
  have "merchants (w_db shop_after) = merchants shop_db" by (simp add: shop_after_def)
  with QR_payment_sound [OF ok shop_books(1)] ok show ?thesis by metis
qed

text \<open>C26: Whatever call fails or loses its reply, a QR payment keeps the books balanced and creates no money;
  and one that answers with an error has moved none, unless the reply of the commit was lost.\<close>

theorem QR_payment_keeps_books:
  assumes "books (w_db w)" and "PayViaQR E (server_merchants E key) payer a k payload w = (res, w')"
  shows "books (w_db w') \<and> money_supply (w_db w') = money_supply (w_db w) \<and>
    (\<forall>e. res = Inl e \<and> e \<noteq> Wrap ''commit transfer'' Driver \<longrightarrow> abs_ledger (w_db w') = abs_ledger (w_db w) \<and>
       transactions (w_db w') = transactions (w_db w))"
proof -
  have "abs_ledger (w_db w') = abs_ledger (w_db w) \<and> transactions (w_db w') = transactions (w_db w)"
    if "res = Inl e" "e \<noteq> Wrap ''commit transfer'' Driver" for e
  proof -
    have "money (w_db w') = money (w_db w)" by (rule mc.PayViaQR_error [OF assms(2) [unfolded that(1)] that(2)])
    then show ?thesis using money_abs [of "w_db w'" "w_db w"] by (simp add: money_def)
  qed
  moreover note mc.PayViaQR_books [OF assms]
  ultimately show ?thesis by simp
qed

theorem QR_payment_keeps_books_witness:
  "\<exists>res w'. PayViaQR steady_env (server_merchants steady_env ''key'') alice_id alice_wallet ''k'' shop_payload shop_after = (res, w') \<and>
    books (w_db w') \<and> money_supply (w_db w') = 5000"
proof -
  obtain res w' where run: "PayViaQR steady_env (server_merchants steady_env ''key'') alice_id alice_wallet ''k'' shop_payload shop_after = (res, w')"
    by fastforce
  have "money_supply (w_db shop_after) = 5000"
    using money_supply_cong [OF shop_money(1)] by (simp add: funded_world_def funded_db_def money_supply_def sample_wallet_def)
  with QR_payment_keeps_books [OF shop_books(1) run] run show ?thesis by metis
qed

text \<open>C27: A payment request that is paid, cancelled or expired cannot be paid: when no pending request has the
  scanned payload, the payment is refused with an error, and no table is changed, whatever fails.\<close>

theorem closed_request_not_payable:
  assumes "\<forall>pr \<in> set (payment_requests (w_db w)). pr_QRPayload pr = payload \<longrightarrow> pr_Status pr \<noteq> PRPending"
  shows "\<exists>e. fst (PayViaQR E (server_merchants E key) payer a k payload w) = Inl e \<and>
    w_db (snd (PayViaQR E (server_merchants E key) payer a k payload w)) = w_db w"
proof -
  obtain res w' where run: "PayViaQR E (server_merchants E key) payer a k payload w = (res, w')" by fastforce
  then show ?thesis
  proof (cases rule: PayViaQR_cases)
    case away
    then show ?thesis using run mc.admit_db by fastforce
  next
    case (refused params m mw pr w1 e)
    with assms mc.admit_sound(8-10) [OF refused(1)] show ?thesis by blast
  next
    case (replayed params m mw pr w1 r e)
    with assms mc.admit_sound(8-10) [OF replayed(1)] show ?thesis by blast
  next
    case (paid params m mw pr w1 r w2)
    with assms mc.admit_sound(8-10) [OF paid(1)] show ?thesis by blast
  qed
qed

theorem closed_request_not_payable_witness:
  "\<exists>e. fst (PayViaQR steady_env (server_merchants steady_env ''key'') alice_id alice_wallet ''k'' shop_payload shop_world) = Inl e \<and>
    w_db (snd (PayViaQR steady_env (server_merchants steady_env ''key'') alice_id alice_wallet ''k'' shop_payload shop_world)) = shop_db"
  using closed_request_not_payable [of shop_world shop_payload steady_env "''key''" alice_id alice_wallet "''k''"]
  by (simp add: shop_world_def)

text \<open>C28: When no call fails, a payment request that a merchant has just created can be paid by anyone else who can
  afford it before the expiry in its QR code: scanning the payload moves exactly the requested amount to the
  merchant's wallet, and the request is then marked as paid by the payer's wallet with a transaction of the table.\<close>

theorem created_request_can_be_paid:
  assumes created: "CreatePaymentRequest E (server_merchants E key) owner input v = (Inr d, v1)" and same: "w_db w = w_db v1"
    and lib: "uuid_lib_ok E" and calm: "calm 13 E w" and books: "books (w_db w)" "money_supply (w_db w) < 2 ^ 63"
    and expiry: "0 < sint (ci_ExpirySecs input)" "sint (ci_ExpirySecs input) < 2 ^ 33"
    and time: "\<And>n. n \<le> w_calls v1 \<Longrightarrow> 0 \<le> clock E n \<and> clock E n < 2 ^ 62"
    and new: "\<forall>r \<in> set (payment_requests (w_db v)). pr_QRPayload r \<noteq> pd_QRPayload d"
    and few: "\<forall>i. count_where (\<lambda>r. pr_MerchantID r = i \<and> pr_Status r = PRPending) (payment_requests (w_db v)) < 100"
    and keys: "distinct (map m_ID (merchants (w_db v)))" and payer: "payer \<noteq> owner"
    and mw: "find (\<lambda>x. w_UserID x = owner \<and> w_Currency x = ''DD$'' \<and> w_deleted_at x = None) (wallets (w_db v)) = Some x"
    and spec: "transfer_spec a (w_ID x) (sint (ci_AmountCents input)) (abs_ledger (w_db v)) = Inr l"
    and idem: "k \<noteq> ''''" "char_count k \<le> 128" "\<forall>t \<in> set (transactions (w_db v)). t_IdempotencyKey t \<noteq> Some k"
    and run: "PayViaQR E (server_merchants E key) payer a k (pd_QRPayload d) w = (res, w')"
    and soon: "\<And>p n. ParseURI E (pd_QRPayload d) = Inr p \<Longrightarrow> n \<le> max (w_calls w) (w_calls w') \<Longrightarrow> clock E n < qp_ExpiresAt p"
  shows "\<exists>resp. res = Inr resp \<and> py_AmountCents resp = ci_AmountCents input \<and> abs_ledger (w_db w') = l \<and>
    (\<exists>r \<in> set (payment_requests (w_db w')). pr_QRPayload r = pd_QRPayload d \<and> pr_Status r = PRPaid \<and> pr_PaidByWalletID r = Some a \<and>
       (\<exists>t \<in> set (transactions (w_db w')). pr_TransactionID r = Some (t_ID t)))"
  by (rule created_request_paid [OF assms])

theorem created_request_can_be_paid_witness:
  "\<exists>d resp w'. CreatePaymentRequest steady_env (server_merchants steady_env ''key'') bob_id shop_input shop_world = (Inr d, shop_after) \<and>
    PayViaQR steady_env (server_merchants steady_env ''key'') alice_id alice_wallet ''k'' (pd_QRPayload d) shop_after = (Inr resp, w') \<and>
    abs_ledger (w_db w') alice_wallet = Some (3800, False) \<and> abs_ledger (w_db w') bob_wallet = Some (1200, False)"
proof -
  obtain d where d: "CreatePaymentRequest steady_env (server_merchants steady_env ''key'') bob_id shop_input shop_world = (Inr d, shop_after)"
    "pd_QRPayload d = shop_payload" using shop_created by blast
  obtain res w' where run: "PayViaQR steady_env (server_merchants steady_env ''key'') alice_id alice_wallet ''k'' (pd_QRPayload d) shop_after = (res, w')"
    by fastforce
  have time: "0 \<le> clock steady_env n \<and> clock steady_env n < 2 ^ 62" for n by simp
  from created_request_can_be_paid [OF d(1) refl steady_lib shop_calm shop_books _ _ time _ _ _ _ shop_payee _ _ _ shop_keys run]
    shop_spec shop_soon d(2)
  obtain resp where "res = Inr resp"
    "abs_ledger (w_db w') = (abs_ledger shop_db)(alice_wallet := Some (3800, False), bob_wallet := Some (1200, False))"
    by (auto simp: shop_input_def shop_world_def sample_wallet_def count_where_def char_count_def)
  with d run show ?thesis by fastforce
qed


text \<open>The event of a QR payment names no wallet, so with Redis up the subscriber drops it: the merchant is not told.\<close>

lemma QR_event_dropped:
  assumes "uuid_Parse E '''' = None" and "fate E (w_calls w) = Up"
  shows "w_events (snd (Publish E True u (qr_event E x amt bal) w)) = w_events w"
  using assms by (simp add: Publish_def subscriber_route_def qr_event_def Let_def)

end
