(* ===== verification/Server.thy ===== *)
theory Server
  imports Middleware_Claims Payment_Claims Admin_Claims Auth_Claims Wallet_Claims Merchant_Claims
begin

text \<open>
  \<open>cmd/server/main.go\<close> and the upgrade of \<open>internal/websocket/handler.go\<close>: configuration from the process
  environment, the table of the routes with the middleware around each, and \<open>serve\<close>, the answer to one request.
  The router, its standard middleware, the CORS middleware and the WebSocket upgrade are other packages: the
  record \<open>server\<close> holds them as parameters. Which of the routes a request meets is the router's choice
  (\<open>sv_match\<close>); the theorems hold for every choice.
\<close>

section \<open>What the process is given\<close>

text \<open>
  \<open>sv_incoming\<close> is \<open>RequestID\<close> and \<open>RealIP\<close>; \<open>sv_cors\<close> writes its headers and tells whether it has answered
  the request itself (a preflight); \<open>sv_unrouted\<close> is the router's answer to an unknown path or method;
  \<open>sv_upgrade\<close> is the upgrade, which writes its own answer and may fail; \<open>sv_driver_text\<close> the text of a failed
  ping. \<open>sv_inf_int\<close>, \<open>sv_collation\<close>, \<open>sv_auth\<close> are the parameters of the components.
\<close>

record server =
  sv_env :: env
  sv_auth :: auth_lib
  sv_collation :: collation
  sv_inf_int :: int64
  sv_getenv :: "string \<Rightarrow> string"
  sv_version :: string
  sv_match :: "(string \<times> string) list \<Rightarrow> string \<Rightarrow> string \<Rightarrow> (nat \<times> (string \<times> string) list) option"
  sv_incoming :: "request \<Rightarrow> request"
  sv_cors :: "string \<Rightarrow> string \<Rightarrow> request \<Rightarrow> writer \<Rightarrow> writer \<times> bool"
  sv_unrouted :: "request \<Rightarrow> writer \<Rightarrow> writer"
  sv_upgrade :: "request \<Rightarrow> writer \<Rightarrow> writer \<times> bool"
  sv_driver_text :: string

section \<open>Configuration\<close>

definition getEnv :: "server \<Rightarrow> string \<Rightarrow> string \<Rightarrow> string" where
  "getEnv S key defaultVal = (let val = sv_getenv S key in if val \<noteq> '''' then val else defaultVal)"

text \<open>\<open>None\<close>: the process exits.\<close>

definition mustEnv :: "server \<Rightarrow> string \<Rightarrow> string option" where
  "mustEnv S key = (let val = sv_getenv S key in if val = '''' then None else Some val)"

definition parseDuration :: "string \<Rightarrow> int64 \<Rightarrow> int64" where
  "parseDuration s defaultSecs =
    (case ParseInt s of
       None \<Rightarrow> defaultSecs * second
     | Some n \<Rightarrow> if sint n \<le> 0 then defaultSecs * second else n * second)"

definition accessTTL :: "server \<Rightarrow> int64" where
  "accessTTL S = parseDuration (getEnv S ''JWT_ACCESS_TTL_SECONDS'' ''900'') 900"

definition refreshTTL :: "server \<Rightarrow> int64" where
  "refreshTTL S = parseDuration (getEnv S ''JWT_REFRESH_TTL_SECONDS'' ''604800'') 604800"

definition allowedOrigin :: "server \<Rightarrow> string" where
  "allowedOrigin S = getEnv S ''ALLOWED_ORIGIN'' ''http://localhost:3000''"

definition secureCookies :: "server \<Rightarrow> bool" where
  "secureCookies S \<longleftrightarrow> getEnv S ''APP_ENV'' ''development'' = ''production''"

text \<open>The three secrets without which the server does not start; the first two of the services are kept.\<close>

definition secrets :: "server \<Rightarrow> (string \<times> string) option" where
  "secrets S =
    Option.bind (mustEnv S ''DB_PASSWORD'') (\<lambda>_.
    Option.bind (mustEnv S ''JWT_SECRET'') (\<lambda>jwtSecret.
    Option.bind (mustEnv S ''SIGNING_KEY'') (\<lambda>signingKey. Some (jwtSecret, signingKey))))"

definition auth_config :: "server \<Rightarrow> string \<Rightarrow> Config" where
  "auth_config S jwtSecret = \<lparr>cfg_JWTSecret = jwtSecret, cfg_AccessTokenTTL = accessTTL S, cfg_RefreshTokenTTL = refreshTTL S,
     cfg_SigningKey = ''''\<rparr>"

definition auth_handlers :: "server \<Rightarrow> auth_handler" where
  "auth_handlers S = \<lparr>ah_refreshTTL = refreshTTL S, ah_secureCookies = secureCookies S\<rparr>"

section \<open>Public handlers\<close>

text \<open>The two pings; \<open>outcome_io\<close> keeps an error as a value.\<close>

definition ping :: "unit statement" where
  "ping u t d = Inr ((), d)"

definition db_HealthCheck :: "env \<Rightarrow> (world, unit) io" where
  "db_HealthCheck E = sql E None ping"

definition redis_HealthCheck :: "env \<Rightarrow> (world, unit) io" where
  "redis_HealthCheck E = redis_call E (\<lambda>t m. (Inr (), m))"

definition outcome_io :: "('s, 'a) io \<Rightarrow> ('s, bool) io" where
  "outcome_io m = catch_io m (\<lambda>err. ret False) (\<lambda>_. ret True)"

definition service_status :: "server \<Rightarrow> bool \<Rightarrow> string" where
  "service_status S up = (if up then ''ok'' else ''error: '' @ sv_driver_text S)"

definition health_body :: "server \<Rightarrow> bool \<Rightarrow> bool \<Rightarrow> gotime \<Rightarrow> json" where
  "health_body S db redis t = JObj
    [(''services'', JObj [(''database'', JStr (service_status S db)), (''redis'', JStr (service_status S redis))]),
     (''status'', JStr (if db \<and> redis then ''ok'' else ''degraded'')), (''timestamp'', JStr (format_RFC3339 t)),
     (''version'', JStr (sv_version S))]"

definition healthHandler :: "server \<Rightarrow> handler" where
  "healthHandler S r =
    (let E = sv_env S
     in on_result (bind_io (outcome_io (db_HealthCheck E)) (\<lambda>db. bind_io (outcome_io (redis_HealthCheck E)) (\<lambda>redis. ret (db, redis))))
          (\<lambda>err wr w. (wr, w))
          (\<lambda>(db, redis). reply E (\<lambda>t. JSON (if db \<and> redis then 200 else 503) (Some (health_body S db redis t)))))"

definition systemInfoHandler :: "server \<Rightarrow> handler" where
  "systemInfoHandler S r = reply (sv_env S) (\<lambda>t. OK (JObj
    [(''currency'', JStr ''DD$''), (''currency_name'', JStr ''DigitalDollar''),
     (''disclaimer'', JStr ''This is a sandbox simulator. No real money is involved.''),
     (''environment'', JStr (getEnv S ''APP_ENV'' ''development'')), (''version'', JStr (sv_version S))]))"

definition securityHeadersMiddleware :: middleware where
  "securityHeadersMiddleware next r wr =
    next r (Header_Set ''Permissions-Policy'' ''camera=self, microphone=(), geolocation=()''
      (Header_Set ''Referrer-Policy'' ''no-referrer''
      (Header_Set ''X-Frame-Options'' ''DENY''
      (Header_Set ''X-Content-Type-Options'' ''nosniff'' wr))))"

section \<open>The WebSocket upgrade\<close>

definition extractToken :: "request \<Rightarrow> string" where
  "extractToken r =
    (let auth = field ''Authorization'' (rq_Headers r)
     in if 7 < length auth \<and> take 7 auth = ''Bearer '' then drop 7 auth else field ''token'' (rq_Query r))"

text \<open>\<open>http.Error\<close>: a plain text, which the model keeps as a string.\<close>

definition http_Error :: "string \<Rightarrow> nat \<Rightarrow> writer \<Rightarrow> writer" where
  "http_Error msg status wr =
    (WriteHeader status (Header_Set ''X-Content-Type-Options'' ''nosniff''
      (Header_Set ''Content-Type'' ''text/plain; charset=utf-8'' wr)))\<lparr>wr_Body := Some (JStr msg)\<rparr>"

text \<open>
  The answer of \<open>ServeWS\<close>, with the wallet under which a client is registered with the hub (\<open>connect\<close>): none
  when the token is missing or refused, when the upgrade fails, or when the claim is no UUID.
\<close>

definition ServeWS :: "env \<Rightarrow> (string \<Rightarrow> (world, Claims) io) \<Rightarrow> (request \<Rightarrow> writer \<Rightarrow> writer \<times> bool) \<Rightarrow>
    request \<Rightarrow> writer \<Rightarrow> world \<Rightarrow> (writer \<times> uuid option) \<times> world" where
  "ServeWS E validate upgrade r wr w =
    (let tokenStr = extractToken r
     in if tokenStr = '''' then ((http_Error ''missing token'' 401 wr, None), w)
        else case validate tokenStr w of
          (Inl err, w1) \<Rightarrow> ((http_Error ''invalid token'' 401 wr, None), w1)
        | (Inr claims, w1) \<Rightarrow>
            (case upgrade r wr of
               (wr1, False) \<Rightarrow> ((wr1, None), w1)
             | (wr1, True) \<Rightarrow> ((wr1, uuid_Parse E (cl_WalletID claims)), w1)))"

definition websocket_handler :: "env \<Rightarrow> (string \<Rightarrow> (world, Claims) io) \<Rightarrow> (request \<Rightarrow> writer \<Rightarrow> writer \<times> bool) \<Rightarrow> handler" where
  "websocket_handler E validate upgrade r wr w = (case ServeWS E validate upgrade r wr w of ((wr1, _), w1) \<Rightarrow> (wr1, w1))"

text \<open>A client is registered for a wallet only with an accepted token that names it.\<close>

lemma ServeWS_registers:
  "ServeWS E validate upgrade r wr w = ((wr', Some u), w') \<Longrightarrow>
   \<exists>c. fst (validate (extractToken r) w) = Inr c \<and> uuid_Parse E (cl_WalletID c) = Some u"
  by (auto simp: ServeWS_def Let_def split: if_splits prod.splits sum.splits bool.splits)

section \<open>The routes\<close>

text \<open>
  A route is a method (\<open>*\<close> for a mount, which takes all), a pattern and the handler with the middleware of its
  groups around it. \<open>Mount\<close> puts a prefix before the patterns of a handler's \<open>Routes\<close> and the middleware around them;
  its last route is its own answer to what none of them match. The static route \<open>/payments/qr\<close> was added beside the mount.
\<close>

type_synonym route = "string \<times> string \<times> handler"

definition Mount :: "string \<Rightarrow> (handler \<Rightarrow> handler) \<Rightarrow> handler \<Rightarrow> route list \<Rightarrow> route list" where
  "Mount at gate unmatched rts = map (\<lambda>(m, pat, h). (m, at @ pat, gate h)) rts @ [(''*'', at @ ''/*'', gate unmatched)]"

definition auth_Routes :: "env \<Rightarrow> auth_lib \<Rightarrow> Config \<Rightarrow> auth_handler \<Rightarrow> route list" where
  "auth_Routes E L cfg h =
    [(''POST'', ''/register'', auth_register E L cfg h), (''POST'', ''/login'', auth_login E L cfg h),
     (''POST'', ''/logout'', auth_logout E h), (''POST'', ''/refresh'', auth_refresh E L cfg h)]"

definition wallet_Routes :: "env \<Rightarrow> collation \<Rightarrow> route list" where
  "wallet_Routes E C =
    (let s = server_wallets E C
     in [(''GET'', ''/search'', wallet_search E s), (''GET'', ''/{id}'', wallet_get E s),
         (''GET'', ''/{id}/balance'', wallet_getBalance E s), (''GET'', ''/{id}/transactions'', wallet_getTransactions E s)])"

definition admin_Routes :: "env \<Rightarrow> string \<Rightarrow> route list" where
  "admin_Routes E signingKey = [(''POST'', ''/issue-cbdc'', issueCBDC E (server_admin E signingKey))]"

definition payment_Routes :: "env \<Rightarrow> string \<Rightarrow> route list" where
  "payment_Routes E signingKey =
    (let s = server_payment E signingKey
     in [(''POST'', ''/send'', payment_send E s), (''GET'', ''/'', payment_list E s), (''GET'', ''/{id}'', payment_getByID E s)])"

definition MerchantRoutes :: "env \<Rightarrow> int64 \<Rightarrow> string \<Rightarrow> route list" where
  "MerchantRoutes E inf_int signingKey =
    (let s = server_merchants E signingKey
     in [(''POST'', ''/register'', merchant_register E s), (''GET'', ''/profile'', merchant_getProfile E s),
         (''POST'', ''/payment-requests'', merchant_createPaymentRequest E s),
         (''GET'', ''/payment-requests'', merchant_listPaymentRequests E inf_int s),
         (''GET'', ''/payment-requests/{id}'', merchant_getPaymentRequest E s),
         (''DELETE'', ''/payment-requests/{id}'', merchant_cancelPaymentRequest E s)])"

definition QRPayRoute :: "env \<Rightarrow> string \<Rightarrow> handler" where
  "QRPayRoute E signingKey = merchant_payViaQR E (server_merchants E signingKey)"

lemmas Routes_defs = auth_Routes_def wallet_Routes_def admin_Routes_def payment_Routes_def MerchantRoutes_def QRPayRoute_def Mount_def

definition validator :: "server \<Rightarrow> string \<Rightarrow> string \<Rightarrow> (world, Claims) io" where
  "validator S jwtSecret = ValidateAccessToken (sv_env S) (sv_auth S) (auth_config S jwtSecret)"

definition protected :: "server \<Rightarrow> string \<Rightarrow> middleware" where
  "protected S jwtSecret h =
    Authenticate (sv_env S) (validator S jwtSecret) (GeneralRateLimit (sv_env S) (IncrWithExpiry (sv_env S)) h)"

definition unrouted :: "server \<Rightarrow> handler" where
  "unrouted S r wr w = (sv_unrouted S r wr, w)"

definition auth_routes :: "server \<Rightarrow> string \<Rightarrow> route list" where
  "auth_routes S jwtSecret =
    Mount ''/api/v1/auth'' (AuthRateLimit (sv_env S) (IncrWithExpiry (sv_env S))) (unrouted S)
      (auth_Routes (sv_env S) (sv_auth S) (auth_config S jwtSecret) (auth_handlers S))"

definition wallet_routes :: "server \<Rightarrow> string \<Rightarrow> route list" where
  "wallet_routes S jwtSecret =
    Mount ''/api/v1/wallets'' (protected S jwtSecret) (unrouted S) (wallet_Routes (sv_env S) (sv_collation S))"

definition admin_routes :: "server \<Rightarrow> string \<Rightarrow> string \<Rightarrow> route list" where
  "admin_routes S jwtSecret signingKey =
    Mount ''/api/v1/admin'' (\<lambda>h. protected S jwtSecret (RequireAdmin (sv_env S) h)) (unrouted S) (admin_Routes (sv_env S) signingKey)"

definition payment_routes :: "server \<Rightarrow> string \<Rightarrow> string \<Rightarrow> route list" where
  "payment_routes S jwtSecret signingKey =
    Mount ''/api/v1/payments'' (protected S jwtSecret) (unrouted S) (payment_Routes (sv_env S) signingKey) @
    [(''POST'', ''/api/v1/payments/qr'', protected S jwtSecret (QRPayRoute (sv_env S) signingKey))]"

definition merchant_routes :: "server \<Rightarrow> string \<Rightarrow> string \<Rightarrow> route list" where
  "merchant_routes S jwtSecret signingKey =
    Mount ''/api/v1/merchant'' (\<lambda>h. protected S jwtSecret (RequireMerchant (sv_env S) h)) (unrouted S)
      (MerchantRoutes (sv_env S) (sv_inf_int S) signingKey)"

text \<open>The mounted lists, route by route.\<close>

lemma auth_routes_list:
  "auth_routes S jwtSecret =
    (let E = sv_env S; L = sv_auth S; cfg = auth_config S jwtSecret; h = auth_handlers S;
         limited = AuthRateLimit E (IncrWithExpiry E)
     in [(''POST'', ''/api/v1/auth/register'', limited (auth_register E L cfg h)),
         (''POST'', ''/api/v1/auth/login'', limited (auth_login E L cfg h)),
         (''POST'', ''/api/v1/auth/logout'', limited (auth_logout E h)),
         (''POST'', ''/api/v1/auth/refresh'', limited (auth_refresh E L cfg h)),
         (''*'', ''/api/v1/auth/*'', limited (unrouted S))])"
  by (simp add: auth_routes_def Routes_defs Let_def)

lemma wallet_routes_list:
  "wallet_routes S jwtSecret =
    (let E = sv_env S; s = server_wallets E (sv_collation S); gate = protected S jwtSecret
     in [(''GET'', ''/api/v1/wallets/search'', gate (wallet_search E s)),
         (''GET'', ''/api/v1/wallets/{id}'', gate (wallet_get E s)),
         (''GET'', ''/api/v1/wallets/{id}/balance'', gate (wallet_getBalance E s)),
         (''GET'', ''/api/v1/wallets/{id}/transactions'', gate (wallet_getTransactions E s)),
         (''*'', ''/api/v1/wallets/*'', gate (unrouted S))])"
  by (simp add: wallet_routes_def Routes_defs Let_def)

lemma admin_routes_list:
  "admin_routes S jwtSecret signingKey =
    (let E = sv_env S; s = server_admin E signingKey; gate = (\<lambda>h. protected S jwtSecret (RequireAdmin E h))
     in [(''POST'', ''/api/v1/admin/issue-cbdc'', gate (issueCBDC E s)),
         (''*'', ''/api/v1/admin/*'', gate (unrouted S))])"
  by (simp add: admin_routes_def Routes_defs Let_def)

lemma payment_routes_list:
  "payment_routes S jwtSecret signingKey =
    (let E = sv_env S; s = server_payment E signingKey; gate = protected S jwtSecret
     in [(''POST'', ''/api/v1/payments/send'', gate (payment_send E s)),
         (''GET'', ''/api/v1/payments/'', gate (payment_list E s)),
         (''GET'', ''/api/v1/payments/{id}'', gate (payment_getByID E s)),
         (''*'', ''/api/v1/payments/*'', gate (unrouted S)),
         (''POST'', ''/api/v1/payments/qr'', gate (merchant_payViaQR E (server_merchants E signingKey)))])"
  by (simp add: payment_routes_def Routes_defs Let_def)

lemma merchant_routes_list:
  "merchant_routes S jwtSecret signingKey =
    (let E = sv_env S; s = server_merchants E signingKey; gate = (\<lambda>h. protected S jwtSecret (RequireMerchant E h))
     in [(''POST'', ''/api/v1/merchant/register'', gate (merchant_register E s)),
         (''GET'', ''/api/v1/merchant/profile'', gate (merchant_getProfile E s)),
         (''POST'', ''/api/v1/merchant/payment-requests'', gate (merchant_createPaymentRequest E s)),
         (''GET'', ''/api/v1/merchant/payment-requests'', gate (merchant_listPaymentRequests E (sv_inf_int S) s)),
         (''GET'', ''/api/v1/merchant/payment-requests/{id}'', gate (merchant_getPaymentRequest E s)),
         (''DELETE'', ''/api/v1/merchant/payment-requests/{id}'', gate (merchant_cancelPaymentRequest E s)),
         (''*'', ''/api/v1/merchant/*'', gate (unrouted S))])"
  by (simp add: merchant_routes_def Routes_defs Let_def)

definition public_routes :: "server \<Rightarrow> route list" where
  "public_routes S =
    [(''GET'', ''/health'', healthHandler S),
     (''GET'', ''/api/v1/system/info'', systemInfoHandler S)]"

definition routes :: "server \<Rightarrow> string \<Rightarrow> string \<Rightarrow> route list" where
  "routes S jwtSecret signingKey =
    public_routes S @ auth_routes S jwtSecret @ wallet_routes S jwtSecret @ admin_routes S jwtSecret signingKey @
    payment_routes S jwtSecret signingKey @
    [(''GET'', ''/api/v1/ws'', protected S jwtSecret (websocket_handler (sv_env S) (validator S jwtSecret) (sv_upgrade S)))] @
    merchant_routes S jwtSecret signingKey"

section \<open>One request\<close>

definition dispatch :: "server \<Rightarrow> route list \<Rightarrow> string \<Rightarrow> string \<Rightarrow> handler" where
  "dispatch S rs method path r =
    (case sv_match S (map (\<lambda>(m, p, h). (m, p)) rs) method path of
       None \<Rightarrow> unrouted S r
     | Some (i, params) \<Rightarrow> if i < length rs then snd (snd (rs ! i)) (r\<lparr>rq_Params := params\<rparr>) else unrouted S r)"

definition serve :: "server \<Rightarrow> string \<Rightarrow> string \<Rightarrow> string \<Rightarrow> string \<Rightarrow> handler" where
  "serve S jwtSecret signingKey method path r wr =
    (let r1 = (sv_incoming S r)\<lparr>rq_UserID := None, rq_Role := None, rq_WalletID := None\<rparr>
     in case sv_cors S (allowedOrigin S) method r1 wr of
          (wr1, True) \<Rightarrow> (\<lambda>w. (wr1, w))
        | (wr1, False) \<Rightarrow> securityHeadersMiddleware (dispatch S (routes S jwtSecret signingKey) method path) r1 wr1)"

end
