(* ===== verification/System.thy ===== *)
theory System
  imports Server
begin

text \<open>
  What no request breaks. \<open>safe_accounts\<close> is the contract of a property of the tables that the statements of the
  accounts, sessions and the audit log keep; \<open>safe_tables\<close> adds those of the merchants and the transfer,
  \<open>safe_system\<close> the issuance. Each handler, middleware and route
  then keeps it, whatever fails in between, and so does any sequence of requests.
\<close>

section \<open>Statements, effects and handlers that keep a property of the tables\<close>

definition safe :: "(database \<Rightarrow> bool) \<Rightarrow> 'a statement \<Rightarrow> bool" where
  "safe P q \<longleftrightarrow> (\<forall>u t d a d'. P d \<longrightarrow> q u t d = Inr (a, d') \<longrightarrow> P d')"

lemma safe_leaves: "leaves f q \<Longrightarrow> safe (\<lambda>d. P (f d)) q"
  by (auto simp: safe_def leaves_def)

lemma safe_reads: "reads q \<Longrightarrow> safe P q"
  unfolding safe_def reads_def by metis

abbreviation kept :: "(database \<Rightarrow> bool) \<Rightarrow> (world, 'a) io \<Rightarrow> bool" where
  "kept P \<equiv> keeps (\<lambda>w. P (w_db w))"

named_theorems kept_intros \<open>effects and handlers that keep a property of the tables\<close>

lemmas [kept_intros] = keeps_ret keeps_throw keeps_get keeps_catch keeps_bind keeps_wrap keeps_ignore keeps_if
  keeps_case_option keeps_case_sum keeps_case_prod keeps_redis_call

lemma kept_sql: "safe P q \<Longrightarrow> kept P (sql E tx q)"
  by (rule sql_keeps) (auto simp: safe_def)

lemma kept_read [kept_intros]: "reads q \<Longrightarrow> kept P (sql E tx q)"
  by (intro kept_sql safe_reads)

lemma kept_read_only: "read_only m \<Longrightarrow> kept P m"
  by (simp add: keeps_def read_onlyD)

lemma kept_call [kept_intros]: "kept P (fresh_call)"
  by (simp add: keeps_def fresh_call_def)

lemma kept_Publish [kept_intros]: "kept P (Publish E redis u ev)"
  by (simp add: keeps_def)

lemma kept_webhook [kept_intros]: "kept P (fireWebhook E u i x n)"
  by (simp add: keeps_def fireWebhook_def)

text \<open>The remaining part of a handler, once it has looked at its request.\<close>

definition served :: "(database \<Rightarrow> bool) \<Rightarrow> (writer \<Rightarrow> world \<Rightarrow> writer \<times> world) \<Rightarrow> bool" where
  "served P g \<longleftrightarrow> (\<forall>wr w. P (w_db w) \<longrightarrow> P (w_db (snd (g wr w))))"

lemma served_reply [kept_intros]: "served P (reply E f)"
  by (simp add: served_def)

lemma served_on_result [kept_intros]:
  assumes "kept P m" and "\<And>e. served P (h e)" and "\<And>a. served P (k a)"
  shows "served P (on_result m h k)"
  using assms by (auto simp: served_def keeps_def on_result_def split: sum.splits prod.splits)

lemma served_if [kept_intros]: "served P g \<Longrightarrow> served P h \<Longrightarrow> served P (if b then g else h)"
  by simp

lemma served_cases [kept_intros]:
  "served P n \<Longrightarrow> (\<And>a. served P (f a)) \<Longrightarrow> served P (case x of None \<Rightarrow> n | Some a \<Rightarrow> f a)"
  "(\<And>e. served P (l e)) \<Longrightarrow> (\<And>a. served P (g a)) \<Longrightarrow> served P (case y of Inl e \<Rightarrow> l e | Inr a \<Rightarrow> g a)"
  "(\<And>a b. served P (h a b)) \<Longrightarrow> served P (case z of (a, b) \<Rightarrow> h a b)"
  by (auto split: option.splits sum.splits prod.splits)

lemma served_Authenticate [kept_intros]:
  assumes "\<And>r. served P (next r)"
  shows "served P (Authenticate E (ValidateAccessToken E' L cfg) next r)"
proof -
  have "P (w_db (snd (Authenticate E (ValidateAccessToken E' L cfg) next r wr w)))" if "P (w_db w)" for wr w
    using assms that unfolding tv.Authenticate_cases
    by (auto simp: served_def unauthorized_def split: option.splits sum.splits)
  then show ?thesis by (simp add: served_def)
qed

lemma served_RateLimit [kept_intros]:
  assumes "served P (next r)"
  shows "served P (RateLimit E (IncrWithExpiry E') cfg next r)"
proof -
  have "kept P (IncrWithExpiry E' k t)" for k t unfolding IncrWithExpiry_def by (intro kept_intros)
  moreover have "served P (\<lambda>wr. let wr1 = limit_headers cfg n wr
      in if sint (rl_Limit cfg) < sint n then too_many E cfg r wr1 else next r wr1)" for n
    using assms by (auto simp: served_def Let_def too_many_refuses)
  ultimately show ?thesis unfolding RateLimit_def using assms by (intro kept_intros) auto
qed

lemma served_RequireRole [kept_intros]: "served P (next r) \<Longrightarrow> served P (RequireRole E roles next r)"
  unfolding RequireRole_def by (intro kept_intros) auto

text \<open>Every route but the two of the administrators.\<close>

definition other_routes :: "server \<Rightarrow> string \<Rightarrow> string \<Rightarrow> route list" where
  "other_routes S secret key = public_routes S @ auth_routes S secret @ wallet_routes S secret @ payment_routes S secret key @
     [(''GET'', ''/api/v1/ws'', protected S secret (websocket_handler (sv_env S) (validator S secret) (sv_upgrade S)))] @
     merchant_routes S secret key"

lemma routes_split: "x \<in> set (routes S secret key) \<longleftrightarrow> x \<in> set (other_routes S secret key) \<or> x \<in> set (admin_routes S secret key)"
  by (auto simp: routes_def other_routes_def)

section \<open>The contracts\<close>

locale safe_accounts =
  fixes P :: "database \<Rightarrow> bool"
  assumes users: "safe P (insert_user email hash name role)" "safe P (update_failed_logins i)"
      "safe P (update_locked_until i until)" "safe P (clear_failed_logins i)"
    and new_wallet: "safe P (insert_wallet i)"
    and sessions: "safe P (insert_session E i hash agent ip until)" "safe P (revoke_where Q)" "safe P (delete_session hash)"
    and log: "safe P (insert_log E lp)"
begin

lemma log_kept [kept_intros]: "kept P (Log E lp)"
  unfolding Log_def by (intro kept_intros kept_sql log)

lemma idem_kept [kept_intros]: "kept P (Idem_Check E a k)" "kept P (Idem_Store E a k n j)"
  unfolding Idem_Check_def Idem_Store_def GetString_def SetNX_def by (intro kept_intros)+

subsection \<open>Accounts and sessions\<close>

lemma auth_repository [kept_intros]:
  "kept P (CreateUser E email hash name role)" "kept P (CreateWallet E i)" "kept P (FindUserByEmail E email)"
  "kept P (FindUserByID E i)" "kept P (FindWalletByUserID E i)" "kept P (IncrementFailedLogins E i)"
  "kept P (LockUser E i until)" "kept P (ResetFailedLogins E i)" "kept P (CreateSession E i hash agent ip until)"
  "kept P (FindSessionByTokenHash E hash)" "kept P (RevokeSession E hash)" "kept P (DeleteSession E hash)"
proof -
  have r: "reads (select_user Q)" "reads (select_primary_wallet j)" "reads (select_session h)" for Q j h
    by (auto simp: reads_def select_user_def select_primary_wallet_def select_session_def split: option.splits)
  show "kept P (CreateUser E email hash name role)" "kept P (CreateWallet E i)" "kept P (FindUserByEmail E email)"
    "kept P (FindUserByID E i)" "kept P (FindWalletByUserID E i)" "kept P (IncrementFailedLogins E i)"
    "kept P (LockUser E i until)" "kept P (ResetFailedLogins E i)" "kept P (CreateSession E i hash agent ip until)"
    "kept P (FindSessionByTokenHash E hash)" "kept P (RevokeSession E hash)" "kept P (DeleteSession E hash)"
    unfolding CreateUser_def CreateWallet_def FindUserByEmail_def FindUserByID_def FindWalletByUserID_def
      IncrementFailedLogins_def LockUser_def ResetFailedLogins_def CreateSession_def FindSessionByTokenHash_def
      RevokeSession_def DeleteSession_def
    by (intro kept_intros kept_sql users new_wallet sessions r)+
qed

lemma tokens_kept [kept_intros]:
  "kept P (GenerateSecureToken E)" "kept P (issueAccessToken E L cfg x i)" "kept P (issueRefreshToken E cfg i ip agent)"
  unfolding issueRefreshToken_def GenerateSecureToken_def issueAccessToken_def by (intro kept_intros)+

lemma auth_service [kept_intros]:
  "kept P (Register E L cfg rr ip agent)" "kept P (Login E L cfg lr ip agent)" "kept P (Logout E tok u ip)"
  "kept P (RefreshToken E L cfg tok ip agent)"
  unfolding Register_def Login_def login_tail_def Logout_def RefreshToken_def handleFailedLogin_def HashPassword_def Let_def
  by (intro kept_intros)+

lemma auth_handlers_kept [kept_intros]:
  "served P (auth_register E L cfg h r)" "served P (auth_login E L cfg h r)" "served P (auth_logout E h r)"
  "served P (auth_refresh E L cfg h r)"
  unfolding auth_register_def auth_login_def auth_logout_def auth_refresh_def handleServiceError_def Let_def
  by (intro kept_intros)+

lemma public_kept [kept_intros]: "served P (healthHandler S r)" "served P (systemInfoHandler S r)" "served P (unrouted S r)"
proof -
  have ping: "reads ping" by (simp add: reads_def ping_def)
  have quiet: "served P (\<lambda>wr w. (wr, w))" by (simp add: served_def)
  show "served P (healthHandler S r)" "served P (systemInfoHandler S r)" "served P (unrouted S r)"
    unfolding healthHandler_def systemInfoHandler_def unrouted_def Let_def outcome_io_def db_HealthCheck_def redis_HealthCheck_def
    by (intro kept_intros ping quiet | simp add: served_def)+
qed

text \<open>The routes that need no token.\<close>

lemma open_routes_kept:
  assumes "(m, pat, h) \<in> set (public_routes S @ auth_routes S secret)"
  shows "served P (h r)"
proof -
  have "list_all (\<lambda>(m, pat, h). \<forall>r. served P (h r)) (public_routes S @ auth_routes S secret)"
    unfolding public_routes_def auth_routes_list Let_def AuthRateLimit_def list_all_append list.pred_inject prod.case
    by (intro conjI allI list.pred_inject(1) kept_intros)
  then have "\<forall>x \<in> set (public_routes S @ auth_routes S secret). case x of (m, pat, h) \<Rightarrow> \<forall>r. served P (h r)"
    by (simp only: list_all_iff)
  from bspec [OF this assms] show ?thesis by simp
qed

end

locale safe_tables = safe_accounts +
  assumes merchant: "safe P (insert_merchant cm)"
    and requests: "safe P (insert_payment_request cp)" "safe P (update_paid i a x)" "safe P (update_cancelled i m)"
    and transfer: "kept P (Transfer E p)"
begin

subsection \<open>Merchants\<close>

lemma merchant_repository [kept_intros]:
  "kept P (Merchant_FindByUserID E i)" "kept P (Merchant_FindByID E i)" "kept P (Merchant_Create E cm)"
  "kept P (Repo_CreatePaymentRequest E cp)" "kept P (FindPaymentRequestByID E i)" "kept P (MarkPaid E i a x)"
  "kept P (Repo_CancelPaymentRequest E i m)" "kept P (ListByMerchant E i lp)" "kept P (walletIDLookup E i)"
proof -
  show r: "kept P (Merchant_FindByUserID E i)" "kept P (Merchant_FindByID E i)" "kept P (FindPaymentRequestByID E i)"
    "kept P (ListByMerchant E i lp)" "kept P (walletIDLookup E i)" for i
    by (intro kept_read_only repository_only_reads)+
  show "kept P (Merchant_Create E cm)" "kept P (Repo_CreatePaymentRequest E cp)" "kept P (Repo_CancelPaymentRequest E i m)"
    unfolding Merchant_Create_def Repo_CreatePaymentRequest_def Repo_CancelPaymentRequest_def
    by (intro kept_intros kept_sql merchant requests)+
  have "kept P (case pr_Status pr of PRPending \<Rightarrow> throw e | PRPaid \<Rightarrow> throw f | PRExpired \<Rightarrow> throw g | PRCancelled \<Rightarrow> throw h)"
    for pr and e f g h :: gerror by (cases "pr_Status pr") (auto intro: kept_intros)
  then show "kept P (MarkPaid E i a x)"
    unfolding MarkPaid_def by (intro kept_intros kept_sql requests r)
qed

lemma find_request_kept: "kept P (findPaymentRequestByPayload E (server_merchants E key) payload)"
  unfolding findPaymentRequestByPayload_def server_merchants_simps by (intro kept_intros)

lemma pay_tail_kept: "kept P (pay_tail E (server_merchants E key) params m mw pr a r)"
  unfolding pay_tail_def server_merchants_simps Let_def option.case by (intro kept_intros)

lemma kept_case_status:
  "kept P g \<Longrightarrow> kept P (case s of PRPending \<Rightarrow> g | PRPaid \<Rightarrow> throw e1 | PRExpired \<Rightarrow> throw e2 | PRCancelled \<Rightarrow> throw e3)"
  by (cases s) (auto intro: kept_intros)

lemma admit_kept: "kept P (admit E (server_merchants E key) payer payload)"
  unfolding admit_def server_merchants_simps by (intro kept_intros find_request_kept kept_case_status)

lemma PayViaQR_kept [kept_intros]: "kept P (PayViaQR E (server_merchants E key) payer a k payload)"
  unfolding PayViaQR_def server_merchants_simps by (intro kept_intros transfer find_request_kept pay_tail_kept kept_case_status)

lemma merchant_service_kept [kept_intros]:
  "kept P (Merchant_Register E (server_merchants E key) i mr)" "kept P (GetProfile E (server_merchants E key) i)"
  "kept P (CreatePaymentRequest E (server_merchants E key) i ci)" "kept P (GetPaymentRequest E (server_merchants E key) i j)"
  "kept P (ListPaymentRequests E z (server_merchants E key) i lp)" "kept P (CancelPaymentRequest (server_merchants E key) i j)"
  unfolding Merchant_Register_def GetProfile_def CreatePaymentRequest_def GetPaymentRequest_def ListPaymentRequests_def
    CancelPaymentRequest_def server_merchants_simps Let_def
  by (intro kept_intros)+

lemma merchant_handlers_kept [kept_intros]:
  "served P (merchant_register E (server_merchants E key) r)" "served P (merchant_getProfile E (server_merchants E key) r)"
  "served P (merchant_createPaymentRequest E (server_merchants E key) r)"
  "served P (merchant_listPaymentRequests E z (server_merchants E key) r)"
  "served P (merchant_getPaymentRequest E (server_merchants E key) r)"
  "served P (merchant_cancelPaymentRequest E (server_merchants E key) r)"
  "served P (merchant_payViaQR E (server_merchants E key) r)"
  unfolding merchant_register_def merchant_getProfile_def merchant_createPaymentRequest_def merchant_listPaymentRequests_def
    merchant_getPaymentRequest_def merchant_cancelPaymentRequest_def merchant_payViaQR_def parseUserID_def parse_request_id_def
    not_found_or_internal_def pay_handleError_def Let_def
  by (intro kept_intros)+

subsection \<open>Payments and wallets\<close>

lemma payment_repository [kept_intros]: "kept P (Payment_GetByID E i j)" "kept P (Payment_List E i lp)"
proof -
  have "reads (select_payments E w q off)" for w q off
    by (auto simp: reads_def select_payments_def split: if_splits)
  then show "kept P (Payment_GetByID E i j)" "kept P (Payment_List E i lp)"
    unfolding Payment_GetByID_def Payment_List_def Let_def by (intro kept_intros select_detail_reads reads_selects)+
qed

lemma payment_lists: "pay_List (server_payment E key) = Payment_List E"
  by (simp add: server_payment_def)

lemma payment_service_kept [kept_intros]:
  "kept P (Send E (server_payment E key) sr i j k ip)" "kept P (GetTransaction (server_payment E key) i j)"
  "kept P (ListTransactions (server_payment E key) i lp)"
  unfolding Send_def send_tail_def cached_response_def GetTransaction_def ListTransactions_def server_payment_simps payment_lists Let_def
    option.case if_True
  by (intro kept_intros transfer)+

lemma payment_handlers_kept [kept_intros]:
  "served P (payment_send E (server_payment E key) r)" "served P (payment_getByID E (server_payment E key) r)"
  "served P (payment_list E (server_payment E key) r)"
  unfolding payment_send_def payment_getByID_def payment_list_def payment_handleError_def
  by (intro kept_intros)+

lemma wallet_handlers_kept [kept_intros]:
  "served P (wallet_get E (server_wallets E C) r)" "served P (wallet_getBalance E (server_wallets E C) r)"
  "served P (wallet_getTransactions E (server_wallets E C) r)" "served P (wallet_search E (server_wallets E C) r)"
  unfolding wallet_get_def wallet_getBalance_def wallet_getTransactions_def wallet_search_def parseWalletID_def
    requesterFromContext_def wallet_handleError_def Let_def
  by (intro kept_intros kept_read_only wr.service_reads)+

subsection \<open>The rest of the server\<close>

lemma websocket_kept [kept_intros]: "served P (websocket_handler E (validator S secret) upgrade r)"
proof -
  have "snd (validator S secret tok w) = w" for tok w unfolding validator_def by (rule tv.validate_reads)
  then have "snd (ServeWS E (validator S secret) upgrade r wr w) = w" for wr w
    by (auto simp: ServeWS_def Let_def split: sum.splits prod.splits bool.splits) (metis snd_conv)+
  then show ?thesis by (auto simp: served_def websocket_handler_def split: prod.splits) (metis snd_conv)
qed

lemma protected_kept [kept_intros]: "(\<And>r. served P (h r)) \<Longrightarrow> served P (protected S secret h r)"
  unfolding protected_def validator_def GeneralRateLimit_def by (intro kept_intros)

lemma other_routes_kept:
  assumes "(m, pat, h) \<in> set (other_routes S secret key)"
  shows "served P (h r)"
proof -
  have "list_all (\<lambda>(m, pat, h). \<forall>r. served P (h r)) (other_routes S secret key)"
    unfolding other_routes_def public_routes_def auth_routes_list wallet_routes_list payment_routes_list merchant_routes_list Let_def
      AuthRateLimit_def RequireMerchant_def list_all_append list.pred_inject prod.case
    by (intro conjI allI list.pred_inject(1) kept_intros)
  with assms show ?thesis by (auto simp: list_all_iff)
qed

end

locale safe_system = safe_tables +
  assumes issue: "kept P (Issue E p)"
begin

lemma IssueCBDC_kept [kept_intros]: "kept P (IssueCBDC E (server_admin E key) iq i k ip)"
  unfolding IssueCBDC_def cached_issuance_def issuance_tail_def server_admin_simps Let_def option.case if_True
  by (intro kept_intros issue)

lemma routes_kept:
  assumes "(m, pat, h) \<in> set (routes S secret key)"
  shows "served P (h r)"
proof (cases "(m, pat, h) \<in> set (other_routes S secret key)")
  case False
  with assms have "(m, pat, h) \<in> set (admin_routes S secret key)" by (simp add: routes_split)
  moreover have "list_all (\<lambda>(m, pat, h). \<forall>r. served P (h r)) (admin_routes S secret key)"
    unfolding admin_routes_list Let_def RequireAdmin_def list.pred_inject prod.case issueCBDC_def admin_handleError_def
    by (intro conjI allI list.pred_inject(1) kept_intros)
  ultimately show ?thesis by (auto simp: list_all_iff)
qed (rule other_routes_kept)

lemma dispatch_kept: "served P (dispatch S (routes S secret key) method path r)"
proof -
  have "served P (snd (snd (routes S secret key ! i)) r')" if "i < length (routes S secret key)" for i r'
    using routes_kept [of "fst (routes S secret key ! i)" "fst (snd (routes S secret key ! i))" "snd (snd (routes S secret key ! i))"]
      nth_mem [OF that] by simp
  then show ?thesis unfolding dispatch_def by (auto intro!: kept_intros split: option.splits prod.splits)
qed

lemma serve_kept: "served P (serve S secret key method path r)"
proof -
  have "P (w_db (snd (serve S secret key method path r wr w)))" if "P (w_db w)" for wr w
    using dispatch_kept that
    by (auto simp: serve_def served_def Let_def securityHeadersMiddleware_def split: prod.splits bool.splits)
  then show ?thesis by (simp add: served_def)
qed

end

section \<open>Runs of the server\<close>

text \<open>A visit is a request as it arrives, with the writer of its connection; \<open>serve_all\<close> answers one after the other.\<close>

record arrival =
  av_method :: string
  av_path :: string
  av_request :: request

definition serve_one :: "server \<Rightarrow> string \<Rightarrow> string \<Rightarrow> arrival \<Rightarrow> world \<Rightarrow> world" where
  "serve_one S secret key a w = snd (serve S secret key (av_method a) (av_path a) (av_request a) new_writer w)"

definition serve_all :: "server \<Rightarrow> string \<Rightarrow> string \<Rightarrow> arrival list \<Rightarrow> world \<Rightarrow> world" where
  "serve_all S secret key as = fold (serve_one S secret key) as"

context safe_system
begin

lemma run_kept: "P (w_db w) \<Longrightarrow> P (w_db (serve_all S secret key as w))"
proof (induction as arbitrary: w)
  case (Cons a as)
  have "P (w_db (serve_one S secret key a w))"
    using serve_kept Cons.prems by (simp add: served_def serve_one_def)
  from Cons.IH [OF this] show ?case by (simp add: serve_all_def)
qed (simp add: serve_all_def)

end

end
