(* ===== verification/Schema.thy ===== *)
theory Schema
  imports System "HOL-Library.Sublist"
begin

text \<open>
  Properties of the tables that fulfil the contracts of \<open>System\<close>: the books, the integrity of the schema
  (\<open>well_formed\<close>), the growth of the records that are only appended to (\<open>grown\<close>) and the life cycle of the
  payment requests (\<open>evolved\<close>). Each is an interpretation of \<open>safe_system\<close>.
\<close>

section \<open>What the money tables go through\<close>

text \<open>One posting: a new transaction with its entries, and for an issuance its record.\<close>

definition posting :: "database \<Rightarrow> database \<Rightarrow> bool" where
  "posting d d' \<longleftrightarrow> (\<exists>x es is. d' = (enter x es d)\<lparr>cbdc_issuance := cbdc_issuance d @ is\<rparr> \<and>
     (\<forall>i \<in> set is. is_WalletID i \<in> w_ID ` set (wallets d) \<and> is_TransactionID i = t_ID x))"

lemma moved_posting: "moved p ty tx d r d' \<Longrightarrow> posting d d'"
proof -
  assume "moved p ty tx d r d'"
  then obtain x es where "d' = enter x es d" unfolding moved_def by blast
  then have "d' = (enter x es d)\<lparr>cbdc_issuance := cbdc_issuance d @ []\<rparr>" by (simp add: enter_def)
  then show ?thesis unfolding posting_def by (intro exI [of _ x] exI [of _ es] exI [of _ "[]"]) simp
qed

lemma issued_posting: "issued p tx d r d' \<Longrightarrow> posting d d'"
proof -
  assume "issued p tx d r d'"
  then obtain u e i v where d': "d' = record_issuance i (enter (settle tx (txn_row (issue_row p) u tx)) [e] d)"
    and i: "is_TransactionID i = u" "is_WalletID i = ip_WalletID p" and v: "live_wallet (ip_WalletID p) d = Some v"
    unfolding issued_def by blast
  let ?x = "settle tx (txn_row (issue_row p) u tx)"
  have "t_ID ?x = u" by (simp add: settle_def txn_row_def)
  moreover have "ip_WalletID p \<in> w_ID ` set (wallets d)" using live_walletD [OF v] by (auto intro: rev_image_eqI)
  ultimately show ?thesis
    unfolding posting_def using d' i
    by (intro exI [of _ ?x] exI [of _ "[e]"] exI [of _ "[i]"]) (simp add: record_issuance_def enter_def)
qed

lemma kept_posting:
  assumes "\<And>d d'. P d \<Longrightarrow> posting d d' \<Longrightarrow> P d'"
  shows "kept P (Transfer E p)" "kept P (Issue E q)"
proof -
  have "P (w_db (snd (Transfer E p w)))" "P (w_db (snd (Issue E q w)))" if "P (w_db w)" for w
    using that Transfer_db [of E p w] Issue_db [of E q w] assms moved_posting issued_posting by metis+
  then show "kept P (Transfer E p)" "kept P (Issue E q)" by (simp_all add: keeps_def)
qed

lemma posting_frame:
  assumes "posting d d'"
  shows "users d' = users d" "sessions d' = sessions d" "merchants d' = merchants d" "payment_requests d' = payment_requests d"
    "audit_logs d' = audit_logs d" "map w_ID (wallets d') = map w_ID (wallets d)"
    "map (\<lambda>w. (w_UserID w, w_Currency w)) (wallets d') = map (\<lambda>w. (w_UserID w, w_Currency w)) (wallets d)"
    "\<exists>x es is. transactions d' = transactions d @ [x] \<and> ledger_entries d' = ledger_entries d @ es \<and>
       cbdc_issuance d' = cbdc_issuance d @ is \<and>
       (\<forall>i \<in> set is. is_WalletID i \<in> w_ID ` set (wallets d) \<and> is_TransactionID i = t_ID x)"
proof -
  obtain x es "is" where d': "d' = (enter x es d)\<lparr>cbdc_issuance := cbdc_issuance d @ is\<rparr>"
    and i: "\<forall>i \<in> set is. is_WalletID i \<in> w_ID ` set (wallets d) \<and> is_TransactionID i = t_ID x"
    using assms unfolding posting_def by blast
  show "users d' = users d" "sessions d' = sessions d" "merchants d' = merchants d" "payment_requests d' = payment_requests d"
    "audit_logs d' = audit_logs d" "map w_ID (wallets d') = map w_ID (wallets d)"
    unfolding d' enter_def using fold_post_fields(9) [of es "d\<lparr>transactions := transactions d @ [x]\<rparr>"] by simp_all
  have "map (\<lambda>w. (w_UserID w, w_Currency w)) (wallets (fold post es c)) = map (\<lambda>w. (w_UserID w, w_Currency w)) (wallets c)" for c
    by (induction es arbitrary: c) (simp_all add: post_def map_upd_where add_balance_def)
  then show "map (\<lambda>w. (w_UserID w, w_Currency w)) (wallets d') = map (\<lambda>w. (w_UserID w, w_Currency w)) (wallets d)"
    by (simp add: d' enter_def)
  show "\<exists>x es is. transactions d' = transactions d @ [x] \<and> ledger_entries d' = ledger_entries d @ es \<and>
       cbdc_issuance d' = cbdc_issuance d @ is \<and>
       (\<forall>i \<in> set is. is_WalletID i \<in> w_ID ` set (wallets d) \<and> is_TransactionID i = t_ID x)"
    using i by (intro exI [of _ x] exI [of _ es] exI [of _ "is"]) (simp add: d' enter_def)
qed

section \<open>The books\<close>

lemma safe_money: "leaves money q \<Longrightarrow> safe books q"
  using money_books unfolding safe_def leaves_def by metis

lemma money_leaves:
  "leaves money (insert_user email hash name role)" "leaves money (update_failed_logins i)" "leaves money (update_locked_until i until)"
  "leaves money (clear_failed_logins i)" "leaves money (insert_session E i hash agent ip until)" "leaves money (revoke_where Q)"
  "leaves money (delete_session hash)" "leaves money (insert_log E lp)" "leaves money (insert_merchant cm)"
  "leaves money (insert_payment_request cp)" "leaves money (update_paid i a x)" "leaves money (update_cancelled i m)"
  by (auto simp: leaves_def money_def Let_def insert_user_def update_failed_logins_def update_locked_until_def clear_failed_logins_def
      insert_session_def revoke_where_def delete_session_def insert_log_def insert_merchant_def insert_payment_request_def
      update_paid_def update_cancelled_def update_requests_def split: if_splits)

lemma books_new_wallet: "safe books (insert_wallet i)"
proof -
  have "books (d\<lparr>wallets := wallets d @ [x]\<rparr>)" if b: "books d" and x: "w_ID x \<notin> w_ID ` set (wallets d)" "w_Balance x = 0" for d x
  proof -
    let ?d = "d\<lparr>wallets := wallets d @ [x]\<rparr>"
    from b have acc: "accounts d" and j: "journal d" and m: "money_supply d = minted d" by (simp_all add: books_def)
    have "\<forall>e \<in> set (ledger_entries d). le_WalletID e \<in> w_ID ` set (wallets d)" using acc by (simp add: accounts_def)
    then have "\<forall>e \<in> set (ledger_entries d). le_WalletID e \<noteq> w_ID x"
    proof (intro ballI notI)
      fix e assume "\<forall>e \<in> set (ledger_entries d). le_WalletID e \<in> w_ID ` set (wallets d)" "e \<in> set (ledger_entries d)" "le_WalletID e = w_ID x"
      then show False using x(1) bspec by metis
    qed
    then have "filter (\<lambda>e. le_WalletID e = w_ID x) (ledger_entries d) = []" by (rule filter_False)
    then have "entry_sum d (w_ID x) = 0" by (simp add: entry_sum_def)
    moreover have e: "entry_sum ?d = entry_sum d" by (simp add: entry_sum_def fun_eq_iff)
    moreover have "\<forall>w \<in> set (wallets d). 0 \<le> entry_sum d (w_ID w)" using acc unfolding accounts_def by metis
    ultimately have "accounts ?d" using acc x unfolding accounts_def e by simp
    moreover have "journal ?d" using j by (simp add: journal_def keys_def booked_def entries_of_def)
    moreover have "money_supply ?d = minted ?d" using m x(2) by (simp add: money_supply_def minted_def)
    ultimately show ?thesis by (simp add: books_def)
  qed
  note new = this
  show ?thesis
    unfolding safe_def
  proof (intro allI impI)
    fix u t d a d' assume "books d" and a: "insert_wallet i u t d = Inr (a, d')"
    then show "books d'" using new [of d a] insert_wallet_Inr(1,2,4,7) [OF a] by simp
  qed
qed

interpretation bs: safe_system books
proof
  show "kept books (Transfer E p)" for E p using lt.keeps_books by (auto simp: keeps_def)
  show "kept books (Issue E p)" for E p using li.keeps_books by (auto simp: keeps_def)
qed (rule safe_money money_leaves books_new_wallet)+

section \<open>The schema\<close>

text \<open>
  What the migrations declare of the tables the program writes: primary and unique keys, foreign keys, and the
  ranges of columns. A key set stands for the table it comes from.
\<close>

definition users_ok :: "user list \<Rightarrow> bool" where
  "users_ok us \<longleftrightarrow> distinct (map u_ID us) \<and> distinct (map u_Email us) \<and>
     (\<forall>u \<in> set us. u_Role u \<in> set sql_user_roles \<and> email_matches False (u_Email u) \<and> u_FailedLogins u \<le> 100)"

definition wallets_ok :: "uuid set \<Rightarrow> uuid list \<Rightarrow> (uuid \<times> string) list \<Rightarrow> bool" where
  "wallets_ok us ids owners \<longleftrightarrow> distinct ids \<and> distinct owners \<and> fst ` set owners \<subseteq> us"

definition sessions_ok :: "uuid set \<Rightarrow> session list \<Rightarrow> bool" where
  "sessions_ok us ss \<longleftrightarrow> distinct (map s_ID ss) \<and> distinct (map s_TokenHash ss) \<and> s_UserID ` set ss \<subseteq> us"

definition merchants_ok :: "uuid set \<Rightarrow> merchant list \<Rightarrow> bool" where
  "merchants_ok us ms \<longleftrightarrow> distinct (map m_ID ms) \<and> distinct (map m_UserID ms) \<and> m_UserID ` set ms \<subseteq> us"

definition request_ok :: "uuid set \<Rightarrow> uuid set \<Rightarrow> uuid set \<Rightarrow> payment_request \<Rightarrow> bool" where
  "request_ok ms ws ts r \<longleftrightarrow> pr_MerchantID r \<in> ms \<and> 0 < sint (pr_AmountCents r) \<and>
     (if pr_Status r = PRPaid
      then (\<exists>w \<in> ws. pr_PaidByWalletID r = Some w) \<and> (\<exists>t \<in> ts. pr_TransactionID r = Some t) \<and> pr_PaidAt r \<noteq> None
      else pr_PaidByWalletID r = None \<and> pr_TransactionID r = None \<and> pr_PaidAt r = None)"

definition requests_ok :: "uuid set \<Rightarrow> uuid set \<Rightarrow> uuid set \<Rightarrow> payment_request list \<Rightarrow> bool" where
  "requests_ok ms ws ts rs \<longleftrightarrow> distinct (map pr_ID rs) \<and> (\<forall>r \<in> set rs. request_ok ms ws ts r)"

definition issuance_ok :: "uuid set \<Rightarrow> uuid set \<Rightarrow> issuance list \<Rightarrow> bool" where
  "issuance_ok ws ts is \<longleftrightarrow> is_WalletID ` set is \<subseteq> ws \<and> is_TransactionID ` set is \<subseteq> ts"

abbreviation user_ids :: "database \<Rightarrow> uuid set" where "user_ids d \<equiv> u_ID ` set (users d)"
abbreviation wallet_ids :: "database \<Rightarrow> uuid set" where "wallet_ids d \<equiv> w_ID ` set (wallets d)"
abbreviation transaction_ids :: "database \<Rightarrow> uuid set" where "transaction_ids d \<equiv> t_ID ` set (transactions d)"
abbreviation merchant_ids :: "database \<Rightarrow> uuid set" where "merchant_ids d \<equiv> m_ID ` set (merchants d)"

definition well_formed :: "database \<Rightarrow> bool" where
  "well_formed d \<longleftrightarrow> users_ok (users d) \<and>
     wallets_ok (user_ids d) (map w_ID (wallets d)) (map (\<lambda>w. (w_UserID w, w_Currency w)) (wallets d)) \<and>
     sessions_ok (user_ids d) (sessions d) \<and> merchants_ok (user_ids d) (merchants d) \<and>
     requests_ok (merchant_ids d) (wallet_ids d) (transaction_ids d) (payment_requests d) \<and>
     issuance_ok (wallet_ids d) (transaction_ids d) (cbdc_issuance d)"

text \<open>More keys do no harm.\<close>

lemma request_ok_mono: "A \<subseteq> A' \<Longrightarrow> B \<subseteq> B' \<Longrightarrow> C \<subseteq> C' \<Longrightarrow> request_ok A B C r \<Longrightarrow> request_ok A' B' C' r"
  by (cases "pr_Status r = PRPaid"; simp add: request_ok_def; blast)

lemma ok_mono:
  "us \<subseteq> us' \<Longrightarrow> wallets_ok us ids owners \<Longrightarrow> wallets_ok us' ids owners"
  "us \<subseteq> us' \<Longrightarrow> sessions_ok us ss \<Longrightarrow> sessions_ok us' ss"
  "us \<subseteq> us' \<Longrightarrow> merchants_ok us ms \<Longrightarrow> merchants_ok us' ms"
  "B \<subseteq> B' \<Longrightarrow> C \<subseteq> C' \<Longrightarrow> issuance_ok B C is \<Longrightarrow> issuance_ok B' C' is"
  unfolding wallets_ok_def sessions_ok_def merchants_ok_def issuance_ok_def by blast+

lemma requests_ok_mono: "A \<subseteq> A' \<Longrightarrow> B \<subseteq> B' \<Longrightarrow> C \<subseteq> C' \<Longrightarrow> requests_ok A B C rs \<Longrightarrow> requests_ok A' B' C' rs"
  unfolding requests_ok_def using request_ok_mono [of A A' B B' C C'] by blast

lemma safe_by: "(\<And>u t d a d'. P d \<Longrightarrow> q u t d = Inr (a, d') \<Longrightarrow> P d') \<Longrightarrow> safe P q"
  by (auto simp: safe_def)

lemma posting_well_formed: "well_formed d \<Longrightarrow> posting d d' \<Longrightarrow> well_formed d'"
proof -
  assume wf: "well_formed d" and p: "posting d d'"
  note f = posting_frame [OF p]
  from f(8) obtain x "is" where x: "transactions d' = transactions d @ [x]" "cbdc_issuance d' = cbdc_issuance d @ is"
    and i: "\<forall>i \<in> set is. is_WalletID i \<in> w_ID ` set (wallets d) \<and> is_TransactionID i = t_ID x" by blast
  have old: "requests_ok (merchant_ids d) (wallet_ids d) (transaction_ids d) (payment_requests d)"
    "issuance_ok (wallet_ids d) (transaction_ids d) (cbdc_issuance d)" using wf by (simp_all add: well_formed_def)
  have t: "transaction_ids d \<subseteq> transaction_ids d'" and tx: "t_ID x \<in> transaction_ids d'" by (auto simp: x(1))
  have "issuance_ok (wallet_ids d) (transaction_ids d') (cbdc_issuance d)" by (rule ok_mono(4) [OF order_refl t old(2)])
  with i tx have "issuance_ok (wallet_ids d) (transaction_ids d') (cbdc_issuance d')" by (auto simp: x(2) issuance_ok_def)
  moreover have "requests_ok (merchant_ids d) (wallet_ids d) (transaction_ids d') (payment_requests d)"
    by (rule requests_ok_mono [OF order_refl order_refl t old(1)])
  moreover have "wallet_ids d' = wallet_ids d" by (metis f(6) list.set_map)
  ultimately show ?thesis using wf unfolding well_formed_def f(1-7) by simp
qed

text \<open>Statements of the tables.\<close>

lemma users_ok_upd:
  assumes "users_ok us" and "\<And>x. u_ID (f x) = u_ID x \<and> u_Email (f x) = u_Email x \<and> u_Role (f x) = u_Role x"
    and "\<And>x. x \<in> set us \<Longrightarrow> Q x \<Longrightarrow> u_FailedLogins (f x) \<le> 100"
  shows "users_ok (upd_where Q f us)"
  using assms by (auto simp: users_ok_def set_upd_where map_upd_where)

lemma well_formed_users:
  assumes "well_formed d" and "users_ok us" and "user_ids d \<subseteq> u_ID ` set us"
  shows "well_formed (d\<lparr>users := us\<rparr>)"
  using assms ok_mono(1-3) [OF assms(3)] by (simp add: well_formed_def)

lemma image_upd_where: "(\<And>r. g (f r) = g r) \<Longrightarrow> g ` set (upd_where Q f rs) = g ` set rs"
  using map_upd_where [of g f Q rs] by (metis list.set_map)

lemma users_well_formed:
  "safe well_formed (insert_user email hash name role)" "safe well_formed (update_failed_logins i)"
  "safe well_formed (update_locked_until i until)" "safe well_formed (clear_failed_logins i)"
proof -
  show "safe well_formed (insert_user email hash name role)"
  proof (rule safe_by)
    fix u t d a d' assume wf: "well_formed d" and q: "insert_user email hash name role u t d = Inr (a, d')"
    note i = insert_user_Inr [OF q]
    have "role \<in> set sql_user_roles" using q by (simp add: insert_user_def split: if_splits)
    with i wf have "users_ok (users d @ [a])" by (auto simp: well_formed_def users_ok_def)
    then show "well_formed d'" unfolding i(1) by (intro well_formed_users [OF wf]) auto
  qed
  have upd: "well_formed (d\<lparr>users := upd_where Q f (users d)\<rparr>)"
    if "well_formed d" "\<And>x. u_ID (f x) = u_ID x \<and> u_Email (f x) = u_Email x \<and> u_Role (f x) = u_Role x"
      "\<And>x. x \<in> set (users d) \<Longrightarrow> Q x \<Longrightarrow> u_FailedLogins (f x) \<le> 100" for d Q f
    using that(1,2) image_upd_where [of u_ID f] by (intro well_formed_users users_ok_upd that(3)) (auto simp: well_formed_def)
  show "safe well_formed (update_failed_logins i)"
    by (rule safe_by) (auto simp: update_failed_logins_def not_le intro!: upd split: if_splits dest: Suc_leI)
  have le: "u_FailedLogins x \<le> 100" if "well_formed d" "x \<in> set (users d)" for d x
    using that by (simp add: well_formed_def users_ok_def)
  show "safe well_formed (update_locked_until i until)" "safe well_formed (clear_failed_logins i)"
    by (rule safe_by; auto simp: update_locked_until_def clear_failed_logins_def le intro!: upd)+
qed

lemma new_wallet_well_formed: "safe well_formed (insert_wallet i)"
proof (rule safe_by)
  fix u t d a d' assume wf: "well_formed d" and q: "insert_wallet i u t d = Inr (a, d')"
  note x = insert_wallet_Inr [OF q]
  have new: "(i, ''DD$'') \<notin> (\<lambda>w. (w_UserID w, w_Currency w)) ` set (wallets d)" "i \<in> user_ids d"
    using q by (auto simp: insert_wallet_def split: if_splits)
  have "wallets_ok (user_ids d) (map w_ID (wallets d) @ [u]) (map (\<lambda>w. (w_UserID w, w_Currency w)) (wallets d) @ [(i, ''DD$'')])"
    using wf new x(7) by (auto simp: well_formed_def wallets_ok_def)
  moreover have "requests_ok (merchant_ids d) (insert u (wallet_ids d)) (transaction_ids d) (payment_requests d)"
    "issuance_ok (insert u (wallet_ids d)) (transaction_ids d) (cbdc_issuance d)"
    using wf by (auto simp: well_formed_def intro: requests_ok_mono [OF order_refl _ order_refl] ok_mono(4) [OF _ order_refl])
  ultimately show "well_formed d'"
    using wf by (simp add: well_formed_def x(1-3,5))
qed

lemma sessions_well_formed:
  "safe well_formed (insert_session E i hash agent ip until)" "safe well_formed (revoke_where Q)" "safe well_formed (delete_session hash)"
proof -
  show "safe well_formed (insert_session E i hash agent ip until)"
    by (rule safe_by) (auto simp: insert_session_def well_formed_def sessions_ok_def Let_def split: if_splits)
  show "safe well_formed (revoke_where Q)"
    by (rule safe_by) (clarsimp simp: revoke_where_def well_formed_def sessions_ok_def map_upd_where image_upd_where)
  show "safe well_formed (delete_session hash)"
    by (rule safe_by) (clarsimp simp: delete_session_def well_formed_def sessions_ok_def distinct_map_filter, blast)
qed

lemma log_well_formed: "safe well_formed (insert_log E lp)"
  by (rule safe_by) (auto simp: insert_log_def well_formed_def split: if_splits)

lemma merchant_well_formed: "safe well_formed (insert_merchant cm)"
proof (rule safe_by)
  fix u t d a d' assume wf: "well_formed d" and q: "insert_merchant cm u t d = Inr (a, d')"
  then have i: "d' = d\<lparr>merchants := merchants d @ [a]\<rparr>" "m_ID a = u" "m_UserID a = cm_UserID cm" "u \<notin> m_ID ` set (merchants d)"
    "cm_UserID cm \<notin> m_UserID ` set (merchants d)" "cm_UserID cm \<in> user_ids d"
    by (auto simp: insert_merchant_def Let_def split: if_splits)
  have "merchants_ok (user_ids d) (merchants d @ [a])" using wf i by (auto simp: well_formed_def merchants_ok_def)
  moreover have "requests_ok (insert u (merchant_ids d)) (wallet_ids d) (transaction_ids d) (payment_requests d)"
    using wf by (auto simp: well_formed_def intro: requests_ok_mono [OF _ order_refl order_refl])
  ultimately show "well_formed d'" using wf i by (simp add: well_formed_def)
qed

lemma well_formed_set_requests:
  "well_formed d \<Longrightarrow> distinct (map pr_ID rs) \<Longrightarrow>
   (\<And>r. r \<in> set rs \<Longrightarrow> request_ok (merchant_ids d) (wallet_ids d) (transaction_ids d) r) \<Longrightarrow>
   well_formed (d\<lparr>payment_requests := rs\<rparr>)"
  by (simp add: well_formed_def requests_ok_def)

lemma well_formed_requestD:
  assumes "well_formed d"
  shows "r \<in> set (payment_requests d) \<Longrightarrow> request_ok (merchant_ids d) (wallet_ids d) (transaction_ids d) r"
    and "distinct (map pr_ID (payment_requests d))"
  using assms by (simp_all add: well_formed_def requests_ok_def)

lemma well_formed_update_requests:
  assumes wf: "well_formed d" and f: "\<And>r. pr_ID (f r) = pr_ID r"
    "\<And>r. r \<in> set (payment_requests d) \<Longrightarrow> Q r \<Longrightarrow> request_ok (merchant_ids d) (wallet_ids d) (transaction_ids d) (f r)"
  shows "well_formed (update_requests Q f d)"
  unfolding update_requests_def using f well_formed_requestD [OF wf]
  by (intro well_formed_set_requests [OF wf]) (auto simp: map_upd_where set_upd_where)

lemma insert_request_well_formed: "safe well_formed (insert_payment_request cp)"
proof (rule safe_by)
  fix u t d a d' assume wf: "well_formed d" and q: "insert_payment_request cp u t d = Inr (a, d')"
  then have d': "d' = d\<lparr>payment_requests := payment_requests d @ [a]\<rparr>" "pr_ID a = u" "u \<notin> pr_ID ` set (payment_requests d)"
    "request_ok (merchant_ids d) (wallet_ids d) (transaction_ids d) a"
    by (auto simp: insert_payment_request_def Let_def request_ok_def split: if_splits)
  with well_formed_requestD [OF wf] show "well_formed d'"
    unfolding d'(1) by (intro well_formed_set_requests [OF wf]) auto
qed

lemma cancel_well_formed: "safe well_formed (update_cancelled i m)"
proof (rule safe_by)
  fix u t d a d' assume wf: "well_formed d" and q: "update_cancelled i m u t d = Inr (a, d')"
  have "request_ok (merchant_ids d) (wallet_ids d) (transaction_ids d) (r\<lparr>pr_Status := PRCancelled\<rparr>)"
    if "r \<in> set (payment_requests d)" "cancellable i m r" for r
    using well_formed_requestD(1) [OF wf that(1)] that(2) by (simp add: request_ok_def cancellable_def)
  then show "well_formed d'" using q by (auto simp: update_cancelled_def intro!: well_formed_update_requests [OF wf])
qed

lemma paid_well_formed: "safe well_formed (update_paid i a x)"
proof (rule safe_by)
  fix u t d n d' assume wf: "well_formed d" and q: "update_paid i a x u t d = Inr (n, d')"
  let ?f = "\<lambda>r. r\<lparr>pr_Status := PRPaid, pr_PaidByWalletID := Some a, pr_TransactionID := Some x, pr_PaidAt := Some t\<rparr>"
  have d': "d' = update_requests (payable i t) ?f d"
    and fk: "0 < count_where (payable i t) (payment_requests d) \<Longrightarrow> a \<in> wallet_ids d \<and> x \<in> transaction_ids d"
    using q by (auto simp: update_paid_def Let_def split: if_splits)
  have "request_ok (merchant_ids d) (wallet_ids d) (transaction_ids d) (?f r)"
    if r: "r \<in> set (payment_requests d)" "payable i t r" for r
  proof -
    have "0 < count_where (payable i t) (payment_requests d)" using r by (auto simp: count_where_def filter_empty_conv)
    with fk well_formed_requestD(1) [OF wf r(1)] show ?thesis by (simp add: request_ok_def)
  qed
  then show "well_formed d'" unfolding d' by (intro well_formed_update_requests [OF wf]) simp_all
qed

lemmas requests_well_formed = insert_request_well_formed paid_well_formed cancel_well_formed

interpretation wf: safe_system well_formed
proof
  show "kept well_formed (Transfer E p)" for E p by (rule kept_posting(1)) (rule posting_well_formed)
  show "kept well_formed (Issue E p)" for E p by (rule kept_posting(2)) (rule posting_well_formed)
qed (rule users_well_formed new_wallet_well_formed sessions_well_formed log_well_formed merchant_well_formed requests_well_formed)+

section \<open>What only grows\<close>

text \<open>The records of money and the audit log of \<open>d\<close> are the beginning of those of \<open>d'\<close>, and no account is lost.\<close>

definition grown :: "database \<Rightarrow> database \<Rightarrow> bool" where
  "grown d d' \<longleftrightarrow> prefix (transactions d) (transactions d') \<and> prefix (ledger_entries d) (ledger_entries d') \<and>
     prefix (cbdc_issuance d) (cbdc_issuance d') \<and> prefix (audit_logs d) (audit_logs d') \<and>
     prefix (map u_ID (users d)) (map u_ID (users d')) \<and> prefix (map w_ID (wallets d)) (map w_ID (wallets d')) \<and>
     prefix (merchants d) (merchants d')"

lemma grown_refl [simp]: "grown d d"
  by (simp add: grown_def)

lemma grown_trans: "grown a b \<Longrightarrow> grown b c \<Longrightarrow> grown a c"
  unfolding grown_def by (meson prefix_order.trans)

lemma safe_grown: "(\<And>u t d a d'. q u t d = Inr (a, d') \<Longrightarrow> grown d d') \<Longrightarrow> safe (grown d0) q"
  unfolding safe_def using grown_trans by blast

lemma posting_grown: "posting d d' \<Longrightarrow> grown d d'"
proof -
  assume p: "posting d d'"
  from posting_frame [OF p] show ?thesis by (auto simp: grown_def)
qed

interpretation gr: safe_system "grown d" for d
proof
  show "kept (grown d) (Transfer E p)" for E p by (rule kept_posting(1)) (metis grown_trans posting_grown)
  show "kept (grown d) (Issue E p)" for E p by (rule kept_posting(2)) (metis grown_trans posting_grown)
qed (rule safe_grown, auto simp: grown_def Let_def insert_user_def insert_wallet_def update_failed_logins_def update_locked_until_def
      clear_failed_logins_def insert_session_def revoke_where_def delete_session_def insert_log_def insert_merchant_def
      insert_payment_request_def update_paid_def update_cancelled_def update_requests_def map_upd_where split: if_splits)+

section \<open>The life of a payment request\<close>

text \<open>
  A request keeps its merchant, amount, payload and dates; once it is no longer pending it does not change at all,
  and a pending one can only be paid or cancelled.
\<close>

definition evolves :: "payment_request \<Rightarrow> payment_request \<Rightarrow> bool" where
  "evolves r r' \<longleftrightarrow> r' = r \<or>
     (pr_Status r = PRPending \<and>
        (r' = r\<lparr>pr_Status := PRCancelled\<rparr> \<or>
         (\<exists>w x t. t < pr_ExpiresAt r \<and>
            r' = r\<lparr>pr_Status := PRPaid, pr_PaidByWalletID := Some w, pr_TransactionID := Some x, pr_PaidAt := Some t\<rparr>)))"

definition evolved :: "payment_request list \<Rightarrow> payment_request list \<Rightarrow> bool" where
  "evolved rs rs' \<longleftrightarrow> (\<exists>old new. rs' = old @ new \<and> list_all2 evolves rs old)"

lemma evolves_refl [simp]: "evolves r r"
  by (simp add: evolves_def)

lemma evolves_trans: "evolves a b \<Longrightarrow> evolves b c \<Longrightarrow> evolves a c"
  by (auto simp: evolves_def)

lemma evolved_refl [simp]: "evolved rs rs"
  unfolding evolved_def by (intro exI [of _ rs] exI [of _ "[]"]) (simp add: list.rel_refl)

lemma evolved_trans:
  assumes "evolved a b" and "evolved b c"
  shows "evolved a c"
proof -
  from assms obtain o1 n1 o2 n2 where b: "b = o1 @ n1" and ab: "list_all2 evolves a o1" and c: "c = o2 @ n2"
    and bc: "list_all2 evolves b o2" unfolding evolved_def by blast
  from bc b obtain p1 p2 where o2: "o2 = p1 @ p2" and "list_all2 evolves o1 p1" by (auto simp: list_all2_append1)
  with ab have "list_all2 evolves a p1" using list_all2_trans [of evolves evolves evolves a o1 p1] evolves_trans by blast
  with c o2 show ?thesis unfolding evolved_def by (intro exI [of _ p1] exI [of _ "p2 @ n2"]) simp
qed

lemma evolved_append: "evolved rs (rs @ new)"
  unfolding evolved_def by (intro exI [of _ rs] exI [of _ new]) (simp add: list.rel_refl)

lemma evolved_upd: "(\<And>r. Q r \<Longrightarrow> evolves r (f r)) \<Longrightarrow> evolved rs (upd_where Q f rs)"
  unfolding evolved_def
  by (intro exI [of _ "upd_where Q f rs"] exI [of _ "[]"]) (auto simp: upd_where_def list_all2_map2 list.rel_refl_strong)

lemma safe_evolved:
  "(\<And>u t d a d'. q u t d = Inr (a, d') \<Longrightarrow> evolved (payment_requests d) (payment_requests d')) \<Longrightarrow>
   safe (\<lambda>d. evolved rs (payment_requests d)) q"
  unfolding safe_def using evolved_trans by blast

lemma evolves_paid: "payable i t r \<Longrightarrow>
   evolves r (r\<lparr>pr_Status := PRPaid, pr_PaidByWalletID := Some w, pr_TransactionID := Some x, pr_PaidAt := Some t\<rparr>)"
  by (auto simp: payable_def evolves_def)

lemma evolves_cancelled: "cancellable i m r \<Longrightarrow> evolves r (r\<lparr>pr_Status := PRCancelled\<rparr>)"
  by (auto simp: cancellable_def evolves_def)

interpretation ev: safe_system "\<lambda>d. evolved rs (payment_requests d)" for rs
proof
  show "kept (\<lambda>d. evolved rs (payment_requests d)) (Transfer E p)" for E p by (rule kept_posting(1)) (simp add: posting_frame)
  show "kept (\<lambda>d. evolved rs (payment_requests d)) (Issue E p)" for E p by (rule kept_posting(2)) (simp add: posting_frame)
qed (rule safe_evolved, auto simp: Let_def insert_user_def insert_wallet_def update_failed_logins_def update_locked_until_def
      clear_failed_logins_def insert_session_def revoke_where_def delete_session_def insert_log_def insert_merchant_def
      insert_payment_request_def update_paid_def update_cancelled_def update_requests_def
      intro!: evolved_append evolved_upd evolves_paid evolves_cancelled split: if_splits)+

section \<open>What stays without a token\<close>

text \<open>The tables of the merchants and of the money, wallets apart: a registration adds one.\<close>

definition business :: "database \<Rightarrow> transaction list \<times> ledger_entry list \<times> issuance list \<times> merchant list \<times> payment_request list" where
  "business d = (transactions d, ledger_entries d, cbdc_issuance d, merchants d, payment_requests d)"

lemma business_leaves:
  "leaves business (insert_user email hash name role)" "leaves business (update_failed_logins i)" "leaves business (update_locked_until i until)"
  "leaves business (clear_failed_logins i)" "leaves business (insert_wallet i)" "leaves business (insert_session E i hash agent ip until)"
  "leaves business (revoke_where Q)" "leaves business (delete_session hash)" "leaves business (insert_log E lp)"
  by (auto simp: leaves_def business_def Let_def insert_user_def update_failed_logins_def update_locked_until_def clear_failed_logins_def
      insert_wallet_def insert_session_def revoke_where_def delete_session_def insert_log_def split: if_splits)

lemma issuance_leaves:
  "leaves cbdc_issuance (insert_user email hash name role)" "leaves cbdc_issuance (update_failed_logins i)"
  "leaves cbdc_issuance (update_locked_until i until)" "leaves cbdc_issuance (clear_failed_logins i)" "leaves cbdc_issuance (insert_wallet i)"
  "leaves cbdc_issuance (insert_session E i hash agent ip until)" "leaves cbdc_issuance (revoke_where Q)"
  "leaves cbdc_issuance (delete_session hash)" "leaves cbdc_issuance (insert_log E lp)" "leaves cbdc_issuance (insert_merchant cm)"
  "leaves cbdc_issuance (insert_payment_request cp)" "leaves cbdc_issuance (update_paid i a x)" "leaves cbdc_issuance (update_cancelled i m)"
  by (auto simp: leaves_def Let_def insert_user_def update_failed_logins_def update_locked_until_def clear_failed_logins_def
      insert_wallet_def insert_session_def revoke_where_def delete_session_def insert_log_def insert_merchant_def
      insert_payment_request_def update_paid_def update_cancelled_def update_requests_def split: if_splits)

interpretation bu: safe_accounts "\<lambda>d. business d = c" for c
  by unfold_locales (rule safe_leaves business_leaves)+

lemma Transfer_issuance: "cbdc_issuance (w_db (snd (Transfer E p w))) = cbdc_issuance (w_db w)"
  using Transfer_db [of E p w] by (auto simp: moved_def enter_def)

interpretation iu: safe_tables "\<lambda>d. cbdc_issuance d = c" for c
proof
  show "kept (\<lambda>d. cbdc_issuance d = c) (Transfer E p)" for E p
    using Transfer_issuance [of E p] by (simp add: keeps_def)
qed (rule safe_leaves issuance_leaves)+

end
