(* ===== verification/System_Claims.thy ===== *)
theory System_Claims
  imports Schema
begin

text \<open>
  What every run of the server keeps, whatever is asked of it and whatever call fails: one request after the
  other, from any state of the tables.
\<close>

section \<open>The gate of the tokens\<close>

text \<open>The claims of the token a request presents, when the server accepts it.\<close>

definition presented :: "server \<Rightarrow> string \<Rightarrow> request \<Rightarrow> world \<Rightarrow> Claims option" where
  "presented S secret r w =
    (case bearer_token r of
       None \<Rightarrow> None
     | Some tok \<Rightarrow> (case fst (validator S secret tok w) of Inl _ \<Rightarrow> None | Inr c \<Rightarrow> Some c))"

lemma protected_cases:
  "protected S secret h r wr w =
    (case presented S secret r w of
       None \<Rightarrow> unauthorized (sv_env S) r wr w
     | Some c \<Rightarrow> GeneralRateLimit (sv_env S) (IncrWithExpiry (sv_env S)) h (with_claims c r) wr w)"
  unfolding protected_def validator_def presented_def tv.Authenticate_cases by (auto split: option.splits sum.splits)

text \<open>The route of the WebSocket stands behind \<open>Authenticate\<close>, which reads the header only: a token in the query, the
  second place \<open>extractToken\<close> looks at, never gets there.\<close>

lemma query_token_refused:
  "bearer_token r = None \<Longrightarrow> protected S secret (websocket_handler E v up) r wr w = unauthorized (sv_env S) r wr w"
  by (simp add: protected_cases presented_def)

definition closed_routes :: "server \<Rightarrow> string \<Rightarrow> string \<Rightarrow> route list" where
  "closed_routes S secret key = wallet_routes S secret @ admin_routes S secret key @ payment_routes S secret key @
     [(''GET'', ''/api/v1/ws'', protected S secret (websocket_handler (sv_env S) (validator S secret) (sv_upgrade S)))] @
     merchant_routes S secret key"

lemma routes_open_closed: "routes S secret key = (public_routes S @ auth_routes S secret) @ closed_routes S secret key"
  by (simp add: routes_def closed_routes_def)

lemma closed_routes_protected:
  assumes "(m, pat, h) \<in> set (closed_routes S secret key)"
  shows "\<exists>g. h = protected S secret g"
proof -
  have gate: "\<exists>g. protected S secret h = protected S secret g" for h by blast
  have "list_all (\<lambda>(m, pat, h). \<exists>g. h = protected S secret g) (closed_routes S secret key)"
    unfolding closed_routes_def wallet_routes_list admin_routes_list payment_routes_list merchant_routes_list Let_def
      list_all_append list.pred_inject prod.case
    by (intro conjI list.pred_inject(1) gate)
  then have "\<forall>x \<in> set (closed_routes S secret key). case x of (m, pat, h) \<Rightarrow> \<exists>g. h = protected S secret g"
    by (simp only: list_all_iff)
  from bspec [OF this assms] show ?thesis by simp
qed

lemma admin_routes_gated:
  assumes "(m, pat, h) \<in> set (admin_routes S secret key)"
  shows "\<exists>g. h = protected S secret (RequireAdmin (sv_env S) g)"
  using assms by (auto simp: admin_routes_list Let_def)

text \<open>The dispatch runs one of the routes on the request with its path parameters, or none.\<close>

lemma dispatch_cases:
  obtains (none) "dispatch S rs verb path r = unrouted S r"
  | (route) m pat h params where "(m, pat, h) \<in> set rs" "dispatch S rs verb path r = h (r\<lparr>rq_Params := params\<rparr>)"
proof (cases "sv_match S (map (\<lambda>(m, p, h). (m, p)) rs) verb path")
  case None
  then show ?thesis using none by (simp add: dispatch_def)
next
  case (Some ip)
  obtain i params where ip: "ip = (i, params)" by fastforce
  show ?thesis
  proof (cases "i < length rs")
    case True
    obtain m pat h where "rs ! i = (m, pat, h)" by (cases "rs ! i") auto
    with True Some ip show ?thesis
      using route [of m pat h params] nth_mem [OF True] by (simp add: dispatch_def)
  next
    case False
    with Some ip show ?thesis using none by (simp add: dispatch_def)
  qed
qed

lemma serve_db:
  "w_db (snd (serve S secret key verb path r wr w)) = w_db w \<or>
   (\<exists>wr'. w_db (snd (serve S secret key verb path r wr w)) =
      w_db (snd (dispatch S (routes S secret key) verb path
        ((sv_incoming S r)\<lparr>rq_UserID := None, rq_Role := None, rq_WalletID := None\<rparr>) wr' w)))"
  by (auto simp: serve_def Let_def securityHeadersMiddleware_def split: prod.splits bool.splits)

lemma presented_frame [simp]:
  "presented S secret (r\<lparr>rq_UserID := a, rq_Role := b, rq_WalletID := c\<rparr>) w = presented S secret r w"
  "presented S secret (r\<lparr>rq_Params := ps\<rparr>) w = presented S secret r w"
  by (simp_all add: presented_def bearer_token_def)

lemma unauthorized_db [simp]: "snd (unauthorized E r wr w) = w"
  by (simp add: unauthorized_def)

lemma no_token_no_business:
  assumes "presented S secret r w = None"
  shows "business (w_db (snd (dispatch S (routes S secret key) verb path r wr w))) = business (w_db w)"
proof (cases rule: dispatch_cases [of S "routes S secret key" verb path r])
  case none
  then show ?thesis by (simp add: unrouted_def)
next
  case (route m pat h params)
  show ?thesis
  proof (cases "(m, pat, h) \<in> set (public_routes S @ auth_routes S secret)")
    case True
    from bu.open_routes_kept [OF this, of "business (w_db w)" "r\<lparr>rq_Params := params\<rparr>"] route(2) show ?thesis
      by (simp add: served_def)
  next
    case False
    with route(1) have "(m, pat, h) \<in> set (closed_routes S secret key)" by (auto simp: routes_open_closed)
    then obtain g where "h = protected S secret g" using closed_routes_protected by blast
    then show ?thesis using route(2) assms by (simp add: protected_cases)
  qed
qed

lemma no_admin_no_issuance:
  assumes "\<And>c. presented S secret r w = Some c \<Longrightarrow> cl_Role c \<noteq> ''admin''"
  shows "cbdc_issuance (w_db (snd (dispatch S (routes S secret key) verb path r wr w))) = cbdc_issuance (w_db w)"
proof (cases rule: dispatch_cases [of S "routes S secret key" verb path r])
  case none
  then show ?thesis by (simp add: unrouted_def)
next
  case (route m pat h params)
  show ?thesis
  proof (cases "(m, pat, h) \<in> set (other_routes S secret key)")
    case True
    from iu.other_routes_kept [OF this, of "cbdc_issuance (w_db w)" "r\<lparr>rq_Params := params\<rparr>"] route(2) show ?thesis
      by (simp add: served_def)
  next
    case False
    with route(1) have "(m, pat, h) \<in> set (admin_routes S secret key)" by (simp add: routes_split)
    then obtain g where h: "h = protected S secret (RequireAdmin (sv_env S) g)" using admin_routes_gated by blast
    let ?P = "\<lambda>d. d = w_db w"
    have "served ?P (RequireAdmin (sv_env S) g (with_claims c (r\<lparr>rq_Params := params\<rparr>)))"
      if "presented S secret r w = Some c" for c
    proof -
      have "\<not> (GetUserRole (with_claims c (r\<lparr>rq_Params := params\<rparr>)) = Some ''admin'')"
        using assms [OF that] by (simp add: GetUserRole_def with_claims_def context_value_def)
      then show ?thesis by (auto simp: RequireAdmin_def RequireRole_def intro!: kept_intros split: option.splits)
    qed
    then have "served ?P (GeneralRateLimit (sv_env S) (IncrWithExpiry (sv_env S)) (RequireAdmin (sv_env S) g) (with_claims c (r\<lparr>rq_Params := params\<rparr>)))"
      if "presented S secret r w = Some c" for c
      using that unfolding GeneralRateLimit_def by (intro kept_intros) simp
    then show ?thesis using route(2) h by (auto simp: protected_cases served_def split: option.splits)
  qed
qed

section \<open>The properties\<close>

text \<open>C1: No sequence of HTTP requests, with whatever failures of the database and of Redis, unbalances the books:
  every wallet still holds the sum of its entries and the money in circulation is the money issued.\<close>

theorem server_keeps_books:
  assumes "books (w_db w)"
  shows "books (w_db (serve_all S secret key as w))"
  using assms by (rule bs.run_kept)


text \<open>C34: Nothing the server does removes or changes a transaction, a ledger entry, an issuance, an entry of the
  audit log or a merchant, or loses an account or a wallet: these tables only grow.\<close>

theorem history_only_grows: "grown (w_db w) (w_db (serve_all S secret key as w))"
  by (rule gr.run_kept) simp


text \<open>C33: Without a token that the server accepts, a request changes no transaction, entry, issuance, merchant or
  payment request; and without one of an administrator it issues no money.\<close>

theorem token_gate:
  assumes "presented S secret (sv_incoming S r) w = c" and "w' = snd (serve S secret key verb path r wr w)"
  shows "(c = None \<longrightarrow> business (w_db w') = business (w_db w)) \<and>
    ((\<nexists>x. c = Some x \<and> cl_Role x = ''admin'') \<longrightarrow> cbdc_issuance (w_db w') = cbdc_issuance (w_db w))"
proof -
  let ?r = "(sv_incoming S r)\<lparr>rq_UserID := None, rq_Role := None, rq_WalletID := None\<rparr>"
  have "business (w_db (snd (dispatch S (routes S secret key) verb path ?r wr' w))) = business (w_db w)" if "c = None" for wr'
    using assms(1) that by (intro no_token_no_business) simp
  moreover have "cbdc_issuance (w_db (snd (dispatch S (routes S secret key) verb path ?r wr' w))) = cbdc_issuance (w_db w)"
    if "\<nexists>x. c = Some x \<and> cl_Role x = ''admin''" for wr'
    using assms(1) that by (intro no_admin_no_issuance) simp
  ultimately show ?thesis using serve_db [of S secret key verb path r wr w] assms(2) by auto
qed

section \<open>A server\<close>

text \<open>A router that takes the pattern for the path, no reverse proxy, no preflight, and the sample installation.\<close>

definition sample_server :: server where
  "sample_server = \<lparr>sv_env = sample_env, sv_auth = sample_lib, sv_collation = ascii_db, sv_inf_int = 0,
     sv_getenv = (\<lambda>_. ''''), sv_version = ''dev'',
     sv_match = (\<lambda>rs m p. let i = length (takeWhile (\<lambda>x. x \<noteq> (m, p)) rs) in if i < length rs then Some (i, []) else None),
     sv_incoming = (\<lambda>r. r), sv_cors = (\<lambda>_ _ _ wr. (wr, False)), sv_unrouted = (\<lambda>_. WriteHeader 404),
     sv_upgrade = (\<lambda>_ wr. (WriteHeader 101 wr, True)), sv_driver_text = ''down''\<rparr>"

definition sample_arrivals :: "arrival list" where
  "sample_arrivals = [\<lparr>av_method = ''GET'', av_path = ''/health'', av_request = empty_request\<rparr>,
     \<lparr>av_method = ''POST'', av_path = ''/api/v1/admin/issue-cbdc'', av_request = empty_request\<rparr>]"

theorem server_keeps_books_witness: "books (w_db (serve_all sample_server ''jwt'' ''key'' sample_arrivals funded_world))"
  by (rule server_keeps_books [OF books_funded])

lemma sample_well_formed: "well_formed (w_db sample_world)"
proof -
  have "email_matches False ''admin@x.io''" "email_matches False ''alice@x.io''" "email_matches False ''bob@x.io''" by code_simp+
  then show ?thesis
    by (simp add: well_formed_def users_ok_def wallets_ok_def sessions_ok_def merchants_ok_def requests_ok_def issuance_ok_def
        sample_world_def sample_db_def empty_db_def sample_user_def sample_wallet_def sql_user_roles_def)
qed


theorem token_gate_witness:
  "business (w_db (snd (serve sample_server ''jwt'' ''key'' ''POST'' ''/api/v1/admin/issue-cbdc'' empty_request new_writer funded_world))) =
     business (w_db funded_world)"
proof -
  have "bearer_token empty_request = None" by code_simp
  then have "presented sample_server ''jwt'' (sv_incoming sample_server empty_request) funded_world = None"
    by (simp add: presented_def sample_server_def)
  from token_gate [OF this refl] show ?thesis by blast
qed

end
