(* ===== verification/Seed.thy ===== *)
theory Seed
  imports Schema
begin

text \<open>
  \<open>cmd/seed/main.go\<close>: the demo accounts, wallets, balances and merchants, written straight into the tables by a
  process of its own. Its statements insert a row or, when its key is taken, update the old one; a balance is
  topped up by an issuance in a transaction. The library \<open>auth_lib\<close> gives bcrypt; the order in which Go's
  \<open>range\<close> visits a map is an argument.
\<close>

section \<open>The demo data\<close>

record seedUser =
  su_Email :: string
  su_Password :: string
  su_Name :: string
  su_Role :: string

definition seed_users :: "seedUser list" where
  "seed_users = map (\<lambda>(e, p, n, r). \<lparr>su_Email = e, su_Password = p, su_Name = n, su_Role = r\<rparr>)
    [(''admin@cbdc.local'', ''Admin1234!'', ''System Admin'', ''admin''),
     (''alice@example.com'', ''Alice1234!'', ''Alice Johnson'', ''user''),
     (''bob@example.com'', ''Bob12345!'', ''Bob Smith'', ''user''),
     (''carol@example.com'', ''Carol123!'', ''Carol Williams'', ''user''),
     (''cafe@example.com'', ''Cafe1234!'', ''Good Coffee Co.'', ''merchant''),
     (''market@example.com'', ''Market123!'', ''Digital Market'', ''merchant'')]"

text \<open>The maps, as their entries in the order of the source.\<close>

definition balances :: "(string \<times> int64) list" where
  "balances = [(''alice@example.com'', 492900), (''bob@example.com'', 163150), (''carol@example.com'', 41000),
     (''cafe@example.com'', 2950), (''market@example.com'', 0)]"

definition merchantNames :: "(string \<times> string) list" where
  "merchantNames = [(''cafe@example.com'', ''Good Coffee Co.''), (''market@example.com'', ''Digital Market'')]"

definition merchantTypes :: "(string \<times> string) list" where
  "merchantTypes = [(''cafe@example.com'', ''food_and_beverage''), (''market@example.com'', ''retail'')]"

text \<open>Reading a Go map: a missing key gives the zero value.\<close>

definition id_of :: "(string \<rightharpoonup> uuid) \<Rightarrow> string \<Rightarrow> uuid" where
  "id_of ids email = (case ids email of None \<Rightarrow> uuid_Nil | Some i \<Rightarrow> i)"

section \<open>Accounts and wallets\<close>

definition bcryptCost :: int where
  "bcryptCost = 12"

definition refresh_user :: "string \<Rightarrow> string \<Rightarrow> string \<Rightarrow> gotime \<Rightarrow> user \<Rightarrow> user" where
  "refresh_user hash name role t x =
    x\<lparr>u_PasswordHash := hash, u_FullName := name, u_Role := role, u_KYCStatus := ''verified'', u_IsActive := True,
      u_FailedLogins := 0, u_LockedUntil := None, u_UpdatedAt := t\<rparr>"

text \<open>The checks of the proposed row come first, then the conflict on the address, then the insert.\<close>

definition upsert_user :: "string \<Rightarrow> string \<Rightarrow> string \<Rightarrow> string \<Rightarrow> uuid statement" where
  "upsert_user email hash name role u t d =
    (if role \<notin> set sql_user_roles then Inl (PgError ''22P02'')
     else if \<not> (fits 254 (Some email) \<and> fits 60 (Some hash) \<and> fits 200 (Some name)) then Inl (PgError ''22001'')
     else if \<not> email_matches False email then Inl (PgError ''23514'')
     else case find (\<lambda>x. u_Email x = email) (users d) of
       Some x \<Rightarrow> Inr (u_ID x, d\<lparr>users := upd_where (\<lambda>y. u_Email y = email) (refresh_user hash name role t) (users d)\<rparr>)
     | None \<Rightarrow> (case insert_user email hash name role u t d of
           Inl e \<Rightarrow> Inl e
         | Inr (row, _) \<Rightarrow> Inr (u_ID row, d\<lparr>users := users d @ [row\<lparr>u_KYCStatus := ''verified''\<rparr>]\<rparr>)))"

definition upsertUser :: "env \<Rightarrow> auth_lib \<Rightarrow> seedUser \<Rightarrow> (world, uuid) io" where
  "upsertUser E L u =
    bind_io fresh_call (\<lambda>n.
    case bcrypt_GenerateFromPassword L n (su_Password u) bcryptCost of
      None \<Rightarrow> throw (Wrap ''hash password'' Driver)
    | Some hash \<Rightarrow> wrap_io (''upsert user '' @ su_Email u) (sql E None (upsert_user (su_Email u) hash (su_Name u) (su_Role u))))"

definition upsert_wallet :: "uuid \<Rightarrow> uuid statement" where
  "upsert_wallet userID u t d =
    (case find (\<lambda>w. w_UserID w = userID \<and> w_Currency w = ''DD$'') (wallets d) of
       Some w \<Rightarrow> Inr (w_ID w, d\<lparr>wallets := upd_where (\<lambda>x. w_UserID x = userID \<and> w_Currency x = ''DD$'')
                                  (\<lambda>x. x\<lparr>w_UpdatedAt := t\<rparr>) (wallets d)\<rparr>)
     | None \<Rightarrow> (case insert_wallet userID u t d of Inl e \<Rightarrow> Inl e | Inr (row, d1) \<Rightarrow> Inr (w_ID row, d1)))"

definition upsertWallet :: "env \<Rightarrow> uuid \<Rightarrow> (world, uuid) io" where
  "upsertWallet E userID = wrap_io ''upsert wallet'' (sql E None (upsert_wallet userID))"

section \<open>Balances\<close>

definition signIssuance :: "string \<Rightarrow> string \<Rightarrow> string \<Rightarrow> int64 \<Rightarrow> int64 \<Rightarrow> string" where
  "signIssuance signingKey txnID walletID amountCents timestamp =
    hex_encode (hmac_sum (bytes_of signingKey)
      (bytes_of (txnID @ ''||'' @ walletID @ ''|'' @ FormatInt amountCents @ ''|'' @ FormatInt timestamp)))"

definition select_balance :: "uuid \<Rightarrow> int64 statement" where
  "select_balance walletID u t d =
    (case find (\<lambda>w. w_ID w = walletID) (wallets d) of None \<Rightarrow> Inl NoRows | Some w \<Rightarrow> Inr (w_Balance w, d))"

text \<open>The row is numbered by the program and settled from the start, with no time of confirmation.\<close>

definition insert_settled :: "uuid \<Rightarrow> uuid \<Rightarrow> int64 \<Rightarrow> string \<Rightarrow> unit statement" where
  "insert_settled txnID walletID amountCents sig u t d =
    (case insert_transaction \<lparr>ct_IdempotencyKey = None, ct_Type = TypeIssuance, ct_SenderWalletID = None,
            ct_ReceiverWalletID = Some walletID, ct_AmountCents = amountCents, ct_Reference = None,
            ct_Signature = sig, ct_ParentTransactionID = None\<rparr> txnID t d of
       Inl e \<Rightarrow> Inl e
     | Inr (row, _) \<Rightarrow>
         Inr ((), d\<lparr>transactions := transactions d @ [row\<lparr>t_Status := StatusSettled, t_SettledAt := Some t\<rparr>]\<rparr>))"

text \<open>\<open>UPDATE wallets SET balance = $1 WHERE id = $2\<close>: the new balance is written over whatever is there.\<close>

definition set_balance :: "uuid \<Rightarrow> int64 \<Rightarrow> unit statement" where
  "set_balance walletID b u t d =
    (if sint b < 0 \<and> walletID \<in> w_ID ` set (wallets d) then Inl (PgError ''23514'')
     else Inr ((), d\<lparr>wallets := upd_where (\<lambda>w. w_ID w = walletID) (\<lambda>w. w\<lparr>w_Balance := b, w_UpdatedAt := t\<rparr>) (wallets d)\<rparr>))"

text \<open>The dash of the reason is one character of three bytes.\<close>

definition seed_reason :: string where
  "seed_reason = ''seed data '' @ [CHR 0xE2, CHR 0x80, CHR 0x94] @ '' initial demo balance''"

definition seed_tx :: "env \<Rightarrow> uuid \<Rightarrow> uuid \<Rightarrow> int64 \<Rightarrow> int64 \<Rightarrow> string \<Rightarrow> gotime \<Rightarrow> (world, unit) io" where
  "seed_tx E adminID walletID current issueCents signingKey tx =
    bind_io (get_io (now E)) (\<lambda>t0.
    bind_io fresh_call (\<lambda>n.
    let txnID = draw_uuid E n;
        sig = signIssuance signingKey (uuid_String E txnID) (uuid_String E walletID) issueCents (word_of_int (Unix t0));
        newBalance = current + issueCents
    in bind_io (wrap_io ''insert transaction'' (sql E (Some tx) (insert_settled txnID walletID issueCents sig))) (\<lambda>_.
       bind_io (wrap_io ''insert ledger entry''
         (sql E (Some tx) (insert_entry walletID txnID EntryCredit issueCents newBalance))) (\<lambda>_.
       bind_io (wrap_io ''update wallet balance'' (sql E (Some tx) (set_balance walletID newBalance))) (\<lambda>_.
       bind_io (wrap_io ''insert issuance record''
         (sql E (Some tx) (insert_issuance E adminID walletID txnID issueCents seed_reason (Some ''127.0.0.1'')))) (\<lambda>_.
       ret ()))))))"

text \<open>The error of the commit is returned without a message of its own.\<close>

definition bare :: "gerror \<Rightarrow> gerror" where
  "bare err = (case err of Wrap m e \<Rightarrow> if m = '''' then e else err | _ \<Rightarrow> err)"

definition seedBalance :: "env \<Rightarrow> uuid \<Rightarrow> uuid \<Rightarrow> int64 \<Rightarrow> string \<Rightarrow> (world, unit) io" where
  "seedBalance E adminID walletID targetCents signingKey =
    bind_io (wrap_io ''get balance'' (sql E None (select_balance walletID))) (\<lambda>current.
    if sint targetCents \<le> sint current then ret ()
    else catch_io (with_tx E ''begin tx'' '''' (seed_tx E adminID walletID current (targetCents - current) signingKey))
           (\<lambda>err. throw (bare err)) ret)"

section \<open>Merchants\<close>

definition sha256Hex :: "string \<Rightarrow> string" where
  "sha256Hex s = hex_encode (Sum256 (bytes_of s))"

definition upsert_merchant :: "CreateMerchantParams \<Rightarrow> unit statement" where
  "upsert_merchant p u t d =
    (if \<not> fits 200 (Some (cm_BusinessName p)) \<or> \<not> fits 100 (cm_BusinessType p) \<or>
        \<not> fits 128 (Some (cm_APIKeyHash p)) \<or> \<not> fits 20 (Some (cm_APIKeyPrefix p))
     then Inl (PgError ''22001'')
     else if cm_UserID p \<in> m_UserID ` set (merchants d)
     then Inr ((), d\<lparr>merchants := upd_where (\<lambda>m. m_UserID m = cm_UserID p)
            (\<lambda>m. m\<lparr>m_BusinessName := cm_BusinessName p, m_BusinessType := cm_BusinessType p, m_UpdatedAt := t\<rparr>) (merchants d)\<rparr>)
     else (case insert_merchant p u t d of Inl e \<Rightarrow> Inl e | Inr (_, d1) \<Rightarrow> Inr ((), d1)))"

definition upsertMerchant :: "env \<Rightarrow> uuid \<Rightarrow> string \<Rightarrow> string \<Rightarrow> (world, unit) io" where
  "upsertMerchant E userID businessName businessType =
    (let rawKey = ''demo_'' @ take 8 (uuid_String E userID) @ ''_key_for_testing_only''
     in wrap_io ''upsert merchant'' (sql E None (upsert_merchant
          \<lparr>cm_UserID = userID, cm_BusinessName = businessName, cm_BusinessType = Some businessType, cm_WebhookURL = None,
           cm_APIKeyHash = sha256Hex rawKey, cm_APIKeyPrefix = take 8 rawKey\<rparr>)))"

section \<open>The program\<close>

text \<open>The four loops of \<open>main\<close>; an error ends the process.\<close>

primrec upsert_users :: "env \<Rightarrow> auth_lib \<Rightarrow> seedUser list \<Rightarrow> (string \<rightharpoonup> uuid) \<Rightarrow> (world, string \<rightharpoonup> uuid) io" where
  "upsert_users E L [] userIDs = ret userIDs"
| "upsert_users E L (u # us) userIDs =
     bind_io (upsertUser E L u) (\<lambda>i. upsert_users E L us (userIDs(su_Email u \<mapsto> i)))"

primrec upsert_wallets :: "env \<Rightarrow> (string \<rightharpoonup> uuid) \<Rightarrow> seedUser list \<Rightarrow> (string \<rightharpoonup> uuid) \<Rightarrow> (world, string \<rightharpoonup> uuid) io" where
  "upsert_wallets E userIDs [] walletIDs = ret walletIDs"
| "upsert_wallets E userIDs (u # us) walletIDs =
     (if su_Role u = ''admin'' then upsert_wallets E userIDs us walletIDs
      else bind_io (upsertWallet E (id_of userIDs (su_Email u))) (\<lambda>wid.
           upsert_wallets E userIDs us (walletIDs(su_Email u \<mapsto> wid))))"

primrec seed_balances :: "env \<Rightarrow> uuid \<Rightarrow> (string \<rightharpoonup> uuid) \<Rightarrow> string \<Rightarrow> (string \<times> int64) list \<Rightarrow> (world, unit) io" where
  "seed_balances E adminID walletIDs signingKey [] = ret ()"
| "seed_balances E adminID walletIDs signingKey (b # bs) =
     (if snd b = 0 then seed_balances E adminID walletIDs signingKey bs
      else bind_io (seedBalance E adminID (id_of walletIDs (fst b)) (snd b) signingKey) (\<lambda>_.
           seed_balances E adminID walletIDs signingKey bs))"

primrec upsert_merchants :: "env \<Rightarrow> (string \<rightharpoonup> uuid) \<Rightarrow> (string \<times> string) list \<Rightarrow> (world, unit) io" where
  "upsert_merchants E userIDs [] = ret ()"
| "upsert_merchants E userIDs (m # ms) =
     bind_io (upsertMerchant E (id_of userIDs (fst m)) (snd m)
        (case map_of merchantTypes (fst m) of None \<Rightarrow> '''' | Some ty \<Rightarrow> ty)) (\<lambda>_.
     upsert_merchants E userIDs ms)"

definition seed_getEnv :: "(string \<Rightarrow> string) \<Rightarrow> string \<Rightarrow> string \<Rightarrow> string" where
  "seed_getEnv getenv key def = (let v = getenv key in if v \<noteq> '''' then v else def)"

text \<open>\<open>None\<close>: the process exits.\<close>

definition seed_mustEnv :: "(string \<Rightarrow> string) \<Rightarrow> string \<Rightarrow> string option" where
  "seed_mustEnv getenv key = (let v = getenv key in if v = '''' then None else Some v)"

definition seed_signingKey :: "(string \<Rightarrow> string) \<Rightarrow> string" where
  "seed_signingKey getenv = seed_getEnv getenv ''SIGNING_KEY'' ''dev-signing-key-change-in-prod''"

text \<open>\<open>bo\<close> and \<open>mo\<close> are the orders of the two loops over maps.\<close>

definition seed_main :: "env \<Rightarrow> auth_lib \<Rightarrow> (string \<Rightarrow> string) \<Rightarrow> (string \<times> int64) list \<Rightarrow> (string \<times> string) list \<Rightarrow> (world, unit) io" where
  "seed_main E L getenv bo mo =
    bind_io (upsert_users E L seed_users Map.empty) (\<lambda>userIDs.
    bind_io (upsert_wallets E userIDs seed_users Map.empty) (\<lambda>walletIDs.
    bind_io (seed_balances E (id_of userIDs ''admin@cbdc.local'') walletIDs (seed_signingKey getenv) bo) (\<lambda>_.
    upsert_merchants E userIDs mo)))"

section \<open>The contracts of the statements\<close>

text \<open>What holds through the statements outside the transactions, and what holds through the balances too.\<close>

locale safe_upserts =
  fixes P :: "database \<Rightarrow> bool"
  assumes user: "safe P (upsert_user email hash name role)"
    and wallet: "safe P (upsert_wallet i)"
    and merchant: "safe P (upsert_merchant p)"
begin

lemma user_kept [kept_intros]: "kept P (upsertUser E L u)"
  unfolding upsertUser_def by (intro kept_intros kept_sql user)

lemma wallet_kept [kept_intros]: "kept P (upsertWallet E i)"
  unfolding upsertWallet_def by (intro kept_intros kept_sql wallet)

lemma merchant_kept [kept_intros]: "kept P (upsertMerchant E i n ty)"
  unfolding upsertMerchant_def Let_def by (intro kept_intros kept_sql merchant)

lemma loops_kept:
  "kept P (upsert_users E L us m)" "kept P (upsert_wallets E ids us m)" "kept P (upsert_merchants E ids ms)"
proof -
  show "kept P (upsert_users E L us m)"
    by (induction us arbitrary: m) (auto simp only: upsert_users.simps intro!: kept_intros)
  show "kept P (upsert_wallets E ids us m)"
    by (induction us arbitrary: m) (auto simp only: upsert_wallets.simps intro!: kept_intros)
  show "kept P (upsert_merchants E ids ms)"
    by (induction ms) (auto simp only: upsert_merchants.simps intro!: kept_intros)
qed

end

locale safe_seed = safe_upserts +
  assumes balance: "kept P (seedBalance E i j n key)"
begin

lemma balances_kept: "kept P (seed_balances E i ids key bs)"
  by (induction bs) (auto simp only: seed_balances.simps intro!: kept_intros balance)

lemma main_kept: "kept P (seed_main E L getenv bo mo)"
  unfolding seed_main_def by (intro kept_intros loops_kept balances_kept)

end

end
