(* ===== verification/Seed_Claims.thy ===== *)
theory Seed_Claims
  imports Seed System_Claims "HOL-Library.Multiset"
begin

text \<open>
  What the demo data program does to the tables: it keeps the books and the schema whatever fails, a success leaves
  every demo account with its balance, and after a success no further run issues any money.
\<close>

section \<open>A balance topped up\<close>

text \<open>The tables after \<open>seedBalance\<close> has brought a wallet up to its target.\<close>

definition topped :: "uuid \<Rightarrow> int64 \<Rightarrow> database \<Rightarrow> database \<Rightarrow> bool" where
  "topped wid target d d' \<longleftrightarrow>
     (\<exists>v x e i. find (\<lambda>w. w_ID w = wid) (wallets d) = Some v \<and> sint (w_Balance v) < sint target \<and>
        d' = record_issuance i (enter x [e] d) \<and> t_ID x \<notin> t_ID ` set (transactions d) \<and> t_Status x = StatusSettled \<and>
        t_SenderWalletID x = None \<and> postable_all [e] d \<and> le_TransactionID e = t_ID x \<and> balanced x [e] \<and>
        is_AmountCents i = t_AmountCents x \<and> is_WalletID i = wid \<and> is_TransactionID i = t_ID x \<and>
        le_WalletID e = wid \<and> entry_delta e = target - w_Balance v)"

lemma upd_where_cong: "(\<And>r. r \<in> set rs \<Longrightarrow> P r \<Longrightarrow> f r = g r) \<Longrightarrow> upd_where P f rs = upd_where P g rs"
  by (simp add: upd_where_def)

lemma seed_tx_topped:
  assumes tx: "seed_tx E a wid (w_Balance v) (target - w_Balance v) key tx w = (Inr r, w')"
    and acc: "accounts (w_db w)" and v: "find (\<lambda>x. w_ID x = wid) (wallets (w_db w)) = Some v"
    and low: "sint (w_Balance v) < sint target"
  shows "topped wid target (w_db w) (w_db w')"
proof -
  let ?d = "w_db w" and ?n = "target - w_Balance v"
  have mem: "v \<in> set (wallets ?d)" "w_ID v = wid" using find_Some_in [OF v] by simp_all
  have nonneg: "0 \<le> sint (w_Balance v)" and dist: "distinct (map w_ID (wallets ?d))" using acc mem by (auto simp: accounts_def)
  have n: "sint ?n = sint target - sint (w_Balance v)"
    using nonneg low sint64_le [of target] by (intro sint_sub64) (simp add: int64_ok_def)
  obtain u sig u' d1 u'' e d2 j d3 k l where
      x: "insert_settled u wid ?n sig u' tx ?d = Inr ((), d1)"
    and e: "insert_entry wid u EntryCredit ?n target u'' tx d1 = Inr (e, d2)"
    and b: "set_balance wid target j tx d2 = Inr ((), d3)"
    and i: "insert_issuance E a wid u ?n seed_reason (Some ''127.0.0.1'') k tx d3 = Inr (l, w_db w')"
    using tx unfolding seed_tx_def Let_def
    by (auto simp: io_eq get_io_def fresh_call_def)
  from x obtain y where y: "insert_transaction \<lparr>ct_IdempotencyKey = None, ct_Type = TypeIssuance, ct_SenderWalletID = None,
      ct_ReceiverWalletID = Some wid, ct_AmountCents = ?n, ct_Reference = None, ct_Signature = sig,
      ct_ParentTransactionID = None\<rparr> u tx ?d = Inr (y, ?d\<lparr>transactions := transactions ?d @ [y]\<rparr>)"
    and d1: "d1 = ?d\<lparr>transactions := transactions ?d @ [y\<lparr>t_Status := StatusSettled, t_SettledAt := Some tx\<rparr>]\<rparr>"
    unfolding insert_settled_def by (auto split: sum.splits dest: insert_transaction_Inr)
  note y = insert_transaction_Inr [OF y]
  let ?x = "y\<lparr>t_Status := StatusSettled, t_SettledAt := Some tx\<rparr>"
  from e have e': "e = \<lparr>le_ID = u'', le_WalletID = wid, le_TransactionID = u, le_EntryType = EntryCredit,
      le_AmountCents = ?n, le_BalanceAfter = target, le_CreatedAt = tx\<rparr>" and d2: "d2 = d1\<lparr>ledger_entries := ledger_entries d1 @ [e]\<rparr>"
    by (auto simp: insert_entry_def Let_def split: if_splits)
  from b have d3: "d3 = d2\<lparr>wallets := upd_where (\<lambda>w. w_ID w = wid) (\<lambda>w. w\<lparr>w_Balance := target, w_UpdatedAt := tx\<rparr>) (wallets d2)\<rparr>"
    by (auto simp: set_balance_def split: if_splits)
  have same: "r = v" if "r \<in> set (wallets ?d)" "w_ID r = wid" for r
    using that mem dist by (metis distinct_map inj_onD)
  have "upd_where (\<lambda>w. w_ID w = wid) (\<lambda>w. w\<lparr>w_Balance := target, w_UpdatedAt := tx\<rparr>) (wallets ?d) =
      upd_where (\<lambda>w. w_ID w = wid) (add_balance ?n tx) (wallets ?d)"
    by (rule upd_where_cong) (auto simp: add_balance_def dest!: same)
  then have "d3 = enter ?x [e] ?d"
    by (simp add: d3 d2 d1 enter_def post_def) (simp add: e' entry_delta_def)
  moreover have "postable_all [e] ?d"
    using mem n low nonneg by (auto simp: postable_def e' signed_amount_def)
  moreover have "balanced ?x [e]" using y by (simp add: balanced_def posted_def e' txn_row_def)
  moreover obtain q where "w_db w' = record_issuance q d3" "is_AmountCents q = ?n" "is_WalletID q = wid" "is_TransactionID q = u"
    using insert_issuance_Inr [OF i] by force
  moreover have "t_ID ?x = u" "t_AmountCents ?x = ?n" "t_SenderWalletID ?x = None" "t_Status ?x = StatusSettled"
    "le_WalletID e = wid" "le_TransactionID e = u" "entry_delta e = ?n"
    using y by (simp_all add: e' txn_row_def entry_delta_def)
  ultimately show ?thesis
    unfolding topped_def using v low y
    by (intro exI [of _ v] exI [of _ ?x] exI [of _ e] exI [of _ q] conjI) simp_all
qed

lemma topped_books: "books d \<Longrightarrow> topped wid target d d' \<Longrightarrow> books d'"
  unfolding topped_def using issuance_books(1) by blast

lemma topped_posting: "topped wid target d d' \<Longrightarrow> posting d d'"
proof -
  assume "topped wid target d d'"
  then obtain v x e i where v: "find (\<lambda>w. w_ID w = wid) (wallets d) = Some v"
    and d': "d' = record_issuance i (enter x [e] d)" and i: "is_WalletID i = wid" "is_TransactionID i = t_ID x"
    unfolding topped_def by blast
  have "wid \<in> w_ID ` set (wallets d)" using find_Some_in [OF v] by auto
  then show ?thesis
    unfolding posting_def using i
    by (intro exI [of _ x] exI [of _ "[e]"] exI [of _ "[i]"]) (simp add: d' record_issuance_def enter_def)
qed

lemma topped_wallets:
  assumes "topped wid target d d'" and "distinct (map w_ID (wallets d))"
  shows "\<exists>t. wallets d' = upd_where (\<lambda>w. w_ID w = wid) (\<lambda>w. w\<lparr>w_Balance := target, w_UpdatedAt := t\<rparr>) (wallets d)"
    and "\<exists>v \<in> set (wallets d). w_ID v = wid \<and> sint (w_Balance v) < sint target"
proof -
  obtain v x e i where v: "find (\<lambda>w. w_ID w = wid) (wallets d) = Some v" "sint (w_Balance v) < sint target"
    and d': "d' = record_issuance i (enter x [e] d)" and e: "le_WalletID e = wid" "entry_delta e = target - w_Balance v"
    using assms(1) unfolding topped_def by blast
  have mem: "v \<in> set (wallets d)" "w_ID v = wid" using find_Some_in [OF v(1)] by simp_all
  with v show "\<exists>v \<in> set (wallets d). w_ID v = wid \<and> sint (w_Balance v) < sint target" by blast
  have same: "r = v" if "r \<in> set (wallets d)" "w_ID r = wid" for r
    using that mem assms(2) by (metis distinct_map inj_onD)
  have "wallets d' = upd_where (\<lambda>w. w_ID w = wid) (add_balance (target - w_Balance v) (le_CreatedAt e)) (wallets d)"
    by (simp add: d' record_issuance_def enter_def post_def e)
  also have "\<dots> = upd_where (\<lambda>w. w_ID w = wid) (\<lambda>w. w\<lparr>w_Balance := target, w_UpdatedAt := le_CreatedAt e\<rparr>) (wallets d)"
    by (rule upd_where_cong) (auto simp: add_balance_def dest!: same)
  finally show "\<exists>t. wallets d' = upd_where (\<lambda>w. w_ID w = wid) (\<lambda>w. w\<lparr>w_Balance := target, w_UpdatedAt := t\<rparr>) (wallets d)" by blast
qed

lemma select_balance_reads [kept_intros]: "reads (select_balance i)"
  by (auto simp: reads_def select_balance_def split: option.splits)

text \<open>
  A run of \<open>seedBalance\<close>: the balance could not be read, or is high enough and nothing is written, or it is topped
  up, or the transaction fails; only then may the tables be those of before or (a lost reply) the topped up ones.
\<close>

lemma seedBalance_cases:
  assumes run: "seedBalance E a wid target key w = (r, w')" and acc: "accounts (w_db w)"
  shows "w_db w' = w_db w \<and>
      (r = Inr () \<longrightarrow> (\<exists>v. find (\<lambda>x. w_ID x = wid) (wallets (w_db w)) = Some v \<and> sint target \<le> sint (w_Balance v))) \<or>
    topped wid target (w_db w) (w_db w')"
proof (cases "wrap_io ''get balance'' (sql E None (select_balance wid)) w")
  case (Pair x w1)
  have db: "w_db w1 = w_db w"
    using Pair sql_reads_db [OF select_balance_reads, of E None wid w] by (auto simp: wrap_io_eq)
  show ?thesis
  proof (cases x)
    case (Inl e)
    then show ?thesis using run Pair db by (auto simp: seedBalance_def bind_io_run)
  next
    case (Inr b)
    obtain v where v: "find (\<lambda>x. w_ID x = wid) (wallets (w_db w)) = Some v" "b = w_Balance v"
      using Pair Inr by (auto simp: io_eq select_balance_def split: option.splits)
    show ?thesis
    proof (cases "sint target \<le> sint b")
      case True
      then show ?thesis using run Pair Inr v db by (auto simp: seedBalance_def bind_io_run ret_def)
    next
      case False
      let ?tx = "with_tx E ''begin tx'' '''' (seed_tx E a wid b (target - b) key)"
      have w': "w' = snd (?tx w1)" and r: "r = Inr () \<longrightarrow> fst (?tx w1) = Inr ()"
        using run Pair Inr False by (auto simp: seedBalance_def bind_io_run catch_io_run throw_def ret_def split: sum.splits prod.splits)
      have top: "topped wid target (w_db w) (w_db w2)"
        if "seed_tx E a wid b (target - b) key t (w1\<lparr>w_calls := Suc (w_calls w1)\<rparr>) = (Inr c, w2)" for t c w2
        using seed_tx_topped [of E a wid v target key t "w1\<lparr>w_calls := Suc (w_calls w1)\<rparr>"] that v False acc db by simp
      show ?thesis
      proof (cases "fst (?tx w1) = Inr ()")
        case True
        then have "?tx w1 = (Inr (), w')" using w' by (simp add: prod_eq_iff)
        then obtain w2 t where "seed_tx E a wid b (target - b) key t (w1\<lparr>w_calls := Suc (w_calls w1)\<rparr>) = (Inr (), w2)"
          "w_db w' = w_db w2" by (auto simp: io_eq)
        then show ?thesis using top by metis
      next
        case False
        then show ?thesis
          using with_tx_atomic [of E "''begin tx''" "''''" "seed_tx E a wid b (target - b) key" w1] top w' r db by metis
      qed
    qed
  qed
qed

section \<open>What the statements keep\<close>

lemma books_same_balances:
  assumes "books d" and same: "map (\<lambda>w. (w_ID w, w_Balance w)) ws = map (\<lambda>w. (w_ID w, w_Balance w)) (wallets d)"
  shows "books (d\<lparr>wallets := ws\<rparr>)"
proof -
  let ?f = "\<lambda>w. (w_ID w, w_Balance w)" and ?d = "d\<lparr>wallets := ws\<rparr>"
  have ids: "map w_ID ws = map w_ID (wallets d)"
    using arg_cong [OF same, of "map fst"] by (simp add: comp_def)
  have "map (\<lambda>w. sint (w_Balance w)) ws = map (\<lambda>w. sint (w_Balance w)) (wallets d)"
    using arg_cong [OF same, of "map (sint \<circ> snd)"] by (simp add: comp_def)
  then have ms: "money_supply ?d = money_supply d" by (simp add: money_supply_def sum_by_def)
  have "\<forall>p \<in> set (map ?f (wallets d)). 0 \<le> sint (snd p) \<and> sint (snd p) = entry_sum d (fst p)"
    using assms(1) by (auto simp: books_def accounts_def)
  then have "\<forall>w \<in> set ws. 0 \<le> sint (w_Balance w) \<and> sint (w_Balance w) = entry_sum ?d (w_ID w)"
    unfolding same [symmetric] by (auto simp: entry_sum_def)
  moreover have "w_ID ` set ws = w_ID ` set (wallets d)" by (metis ids list.set_map)
  moreover have "distinct (map w_ID ws)" "\<forall>e \<in> set (ledger_entries d). le_WalletID e \<in> w_ID ` set (wallets d)"
    "running (\<lambda>_. 0) (ledger_entries d)" using assms(1) ids by (simp_all add: books_def accounts_def)
  ultimately have "accounts ?d" unfolding accounts_def by simp metis
  moreover have "journal ?d = journal d" by (simp add: journal_def keys_def booked_def entries_of_def)
  ultimately show ?thesis using assms(1) ms by (simp add: books_def minted_def)
qed

text \<open>The three statements, by what they do.\<close>

lemma upsert_user_Inr:
  assumes "upsert_user email hash name role u t d = Inr (i, d')"
  obtains (old) x where "x \<in> set (users d)" "u_Email x = email" "i = u_ID x" "role \<in> set sql_user_roles"
      "d' = d\<lparr>users := upd_where (\<lambda>y. u_Email y = email) (refresh_user hash name role t) (users d)\<rparr>"
  | (new) row where "insert_user email hash name role u t d = Inr (row, d\<lparr>users := users d @ [row]\<rparr>)" "i = u_ID row"
      "d' = d\<lparr>users := users d @ [row\<lparr>u_KYCStatus := ''verified''\<rparr>]\<rparr>"
proof (cases "find (\<lambda>x. u_Email x = email) (users d)")
  case None
  then show ?thesis
    using assms new by (auto simp: upsert_user_def split: if_splits sum.splits dest: insert_user_Inr)
next
  case (Some x)
  then show ?thesis using assms old find_Some_in [OF Some] by (auto simp: upsert_user_def split: if_splits)
qed

lemma upsert_wallet_Inr:
  assumes "upsert_wallet j u t d = Inr (i, d')"
  obtains (old) x where "x \<in> set (wallets d)" "w_UserID x = j" "w_Currency x = ''DD$''" "i = w_ID x"
      "d' = d\<lparr>wallets := upd_where (\<lambda>x. w_UserID x = j \<and> w_Currency x = ''DD$'') (\<lambda>x. x\<lparr>w_UpdatedAt := t\<rparr>) (wallets d)\<rparr>"
  | (new) row where "insert_wallet j u t d = Inr (row, d')" "i = w_ID row"
proof (cases "find (\<lambda>w. w_UserID w = j \<and> w_Currency w = ''DD$'') (wallets d)")
  case None
  then show ?thesis using assms new by (auto simp: upsert_wallet_def split: sum.splits)
next
  case (Some x)
  then show ?thesis using assms old find_Some_in [OF Some] by (auto simp: upsert_wallet_def)
qed

lemma upsert_merchant_Inr:
  assumes "upsert_merchant p u t d = Inr (a, d')"
  obtains (old) f where "\<And>m. m_ID (f m) = m_ID m \<and> m_UserID (f m) = m_UserID m"
      "d' = d\<lparr>merchants := upd_where (\<lambda>m. m_UserID m = cm_UserID p) f (merchants d)\<rparr>"
  | (new) row where "insert_merchant p u t d = Inr (row, d')"
proof (cases "cm_UserID p \<in> m_UserID ` set (merchants d)")
  case True
  with assms show ?thesis
    by (intro old [of "\<lambda>m. m\<lparr>m_BusinessName := cm_BusinessName p, m_BusinessType := cm_BusinessType p, m_UpdatedAt := t\<rparr>"])
       (simp_all add: upsert_merchant_def split: if_splits)
next
  case False
  with assms show ?thesis by (auto simp: upsert_merchant_def intro: new split: if_splits sum.splits)
qed

text \<open>The books.\<close>

lemma upserts_books:
  "safe books (upsert_user email hash name role)" "safe books (upsert_wallet i)" "safe books (upsert_merchant p)"
proof -
  have users: "books (d\<lparr>users := us\<rparr>)" and merchants: "books (d\<lparr>merchants := ms\<rparr>)" if "books d" for d us ms
    using that money_books [of "d\<lparr>users := us\<rparr>" d] money_books [of "d\<lparr>merchants := ms\<rparr>" d] by (simp_all add: money_def)
  show "safe books (upsert_user email hash name role)"
    by (rule safe_by) (erule upsert_user_Inr; simp add: users)
  show "safe books (upsert_wallet i)"
  proof (rule safe_by, erule upsert_wallet_Inr)
    fix d d' t and x :: wallet
    assume b: "books d" and d': "d' = d\<lparr>wallets := upd_where (\<lambda>x. w_UserID x = i \<and> w_Currency x = ''DD$'') (\<lambda>x. x\<lparr>w_UpdatedAt := t\<rparr>) (wallets d)\<rparr>"
    show "books d'" unfolding d' by (intro books_same_balances [OF b] map_upd_where) simp
  next
    fix d d' u t row assume "books d" "insert_wallet i u t d = Inr (row, d')"
    then show "books d'" using books_new_wallet unfolding safe_def by blast
  qed
  have "safe books (insert_merchant p)" by (rule safe_money [OF money_leaves(9)])
  then have "books d'" if "books d" "insert_merchant p u t d = Inr (row, d')" for d d' u t row
    using that unfolding safe_def by blast
  then show "safe books (upsert_merchant p)"
    by (intro safe_by) (erule upsert_merchant_Inr; simp add: merchants)
qed

text \<open>The schema.\<close>

lemma upserts_well_formed:
  "safe well_formed (upsert_user email hash name role)" "safe well_formed (upsert_wallet i)"
  "safe well_formed (upsert_merchant p)"
proof -
  show "safe well_formed (upsert_user email hash name role)"
  proof (rule safe_by, erule upsert_user_Inr)
    fix d d' t and x :: user
    assume wf: "well_formed d" and role: "role \<in> set sql_user_roles"
      and d': "d' = d\<lparr>users := upd_where (\<lambda>y. u_Email y = email) (refresh_user hash name role t) (users d)\<rparr>"
    have "users_ok (upd_where (\<lambda>y. u_Email y = email) (refresh_user hash name role t) (users d))"
      using wf role by (auto simp: well_formed_def users_ok_def map_upd_where set_upd_where refresh_user_def)
    then show "well_formed d'"
      unfolding d' by (intro well_formed_users [OF wf]) (simp_all add: image_upd_where refresh_user_def)
  next
    fix d d' u t row
    assume wf: "well_formed d" and q: "insert_user email hash name role u t d = Inr (row, d\<lparr>users := users d @ [row]\<rparr>)"
      and d': "d' = d\<lparr>users := users d @ [row\<lparr>u_KYCStatus := ''verified''\<rparr>]\<rparr>"
    have "well_formed (d\<lparr>users := users d @ [row]\<rparr>)" using users_well_formed(1) wf q unfolding safe_def by blast
    then have "users_ok (users d @ [row])" by (simp add: well_formed_def)
    then have "users_ok (users d @ [row\<lparr>u_KYCStatus := ''verified''\<rparr>])" by (simp add: users_ok_def)
    then show "well_formed d'" unfolding d' by (intro well_formed_users [OF wf]) auto
  qed
  show "safe well_formed (upsert_wallet i)"
  proof (rule safe_by, erule upsert_wallet_Inr)
    fix d d' t and x :: wallet
    assume "well_formed d"
      "d' = d\<lparr>wallets := upd_where (\<lambda>x. w_UserID x = i \<and> w_Currency x = ''DD$'') (\<lambda>x. x\<lparr>w_UpdatedAt := t\<rparr>) (wallets d)\<rparr>"
    then show "well_formed d'" by (simp add: well_formed_def map_upd_where image_upd_where)
  next
    fix d d' u t row assume "well_formed d" "insert_wallet i u t d = Inr (row, d')"
    then show "well_formed d'" using new_wallet_well_formed unfolding safe_def by blast
  qed
  show "safe well_formed (upsert_merchant p)"
  proof (rule safe_by, erule upsert_merchant_Inr)
    fix d d' f
    assume "well_formed d" "\<And>m. m_ID (f m) = m_ID m \<and> m_UserID (f m) = m_UserID m"
      "d' = d\<lparr>merchants := upd_where (\<lambda>m. m_UserID m = cm_UserID p) f (merchants d)\<rparr>"
    then show "well_formed d'" by (simp add: well_formed_def merchants_ok_def map_upd_where image_upd_where)
  next
    fix d d' u t row assume "well_formed d" "insert_merchant p u t d = Inr (row, d')"
    then show "well_formed d'" using merchant_well_formed unfolding safe_def by blast
  qed
qed

text \<open>No account changes its number or address, no wallet its owner, and no balance falls.\<close>

definition survives :: "('r \<Rightarrow> 'r \<Rightarrow> bool) \<Rightarrow> 'r list \<Rightarrow> 'r list \<Rightarrow> bool" where
  "survives R rs rs' \<longleftrightarrow> (\<forall>r \<in> set rs. \<exists>r' \<in> set rs'. R r r')"

definition same_user :: "user \<Rightarrow> user \<Rightarrow> bool" where
  "same_user u u' \<longleftrightarrow> u_ID u' = u_ID u \<and> u_Email u' = u_Email u"

definition same_wallet :: "wallet \<Rightarrow> wallet \<Rightarrow> bool" where
  "same_wallet w w' \<longleftrightarrow> w_ID w' = w_ID w \<and> w_UserID w' = w_UserID w \<and> w_Currency w' = w_Currency w \<and>
     sint (w_Balance w) \<le> sint (w_Balance w')"

definition carried :: "database \<Rightarrow> database \<Rightarrow> bool" where
  "carried d d' \<longleftrightarrow> survives same_user (users d) (users d') \<and> survives same_wallet (wallets d) (wallets d')"

lemma survives_append: "(\<And>r. R r r) \<Longrightarrow> survives R rs (rs @ rs')"
  by (auto simp: survives_def)

lemma survives_upd:
  assumes "\<And>r. R r r" and "\<And>r. r \<in> set rs \<Longrightarrow> Q r \<Longrightarrow> R r (f r)"
  shows "survives R rs (upd_where Q f rs)"
  unfolding survives_def
proof
  fix r assume r: "r \<in> set rs"
  with assms have "R r (if Q r then f r else r)" by simp
  moreover have "(if Q r then f r else r) \<in> set (upd_where Q f rs)" using r by (auto simp: set_upd_where)
  ultimately show "\<exists>r' \<in> set (upd_where Q f rs). R r r'" by blast
qed

lemma same_refl [simp]: "same_user u u" "same_wallet w w"
  by (simp_all add: same_user_def same_wallet_def)

lemma survives_refl [simp]: "(\<And>r. R r r) \<Longrightarrow> survives R rs rs"
  using survives_append [of R rs "[]"] by simp

lemma carried_refl [simp]: "carried d d"
  by (simp add: carried_def)

lemma carried_trans:
  assumes "carried a b" and "carried b c"
  shows "carried a c"
proof -
  have tr: "survives R xs zs" if "survives R xs ys" "survives R ys zs" "\<And>x y z. R x y \<Longrightarrow> R y z \<Longrightarrow> R x z"
    for R :: "'r \<Rightarrow> 'r \<Rightarrow> bool" and xs ys zs
    using that unfolding survives_def by meson
  show ?thesis
    using assms unfolding carried_def
    by (auto intro!: tr [of same_user "users a" "users b"] tr [of same_wallet "wallets a" "wallets b"]
        simp: same_user_def same_wallet_def)
qed

lemma upserts_carried:
  "upsert_user email hash name role u t d = Inr (i, d') \<Longrightarrow> carried d d'"
  "upsert_wallet i u t d = Inr (j, d') \<Longrightarrow> carried d d'"
  "upsert_merchant p u t d = Inr (a, d') \<Longrightarrow> carried d d'"
proof -
  show "carried d d'" if "upsert_user email hash name role u t d = Inr (i, d')"
    using that
    by (rule upsert_user_Inr) (simp_all add: carried_def survives_append survives_upd same_user_def refresh_user_def)
  show "carried d d'" if "upsert_wallet i u t d = Inr (j, d')"
    using that
    by (rule upsert_wallet_Inr) (auto simp: carried_def survives_append survives_upd same_wallet_def dest!: insert_wallet_Inr(1))
  show "carried d d'" if "upsert_merchant p u t d = Inr (a, d')"
    using that by (rule upsert_merchant_Inr) (auto simp: carried_def insert_merchant_def Let_def split: if_splits)
qed

lemma topped_carried:
  assumes "topped wid target d d'" and "accounts d"
  shows "carried d d'"
proof -
  have dist: "distinct (map w_ID (wallets d))" using assms(2) by (simp add: accounts_def)
  obtain t v where w: "wallets d' = upd_where (\<lambda>w. w_ID w = wid) (\<lambda>w. w\<lparr>w_Balance := target, w_UpdatedAt := t\<rparr>) (wallets d)"
    and v: "v \<in> set (wallets d)" "w_ID v = wid" "sint (w_Balance v) < sint target"
    using topped_wallets [OF assms(1) dist] by blast
  have "r = v" if "r \<in> set (wallets d)" "w_ID r = wid" for r
    using that v(1,2) dist by (metis distinct_map inj_onD)
  then have "survives same_wallet (wallets d) (wallets d')"
    unfolding w using v(3) by (intro survives_upd) (auto simp: same_wallet_def dest: less_imp_le)
  then show ?thesis
    using posting_frame(1) [OF topped_posting [OF assms(1)]] by (simp add: carried_def)
qed


section \<open>What a run keeps\<close>

text \<open>The books and the schema stand, and everything of \<open>d0\<close> is still there.\<close>

definition sound :: "database \<Rightarrow> database \<Rightarrow> bool" where
  "sound d0 d \<longleftrightarrow> books d \<and> well_formed d \<and> carried d0 d"

lemma soundI: "books d \<Longrightarrow> well_formed d \<Longrightarrow> sound d d"
  by (simp add: sound_def)

lemma safe_sound:
  assumes "safe books q" and "safe well_formed q" and "\<And>u t d a d'. q u t d = Inr (a, d') \<Longrightarrow> carried d d'"
  shows "safe (sound d0) q"
  using assms unfolding safe_def sound_def by (meson carried_trans)

interpretation sd: safe_seed "sound d0" for d0
proof
  show "kept (sound d0) (seedBalance E i j n key)" for E i j n key
    unfolding keeps_def
  proof (intro allI impI)
    fix w :: world assume s: "sound d0 (w_db w)"
    then have acc: "accounts (w_db w)" by (simp add: sound_def books_def)
    obtain r w' where run: "seedBalance E i j n key w = (r, w')" by (cases "seedBalance E i j n key w")
    from seedBalance_cases [OF this acc]
    have "w_db w' = w_db w \<or> topped j n (w_db w) (w_db w')" by blast
    then have "sound d0 (w_db w')"
    proof
      assume t: "topped j n (w_db w) (w_db w')"
      show ?thesis
        using s topped_books [OF _ t] posting_well_formed [OF _ topped_posting [OF t]]
          carried_trans [OF _ topped_carried [OF t acc]]
        unfolding sound_def by blast
    qed (use s in simp)
    then show "sound d0 (w_db (snd (seedBalance E i j n key w)))" by (simp add: run)
  qed
qed (rule safe_sound upserts_books upserts_well_formed upserts_carried; assumption?)+

text \<open>The rows an issuance writes; the statements outside the transactions write none of them.\<close>

definition money_rows :: "database \<Rightarrow> transaction list \<times> ledger_entry list \<times> issuance list" where
  "money_rows d = (transactions d, ledger_entries d, cbdc_issuance d)"

interpretation lu: safe_upserts "\<lambda>d. money_rows d = rows" for rows
proof
  show "safe (\<lambda>d. money_rows d = rows) (upsert_user email hash name role)" for email hash name role
    by (rule safe_by) (erule upsert_user_Inr; simp add: money_rows_def)
  show "safe (\<lambda>d. money_rows d = rows) (upsert_wallet i)" for i
    by (rule safe_by) (erule upsert_wallet_Inr; auto simp: money_rows_def dest!: insert_wallet_Inr(1))
  show "safe (\<lambda>d. money_rows d = rows) (upsert_merchant p)" for p
    by (rule safe_by) (erule upsert_merchant_Inr; auto simp: money_rows_def insert_merchant_def Let_def split: if_splits)
qed

section \<open>What a success has done\<close>

definition registered :: "database \<Rightarrow> (string \<rightharpoonup> uuid) \<Rightarrow> bool" where
  "registered d ids \<longleftrightarrow> (\<forall>email i. ids email = Some i \<longrightarrow> (\<exists>u \<in> set (users d). u_ID u = i \<and> u_Email u = email))"

definition walleted :: "database \<Rightarrow> (string \<rightharpoonup> uuid) \<Rightarrow> (string \<rightharpoonup> uuid) \<Rightarrow> bool" where
  "walleted d ids wids \<longleftrightarrow> (\<forall>email i. wids email = Some i \<longrightarrow>
     (\<exists>w \<in> set (wallets d). w_ID w = i \<and> w_UserID w = id_of ids email \<and> w_Currency w = ''DD$''))"

lemma registered_carried: "registered d ids \<Longrightarrow> carried d d' \<Longrightarrow> registered d' ids"
  unfolding registered_def carried_def survives_def same_user_def by metis

lemma walleted_carried: "walleted d ids wids \<Longrightarrow> carried d d' \<Longrightarrow> walleted d' ids wids"
  unfolding walleted_def carried_def survives_def same_wallet_def by metis

lemma sd_run:
  assumes "kept (sound (w_db w)) m" and "books (w_db w)" "well_formed (w_db w)" and "m w = (r, w')"
  shows "books (w_db w')" "well_formed (w_db w')" "carried (w_db w) (w_db w')"
  using keepsD [OF assms(1) _ assms(4)] soundI [OF assms(2,3)] by (simp_all add: sound_def)

lemma upsert_user_there:
  assumes "upsert_user email hash name role u t d = Inr (i, d')"
  shows "\<exists>x \<in> set (users d'). u_ID x = i \<and> u_Email x = email"
  using assms
proof (cases rule: upsert_user_Inr)
  case (old x)
  then have "refresh_user hash name role t x \<in> set (users d')" by (auto simp: set_upd_where)
  moreover have "u_ID (refresh_user hash name role t x) = i" "u_Email (refresh_user hash name role t x) = email"
    using old by (simp_all add: refresh_user_def)
  ultimately show ?thesis by blast
next
  case (new row)
  then show ?thesis using insert_user_Inr [OF new(1)] by simp
qed

lemma upsert_wallet_there:
  assumes "upsert_wallet j u t d = Inr (i, d')"
  shows "\<exists>x \<in> set (wallets d'). w_ID x = i \<and> w_UserID x = j \<and> w_Currency x = ''DD$''"
  using assms
proof (cases rule: upsert_wallet_Inr)
  case (old x)
  then have "x\<lparr>w_UpdatedAt := t\<rparr> \<in> set (wallets d')" by (auto simp: set_upd_where)
  moreover have "w_ID (x\<lparr>w_UpdatedAt := t\<rparr>) = i" "w_UserID (x\<lparr>w_UpdatedAt := t\<rparr>) = j" "w_Currency (x\<lparr>w_UpdatedAt := t\<rparr>) = ''DD$''"
    using old by simp_all
  ultimately show ?thesis by blast
next
  case (new row)
  then show ?thesis using insert_wallet_Inr [OF new(1)] by simp
qed

lemma upsert_users_Inr:
  assumes "upsert_users E L us ids w = (Inr ids', w')" and "books (w_db w)" "well_formed (w_db w)" "registered (w_db w) ids"
  shows "registered (w_db w') ids' \<and> dom ids' = dom ids \<union> su_Email ` set us"
  using assms
proof (induction us arbitrary: ids w)
  case Nil
  then show ?case by (simp add: ret_def)
next
  case (Cons u us)
  from Cons.prems(1) obtain i w1 where u: "upsertUser E L u w = (Inr i, w1)"
    and rest: "upsert_users E L us (ids(su_Email u \<mapsto> i)) w1 = (Inr ids', w')" by (auto simp: bind_io_eq)
  note s = sd_run [OF sd.user_kept Cons.prems(2,3) u]
  obtain hash v t d where "upsert_user (su_Email u) hash (su_Name u) (su_Role u) v t d = Inr (i, w_db w1)"
    using u by (auto simp: upsertUser_def io_eq split: option.splits)
  from upsert_user_there [OF this]
  have "registered (w_db w1) (ids(su_Email u \<mapsto> i))"
    using registered_carried [OF Cons.prems(4) s(3)] by (auto simp: registered_def)
  from Cons.IH [OF rest s(1,2) this] show ?case by auto
qed

lemma upsert_wallets_Inr:
  assumes "upsert_wallets E ids us wids w = (Inr wids', w')" and "books (w_db w)" "well_formed (w_db w)"
    and "walleted (w_db w) ids wids"
  shows "walleted (w_db w') ids wids' \<and> dom wids' = dom wids \<union> su_Email ` {u \<in> set us. su_Role u \<noteq> ''admin''}"
  using assms
proof (induction us arbitrary: wids w)
  case Nil
  then show ?case by (simp add: ret_def)
next
  case (Cons u us)
  show ?case
  proof (cases "su_Role u = ''admin''")
    case True
    then show ?thesis using Cons by (auto cong: conj_cong)
  next
    case False
    let ?o = "id_of ids (su_Email u)"
    from Cons.prems(1) False obtain i w1 where u: "upsertWallet E ?o w = (Inr i, w1)"
      and rest: "upsert_wallets E ids us (wids(su_Email u \<mapsto> i)) w1 = (Inr wids', w')" by (auto simp: bind_io_eq)
    note s = sd_run [OF sd.wallet_kept Cons.prems(2,3) u]
    obtain v t d where "upsert_wallet ?o v t d = Inr (i, w_db w1)"
      using u by (auto simp: upsertWallet_def io_eq)
    from upsert_wallet_there [OF this] have "walleted (w_db w1) ids (wids(su_Email u \<mapsto> i))"
      using walleted_carried [OF Cons.prems(4) s(3)] by (auto simp: walleted_def)
    from Cons.IH [OF rest s(1,2) this] have "walleted (w_db w') ids wids'"
      "dom wids' = insert (su_Email u) (dom wids) \<union> su_Email ` {u \<in> set us. su_Role u \<noteq> ''admin''}" by auto
    moreover have "{x \<in> set (u # us). su_Role x \<noteq> ''admin''} = insert u {x \<in> set us. su_Role x \<noteq> ''admin''}" using False by auto
    ultimately show ?thesis by simp
  qed
qed


text \<open>A wallet holds at least a given amount; topping up reaches it, and once reached nothing is written any more.\<close>

definition holds :: "database \<Rightarrow> uuid \<Rightarrow> int64 \<Rightarrow> bool" where
  "holds d i target \<longleftrightarrow> (\<exists>v \<in> set (wallets d). w_ID v = i \<and> sint target \<le> sint (w_Balance v))"

lemma holds_carried: "holds d i target \<Longrightarrow> carried d d' \<Longrightarrow> holds d' i target"
  unfolding holds_def carried_def survives_def same_wallet_def by (metis order_trans)

lemma seedBalance_Inr:
  assumes run: "seedBalance E a i target key w = (Inr (), w')" and acc: "accounts (w_db w)"
  shows "holds (w_db w') i target"
  using seedBalance_cases [OF run acc]
proof
  assume "w_db w' = w_db w \<and>
    (Inr () = Inr () \<longrightarrow> (\<exists>v. find (\<lambda>x. w_ID x = i) (wallets (w_db w)) = Some v \<and> sint target \<le> sint (w_Balance v)))"
  then show ?thesis by (auto simp: holds_def dest: find_Some_in)
next
  assume t: "topped i target (w_db w) (w_db w')"
  have dist: "distinct (map w_ID (wallets (w_db w)))" using acc by (simp add: accounts_def)
  from topped_wallets [OF t dist] obtain v now where v: "v \<in> set (wallets (w_db w))" "w_ID v = i"
    and w': "wallets (w_db w') = upd_where (\<lambda>w. w_ID w = i) (\<lambda>w. w\<lparr>w_Balance := target, w_UpdatedAt := now\<rparr>) (wallets (w_db w))" by blast
  have "v\<lparr>w_Balance := target, w_UpdatedAt := now\<rparr> \<in> set (wallets (w_db w'))" using v by (auto simp: w' set_upd_where)
  moreover have "w_ID (v\<lparr>w_Balance := target, w_UpdatedAt := now\<rparr>) = i"
    "sint target \<le> sint (w_Balance (v\<lparr>w_Balance := target, w_UpdatedAt := now\<rparr>))" using v by simp_all
  ultimately show ?thesis unfolding holds_def by blast
qed

lemma seedBalance_idle:
  assumes acc: "accounts (w_db w)" and "holds (w_db w) i target"
  shows "w_db (snd (seedBalance E a i target key w)) = w_db w"
proof -
  obtain r w' where run: "seedBalance E a i target key w = (r, w')" by (cases "seedBalance E a i target key w")
  have dist: "distinct (map w_ID (wallets (w_db w)))" using acc by (simp add: accounts_def)
  have "\<not> topped i target (w_db w) (w_db w')"
  proof
    assume "topped i target (w_db w) (w_db w')"
    from topped_wallets(2) [OF this dist] obtain v where "v \<in> set (wallets (w_db w))" "w_ID v = i" "sint (w_Balance v) < sint target" by blast
    with assms(2) dist show False unfolding holds_def by (metis distinct_map inj_onD not_le)
  qed
  with seedBalance_cases [OF run acc] show ?thesis by (simp add: run)
qed

lemma seed_balances_Inr:
  assumes "seed_balances E a wids key bs w = (Inr (), w')" and "books (w_db w)" "well_formed (w_db w)"
  shows "\<forall>b \<in> set bs. snd b \<noteq> 0 \<longrightarrow> holds (w_db w') (id_of wids (fst b)) (snd b)"
  using assms
proof (induction bs arbitrary: w)
  case Nil
  then show ?case by simp
next
  case (Cons b bs)
  show ?case
  proof (cases "snd b = 0")
    case True
    then show ?thesis using Cons by simp
  next
    case False
    with Cons.prems(1) obtain w1 where b: "seedBalance E a (id_of wids (fst b)) (snd b) key w = (Inr (), w1)"
      and rest: "seed_balances E a wids key bs w1 = (Inr (), w')" by (auto simp: bind_io_eq)
    note s = sd_run [OF sd.balance Cons.prems(2,3) b]
    have "carried (w_db w1) (w_db w')" using sd_run(3) [OF sd.balances_kept s(1,2) rest] .
    moreover have "holds (w_db w1) (id_of wids (fst b)) (snd b)"
      using seedBalance_Inr [OF b] Cons.prems(2) by (simp add: books_def)
    ultimately show ?thesis using Cons.IH [OF rest s(1,2)] holds_carried by auto
  qed
qed

lemma seed_balances_idle:
  assumes "accounts (w_db w)" and "\<forall>b \<in> set bs. snd b \<noteq> 0 \<longrightarrow> holds (w_db w) (id_of wids (fst b)) (snd b)"
  shows "w_db (snd (seed_balances E a wids key bs w)) = w_db w"
  using assms
proof (induction bs arbitrary: w)
  case Nil
  then show ?case by (simp add: ret_def)
next
  case (Cons b bs)
  show ?case
  proof (cases "snd b = 0")
    case True
    then show ?thesis using Cons by simp
  next
    case False
    let ?m = "seedBalance E a (id_of wids (fst b)) (snd b) key"
    have "w_db (snd (?m w)) = w_db w" using seedBalance_idle Cons.prems False by simp
    with Cons.IH [of "snd (?m w)"] Cons.prems False show ?thesis
      by (cases "?m w") (auto simp: bind_io_run split: sum.splits)
  qed
qed


section \<open>The properties\<close>

text \<open>Every demo address is an account whose wallet holds the target balance.\<close>

definition stocked :: "database \<Rightarrow> bool" where
  "stocked d \<longleftrightarrow> list_all (\<lambda>(email, target). \<exists>u \<in> set (users d). u_Email u = email \<and>
     (\<exists>v \<in> set (wallets d). w_UserID v = u_ID u \<and> w_Currency v = ''DD$'' \<and> sint target \<le> sint (w_Balance v))) balances"

lemma seed_accounts: "fst ` set balances \<subseteq> su_Email ` {u \<in> set seed_users. su_Role u \<noteq> ''admin''}"
proof -
  have "map fst balances = map su_Email (filter (\<lambda>u. su_Role u \<noteq> ''admin'') seed_users)" by code_simp
  then have "set (map fst balances) = set (map su_Email (filter (\<lambda>u. su_Role u \<noteq> ''admin'') seed_users))" by simp
  then show ?thesis by simp
qed

lemma stocked_carried: "stocked d \<Longrightarrow> carried d d' \<Longrightarrow> stocked d'"
proof -
  assume st: "stocked d" and c: "carried d d'"
  show "stocked d'"
    unfolding stocked_def list_all_iff
  proof (intro ballI, clarify)
    fix email target assume "(email, target) \<in> set balances"
    with st obtain u v where u: "u \<in> set (users d)" "u_Email u = email"
      and v: "v \<in> set (wallets d)" "w_UserID v = u_ID u" "w_Currency v = ''DD$''" "sint target \<le> sint (w_Balance v)"
      unfolding stocked_def list_all_iff by fastforce
    from c u(1) obtain u' where u': "u' \<in> set (users d')" "same_user u u'" unfolding carried_def survives_def by blast
    from c v(1) obtain v' where v': "v' \<in> set (wallets d')" "same_wallet v v'" unfolding carried_def survives_def by blast
    from u u' v v' show "\<exists>u \<in> set (users d'). u_Email u = email \<and> (\<exists>v \<in> set (wallets d'). w_UserID v = u_ID u \<and>
        w_Currency v = ''DD$'' \<and> sint target \<le> sint (w_Balance v))"
      by (intro bexI [of _ u'] conjI bexI [of _ v']) (auto simp: same_user_def same_wallet_def)
  qed
qed

text \<open>The numbers the first two loops found are those of the accounts and wallets of the demo addresses.\<close>

lemma seed_ids:
  assumes reg: "registered d ids" "su_Email ` set seed_users \<subseteq> dom ids"
    and wal: "walleted d ids wids" "su_Email ` {u \<in> set seed_users. su_Role u \<noteq> ''admin''} \<subseteq> dom wids"
    and b: "b \<in> set balances"
  obtains u w where "u \<in> set (users d)" "u_Email u = fst b" "w \<in> set (wallets d)" "w_UserID w = u_ID u"
    "w_Currency w = ''DD$''" "w_ID w = id_of wids (fst b)"
proof -
  from b seed_accounts have mem: "fst b \<in> su_Email ` {u \<in> set seed_users. su_Role u \<noteq> ''admin''}" by blast
  then have "fst b \<in> dom wids" "fst b \<in> dom ids" using reg(2) wal(2) by auto
  then obtain i j where ij: "ids (fst b) = Some i" "wids (fst b) = Some j" by blast
  from reg(1) ij obtain u where u: "u \<in> set (users d)" "u_ID u = i" "u_Email u = fst b" unfolding registered_def by blast
  from wal(1) ij obtain w where w: "w \<in> set (wallets d)" "w_ID w = j" "w_UserID w = id_of ids (fst b)" "w_Currency w = ''DD$''"
    unfolding walleted_def by blast
  show ?thesis using that [OF u(1,3) w(1)] u(2) w ij by (simp add: id_of_def)
qed

lemma stocked_holds:
  assumes wf: "well_formed d" and st: "stocked d" and b: "b \<in> set balances"
    and u: "u \<in> set (users d)" "u_Email u = fst b" and w: "w \<in> set (wallets d)" "w_UserID w = u_ID u" "w_Currency w = ''DD$''"
  shows "holds d (w_ID w) (snd b)"
proof -
  from st b obtain u' v where u': "u' \<in> set (users d)" "u_Email u' = fst b"
    and v: "v \<in> set (wallets d)" "w_UserID v = u_ID u'" "w_Currency v = ''DD$''" "sint (snd b) \<le> sint (w_Balance v)"
    unfolding stocked_def list_all_iff by fastforce
  have "distinct (map u_Email (users d))" "distinct (map (\<lambda>w. (w_UserID w, w_Currency w)) (wallets d))"
    using wf by (simp_all add: well_formed_def users_ok_def wallets_ok_def)
  note inj = this [unfolded distinct_map]
  have "u' = u" using inj_onD [OF conjunct2 [OF inj(1)] _ u'(1) u(1)] u(2) u'(2) by simp
  then have "v = w" using inj_onD [OF conjunct2 [OF inj(2)] _ v(1) w(1)] v(2,3) w(2,3) by simp
  then show ?thesis using w(1) v(4) by (auto simp: holds_def)
qed

lemma rows_run:
  assumes "kept (\<lambda>d. money_rows d = money_rows (w_db w)) m" and "m w = (r, w')"
  shows "money_rows (w_db w') = money_rows (w_db w)"
  using keepsD [OF assms(1) refl assms(2)] .

text \<open>The last two loops, once the numbers are known.\<close>

lemma balances_stocked:
  assumes run: "seed_balances E a wids key bo w = (Inr (), w')" and bo: "set bo = set balances"
    and inv: "books (w_db w)" "well_formed (w_db w)"
    and reg: "registered (w_db w) ids" "su_Email ` set seed_users \<subseteq> dom ids"
    and wal: "walleted (w_db w) ids wids" "su_Email ` {u \<in> set seed_users. su_Role u \<noteq> ''admin''} \<subseteq> dom wids"
  shows "stocked (w_db w')"
proof -
  note s = sd_run [OF sd.balances_kept inv run] and got = seed_balances_Inr [OF run inv]
  have "\<exists>u \<in> set (users (w_db w')). u_Email u = fst b \<and> (\<exists>v \<in> set (wallets (w_db w')). w_UserID v = u_ID u \<and>
      w_Currency v = ''DD$'' \<and> sint (snd b) \<le> sint (w_Balance v))" if b: "b \<in> set balances" for b
  proof (rule seed_ids [OF registered_carried [OF reg(1) s(3)] reg(2) walleted_carried [OF wal(1) s(3)] wal(2) b])
    fix u v assume u: "u \<in> set (users (w_db w'))" "u_Email u = fst b"
      and v: "v \<in> set (wallets (w_db w'))" "w_UserID v = u_ID u" "w_Currency v = ''DD$''" "w_ID v = id_of wids (fst b)"
    have "sint (snd b) \<le> sint (w_Balance v)"
    proof (cases "snd b = 0")
      case True
      moreover have "0 \<le> sint (w_Balance v)" using s(1) v(1) unfolding books_def accounts_def by blast
      ultimately show ?thesis by simp
    next
      case False
      with got b bo v(4) obtain v' where v': "v' \<in> set (wallets (w_db w'))" "w_ID v' = w_ID v" "sint (snd b) \<le> sint (w_Balance v')"
        by (auto simp: holds_def)
      moreover have "distinct (map w_ID (wallets (w_db w')))" using s(1) by (simp add: books_def accounts_def)
      ultimately have "v' = v" using v(1) by (metis distinct_map inj_onD)
      with v'(3) show ?thesis by simp
    qed
    with u v show ?thesis by blast
  qed
  then show ?thesis unfolding stocked_def list_all_iff by (simp add: case_prod_beta)
qed

lemma balances_idle:
  assumes st: "stocked (w_db w)" and bo: "set bo = set balances" and inv: "books (w_db w)" "well_formed (w_db w)"
    and reg: "registered (w_db w) ids" "su_Email ` set seed_users \<subseteq> dom ids"
    and wal: "walleted (w_db w) ids wids" "su_Email ` {u \<in> set seed_users. su_Role u \<noteq> ''admin''} \<subseteq> dom wids"
  shows "w_db (snd (seed_balances E a wids key bo w)) = w_db w"
proof -
  have "holds (w_db w) (id_of wids (fst b)) (snd b)" if b: "b \<in> set balances" for b
  proof (rule seed_ids [OF reg wal b])
    fix u v assume "u \<in> set (users (w_db w))" "u_Email u = fst b" "v \<in> set (wallets (w_db w))" "w_UserID v = u_ID u"
      "w_Currency v = ''DD$''" and "w_ID v = id_of wids (fst b)"
    then show ?thesis using stocked_holds [OF inv(2) st b] by metis
  qed
  then show ?thesis using bo inv(1) by (intro seed_balances_idle) (auto simp: books_def)
qed

lemma seed_tail:
  assumes run: "bind_io (seed_balances E a wids key bo) (\<lambda>_. upsert_merchants E ids mo) w = (r, w')"
    and bo: "set bo = set balances" and inv: "books (w_db w)" "well_formed (w_db w)"
    and reg: "registered (w_db w) ids" "su_Email ` set seed_users \<subseteq> dom ids"
    and wal: "walleted (w_db w) ids wids" "su_Email ` {u \<in> set seed_users. su_Role u \<noteq> ''admin''} \<subseteq> dom wids"
  shows "(r = Inr () \<longrightarrow> stocked (w_db w')) \<and> (stocked (w_db w) \<longrightarrow> money_rows (w_db w') = money_rows (w_db w))"
proof (cases "seed_balances E a wids key bo w")
  case (Pair x w1)
  note s1 = sd_run [OF sd.balances_kept inv Pair]
  have idle: "stocked (w_db w) \<Longrightarrow> w_db w1 = w_db w" using balances_idle [OF _ bo inv reg wal, of E a key] Pair by simp
  show ?thesis
  proof (cases x)
    case (Inl e)
    then show ?thesis using run Pair idle by (auto simp: bind_io_run)
  next
    case (Inr y)
    then have rest: "upsert_merchants E ids mo w1 = (r, w')" using run Pair by (simp add: bind_io_run)
    have "stocked (w_db w1)" using balances_stocked [OF _ bo inv reg wal] Pair Inr by simp
    then have "stocked (w_db w')" by (rule stocked_carried [OF _ sd_run(3) [OF sd.loops_kept(3) s1(1,2) rest]])
    then show ?thesis using rows_run [OF lu.loops_kept(3) rest] idle by simp
  qed
qed

text \<open>C38: The demo data program, whatever call fails and in whatever order Go walks its maps, keeps the books and the
  schema. When it reports success, every demo account has its wallet and at least its target balance; and when that is
  so already, as in every run after a success, it writes no transaction, entry or issuance at all.\<close>

theorem seed_tops_up_once:
  assumes run: "seed_main E L getenv bo mo w = (r, w')" and orders: "mset bo = mset balances" "mset mo = mset merchantNames"
    and inv: "books (w_db w)" "well_formed (w_db w)"
  shows "books (w_db w') \<and> well_formed (w_db w') \<and> (r = Inr () \<longrightarrow> stocked (w_db w')) \<and>
    (stocked (w_db w) \<longrightarrow> money_rows (w_db w') = money_rows (w_db w))"
proof -
  have bo: "set bo = set balances" using orders(1) by (rule mset_eq_setD)
  note kept = sd_run [OF sd.main_kept inv run]
  have "(r = Inr () \<longrightarrow> stocked (w_db w')) \<and> (stocked (w_db w) \<longrightarrow> money_rows (w_db w') = money_rows (w_db w))"
  proof (cases "upsert_users E L seed_users Map.empty w")
    case (Pair x1 w1)
    note s1 = sd_run [OF sd.loops_kept(1) inv Pair] and m1 = rows_run [OF lu.loops_kept(1) Pair]
    show ?thesis
    proof (cases x1)
      case (Inl e)
      then show ?thesis using run Pair m1 by (auto simp: seed_main_def bind_io_run)
    next
      case (Inr ids)
      have reg: "registered (w_db w1) ids" "su_Email ` set seed_users \<subseteq> dom ids"
        using upsert_users_Inr [OF Pair [unfolded Inr] inv] by (auto simp: registered_def)
      obtain x2 w2 where p2: "upsert_wallets E ids seed_users Map.empty w1 = (x2, w2)" by fastforce
      note s2 = sd_run [OF sd.loops_kept(2) s1(1,2) p2] and m2 = rows_run [OF lu.loops_kept(2) p2]
      show ?thesis
      proof (cases x2)
        case (Inl e)
        then show ?thesis using run Pair Inr p2 m1 m2 by (auto simp: seed_main_def bind_io_run)
      next
        case (Inr wids)
        have wal: "walleted (w_db w2) ids wids" "su_Email ` {u \<in> set seed_users. su_Role u \<noteq> ''admin''} \<subseteq> dom wids"
          using upsert_wallets_Inr [OF p2 [unfolded Inr] s1(1,2)] by (auto simp: walleted_def)
        have tail: "bind_io (seed_balances E (id_of ids ''admin@cbdc.local'') wids (seed_signingKey getenv) bo)
            (\<lambda>_. upsert_merchants E ids mo) w2 = (r, w')"
          using run Pair p2 \<open>x1 = Inr ids\<close> \<open>x2 = Inr wids\<close> by (simp add: seed_main_def bind_io_run [of "upsert_users E L seed_users Map.empty"]
              bind_io_run [of "upsert_wallets E ids seed_users Map.empty"])
        from seed_tail [OF tail bo s2(1,2) registered_carried [OF reg(1) s2(3)] reg(2) wal] show ?thesis
          using stocked_carried [OF _ carried_trans [OF s1(3) s2(3)]] m1 m2 by auto
      qed
    qed
  qed
  with kept show ?thesis by blast
qed


theorem seed_tops_up_once_witness:
  "books (w_db (snd (seed_main sample_env sample_lib (\<lambda>_. '''') (rev balances) merchantNames sample_world))) \<and>
   well_formed (w_db (snd (seed_main sample_env sample_lib (\<lambda>_. '''') (rev balances) merchantNames sample_world)))"
  using seed_tops_up_once [OF prod.collapse [symmetric], of "rev balances" merchantNames sample_world sample_env sample_lib "\<lambda>_. ''''"]
    books_sample sample_well_formed by simp


section \<open>The read outside the transaction\<close>

text \<open>
  The balance is read before the transaction begins and written back as an absolute value: when a payment moves money
  in between, the write loses it. Here the wallet was read empty and has received DD$ 50 since.
\<close>

lemma signature_fits: "fits 128 (Some (signIssuance key a b c d))"
proof -
  have "length (signIssuance key a b c d) = 64"
    using length_hmac [of key] by (simp add: signIssuance_def hmacSHA256_def)
  then show ?thesis using char_count_le [of "signIssuance key a b c d"] by (simp add: fits_def)
qed

lemma stale_seed_loses_money:
  "books (w_db funded_world) \<and>
   fst (seed_tx (sample_env\<lparr>inet_ok := \<lambda>_. True\<rparr>) admin_id alice_wallet 0 7000 key 0 funded_world) = Inr () \<and>
   \<not> books (w_db (snd (seed_tx (sample_env\<lparr>inet_ok := \<lambda>_. True\<rparr>) admin_id alice_wallet 0 7000 key 0 funded_world)))"
proof -
  let ?E = "sample_env\<lparr>inet_ok := \<lambda>_. True\<rparr>" and ?u = "UUID 108"
  obtain w' where w': "seed_tx ?E admin_id alice_wallet 0 7000 key 0 funded_world = (Inr (), w')"
    and bal: "map w_Balance (wallets (w_db w')) = [7000, 0]" "w_ID (hd (wallets (w_db w'))) = alice_wallet"
    and es: "map signed_amount (filter (\<lambda>e. le_WalletID e = alice_wallet) (ledger_entries (w_db w'))) = [5000, 7000]"
    using signature_fits
    by (simp add: seed_tx_def insert_settled_def set_balance_def ledger_run funded_world_def funded_db_def sample_defs fresh_call_def
        signed_amount_def now_def)
  have "entry_sum (w_db w') alice_wallet = 12000"
    by (simp add: entry_sum_def sum_by_def es)
  moreover obtain v vs where v: "wallets (w_db w') = v # vs" "w_Balance v = 7000" "w_ID v = alice_wallet"
    using bal by (cases "wallets (w_db w')") auto
  ultimately have "\<not> accounts (w_db w')" by (auto simp: accounts_def)
  with w' books_funded show ?thesis by (simp add: books_def)
qed

end
