(* ===== verification/Interleaving.thy ===== *)
theory Interleaving
  imports Schema Merchant_Claims System_Claims
begin

text \<open>
  QR payments that overlap. \<open>PayViaQR\<close> reads the payment request, then lets the ledger move the money in a
  transaction of its own, then marks the request; between these parts the server answers other requests and
  carries out the parts of other payments. \<open>qr_interleave\<close> is that step relation, over the tables and the payments
  under way.
\<close>

section \<open>A payment in parts\<close>

record qr_call =
  qc_UserID :: uuid
  qc_WalletID :: uuid
  qc_key :: string
  qc_payload :: string

text \<open>How far a call of \<open>PayViaQR\<close> has come, with the local variables it needs from there on.\<close>

datatype qr_state =
    Asked
  | Admitted Params merchant uuid payment_request
  | Moved Params merchant uuid payment_request TransferResult
  | Answered "gerror + PayQRResponse"

fun qr_step :: "env \<Rightarrow> merchant_service \<Rightarrow> qr_call \<Rightarrow> qr_state \<Rightarrow> world \<Rightarrow> qr_state \<times> world" where
  "qr_step E s c Asked w =
     (case admit E s (qc_UserID c) (qc_payload c) w of
        (Inl e, w1) \<Rightarrow> (Answered (Inl e), w1)
      | (Inr (params, m, mw, pr), w1) \<Rightarrow> (Admitted params m mw pr, w1))"
| "qr_step E s c (Admitted params m mw pr) w =
     (case mer_Transfer s (qr_transfer (qc_WalletID c) mw (qc_key c) params) w of
        (Inl e, w1) \<Rightarrow> (Answered (Inl e), w1)
      | (Inr (r, Some e), w1) \<Rightarrow> (Answered (Inl e), w1)
      | (Inr (r, None), w1) \<Rightarrow> (Moved params m mw pr r, w1))"
| "qr_step E s c (Moved params m mw pr r) w =
     (case pay_tail E s params m mw pr (qc_WalletID c) r w of (res, w1) \<Rightarrow> (Answered res, w1))"
| "qr_step E s c (Answered res) w = (Answered res, w)"

text \<open>Left alone, the three parts are the call.\<close>

lemma qr_steps_are_PayViaQR:
  "(case qr_step E s c Asked w of (st1, w1) \<Rightarrow> case qr_step E s c st1 w1 of (st2, w2) \<Rightarrow> qr_step E s c st2 w2) =
   (case PayViaQR E s (qc_UserID c) (qc_WalletID c) (qc_key c) (qc_payload c) w of (res, w') \<Rightarrow> (Answered res, w'))"
  by (auto simp: PayViaQR_admit split: sum.splits prod.splits option.splits)

section \<open>Interleaving\<close>

text \<open>A payment arrives, a payment takes its next part, or the server answers some other request.\<close>

inductive qr_interleave :: "server \<Rightarrow> string \<Rightarrow> string \<Rightarrow> world \<times> (qr_call \<times> qr_state) list \<Rightarrow>
    world \<times> (qr_call \<times> qr_state) list \<Rightarrow> bool" for S secret key where
  arrive: "qr_interleave S secret key (w, ps) (w, ps @ [(c, Asked)])"
| act: "i < length ps \<Longrightarrow> ps ! i = (c, st) \<Longrightarrow> qr_step (sv_env S) (server_merchants (sv_env S) key) c st w = (st', w') \<Longrightarrow>
    qr_interleave S secret key (w, ps) (w', ps[i := (c, st')])"
| other: "qr_interleave S secret key (w, ps) (serve_one S secret key a w, ps)"

abbreviation qr_reachable :: "server \<Rightarrow> string \<Rightarrow> string \<Rightarrow> world \<times> (qr_call \<times> qr_state) list \<Rightarrow>
    world \<times> (qr_call \<times> qr_state) list \<Rightarrow> bool" where
  "qr_reachable S secret key \<equiv> (qr_interleave S secret key)\<^sup>*\<^sup>*"

inductive_cases interleave_cases: "qr_interleave S secret key (w, ps) x"

context safe_system
begin

lemma qr_step_kept:
  assumes "P (w_db w)"
  shows "P (w_db (snd (qr_step E (server_merchants E key) c st w)))"
proof (cases st)
  case Asked
  with assms keepsD [OF admit_kept] show ?thesis by (auto split: sum.splits prod.splits)
next
  case (Admitted params m mw pr)
  with assms keepsD [OF transfer] show ?thesis by (auto simp: server_merchants_simps split: sum.splits prod.splits option.splits)
next
  case (Moved params m mw pr r)
  with assms keepsD [OF pay_tail_kept] show ?thesis by (auto split: prod.splits)
next
  case (Answered r)
  with assms show ?thesis by simp
qed

lemma interleave_kept:
  assumes "qr_interleave S secret key (w, ps) (w', ps')" and "P (w_db w)"
  shows "P (w_db w')"
  using assms(1)
proof (rule interleave_cases)
  fix i c st st' v
  assume "(w', ps') = (v, ps[i := (c, st')])" "qr_step (sv_env S) (server_merchants (sv_env S) key) c st w = (st', v)"
  then show ?thesis using qr_step_kept [OF assms(2), of "sv_env S" key c st] by simp
next
  fix a assume "(w', ps') = (serve_one S secret key a w, ps)"
  then show ?thesis using serve_kept assms(2) by (simp add: served_def serve_one_def)
qed (use assms(2) in simp)

lemma reachable_kept:
  assumes "qr_reachable S secret key (w, ps) (w', ps')" and "P (w_db w)"
  shows "P (w_db w')"
  using assms by (induction rule: rtranclp_induct2) (auto intro: interleave_kept)

end

section \<open>Receipts\<close>

text \<open>
  What a payment that moved money, or answered that it did, stands for: the transaction's number, the paying
  wallet and the amount.
\<close>

definition receipt :: "env \<Rightarrow> qr_call \<times> qr_state \<Rightarrow> (string \<times> uuid \<times> int64) option" where
  "receipt E p = (case p of (c, st) \<Rightarrow>
     (case st of
        Moved params m mw pr r \<Rightarrow> Some (uuid_String E (t_ID (tr_Transaction r)), qc_WalletID c, qp_AmountCents params)
      | Answered (Inr resp) \<Rightarrow> Some (py_TransactionID resp, qc_WalletID c, py_AmountCents resp)
      | _ \<Rightarrow> None))"

definition backed :: "env \<Rightarrow> database \<Rightarrow> string \<times> uuid \<times> int64 \<Rightarrow> bool" where
  "backed E d x \<longleftrightarrow> (\<exists>t \<in> set (transactions d). uuid_String E (t_ID t) = fst x \<and> t_SenderWalletID t = Some (fst (snd x)) \<and>
     t_AmountCents t = snd (snd x) \<and> t_Status t = StatusSettled)"

text \<open>Every receipt is backed by a transaction, and no two payments by the same one.\<close>

definition receipts_ok :: "env \<Rightarrow> database \<Rightarrow> (qr_call \<times> qr_state) list \<Rightarrow> bool" where
  "receipts_ok E d ps \<longleftrightarrow>
     (\<forall>i < length ps. \<forall>x. receipt E (ps ! i) = Some x \<longrightarrow> backed E d x) \<and>
     (\<forall>i < length ps. \<forall>j < length ps. \<forall>x y. receipt E (ps ! i) = Some x \<longrightarrow> receipt E (ps ! j) = Some y \<longrightarrow>
        fst x = fst y \<longrightarrow> i = j)"

lemma backed_grown: "backed E d x \<Longrightarrow> grown d d' \<Longrightarrow> backed E d' x"
  by (auto simp: backed_def grown_def dest: set_mono_prefix)

lemma receipts_grown: "receipts_ok E d ps \<Longrightarrow> grown d d' \<Longrightarrow> receipts_ok E d' ps"
  unfolding receipts_ok_def using backed_grown by blast

text \<open>A payment that takes a part keeps its receipt, gets none, or gets that of a new transaction.\<close>

lemma qr_step_receipt:
  assumes "qr_step E (server_merchants E key) c st w = (st', w')"
  shows "receipt E (c, st') = receipt E (c, st) \<or> receipt E (c, st') = None \<or>
    (\<exists>x u. receipt E (c, st') = Some x \<and> fst x = uuid_String E u \<and> u \<notin> t_ID ` set (transactions (w_db w)) \<and>
       backed E (w_db w') x)"
proof (cases st)
  case Asked
  with assms show ?thesis by (auto simp: receipt_def split: sum.splits prod.splits)
next
  case (Admitted params m mw pr)
  let ?p = "qr_transfer (qc_WalletID c) mw (qc_key c) params"
  show ?thesis
  proof (cases "Transfer E ?p w")
    case (Pair x w1)
    show ?thesis
    proof (cases "\<exists>r. x = Inr (r, None)")
      case False
      then show ?thesis using assms Admitted Pair
        by (auto simp: receipt_def server_merchants_simps split: sum.splits prod.splits option.splits)
    next
      case True
      then obtain r where x: "x = Inr (r, None)" by blast
      then have st': "st' = Moved params m mw pr r" "w' = w1" using assms Admitted Pair by (auto simp: server_merchants_simps)
      obtain tx where mv: "moved ?p (transfer_type ?p) tx (w_db w) r (w_db w1)"
        using Transfer_Inr(3) [OF Pair [unfolded x]] by auto
      then obtain u es where u: "u \<notin> t_ID ` set (transactions (w_db w))"
        and d: "w_db w1 = enter (settle tx (txn_row (transfer_row ?p (transfer_type ?p)) u tx)) es (w_db w)"
        and r: "tr_Transaction r = (txn_row (transfer_row ?p (transfer_type ?p)) u tx)\<lparr>t_Status := StatusSettled\<rparr>"
        by (auto simp: moved_def)
      have "receipt E (c, st') = Some (uuid_String E u, qc_WalletID c, qp_AmountCents params)"
        by (simp add: receipt_def st' r txn_row_def)
      moreover have "backed E (w_db w') (uuid_String E u, qc_WalletID c, qp_AmountCents params)"
        by (simp add: backed_def st' d enter_frame settle_def txn_row_def transfer_row_def)
      ultimately show ?thesis using u by auto
    qed
  qed
next
  case (Moved params m mw pr r)
  then show ?thesis
    using assms pay_tail_Inr [of E "server_merchants E key" params m mw pr "qc_WalletID c" r w] by (auto simp: receipt_def)
next
  case (Answered r)
  with assms show ?thesis by simp
qed


lemma receipts_okD:
  assumes "receipts_ok E d ps"
  shows "i < length ps \<Longrightarrow> receipt E (ps ! i) = Some x \<Longrightarrow> backed E d x"
    and "i < length ps \<Longrightarrow> j < length ps \<Longrightarrow> receipt E (ps ! i) = Some x \<Longrightarrow> receipt E (ps ! j) = Some y \<Longrightarrow> fst x = fst y \<Longrightarrow> i = j"
  using assms unfolding receipts_ok_def by blast+

lemma receipts_update:
  assumes "receipts_ok E d ps" and "i < length ps"
    and "\<And>x. receipt E q = Some x \<Longrightarrow> backed E d x"
    and "\<And>x j y. receipt E q = Some x \<Longrightarrow> j < length ps \<Longrightarrow> j \<noteq> i \<Longrightarrow> receipt E (ps ! j) = Some y \<Longrightarrow> fst x \<noteq> fst y"
  shows "receipts_ok E d (ps[i := q])"
  unfolding receipts_ok_def
proof (intro conjI allI impI)
  let ?q = "ps[i := q]"
  have get: "?q ! j = (if j = i then q else ps ! j)" if "j < length ?q" for j using that by (auto simp: nth_list_update)
  show "backed E d x" if "j < length ?q" "receipt E (?q ! j) = Some x" for j x
  proof (cases "j = i")
    case True
    then show ?thesis using assms(3) that get by simp
  next
    case False
    then show ?thesis using receipts_okD(1) [OF assms(1), of j x] that get by simp
  qed
  show "j = k" if "j < length ?q" "k < length ?q" "receipt E (?q ! j) = Some x" "receipt E (?q ! k) = Some y" "fst x = fst y" for j k x y
  proof -
    consider "j = k" | "j = i" "k \<noteq> i" | "k = i" "j \<noteq> i" | "j \<noteq> i" "k \<noteq> i" by blast
    then show ?thesis
    proof cases
      case 2
      then have "fst x \<noteq> fst y" using that get by (intro assms(4)) auto
      then show ?thesis using that(5) by simp
    next
      case 3
      then have "fst y \<noteq> fst x" using that get by (intro assms(4)) auto
      then show ?thesis using that(5) by simp
    next
      case 4
      with receipts_okD(2) [OF assms(1), of j k x y] that get show ?thesis by simp
    qed
  qed
qed

lemma step_receipts:
  assumes lib: "uuid_lib_ok (sv_env S)" and step: "qr_interleave S secret key (w, ps) (w', ps')"
    and ok: "receipts_ok (sv_env S) (w_db w) ps"
  shows "receipts_ok (sv_env S) (w_db w') ps'"
proof -
  let ?E = "sv_env S"
  have gr: "grown (w_db w) (w_db w')" by (rule gr.interleave_kept [OF step]) simp
  have ok': "receipts_ok ?E (w_db w') ps" by (rule receipts_grown [OF ok gr])
  show ?thesis using step
  proof (rule interleave_cases)
    fix c assume "(w', ps') = (w, ps @ [(c, Asked)])"
    moreover have "receipt ?E (c, Asked) = None" by (simp add: receipt_def)
    ultimately show ?thesis using ok' by (auto simp: receipts_ok_def nth_append less_Suc_eq)
  next
    fix i c st st' v
    assume "(w', ps') = (v, ps[i := (c, st')])" and i: "i < length ps" "ps ! i = (c, st)"
      and q: "qr_step ?E (server_merchants ?E key) c st w = (st', v)"
    then have w': "v = w'" and ps': "ps' = ps[i := (c, st')]" by simp_all
    from qr_step_receipt [OF q [unfolded w']] consider (same) "receipt ?E (c, st') = receipt ?E (ps ! i)"
      | (none) "receipt ?E (c, st') = None"
      | (new) x u where "receipt ?E (c, st') = Some x" "fst x = uuid_String ?E u" "u \<notin> t_ID ` set (transactions (w_db w))"
          "backed ?E (w_db w') x" using i by auto
    then show ?thesis
    proof cases
      case same
      with ok' i show ?thesis unfolding ps' receipts_ok_def by (auto simp: nth_list_update)
    next
      case none
      then show ?thesis unfolding ps' by (intro receipts_update [OF ok' i(1)]) auto
    next
      case (new x u)
      have "fst x \<noteq> fst y" if "j < length ps" "receipt ?E (ps ! j) = Some y" for j y
      proof
        assume eq: "fst x = fst y"
        from ok that obtain t where t: "t \<in> set (transactions (w_db w))" "uuid_String ?E (t_ID t) = fst y"
          unfolding receipts_ok_def backed_def by blast
        with eq new(2) have "t_ID t = u" using uuid_String_inject [OF lib] by metis
        with t(1) new(3) show False by blast
      qed
      with new show ?thesis unfolding ps' by (intro receipts_update [OF ok' i(1)]) auto
    qed
  next
    fix a assume "(w', ps') = (serve_one S secret key a w, ps)"
    with ok' show ?thesis by simp
  qed
qed

section \<open>The properties\<close>

text \<open>C31: However any number of QR payments overlap with each other and with all other requests, and whatever fails,
  the books and the schema stand and a payment request, once paid or cancelled, stays as it is; every payment
  answered with success has its own settled transaction, of the payer's wallet and of the amount it reports.\<close>

theorem overlapping_payments_sound:
  assumes "qr_reachable S secret key (w, []) (w', ps)" and "uuid_lib_ok (sv_env S)" and "books (w_db w)" and "well_formed (w_db w)"
  shows "books (w_db w') \<and> well_formed (w_db w') \<and> evolved (payment_requests (w_db w)) (payment_requests (w_db w')) \<and>
    receipts_ok (sv_env S) (w_db w') ps"
proof -
  have "receipts_ok (sv_env S) (w_db w') ps"
    using assms(1)
  proof (induction rule: rtranclp_induct2)
    case refl
    then show ?case by (simp add: receipts_ok_def)
  next
    case (step w1 ps1 w2 ps2)
    with step_receipts [OF assms(2)] show ?case by blast
  qed
  moreover have "evolved (payment_requests (w_db w)) (payment_requests (w_db w'))"
    by (rule ev.reachable_kept [OF assms(1)]) simp
  ultimately show ?thesis
    using bs.reachable_kept [OF assms(1,3)] wf.reachable_kept [OF assms(1,4)] by blast
qed


section \<open>Twice paid\<close>

text \<open>
  Alice's client sends the payment of one QR code twice, each time with an idempotency key of its own. Both calls read
  the request before either has moved money.
\<close>

definition twice_params :: Params where
  "twice_params = \<lparr>qp_MerchantID = UUID 7, qp_AmountCents = 1200, qp_Reference = ''tea'', qp_Description = '''',
     qp_ExpiresAt = 2900000000000, qp_Signature = qr_sign ''key'' (uuid_String steady_env (UUID 7)) (FormatInt 1200) (FormatInt (Unix64 2900000000000))\<rparr>"

definition twice_call :: "string \<Rightarrow> qr_call" where
  "twice_call k = \<lparr>qc_UserID = alice_id, qc_WalletID = alice_wallet, qc_key = k, qc_payload = shop_payload\<rparr>"

definition twice_transfer :: "string \<Rightarrow> TransferParams" where
  "twice_transfer k = qr_transfer alice_wallet bob_wallet k twice_params"

definition twice_request :: payment_request where
  "twice_request = request_row (UUID 7) shop_input shop_payload (time_Add 2000000000000 (900 * second)) (UUID 109) 2000000000000"

lemma twice_requests: "payment_requests (w_db shop_after) = [twice_request]"
  by (simp add: shop_after_def twice_request_def)

lemma twice_transfers:
  "\<exists>r1 r2 w3 w4. Transfer steady_env (twice_transfer ''k1'') (shop_after\<lparr>w_calls := 18\<rparr>) = (Inr (r1, None), w3) \<and>
     Transfer steady_env (twice_transfer ''k2'') w3 = (Inr (r2, None), w4) \<and>
     map (\<lambda>w. (w_ID w, sint (w_Balance w))) (wallets (w_db w4)) = [(alice_wallet, 2600), (bob_wallet, 2400)] \<and>
     map t_AmountCents (transactions (w_db w4)) = [5000, 1200, 1200]"
  by (simp add: twice_transfer_def twice_params_def qr_transfer_def shop_after_def shop_world_def shop_db_def funded_world_def funded_db_def
      ledger_run sample_defs steady_env_def)


lemma twice_admitted:
  "admit steady_env (server_merchants steady_env ''key'') alice_id shop_payload (shop_after\<lparr>w_calls := n\<rparr>) =
     (Inr (twice_params, hd (merchants shop_db), bob_wallet, twice_request), shop_after\<lparr>w_calls := n + 4\<rparr>)"
proof -
  let ?w = "shop_after\<lparr>w_calls := n\<rparr>" and ?m = "hd (merchants shop_db)" and ?r = "twice_request"
  have parse: "ParseURI steady_env shop_payload = Inr twice_params"
    using ParseURI_built [OF steady_lib, of 1200 2900000000000 "UUID 7" "''tea''" "''''" "''key''"]
    by (simp add: shop_payload_def shop_expiry unix_in_range_def Unix_def int64_ok_def truncated_def twice_params_def)
  have rs: "payment_requests (w_db ?w) = [?r]" "pr_QRPayload ?r = shop_payload" "pr_MerchantID ?r = UUID 7" "pr_Status ?r = PRPending"
    by (simp_all add: twice_requests) (simp_all add: twice_request_def)
  have wallets: "wallets (w_db shop_after) = wallets (w_db shop_world)" by (simp add: shop_after_def shop_rows(1))
  have "admit steady_env (server_merchants steady_env ''key'') alice_id shop_payload ?w =
     (Inr (twice_params, ?m, w_ID (sample_wallet bob_wallet bob_id), ?r), ?w\<lparr>w_calls := w_calls ?w + 4\<rparr>)"
  proof (rule admit_up [OF _ parse])
    show "Verify steady_env twice_params ''key'' (now steady_env ?w) = None"
      by (simp add: Verify_def now_def Let_def twice_params_def)
    show "find (\<lambda>m. m_ID m = qp_MerchantID twice_params) (merchants (w_db ?w)) = Some ?m" "m_IsActive ?m" "m_UserID ?m \<noteq> alice_id"
      by (simp_all add: shop_after_def twice_params_def)
    show "find (\<lambda>x. w_UserID x = m_UserID ?m \<and> w_Currency x = ''DD$'' \<and> w_deleted_at x = None) (wallets (w_db ?w)) =
        Some (sample_wallet bob_wallet bob_id)"
      using shop_payee by (simp add: wallets)
    show "?r \<in> set (pending_of (qp_MerchantID twice_params) (w_db ?w))" using rs by (simp add: set_pending_of twice_params_def)
    show "length (pending_of (qp_MerchantID twice_params) (w_db ?w)) \<le> 100" using rs(1) by (simp add: pending_of_def)
  qed (use rs in simp_all)
  then show ?thesis by (simp add: sample_wallet_def)
qed

lemma twice_looks:
  "qr_step steady_env (server_merchants steady_env ''key'') (twice_call k) Asked (shop_after\<lparr>w_calls := n\<rparr>) =
     (Admitted twice_params (hd (merchants shop_db)) bob_wallet twice_request, shop_after\<lparr>w_calls := n + 4\<rparr>)"
  unfolding qr_step.simps by (simp add: twice_call_def twice_admitted)

text \<open>C39: What the source expects the conditional update of \<open>MarkPaid\<close> to prevent can happen: when two payments of
  one QR code overlap, both are answered with success and both move the money, although only one of them can mark the
  request, whose one row is all the merchant asked for.\<close>

theorem one_request_paid_twice:
  "\<exists>w' resp1 resp2.
     qr_reachable (sample_server\<lparr>sv_env := steady_env\<rparr>) ''jwt'' ''key'' (shop_after, [])
       (w', [(twice_call ''k1'', Answered (Inr resp1)), (twice_call ''k2'', Answered (Inr resp2))]) \<and>
     length (payment_requests (w_db shop_after)) = 1 \<and>
     map (\<lambda>w. (w_ID w, sint (w_Balance w))) (wallets (w_db shop_after)) = [(alice_wallet, 5000), (bob_wallet, 0)] \<and>
     map (\<lambda>w. (w_ID w, sint (w_Balance w))) (wallets (w_db w')) = [(alice_wallet, 2600), (bob_wallet, 2400)] \<and>
     map t_AmountCents (transactions (w_db w')) = [5000, 1200, 1200]"
proof -
  let ?S = "sample_server\<lparr>sv_env := steady_env\<rparr>" and ?s = "server_merchants steady_env ''key''"
  let ?m = "hd (merchants shop_db)" and ?r = "twice_request"
  let ?c1 = "twice_call ''k1''" and ?c2 = "twice_call ''k2''" and ?A = "Admitted twice_params ?m bob_wallet ?r"
  let ?M = "Moved twice_params ?m bob_wallet ?r" and ?w = "\<lambda>n. shop_after\<lparr>w_calls := n\<rparr>"
  let ?go = "qr_interleave ?S ''jwt'' ''key''"
  obtain r1 r2 w3 w4 where t1: "Transfer steady_env (twice_transfer ''k1'') (?w 18) = (Inr (r1, None), w3)"
    and t2: "Transfer steady_env (twice_transfer ''k2'') w3 = (Inr (r2, None), w4)"
    and bal: "map (\<lambda>w. (w_ID w, sint (w_Balance w))) (wallets (w_db w4)) = [(alice_wallet, 2600), (bob_wallet, 2400)]"
    and txs: "map t_AmountCents (transactions (w_db w4)) = [5000, 1200, 1200]"
    using twice_transfers by (elim exE conjE) (rule that)
  obtain resp1 w5 where p1: "pay_tail steady_env ?s twice_params ?m bob_wallet ?r alice_wallet r1 w4 = (Inr resp1, w5)"
    using pay_tail_Inr by metis
  obtain resp2 w6 where p2: "pay_tail steady_env ?s twice_params ?m bob_wallet ?r alice_wallet r2 w5 = (Inr resp2, w6)"
    using pay_tail_Inr by metis
  have start: "shop_after = ?w 10" by (simp add: shop_after_def)
  have env: "sv_env ?S = steady_env" by simp
  have act: "?go (w, ps) (w', qs)"
    if "i < length ps" "ps ! i = (c, st)" "qr_step steady_env ?s c st w = (st', w')" "qs = ps[i := (c, st')]" for i c st st' w w' ps qs
    using qr_interleave.act [of i ps c st ?S "''key''" w st' w'] that by simp
  have "?go (shop_after, []) (?w 10, [(?c1, Asked)])"
    using qr_interleave.arrive [of ?S "''jwt''" "''key''" "?w 10" "[]" ?c1] start by simp
  moreover have "?go (?w 10, [(?c1, Asked)]) (?w 10, [(?c1, Asked), (?c2, Asked)])"
    using qr_interleave.arrive [of ?S "''jwt''" "''key''" "?w 10" "[(?c1, Asked)]" ?c2] by simp
  moreover have "?go (?w 10, [(?c1, Asked), (?c2, Asked)]) (?w 14, [(?c1, ?A), (?c2, Asked)])"
    using twice_looks [of "''k1''" 10] by (intro act [where i = 0 and c = ?c1 and st = Asked]) simp_all
  moreover have "?go (?w 14, [(?c1, ?A), (?c2, Asked)]) (?w 18, [(?c1, ?A), (?c2, ?A)])"
    using twice_looks [of "''k2''" 14] by (intro act [where i = 1 and c = ?c2 and st = Asked]) simp_all
  moreover have "?go (?w 18, [(?c1, ?A), (?c2, ?A)]) (w3, [(?c1, ?M r1), (?c2, ?A)])"
    using t1 by (intro act [where i = 0 and c = ?c1 and st = ?A]) (simp_all add: twice_call_def twice_transfer_def server_merchants_simps)
  moreover have "?go (w3, [(?c1, ?M r1), (?c2, ?A)]) (w4, [(?c1, ?M r1), (?c2, ?M r2)])"
    using t2 by (intro act [where i = 1 and c = ?c2 and st = ?A]) (simp_all add: twice_call_def twice_transfer_def server_merchants_simps)
  moreover have "?go (w4, [(?c1, ?M r1), (?c2, ?M r2)]) (w5, [(?c1, Answered (Inr resp1)), (?c2, ?M r2)])"
    using p1 by (intro act [where i = 0 and c = ?c1 and st = "?M r1"]) (simp_all add: twice_call_def)
  moreover have "?go (w5, [(?c1, Answered (Inr resp1)), (?c2, ?M r2)]) (w6, [(?c1, Answered (Inr resp1)), (?c2, Answered (Inr resp2))])"
    using p2 by (intro act [where i = 1 and c = ?c2 and st = "?M r2"]) (simp_all add: twice_call_def)
  ultimately have "qr_reachable ?S ''jwt'' ''key'' (shop_after, []) (w6, [(?c1, Answered (Inr resp1)), (?c2, Answered (Inr resp2))])"
    by (meson converse_rtranclp_into_rtranclp rtranclp.rtrancl_refl)
  moreover have "money (w_db w6) = money (w_db w4)" using mc.tail_money [OF p1] mc.tail_money [OF p2] by simp
  then have "wallets (w_db w6) = wallets (w_db w4)" "transactions (w_db w6) = transactions (w_db w4)" by (simp_all add: money_def)
  moreover have "map (\<lambda>w. (w_ID w, sint (w_Balance w))) (wallets (w_db shop_after)) = [(alice_wallet, 5000), (bob_wallet, 0)]"
    by (simp add: shop_after_def shop_db_def funded_db_def sample_wallet_def)
  moreover have "length (payment_requests (w_db shop_after)) = 1" by (simp add: shop_after_def)
  ultimately show ?thesis using bal txs by (intro exI [of _ w6] exI [of _ resp1] exI [of _ resp2]) simp
qed

theorem overlapping_payments_sound_witness:
  "\<exists>w' ps. qr_reachable (sample_server\<lparr>sv_env := steady_env\<rparr>) ''jwt'' ''key'' (sample_world, []) (w', ps) \<and> length ps = 1 \<and>
     books (w_db w') \<and> well_formed (w_db w') \<and> receipts_ok steady_env (w_db w') ps"
proof -
  let ?S = "sample_server\<lparr>sv_env := steady_env\<rparr>"
  have step: "qr_reachable ?S ''jwt'' ''key'' (sample_world, []) (sample_world, [] @ [(twice_call ''k'', Asked)])"
    by (intro r_into_rtranclp qr_interleave.arrive)
  have "uuid_lib_ok (sv_env ?S)" using steady_lib by simp
  from overlapping_payments_sound [OF step this books_sample sample_well_formed] step show ?thesis by force
qed

end
