(* ===== verification/Locking.thy ===== *)
theory Locking
  imports Ledger_Claims "HOL-Library.Multiset"
begin

text \<open>
  Why a transaction of the ledger may be taken as one step. \<open>Transfer\<close> and \<open>Issue\<close> lock the rows of their wallets
  (\<open>SELECT \<dots> FOR UPDATE\<close>) one after the other, decide on what they read, write those rows only and release the locks
  with the commit or the rollback. Here any number of them overlap, lock by lock, over the abstract accounts of
  \<open>Ledger_Props\<close>.
\<close>

section \<open>Transactions under way\<close>

datatype ledger_call = CallTransfer uuid uuid int | CallIssue uuid int

text \<open>The checks before the transaction begins, the rows it locks in their order, and what it computes.\<close>

fun precheck :: "ledger_call \<Rightarrow> ledger_error option" where
  "precheck (CallTransfer s r amt) =
     (if amt \<le> 0 then Some ledger_error.ErrAmountZero else if s = r then Some ErrSelfTransfer else None)"
| "precheck (CallIssue r amt) = (if amt \<le> 0 then Some ledger_error.ErrAmountZero else None)"

fun lock_list :: "env \<Rightarrow> ledger_call \<Rightarrow> uuid list" where
  "lock_list E (CallTransfer s r amt) = (case orderedLockIDs E s r of (a, b) \<Rightarrow> [a, b])"
| "lock_list E (CallIssue r amt) = [r]"

fun outcome :: "ledger_call \<Rightarrow> account_map \<Rightarrow> ledger_error + account_map" where
  "outcome (CallTransfer s r amt) m = transfer_spec s r amt m"
| "outcome (CallIssue r amt) m = issue_spec r amt m"

text \<open>A transaction has locked and read some of its rows, or it has ended.\<close>

datatype phase = Locking "(int \<times> bool) list" | Committed | Refused ledger_error | Aborted

record lock_state =
  ls_accounts :: account_map
  ls_owner :: "uuid \<rightharpoonup> nat"
  ls_calls :: "(ledger_call \<times> phase) list"
  ls_log :: "ledger_call list"

definition release :: "nat \<Rightarrow> (uuid \<rightharpoonup> nat) \<Rightarrow> uuid \<rightharpoonup> nat" where
  "release i owner = (\<lambda>a. if owner a = Some i then None else owner a)"

definition finish :: "nat \<Rightarrow> ledger_call \<Rightarrow> phase \<Rightarrow> lock_state \<Rightarrow> lock_state" where
  "finish i c ph st = st\<lparr>ls_owner := release i (ls_owner st), ls_calls := (ls_calls st)[i := (c, ph)]\<rparr>"

text \<open>
  What transaction \<open>i\<close> can do of its own: lock its next row if it is free, end without a row, or decide on the rows
  it holds and commit or roll back. \<open>ls_log\<close> records the commits in their order.
\<close>

inductive lock_act :: "env \<Rightarrow> nat \<Rightarrow> lock_state \<Rightarrow> lock_state \<Rightarrow> bool" for E i where
  lock: "i < length (ls_calls st) \<Longrightarrow> ls_calls st ! i = (c, Locking rows) \<Longrightarrow> length rows < length (lock_list E c) \<Longrightarrow>
    ls_owner st (lock_list E c ! length rows) = None \<Longrightarrow> ls_accounts st (lock_list E c ! length rows) = Some x \<Longrightarrow>
    lock_act E i st (st\<lparr>ls_owner := (ls_owner st)(lock_list E c ! length rows \<mapsto> i),
      ls_calls := (ls_calls st)[i := (c, Locking (rows @ [x]))]\<rparr>)"
| missing: "i < length (ls_calls st) \<Longrightarrow> ls_calls st ! i = (c, Locking rows) \<Longrightarrow> length rows < length (lock_list E c) \<Longrightarrow>
    ls_accounts st (lock_list E c ! length rows) = None \<Longrightarrow>
    lock_act E i st (finish i c (Refused ledger_error.ErrWalletNotFound) st)"
| refuse: "i < length (ls_calls st) \<Longrightarrow> ls_calls st ! i = (c, Locking rows) \<Longrightarrow> length rows = length (lock_list E c) \<Longrightarrow>
    outcome c (map_of (zip (lock_list E c) rows)) = Inl e \<Longrightarrow> lock_act E i st (finish i c (Refused e) st)"
| commit: "i < length (ls_calls st) \<Longrightarrow> ls_calls st ! i = (c, Locking rows) \<Longrightarrow> length rows = length (lock_list E c) \<Longrightarrow>
    outcome c (map_of (zip (lock_list E c) rows)) = Inr l \<Longrightarrow>
    lock_act E i st ((finish i c Committed st)\<lparr>ls_accounts := ls_accounts st ++ l, ls_log := ls_log st @ [c]\<rparr>)"

text \<open>A call arrives; or a transaction fails for any other reason (a constraint, the connection) and is rolled back.\<close>

inductive lock_step :: "env \<Rightarrow> lock_state \<Rightarrow> lock_state \<Rightarrow> bool" for E where
  act: "lock_act E i st st' \<Longrightarrow> lock_step E st st'"
| arrive: "lock_step E st (st\<lparr>ls_calls := ls_calls st @ [(c, case precheck c of None \<Rightarrow> Locking [] | Some e \<Rightarrow> Refused e)]\<rparr>)"
| abort: "i < length (ls_calls st) \<Longrightarrow> ls_calls st ! i = (c, Locking rows) \<Longrightarrow> lock_step E st (finish i c Aborted st)"

definition lock_start :: "account_map \<Rightarrow> lock_state" where
  "lock_start m = \<lparr>ls_accounts = m, ls_owner = Map.empty, ls_calls = [], ls_log = []\<rparr>"

text \<open>The calls one after the other.\<close>

primrec serial :: "account_map \<Rightarrow> ledger_call list \<Rightarrow> account_map option" where
  "serial m [] = Some m"
| "serial m (c # cs) = (case outcome c m of Inl e \<Rightarrow> None | Inr m' \<Rightarrow> serial m' cs)"

lemma serial_append: "serial m (cs @ [c]) = (case serial m cs of None \<Rightarrow> None | Some m' \<Rightarrow>
    (case outcome c m' of Inl e \<Rightarrow> None | Inr m2 \<Rightarrow> Some m2))"
  by (induction cs arbitrary: m) (auto split: sum.splits)

section \<open>Deciding on the locked rows\<close>

text \<open>The rows a transaction holds are all that its outcome depends on and all that it writes.\<close>

lemma lock_list_transfer:
  "lock_list E (CallTransfer s r amt) = (if uuid_String E s < uuid_String E r then [s, r] else [r, s])"
  by (simp add: orderedLockIDs_def Let_def)

lemma outcome_dom: "outcome c m = Inr l \<Longrightarrow> dom l \<subseteq> dom m"
  by (cases c) (auto simp: transfer_spec_def issue_spec_def dom_def split: if_splits option.splits intro!: exI [of _ False])

lemma outcome_local:
  assumes "length rows = length (lock_list E c)" and "precheck c = None"
    and "\<And>k. k < length rows \<Longrightarrow> m (lock_list E c ! k) = Some (rows ! k)"
  shows "outcome c m = (case outcome c (map_of (zip (lock_list E c) rows)) of Inl e \<Rightarrow> Inl e | Inr l \<Rightarrow> Inr (m ++ l))"
    and "outcome c (map_of (zip (lock_list E c) rows)) = Inr l \<Longrightarrow> dom l \<subseteq> set (lock_list E c)"
proof -
  let ?v = "map_of (zip (lock_list E c) rows)"
  have sub: "m a = Some x" if v: "?v a = Some x" for a x
  proof -
    from map_of_SomeD [OF v] obtain k where k: "k < length rows" "lock_list E c ! k = a" "rows ! k = x"
      by (auto simp: in_set_zip)
    with assms(3) [OF k(1)] show ?thesis by simp
  qed
  have two: "\<exists>x y. rows = [x, y]" if "length (lock_list E c) = 2" using that assms(1) by (auto simp: length_Suc_conv numeral_2_eq_2)
  have one: "\<exists>x. rows = [x]" if "length (lock_list E c) = 1" using that assms(1) by (auto simp: length_Suc_conv)
  show "outcome c m = (case outcome c ?v of Inl e \<Rightarrow> Inl e | Inr l \<Rightarrow> Inr (m ++ l))"
  proof (cases c)
    case (CallTransfer s r amt)
    then have "length (lock_list E c) = 2" by (simp add: lock_list_transfer del: lock_list.simps)
    from two [OF this] obtain x y where rows: "rows = [x, y]" by blast
    have "s \<noteq> r" using assms(2) CallTransfer by (auto split: if_splits)
    moreover have "?v s = m s" "?v r = m r"
      using assms(3) [of 0] assms(3) [of 1] rows CallTransfer \<open>s \<noteq> r\<close>
      by (auto simp: lock_list_transfer simp del: lock_list.simps split: if_splits)
    ultimately show ?thesis
      using CallTransfer by (auto simp: transfer_spec_def fun_eq_iff map_add_def simp del: lock_list.simps dest: sub [unfolded CallTransfer] split: option.splits)
  next
    case (CallIssue r amt)
    then have "length (lock_list E c) = 1" by simp
    from one [OF this] obtain x where rows: "rows = [x]" by blast
    have "?v r = m r" using assms(3) [of 0] rows CallIssue by simp
    then show ?thesis using CallIssue
      by (auto simp: issue_spec_def fun_eq_iff map_add_def simp del: lock_list.simps dest: sub [unfolded CallIssue] split: option.splits)
  qed
  assume "outcome c ?v = Inr l"
  then have "dom l \<subseteq> dom ?v" by (rule outcome_dom)
  moreover have "dom ?v \<subseteq> set (lock_list E c)" using map_of_SomeD set_zip_leftD by fastforce
  ultimately show "dom l \<subseteq> set (lock_list E c)" by blast
qed


section \<open>The invariant\<close>

text \<open>
  The accounts are those after the committed calls one after the other; every transaction that still runs owns the
  locks of the rows it has read, which are as it read them; every lock is owned by such a transaction.
\<close>

definition committed :: "(ledger_call \<times> phase) list \<Rightarrow> ledger_call multiset" where
  "committed ps = image_mset fst (filter_mset (\<lambda>p. snd p = Committed) (mset ps))"

definition holding :: "env \<Rightarrow> lock_state \<Rightarrow> bool" where
  "holding E st \<longleftrightarrow> (\<forall>i < length (ls_calls st). \<forall>c rows. ls_calls st ! i = (c, Locking rows) \<longrightarrow>
     precheck c = None \<and> length rows \<le> length (lock_list E c) \<and>
     (\<forall>k < length rows. ls_owner st (lock_list E c ! k) = Some i \<and> ls_accounts st (lock_list E c ! k) = Some (rows ! k)))"

definition owned :: "env \<Rightarrow> lock_state \<Rightarrow> bool" where
  "owned E st \<longleftrightarrow> (\<forall>a i. ls_owner st a = Some i \<longrightarrow> i < length (ls_calls st) \<and>
     (\<exists>c rows k. ls_calls st ! i = (c, Locking rows) \<and> k < length rows \<and> lock_list E c ! k = a))"

definition logged :: "account_map \<Rightarrow> lock_state \<Rightarrow> bool" where
  "logged m st \<longleftrightarrow> serial m (ls_log st) = Some (ls_accounts st) \<and> mset (ls_log st) = committed (ls_calls st)"

lemma holdingD:
  assumes "holding E st" and "i < length (ls_calls st)" and "ls_calls st ! i = (c, Locking rows)"
  shows "precheck c = None" and "length rows \<le> length (lock_list E c)"
    and "k < length rows \<Longrightarrow> ls_owner st (lock_list E c ! k) = Some i \<and> ls_accounts st (lock_list E c ! k) = Some (rows ! k)"
  using assms unfolding holding_def by blast+

lemma committed_update:
  assumes "i < length ps" and "ps ! i = (c, Locking rows)"
  shows "committed (ps[i := (c, ph)]) = (if ph = Committed then add_mset c (committed ps) else committed ps)"
  using assms by (simp add: committed_def mset_update filter_diff_mset)

lemma committed_append: "ph \<noteq> Committed \<Longrightarrow> committed (ps @ [(c, ph)]) = committed ps"
  by (simp add: committed_def)

text \<open>The end of a transaction.\<close>

lemma finish_simps [simp]:
  "ls_accounts (finish i c ph st) = ls_accounts st" "ls_log (finish i c ph st) = ls_log st"
  "ls_owner (finish i c ph st) = release i (ls_owner st)" "ls_calls (finish i c ph st) = (ls_calls st)[i := (c, ph)]"
  by (simp_all add: finish_def)

lemma finish_holding:
  assumes "holding E st" and "\<And>rows. ph \<noteq> Locking rows" and "\<And>a j. ls_owner st a = Some j \<Longrightarrow> j \<noteq> i \<Longrightarrow> m a = ls_accounts st a"
  shows "holding E ((finish i c ph st)\<lparr>ls_accounts := m, ls_log := lg\<rparr>)"
  unfolding holding_def
proof (intro allI impI)
  fix j d rows assume j: "j < length (ls_calls ((finish i c ph st)\<lparr>ls_accounts := m, ls_log := lg\<rparr>))"
    and d: "ls_calls ((finish i c ph st)\<lparr>ls_accounts := m, ls_log := lg\<rparr>) ! j = (d, Locking rows)"
  then have ne: "j \<noteq> i" using assms(2) by (cases "j = i") auto
  then have run: "j < length (ls_calls st)" "ls_calls st ! j = (d, Locking rows)" using j d by simp_all
  from ne show "precheck d = None \<and> length rows \<le> length (lock_list E d) \<and>
      (\<forall>k < length rows. ls_owner ((finish i c ph st)\<lparr>ls_accounts := m, ls_log := lg\<rparr>) (lock_list E d ! k) = Some j \<and>
        ls_accounts ((finish i c ph st)\<lparr>ls_accounts := m, ls_log := lg\<rparr>) (lock_list E d ! k) = Some (rows ! k))"
    using holdingD [OF assms(1) run] assms(3) by (auto simp: release_def)
qed

lemma finish_owned:
  assumes "owned E st"
  shows "owned E ((finish i c ph st)\<lparr>ls_accounts := m, ls_log := lg\<rparr>)"
  using assms by (auto simp: owned_def release_def split: if_splits)

lemma finish_keeps:
  assumes "holding E st" "owned E st" "logged m st" and "i < length (ls_calls st)" "ls_calls st ! i = (c, Locking rows)"
    and "\<And>rows. ph \<noteq> Locking rows" and "ph \<noteq> Committed"
  shows "holding E (finish i c ph st) \<and> owned E (finish i c ph st) \<and> logged m (finish i c ph st)"
proof -
  have same: "(finish i c ph st)\<lparr>ls_accounts := ls_accounts st, ls_log := ls_log st\<rparr> = finish i c ph st" by (simp add: finish_def)
  from finish_holding [OF assms(1,6), of i "ls_accounts st"] finish_owned [OF assms(2)] have
    "holding E (finish i c ph st)" "owned E (finish i c ph st)" by (metis same)+
  moreover have "logged m (finish i c ph st)" using assms(3-5,7) by (simp add: logged_def committed_update)
  ultimately show ?thesis by blast
qed

text \<open>The next row is locked.\<close>

definition take_lock :: "env \<Rightarrow> nat \<Rightarrow> ledger_call \<Rightarrow> (int \<times> bool) list \<Rightarrow> int \<times> bool \<Rightarrow> lock_state \<Rightarrow> lock_state" where
  "take_lock E i c rows x st = st\<lparr>ls_owner := (ls_owner st)(lock_list E c ! length rows \<mapsto> i),
     ls_calls := (ls_calls st)[i := (c, Locking (rows @ [x]))]\<rparr>"

lemma take_lock_simps [simp]:
  "ls_accounts (take_lock E i c rows x st) = ls_accounts st" "ls_log (take_lock E i c rows x st) = ls_log st"
  "ls_owner (take_lock E i c rows x st) = (ls_owner st)(lock_list E c ! length rows \<mapsto> i)"
  "ls_calls (take_lock E i c rows x st) = (ls_calls st)[i := (c, Locking (rows @ [x]))]"
  by (simp_all add: take_lock_def)

lemma take_lock_holding:
  assumes ok: "holding E st" and i: "i < length (ls_calls st)" "ls_calls st ! i = (c, Locking rows)"
    and less: "length rows < length (lock_list E c)" and free: "ls_owner st (lock_list E c ! length rows) = None"
    and x: "ls_accounts st (lock_list E c ! length rows) = Some x"
  shows "holding E (take_lock E i c rows x st)"
  unfolding holding_def
proof (intro allI impI)
  let ?st = "take_lock E i c rows x st" and ?a = "lock_list E c ! length rows"
  fix j d rs assume j: "j < length (ls_calls ?st)" and d: "ls_calls ?st ! j = (d, Locking rs)"
  show "precheck d = None \<and> length rs \<le> length (lock_list E d) \<and>
    (\<forall>k < length rs. ls_owner ?st (lock_list E d ! k) = Some j \<and> ls_accounts ?st (lock_list E d ! k) = Some (rs ! k))"
  proof (cases "j = i")
    case True
    then have "d = c" "rs = rows @ [x]" using d i(1) by simp_all
    then show ?thesis using holdingD [OF ok i] less x True by (auto simp: nth_append less_Suc_eq)
  next
    case False
    then have run: "j < length (ls_calls st)" "ls_calls st ! j = (d, Locking rs)" using j d by simp_all
    note h = holdingD [OF ok run]
    have "lock_list E d ! k \<noteq> ?a" if "k < length rs" for k using h(3) [OF that] free by auto
    with h show ?thesis by simp
  qed
qed

lemma take_lock_owned:
  assumes ok: "owned E st" and i: "i < length (ls_calls st)" "ls_calls st ! i = (c, Locking rows)"
  shows "owned E (take_lock E i c rows x st)"
  unfolding owned_def
proof (intro allI impI)
  let ?st = "take_lock E i c rows x st" and ?a = "lock_list E c ! length rows"
  fix b j assume b: "ls_owner ?st b = Some j"
  show "j < length (ls_calls ?st) \<and> (\<exists>d rs k. ls_calls ?st ! j = (d, Locking rs) \<and> k < length rs \<and> lock_list E d ! k = b)"
  proof (cases "j = i")
    case True
    have "\<exists>k < Suc (length rows). lock_list E c ! k = b"
    proof (cases "b = ?a")
      case False
      then have "ls_owner st b = Some i" using b True by simp
      then obtain k where "k < length rows" "lock_list E c ! k = b" using ok i(2) unfolding owned_def by fastforce
      then show ?thesis by (auto intro: exI [of _ k])
    qed auto
    then show ?thesis using True i by auto
  next
    case False
    then have "ls_owner st b = Some j" using b by (auto split: if_splits)
    then show ?thesis using ok False unfolding owned_def by fastforce
  qed
qed

lemma lock_act_ok:
  assumes "lock_act E i st st'" and "holding E st" "owned E st" "logged m st"
  shows "holding E st' \<and> owned E st' \<and> logged m st'"
  using assms(1)
proof cases
  case (lock c rows x)
  from lock(1) have st': "st' = take_lock E i c rows x st" by (simp add: take_lock_def)
  have "logged m st'" using assms(4) lock(2,3) by (simp add: st' logged_def committed_update)
  then show ?thesis
    using take_lock_holding [OF assms(2) lock(2-6)] take_lock_owned [OF assms(3) lock(2,3)] by (simp add: st')
next
  case (missing c rows)
  then show ?thesis using finish_keeps [OF assms(2-4) missing(2,3)] by simp
next
  case (refuse c rows e)
  then show ?thesis using finish_keeps [OF assms(2-4) refuse(2,3)] by simp
next
  case (commit c rows l)
  note h = holdingD [OF assms(2) commit(2,3)]
  have view: "\<And>k. k < length rows \<Longrightarrow> ls_accounts st (lock_list E c ! k) = Some (rows ! k)" using h(3) by blast
  have out: "outcome c (ls_accounts st) = Inr (ls_accounts st ++ l)"
    using outcome_local(1) [OF commit(4) h(1) view] commit(5) by simp
  have "ls_owner st a = Some i" if "a \<in> dom l" for a
  proof -
    have "a \<in> set (lock_list E c)" using outcome_local(2) [OF commit(4) h(1) view commit(5)] that by blast
    then obtain k where "k < length rows" "lock_list E c ! k = a" using commit(4) by (metis in_set_conv_nth)
    then show ?thesis using h(3) by blast
  qed
  then have other: "(ls_accounts st ++ l) a = ls_accounts st a" if "ls_owner st a = Some j" "j \<noteq> i" for a j
    using that by (metis domIff map_add_None map_add_dom_app_simps(3) option.inject)
  have "holding E st'" unfolding commit(1) by (intro finish_holding [OF assms(2)] other) simp_all
  moreover have "owned E st'" unfolding commit(1) by (rule finish_owned [OF assms(3)])
  moreover have "logged m st'"
    using assms(4) commit(1-3) out by (simp add: logged_def committed_update serial_append)
  ultimately show ?thesis by blast
qed


lemma lock_step_ok:
  assumes "lock_step E st st'" and ok: "holding E st" "owned E st" "logged m st"
  shows "holding E st' \<and> owned E st' \<and> logged m st'"
  using assms(1)
proof cases
  case (act i)
  from lock_act_ok [OF this ok] show ?thesis .
next
  case (arrive c)
  let ?ph = "case precheck c of None \<Rightarrow> Locking [] | Some e \<Rightarrow> Refused e"
  have "holding E st'"
    unfolding holding_def
  proof (intro allI impI)
    fix i d rows assume i: "i < length (ls_calls st')" "ls_calls st' ! i = (d, Locking rows)"
    show "precheck d = None \<and> length rows \<le> length (lock_list E d) \<and>
      (\<forall>k < length rows. ls_owner st' (lock_list E d ! k) = Some i \<and> ls_accounts st' (lock_list E d ! k) = Some (rows ! k))"
    proof (cases "i < length (ls_calls st)")
      case True
      with i arrive have "ls_calls st ! i = (d, Locking rows)" by (simp add: nth_append)
      from holdingD [OF ok(1) True this] show ?thesis using arrive by simp
    next
      case False
      with i arrive have "i = length (ls_calls st)" by simp
      with i(2) arrive have "d = c" "?ph = Locking rows" by auto
      then have "precheck c = None" "rows = []" by (auto split: option.splits)
      with \<open>d = c\<close> show ?thesis by simp
    qed
  qed
  moreover have "owned E st'" using ok(2) arrive by (fastforce simp: owned_def nth_append)
  moreover have "logged m st'" using ok(3) arrive by (auto simp: logged_def committed_append split: option.splits)
  ultimately show ?thesis by blast
next
  case (abort i c rows)
  then show ?thesis using finish_keeps [OF ok abort(2,3)] by simp
qed

lemma lock_reachable_ok:
  assumes "(lock_step E)\<^sup>*\<^sup>* (lock_start m) st"
  shows "holding E st \<and> owned E st \<and> logged m st"
  using assms
proof (induction rule: rtranclp_induct)
  case base
  then show ?case by (simp add: lock_start_def holding_def owned_def logged_def committed_def)
next
  case (step st st')
  with lock_step_ok show ?case by blast
qed

section \<open>Progress\<close>

text \<open>Rows are locked in the order of their numbers' text.\<close>

lemma lock_list_sorted:
  assumes "uuid_lib_ok E" and "precheck c = None"
  shows "sorted_wrt (\<lambda>a b. uuid_String E a < uuid_String E b) (lock_list E c)"
proof (cases c)
  case (CallTransfer s r amt)
  then have "s \<noteq> r" using assms(2) by (auto split: if_splits)
  then have "uuid_String E s \<noteq> uuid_String E r" using uuid_String_inject [OF assms(1)] by blast
  then show ?thesis
    using CallTransfer by (auto simp: lock_list_transfer simp del: lock_list.simps(1))
qed simp

text \<open>A transaction that can do nothing waits for a lock that another holds, which waits for a later one.\<close>

definition next_lock :: "env \<Rightarrow> lock_state \<Rightarrow> nat \<Rightarrow> uuid" where
  "next_lock E st i = (case ls_calls st ! i of (c, Locking rows) \<Rightarrow> lock_list E c ! length rows | _ \<Rightarrow> uuid_Nil)"

definition unfinished :: "lock_state \<Rightarrow> nat set" where
  "unfinished st = {i. i < length (ls_calls st) \<and> (\<exists>c rows. ls_calls st ! i = (c, Locking rows))}"

lemma blocked_waits:
  assumes "holding E st" and i: "i < length (ls_calls st)" "ls_calls st ! i = (c, Locking rows)"
    and no: "\<nexists>st'. lock_act E i st st'"
  shows "length rows < length (lock_list E c) \<and> (\<exists>j. ls_owner st (lock_list E c ! length rows) = Some j)"
proof -
  have "length rows \<le> length (lock_list E c)" using holdingD [OF assms(1) i] by blast
  moreover have "length rows \<noteq> length (lock_list E c)"
  proof
    assume full: "length rows = length (lock_list E c)"
    then show False using lock_act.refuse [OF i full] lock_act.commit [OF i full] no
      by (cases "outcome c (map_of (zip (lock_list E c) rows))") blast+
  qed
  ultimately have less: "length rows < length (lock_list E c)" by simp
  then show ?thesis
    using lock_act.lock [OF i less] lock_act.missing [OF i less] no
    by (cases "ls_owner st (lock_list E c ! length rows)"; cases "ls_accounts st (lock_list E c ! length rows)") blast+
qed

lemma blocked_chain:
  assumes lib: "uuid_lib_ok E" and ok: "holding E st" "owned E st" and i: "i \<in> unfinished st"
    and no: "\<And>i. i \<in> unfinished st \<Longrightarrow> \<nexists>st'. lock_act E i st st'"
  shows "\<exists>j \<in> unfinished st. uuid_String E (next_lock E st i) < uuid_String E (next_lock E st j)"
proof -
  obtain c rows where c: "i < length (ls_calls st)" "ls_calls st ! i = (c, Locking rows)" using i by (auto simp: unfinished_def)
  obtain j where j: "ls_owner st (lock_list E c ! length rows) = Some j" using blocked_waits [OF ok(1) c no [OF i]] by blast
  then obtain d rs k where d: "j < length (ls_calls st)" "ls_calls st ! j = (d, Locking rs)"
    and k: "k < length rs" "lock_list E d ! k = lock_list E c ! length rows"
    using ok(2) unfolding owned_def by blast
  then have uj: "j \<in> unfinished st" by (auto simp: unfinished_def)
  have "length rs < length (lock_list E d)" using blocked_waits [OF ok(1) d no [OF uj]] by blast
  moreover have "sorted_wrt (\<lambda>a b. uuid_String E a < uuid_String E b) (lock_list E d)"
    using lock_list_sorted [OF lib] holdingD(1) [OF ok(1) d] by blast
  ultimately have "uuid_String E (lock_list E d ! k) < uuid_String E (lock_list E d ! length rs)"
    using k(1) by (simp add: sorted_wrt_iff_nth_less)
  then show ?thesis using uj c(2) d(2) k(2) by (intro bexI [of _ j]) (simp_all add: next_lock_def)
qed

section \<open>The properties\<close>

text \<open>C29: However the ledger's transactions overlap, and whichever of them fail, the accounts are always those
  after the committed calls one after the other, in the order of their commits, each once; a transaction that still runs
  sees its locked rows unchanged, and when none runs no row stays locked.\<close>

theorem locked_transactions_serializable:
  assumes "(lock_step E)\<^sup>*\<^sup>* (lock_start m) st"
  shows "serial m (ls_log st) = Some (ls_accounts st) \<and> mset (ls_log st) = committed (ls_calls st) \<and> holding E st \<and>
    (unfinished st = {} \<longrightarrow> ls_owner st = Map.empty)"
proof -
  note ok = lock_reachable_ok [OF assms]
  have "ls_owner st = Map.empty" if none: "unfinished st = {}"
  proof
    fix a
    show "ls_owner st a = None"
    proof (cases "ls_owner st a")
      case (Some i)
      then have "i \<in> unfinished st" using ok unfolding owned_def unfinished_def by blast
      then show ?thesis using none by simp
    qed
  qed
  with ok show ?thesis by (simp add: logged_def)
qed

text \<open>C30: The order in which a transfer locks its two wallets rules out deadlock: as long as some transaction of the
  ledger runs, one of them can take its next step, however many overlap and whatever wallets they share.\<close>

theorem lock_order_prevents_deadlock:
  assumes "uuid_lib_ok E" and "(lock_step E)\<^sup>*\<^sup>* (lock_start m) st" and "unfinished st \<noteq> {}"
  shows "\<exists>i \<in> unfinished st. \<exists>st'. lock_act E i st st'"
proof (rule ccontr)
  assume no: "\<not> ?thesis"
  let ?s = "\<lambda>i. uuid_String E (next_lock E st i)"
  have "finite (unfinished st)" by (simp add: unfinished_def)
  then have "Max (?s ` unfinished st) \<in> ?s ` unfinished st" using assms(3) by (intro Max_in) auto
  then obtain i where i: "i \<in> unfinished st" "Max (?s ` unfinished st) = ?s i" by blast
  obtain j where j: "j \<in> unfinished st" "?s i < ?s j"
    using blocked_chain [OF assms(1) _ _ i(1)] lock_reachable_ok [OF assms(2)] no by blast
  have "?s j \<le> ?s i" using i(2) j(1) \<open>finite (unfinished st)\<close> by (metis Max_ge finite_imageI imageI)
  with j(2) show False by simp
qed


text \<open>Alice pays Bob while Bob pays Alice.\<close>

lemma crossing_transfers:
  "\<exists>st. (lock_step sample_env)\<^sup>*\<^sup>* (lock_start (abs_ledger funded_db)) st \<and> unfinished st = {0, 1} \<and>
     ls_calls st = [(CallTransfer alice_wallet bob_wallet 700, Locking []), (CallTransfer bob_wallet alice_wallet 300, Locking [])]"
proof -
  let ?a = "CallTransfer alice_wallet bob_wallet 700" and ?b = "CallTransfer bob_wallet alice_wallet 300"
  let ?st = "lock_start (abs_ledger funded_db)"
  let ?st1 = "?st\<lparr>ls_calls := [(?a, Locking [])]\<rparr>" and ?st2 = "?st\<lparr>ls_calls := [(?a, Locking []), (?b, Locking [])]\<rparr>"
  have "lock_step sample_env ?st ?st1" using lock_step.arrive [of sample_env ?st ?a] by (simp add: lock_start_def)
  moreover have "lock_step sample_env ?st1 ?st2" using lock_step.arrive [of sample_env ?st1 ?b] by (simp add: lock_start_def)
  ultimately have "(lock_step sample_env)\<^sup>*\<^sup>* ?st ?st2" by (meson converse_rtranclp_into_rtranclp r_into_rtranclp)
  moreover have "unfinished ?st2 = {0, 1}" by (auto simp: unfinished_def lock_start_def less_Suc_eq)
  ultimately show ?thesis by (intro exI [of _ ?st2]) (simp add: lock_start_def)
qed

theorem locked_transactions_serializable_witness:
  "\<exists>st. (lock_step sample_env)\<^sup>*\<^sup>* (lock_start (abs_ledger funded_db)) st \<and> unfinished st = {0, 1} \<and> holding sample_env st \<and>
     serial (abs_ledger funded_db) (ls_log st) = Some (ls_accounts st)"
proof -
  from crossing_transfers obtain st where st: "(lock_step sample_env)\<^sup>*\<^sup>* (lock_start (abs_ledger funded_db)) st" "unfinished st = {0, 1}"
    by blast
  from locked_transactions_serializable [OF st(1)] st show ?thesis by blast
qed

theorem lock_order_prevents_deadlock_witness:
  "\<exists>st i st'. (lock_step sample_env)\<^sup>*\<^sup>* (lock_start (abs_ledger funded_db)) st \<and> i \<in> {0, 1} \<and> lock_act sample_env i st st' \<and>
     ls_calls st = [(CallTransfer alice_wallet bob_wallet 700, Locking []), (CallTransfer bob_wallet alice_wallet 300, Locking [])]"
proof -
  from crossing_transfers obtain st where st: "(lock_step sample_env)\<^sup>*\<^sup>* (lock_start (abs_ledger funded_db)) st" "unfinished st = {0, 1}"
    "ls_calls st = [(CallTransfer alice_wallet bob_wallet 700, Locking []), (CallTransfer bob_wallet alice_wallet 300, Locking [])]" by blast
  then have "unfinished st \<noteq> {}" by simp
  from lock_order_prevents_deadlock [OF sample_env_uuid st(1) this] st show ?thesis by metis
qed

end
