(* ===== verification/Cluster.thy ===== *)
theory Cluster
  imports Hub Samples
begin

text \<open>
  Several backends behind one Redis channel: \<open>Publish\<close> and \<open>runRedisSubscriber\<close> of \<open>internal/websocket/hub.go\<close> with
  \<open>Publish\<close> and \<open>Subscribe\<close> of \<open>pkg/redis/client.go\<close>. Each backend runs its own hub; a subscription is a queue of
  messages that loses what comes while it is down. How the backends, their goroutines and the losses interleave is free.
\<close>

section \<open>State and actions\<close>

text \<open>\<open>cl_log\<close> records every call of \<open>Publish\<close>, with its backend, wallet and event and the fate of the Redis call.\<close>

record cluster =
  cl_hub :: "nat \<Rightarrow> (uuid \<times> event) hub"
  cl_sub :: "nat \<Rightarrow> bool"
  cl_inbox :: "nat \<Rightarrow> event list"
  cl_log :: "(nat \<times> uuid \<times> event \<times> fault) list"

definition new_cluster :: cluster where
  "new_cluster = \<lparr>cl_hub = (\<lambda>_. NewHub), cl_sub = (\<lambda>_. False), cl_inbox = (\<lambda>_. []), cl_log = []\<rparr>"

definition Redis_Publish :: "event \<Rightarrow> cluster \<Rightarrow> cluster" where
  "Redis_Publish ev s = s\<lparr>cl_inbox := (\<lambda>i. if cl_sub s i then cl_inbox s i @ [ev] else cl_inbox s i)\<rparr>"

definition Redis_Subscribe :: "nat \<Rightarrow> cluster \<Rightarrow> cluster" where
  "Redis_Subscribe i s = s\<lparr>cl_sub := (cl_sub s)(i := True), cl_inbox := (cl_inbox s)(i := [])\<rparr>"

definition lose_subscription :: "nat \<Rightarrow> cluster \<Rightarrow> cluster" where
  "lose_subscription i s = s\<lparr>cl_sub := (cl_sub s)(i := False), cl_inbox := (cl_inbox s)(i := [])\<rparr>"

definition on_hub :: "nat \<Rightarrow> ((uuid \<times> event) hub \<Rightarrow> (uuid \<times> event) hub) \<Rightarrow> cluster \<Rightarrow> cluster" where
  "on_hub i f s = s\<lparr>cl_hub := (cl_hub s)(i := f (cl_hub s i))\<rparr>"

text \<open>\<open>Hub.Publish\<close> on backend \<open>i\<close>: over the channel, locally when the call fails, both when only its reply is lost.\<close>

definition hub_Publish :: "nat \<Rightarrow> uuid \<Rightarrow> event \<Rightarrow> fault \<Rightarrow> cluster \<Rightarrow> cluster" where
  "hub_Publish i u ev f s =
    (let local = on_hub i (broadcast_start u (u, ev)); s1 = s\<lparr>cl_log := cl_log s @ [(i, u, ev, f)]\<rparr>
     in case f of Up \<Rightarrow> Redis_Publish ev s1 | Down \<Rightarrow> local s1 | LostReply \<Rightarrow> local (Redis_Publish ev s1))"

text \<open>One message of the subscriber's loop: an event whose wallet does not parse is dropped.\<close>

definition receive :: "env \<Rightarrow> nat \<Rightarrow> cluster \<Rightarrow> cluster" where
  "receive E i s =
    (case cl_inbox s i of
       [] \<Rightarrow> s
     | ev # evs \<Rightarrow>
         (let s1 = s\<lparr>cl_inbox := (cl_inbox s)(i := evs)\<rparr>
          in case uuid_Parse E (ev_WalletID ev) of
               None \<Rightarrow> s1 | Some u \<Rightarrow> on_hub i (broadcast_start u (u, ev)) s1))"

text \<open>The actions of a hub that start no broadcast.\<close>

inductive hub_quiet :: "(uuid \<times> 'm) hub \<Rightarrow> (uuid \<times> 'm) hub \<Rightarrow> bool" where
  quiet_connect: "\<not> h_panic h \<Longrightarrow> h_walletID h c = None \<Longrightarrow> length (h_register h) < queueSize \<Longrightarrow> hub_quiet h (connect c u h)"
| quiet_register: "\<not> h_panic h \<Longrightarrow> h_register h \<noteq> [] \<Longrightarrow> hub_quiet h (handle_register h)"
| quiet_disconnect: "\<not> h_panic h \<Longrightarrow> h_walletID h c \<noteq> None \<Longrightarrow> length (h_unregister h) < queueSize \<Longrightarrow> hub_quiet h (disconnect c h)"
| quiet_unregister: "\<not> h_panic h \<Longrightarrow> h_unregister h \<noteq> [] \<Longrightarrow> hub_quiet h (handle_unregister h)"
| quiet_send: "\<not> h_panic h \<Longrightarrow> i < length (h_casts h) \<Longrightarrow> hub_quiet h (broadcast_next i h)"
| quiet_write: "\<not> h_panic h \<Longrightarrow> hub_quiet h (write_pump c h)"

inductive cluster_step :: "env \<Rightarrow> cluster \<Rightarrow> cluster \<Rightarrow> bool" for E where
  publish: "\<not> h_panic (cl_hub s i) \<Longrightarrow> cluster_step E s (hub_Publish i u ev f s)"
| deliver: "\<not> h_panic (cl_hub s i) \<Longrightarrow> cl_inbox s i \<noteq> [] \<Longrightarrow> cluster_step E s (receive E i s)"
| subscribe: "\<not> h_panic (cl_hub s i) \<Longrightarrow> \<not> cl_sub s i \<Longrightarrow> cluster_step E s (Redis_Subscribe i s)"
| unsubscribe: "cl_sub s i \<Longrightarrow> cluster_step E s (lose_subscription i s)"
| lose: "cl_inbox s i = xs @ ev # ys \<Longrightarrow> cluster_step E s (s\<lparr>cl_inbox := (cl_inbox s)(i := xs @ ys)\<rparr>)"
| run: "hub_quiet (cl_hub s i) h \<Longrightarrow> cluster_step E s (s\<lparr>cl_hub := (cl_hub s)(i := h)\<rparr>)"

inductive cluster_reach :: "env \<Rightarrow> cluster \<Rightarrow> bool" for E where
  start: "cluster_reach E new_cluster"
| more: "cluster_reach E s \<Longrightarrow> cluster_step E s s' \<Longrightarrow> cluster_reach E s'"

section \<open>Counting the copies of an event\<close>

text \<open>
  The copies of a message that a client has got, holds in its buffer, or is about to be sent; the copies on their way
  to a backend; and the deliveries the calls of \<open>Publish\<close> account for.
\<close>

definition copies :: "(uuid \<times> event) hub \<Rightarrow> nat \<Rightarrow> uuid \<times> event \<Rightarrow> nat" where
  "copies h c x = count_list (h_wire h c) x + count_list (ch_buf (h_send h c)) x +
     (\<Sum>b\<leftarrow>h_casts h. if snd b = x then count_list (fst b) c else 0)"

definition in_transit :: "env \<Rightarrow> event list \<Rightarrow> uuid \<times> event \<Rightarrow> nat" where
  "in_transit E evs x = (\<Sum>ev\<leftarrow>evs. if uuid_Parse E (ev_WalletID ev) = Some (fst x) \<and> ev = snd x then 1 else 0)"

definition accounted :: "env \<Rightarrow> nat \<Rightarrow> uuid \<times> event \<Rightarrow> nat \<times> uuid \<times> event \<times> fault \<Rightarrow> nat" where
  "accounted E i x e = (case e of (j, u, ev, f) \<Rightarrow>
     (if f \<noteq> Down \<and> uuid_Parse E (ev_WalletID ev) = Some (fst x) \<and> ev = snd x then 1 else 0) +
     (if f \<noteq> Up \<and> j = i \<and> (u, ev) = x then 1 else 0))"

definition deliveries :: "env \<Rightarrow> nat \<Rightarrow> uuid \<times> event \<Rightarrow> cluster \<Rightarrow> nat" where
  "deliveries E i x s = (\<Sum>e\<leftarrow>cl_log s. accounted E i x e)"

lemma count_list_distinct: "distinct xs \<Longrightarrow> count_list xs x \<le> 1"
  by (induction xs) (auto simp: count_list_0_iff)

lemma copies_start:
  assumes "hub_inv h"
  shows "copies (broadcast_start u m h) c x \<le> copies h c x + (if m = x then 1 else 0)"
proof -
  have "distinct (room h u)" using assms by (simp add: hub_inv_def rooms_ok_def)
  then show ?thesis using count_list_distinct [of "room h u" c] by (simp add: copies_def broadcast_start_def)
qed

lemma copies_next:
  assumes "i < length (h_casts h)"
  shows "copies (broadcast_next i h) c x \<le> copies h c x"
proof -
  let ?f = "\<lambda>b. if snd b = x then count_list (fst b) c else 0" and ?xs = "h_casts h"
  obtain cs m where b: "?xs ! i = (cs, m)" by (cases "?xs ! i")
  have split: "?xs = take i ?xs @ ?xs ! i # drop (Suc i) ?xs" using assms by (simp add: id_take_nth_drop)
  have sum: "(\<Sum>b\<leftarrow>?xs. ?f b) = (\<Sum>b\<leftarrow>take i ?xs. ?f b) + ?f (cs, m) + (\<Sum>b\<leftarrow>drop (Suc i) ?xs. ?f b)"
    by (subst split) (simp add: b)
  show ?thesis
  proof (cases cs)
    case Nil
    then show ?thesis using b sum by (simp add: broadcast_next_def copies_def)
  next
    case (Cons d ds)
    have "?xs[i := (ds, m)] = take i ?xs @ (ds, m) # drop (Suc i) ?xs" using assms by (simp add: upd_conv_take_nth_drop)
    then show ?thesis using b sum Cons by (auto simp: broadcast_next_def send_to_def copies_def)
  qed
qed

lemma copies_quiet: "hub_quiet h h' \<Longrightarrow> copies h' c x \<le> copies h c x"
proof (induction rule: hub_quiet.induct)
  case (quiet_send h i)
  then show ?case by (simp add: copies_next)
next
  case (quiet_write h d)
  then show ?case by (auto simp: copies_def write_pump_def split: list.splits)
qed (auto simp: copies_def connect_def disconnect_def register_frame unregister_frame)

lemma quiet_step: "hub_quiet h h' \<Longrightarrow> hub_step h h'"
  by (induction rule: hub_quiet.induct) (auto intro: hub_step.intros)

section \<open>No more copies than calls\<close>

definition cluster_inv :: "env \<Rightarrow> cluster \<Rightarrow> bool" where
  "cluster_inv E s \<longleftrightarrow> (\<forall>i. hub_inv (cl_hub s i)) \<and>
     (\<forall>i c x. copies (cl_hub s i) c x + in_transit E (cl_inbox s i) x \<le> deliveries E i x s)"

lemma in_transit_simps [simp]:
  "in_transit E [] x = 0" "in_transit E (xs @ ys) x = in_transit E xs x + in_transit E ys x"
  "in_transit E (ev # xs) x = (if uuid_Parse E (ev_WalletID ev) = Some (fst x) \<and> ev = snd x then 1 else 0) + in_transit E xs x"
  by (simp_all add: in_transit_def)

lemma cluster_inv_new: "cluster_inv E new_cluster"
  by (simp add: cluster_inv_def new_cluster_def hub_inv_new copies_def deliveries_def) (simp add: NewHub_def)

lemma publish_fields:
  "cl_hub (hub_Publish i u ev f s) k = (if f \<noteq> Up \<and> k = i then broadcast_start u (u, ev) (cl_hub s k) else cl_hub s k)"
  "cl_inbox (hub_Publish i u ev f s) k = (if f \<noteq> Down \<and> cl_sub s k then cl_inbox s k @ [ev] else cl_inbox s k)"
  "cl_log (hub_Publish i u ev f s) = cl_log s @ [(i, u, ev, f)]" "cl_sub (hub_Publish i u ev f s) = cl_sub s"
  by (cases f; simp add: hub_Publish_def on_hub_def Redis_Publish_def Let_def)+

lemma publish_counts:
  assumes "hub_inv (cl_hub s k)"
  shows "copies (cl_hub (hub_Publish i u ev f s) k) c x + in_transit E (cl_inbox (hub_Publish i u ev f s) k) x \<le>
    copies (cl_hub s k) c x + in_transit E (cl_inbox s k) x + accounted E k x (i, u, ev, f)"
  using copies_start [OF assms, of u "(u, ev)" c x] by (auto simp: publish_fields accounted_def)

lemma receive_parts:
  assumes "hub_inv (cl_hub s i)"
  shows "copies (cl_hub (receive E i s) k) c x + in_transit E (cl_inbox (receive E i s) k) x \<le>
      copies (cl_hub s k) c x + in_transit E (cl_inbox s k) x"
    and "deliveries E k x (receive E i s) = deliveries E k x s"
    and "hub_inv (cl_hub s k) \<Longrightarrow> hub_inv (cl_hub (receive E i s) k)"
proof -
  have "copies (broadcast_start u (u, ev) (cl_hub s i)) c x \<le> copies (cl_hub s i) c x + (if u = fst x \<and> ev = snd x then 1 else 0)" for u ev
    using copies_start [OF assms, of u "(u, ev)" c x] by (cases x) auto
  then show "copies (cl_hub (receive E i s) k) c x + in_transit E (cl_inbox (receive E i s) k) x \<le>
      copies (cl_hub s k) c x + in_transit E (cl_inbox s k) x"
    by (auto simp: receive_def on_hub_def Let_def split: list.split option.split)
qed (auto simp: receive_def on_hub_def Let_def deliveries_def hub_inv_cast split: list.split option.split)

lemma cluster_inv_fewer:
  assumes "cluster_inv E s" and "\<And>k. hub_inv (cl_hub s k) \<Longrightarrow> hub_inv (cl_hub s' k)" and "cl_log s' = cl_log s"
    and "\<And>k c x. copies (cl_hub s' k) c x + in_transit E (cl_inbox s' k) x \<le> copies (cl_hub s k) c x + in_transit E (cl_inbox s k) x"
  shows "cluster_inv E s'"
proof -
  have "deliveries E k x s' = deliveries E k x s" for k x by (simp add: deliveries_def assms(3))
  then show ?thesis
    using assms(1,2) unfolding cluster_inv_def by (auto simp del: split_paired_All intro: order_trans [OF assms(4)])
qed

lemma cluster_inv_step: "cluster_step E s s' \<Longrightarrow> cluster_inv E s \<Longrightarrow> cluster_inv E s'"
proof (induction rule: cluster_step.induct)
  case (publish s i u ev f)
  have inv: "hub_inv (cl_hub s k)" "copies (cl_hub s k) c x + in_transit E (cl_inbox s k) x \<le> deliveries E k x s" for k c x
    using publish.prems unfolding cluster_inv_def by blast+
  have "deliveries E k x (hub_Publish i u ev f s) = deliveries E k x s + accounted E k x (i, u, ev, f)" for k x
    by (simp add: deliveries_def publish_fields)
  then have "copies (cl_hub (hub_Publish i u ev f s) k) c x + in_transit E (cl_inbox (hub_Publish i u ev f s) k) x \<le>
      deliveries E k x (hub_Publish i u ev f s)" for k c x
    by (intro order_trans [OF publish_counts [OF inv(1)]]) (simp add: inv(2))
  moreover have "hub_inv (cl_hub (hub_Publish i u ev f s) k)" for k using inv(1) by (simp add: publish_fields hub_inv_cast)
  ultimately show ?case unfolding cluster_inv_def by blast
next
  case (deliver s i)
  then have "hub_inv (cl_hub s i)" unfolding cluster_inv_def by blast
  then show ?case
    by (intro cluster_inv_fewer [OF deliver.prems] receive_parts) (simp_all add: receive_def on_hub_def Let_def split: list.split option.split)
next
  case (run s i h)
  then show ?case
    using hub_inv_step [OF quiet_step [OF run.hyps]] copies_quiet [OF run.hyps]
    by (intro cluster_inv_fewer [OF run.prems]) auto
qed (rule cluster_inv_fewer; auto simp: Redis_Subscribe_def lose_subscription_def)+

lemma cluster_reach_inv: "cluster_reach E s \<Longrightarrow> cluster_inv E s"
  by (induction rule: cluster_reach.induct) (auto intro: cluster_inv_new cluster_inv_step)

section \<open>An event can always arrive\<close>

text \<open>
  From any state of a hub a client in a room can be sent its buffer, then a broadcast under way that names it, then
  the message.
\<close>

lemma write_all:
  assumes "\<not> h_panic h"
  shows "\<exists>h'. rtranclp hub_quiet h h' \<and> ch_buf (h_send h' c) = [] \<and> h_wire h' c = h_wire h c @ ch_buf (h_send h c) \<and>
    h_casts h' = h_casts h \<and> \<not> h_panic h' \<and> (\<forall>d. ch_closed (h_send h' d) = ch_closed (h_send h d))"
  using assms
proof (induction "ch_buf (h_send h c)" arbitrary: h)
  case Nil
  then show ?case by auto
next
  case (Cons m ms)
  let ?h = "write_pump c h"
  have eq: "?h = h\<lparr>h_send := (h_send h)(c := (h_send h c)\<lparr>ch_buf := ms\<rparr>), h_wire := (h_wire h)(c := h_wire h c @ [m])\<rparr>"
    using Cons.hyps(2) [symmetric] by (simp add: write_pump_def)
  obtain h' where h': "rtranclp hub_quiet ?h h'" "ch_buf (h_send h' c) = []" "h_wire h' c = h_wire h c @ m # ms"
      "h_casts h' = h_casts h" "\<not> h_panic h'" "\<forall>d. ch_closed (h_send h' d) = ch_closed (h_send h d)"
    using Cons.hyps(1) [of ?h] Cons.prems by (auto simp: eq)
  moreover from quiet_write [OF Cons.prems] h'(1) have "rtranclp hub_quiet h h'" by (rule converse_rtranclp_into_rtranclp)
  ultimately show ?case using Cons.hyps(2) by auto
qed

lemma cast_reaches:
  assumes "h_casts h = bs @ [(cs, m)]" "c \<in> set cs" "\<not> h_panic h" "\<forall>d \<in> set cs. \<not> ch_closed (h_send h d)"
    "length (ch_buf (h_send h c)) < sendBufferSize"
  shows "\<exists>h'. rtranclp hub_quiet h h' \<and> m \<in> set (ch_buf (h_send h' c)) \<and> \<not> h_panic h'"
  using assms
proof (induction cs arbitrary: h)
  case (Cons d ds)
  let ?h = "broadcast_next (length bs) h"
  have eq: "?h = send_to d m (h\<lparr>h_casts := bs @ [(ds, m)]\<rparr>)" using Cons.prems(1) by (simp add: broadcast_next_def)
  have step: "hub_quiet h ?h" using Cons.prems(1,3) by (intro quiet_send) simp_all
  have open_d: "\<not> ch_closed (h_send h d)" using Cons.prems(4) by simp
  show ?case
  proof (cases "d = c")
    case True
    then have "m \<in> set (ch_buf (h_send ?h c)) \<and> \<not> h_panic ?h" using Cons.prems open_d by (simp add: eq send_to_def)
    with step show ?thesis by blast
  next
    case False
    have "h_casts ?h = bs @ [(ds, m)]" "c \<in> set ds" "\<not> h_panic ?h" "\<forall>e \<in> set ds. \<not> ch_closed (h_send ?h e)"
        "length (ch_buf (h_send ?h c)) < sendBufferSize"
      using False Cons.prems open_d by (auto simp: eq send_to_def)
    from Cons.IH [OF this] obtain h' where "rtranclp hub_quiet ?h h'" "m \<in> set (ch_buf (h_send h' c)) \<and> \<not> h_panic h'"
      by blast
    with step show ?thesis by (blast intro: converse_rtranclp_into_rtranclp)
  qed
qed simp

lemma message_arrives:
  assumes "h_casts h = bs @ [(cs, m)]" "c \<in> set cs" "\<not> h_panic h" "\<forall>d \<in> set cs. \<not> ch_closed (h_send h d)"
  shows "\<exists>h'. rtranclp hub_quiet h h' \<and> m \<in> set (h_wire h' c)"
proof -
  obtain h1 where h1: "rtranclp hub_quiet h h1" "ch_buf (h_send h1 c) = []" "h_casts h1 = h_casts h" "\<not> h_panic h1"
      "\<forall>d. ch_closed (h_send h1 d) = ch_closed (h_send h d)"
    using write_all [OF assms(3), of c] by auto
  obtain h2 where h2: "rtranclp hub_quiet h1 h2" "m \<in> set (ch_buf (h_send h2 c))" "\<not> h_panic h2"
    using cast_reaches [of h1 bs cs m c] h1 assms by (auto simp: sendBufferSize_def)
  obtain h3 where "rtranclp hub_quiet h2 h3" "h_wire h3 c = h_wire h2 c @ ch_buf (h_send h2 c)"
    using write_all [OF h2(3), of c] by blast
  moreover have "rtranclp hub_quiet h h3" using h1(1) h2(1) calculation(1) by (meson rtranclp_trans)
  ultimately show ?thesis using h2(2) by auto
qed

lemma hub_runs:
  "rtranclp hub_quiet (cl_hub s i) h \<Longrightarrow> rtranclp (cluster_step E) s (s\<lparr>cl_hub := (cl_hub s)(i := h)\<rparr>)"
proof (induction rule: rtranclp_induct)
  case (step h h')
  have "cluster_step E (s\<lparr>cl_hub := (cl_hub s)(i := h)\<rparr>) (s\<lparr>cl_hub := (cl_hub s)(i := h')\<rparr>)"
    using run [of "s\<lparr>cl_hub := (cl_hub s)(i := h)\<rparr>" i h' E] step.hyps(2) by simp
  with step.IH show ?case by (rule rtranclp.rtrancl_into_rtrancl)
qed simp

text \<open>The subscriber works its queue off; the last message starts a broadcast to the room of its wallet.\<close>

lemma inbox_worked_off:
  assumes "cl_inbox s i = evs @ [ev]" "\<not> h_panic (cl_hub s i)" "uuid_Parse E (ev_WalletID ev) = Some u"
  shows "\<exists>s' bs. rtranclp (cluster_step E) s s' \<and> h_casts (cl_hub s' i) = bs @ [(room (cl_hub s i) u, (u, ev))] \<and>
    \<not> h_panic (cl_hub s' i) \<and> h_send (cl_hub s' i) = h_send (cl_hub s i)"
  using assms
proof (induction evs arbitrary: s)
  case Nil
  then have "cluster_step E s (receive E i s)" by (intro deliver) simp_all
  with Nil show ?case
    by (intro exI [of _ "receive E i s"] exI [of _ "h_casts (cl_hub s i)"])
       (simp add: r_into_rtranclp receive_def on_hub_def Let_def broadcast_start_def)
next
  case (Cons e es)
  have step: "cluster_step E s (receive E i s)" using Cons.prems by (intro deliver) simp_all
  have "cl_inbox (receive E i s) i = es @ [ev]" "\<not> h_panic (cl_hub (receive E i s) i)"
      "room (cl_hub (receive E i s) i) u = room (cl_hub s i) u" "h_send (cl_hub (receive E i s) i) = h_send (cl_hub s i)"
    using Cons.prems by (auto simp: receive_def on_hub_def Let_def broadcast_start_def split: option.split)
  with Cons.IH [of "receive E i s"] Cons.prems(3) obtain s' bs where "rtranclp (cluster_step E) (receive E i s) s'"
      "h_casts (cl_hub s' i) = bs @ [(room (cl_hub s i) u, (u, ev))]" "\<not> h_panic (cl_hub s' i)"
      "h_send (cl_hub s' i) = h_send (cl_hub s i)" by auto
  moreover from step this(1) have "rtranclp (cluster_step E) s s'" by (rule converse_rtranclp_into_rtranclp)
  ultimately show ?case by blast
qed

section \<open>The properties\<close>

definition calls_for :: "event \<Rightarrow> (nat \<times> uuid \<times> event \<times> fault) list \<Rightarrow> nat" where
  "calls_for ev log = length (filter (\<lambda>(j, v, e, f). e = ev) log)"

definition lost_for :: "event \<Rightarrow> (nat \<times> uuid \<times> event \<times> fault) list \<Rightarrow> nat" where
  "lost_for ev log = length (filter (\<lambda>(j, v, e, f). e = ev \<and> f = LostReply) log)"

lemma deliveries_calls: "(\<Sum>e\<leftarrow>log. accounted E i (u, ev) e) \<le> calls_for ev log + lost_for ev log"
proof (induction log)
  case (Cons e log)
  obtain j v e' f where "e = (j, v, e', f)" by (cases e)
  with Cons show ?case by (cases f) (auto simp: accounted_def calls_for_def lost_for_def)
qed (simp add: calls_for_def lost_for_def)



section \<open>A run\<close>

text \<open>One backend with one client; a call of \<open>Publish\<close> whose reply is lost.\<close>

definition sample_event :: event where
  "sample_event = \<lparr>ev_Type = TypeIssuanceReceived, ev_WalletID = ''7'', ev_Payload = IssuancePayload
     \<lparr>ie_TransactionID = ''t'', ie_AmountCents = 5, ie_AmountDisplay = ''DD$ 0.05'', ie_Reason = ''r'', ie_NewBalanceCents = 5,
      ie_NewBalanceDisplay = ''DD$ 0.05''\<rparr>, ev_Timestamp = None\<rparr>"

lemma sample_event_parses: "uuid_Parse sample_env (ev_WalletID sample_event) = Some (UUID 7)"
  by (simp add: sample_env_def sample_event_def digit_val_def)

definition one_client :: cluster where
  "one_client = on_hub 0 (\<lambda>h. handle_register (connect 1 (UUID 7) h)) (Redis_Subscribe 0 new_cluster)"

lemma one_client_reach: "cluster_reach E one_client"
proof -
  let ?s1 = "Redis_Subscribe 0 new_cluster"
  let ?s2 = "?s1\<lparr>cl_hub := (cl_hub ?s1)(0 := connect 1 (UUID 7) (cl_hub ?s1 0))\<rparr>"
  have "cluster_reach E ?s1"
    by (rule more [OF cluster_reach.start], rule subscribe) (simp_all add: new_cluster_def hub_run)
  then have "cluster_reach E ?s2"
    by (rule more, intro run quiet_connect) (simp_all add: new_cluster_def Redis_Subscribe_def hub_run)
  moreover have "hub_quiet (cl_hub ?s2 0) (handle_register (cl_hub ?s2 0))"
    by (intro quiet_register) (simp_all add: new_cluster_def Redis_Subscribe_def hub_run)
  from run [OF this] have "cluster_step E ?s2 one_client" by (simp add: one_client_def on_hub_def)
  ultimately show ?thesis by (rule more)
qed

lemma one_client_hub:
  "room (cl_hub one_client 0) (UUID 7) = [1]" "\<not> h_panic (cl_hub one_client 0)" "cl_sub one_client 0" "cl_log one_client = []"
  "h_walletID (cl_hub one_client 0) 1 = Some (UUID 7)"
  by (simp_all add: one_client_def on_hub_def Redis_Subscribe_def new_cluster_def hub_run)


text \<open>The two copies after a lost reply: one broadcast locally, one over the channel.\<close>

definition twice_sent :: cluster where
  "twice_sent = on_hub 0 (\<lambda>h. write_pump 1 (write_pump 1 (broadcast_next 1 (broadcast_next 0 h))))
     (receive sample_env 0 (hub_Publish 0 (UUID 7) sample_event LostReply one_client))"

lemma reach_run: "rtranclp (cluster_step E) s s' \<Longrightarrow> cluster_reach E s \<Longrightarrow> cluster_reach E s'"
  by (induction rule: rtranclp_induct) (auto intro: more)

lemmas cluster_run = one_client_def on_hub_def Redis_Subscribe_def new_cluster_def hub_Publish_def Redis_Publish_def receive_def
  hub_run

lemma twice_sent_reach: "cluster_reach sample_env twice_sent"
proof -
  let ?s1 = "hub_Publish 0 (UUID 7) sample_event LostReply one_client" and ?x = "(UUID 7, sample_event)"
  let ?s2 = "receive sample_env 0 ?s1"
  define h where "h = cl_hub ?s2 0"
  have "cluster_reach sample_env ?s1" by (rule more [OF one_client_reach], rule publish) (simp add: one_client_hub)
  then have reach: "cluster_reach sample_env ?s2"
    by (rule more, intro deliver) (simp_all add: cluster_run)
  have h: "h_casts h = [([1], ?x), ([1], ?x)]" "\<not> h_panic h" "h_send h 1 = \<lparr>ch_buf = [], ch_closed = False\<rparr>"
    by (simp_all add: h_def cluster_run sample_event_parses)
  have "hub_quiet h (broadcast_next 0 h)" using h by (intro quiet_send) simp_all
  moreover have "hub_quiet (broadcast_next 0 h) (broadcast_next 1 (broadcast_next 0 h))"
    using h by (intro quiet_send) (simp_all add: hub_run)
  moreover have "hub_quiet (broadcast_next 1 (broadcast_next 0 h)) (write_pump 1 (broadcast_next 1 (broadcast_next 0 h)))"
    using h by (intro quiet_write) (simp_all add: hub_run)
  moreover have "hub_quiet (write_pump 1 (broadcast_next 1 (broadcast_next 0 h))) (write_pump 1 (write_pump 1 (broadcast_next 1 (broadcast_next 0 h))))"
    using h by (intro quiet_write) (simp_all add: hub_run)
  ultimately have "rtranclp hub_quiet h (write_pump 1 (write_pump 1 (broadcast_next 1 (broadcast_next 0 h))))"
    by (meson converse_rtranclp_into_rtranclp r_into_rtranclp)
  from reach_run [OF hub_runs [OF this [unfolded h_def]] reach] show ?thesis by (simp add: twice_sent_def on_hub_def)
qed

lemma lost_reply_delivers_twice:
  "h_wire (cl_hub twice_sent 0) 1 = [(UUID 7, sample_event), (UUID 7, sample_event)] \<and> calls_for sample_event (cl_log twice_sent) = 1"
  by (simp add: twice_sent_def cluster_run sample_event_parses calls_for_def)


end
