(* ===== verification/Pumps.thy ===== *)
theory Pumps
  imports Hub
begin

text \<open>
  The timing of a WebSocket connection, \<open>readPump\<close> and \<open>writePump\<close> of \<open>internal/websocket/handler.go\<close>: the read deadline
  that every pong moves, and the pings of the ticker. (What the pumps do with messages is in \<open>Hub\<close>.)
\<close>

definition pongWait :: int64 where
  "pongWait = 60 * second"

definition pingPeriod :: int64 where
  "pingPeriod = go_div (pongWait * 9) 10"

text \<open>
  The read pump: it sets the deadline at its start and again at each pong, and ends when a deadline passes before the
  next one. The pongs come at the times of the list; \<open>None\<close>: the connection has timed out.
\<close>

fun read_until :: "gotime \<Rightarrow> gotime list \<Rightarrow> gotime option" where
  "read_until dl [] = Some dl"
| "read_until dl (t # ts) = (if t \<le> dl then read_until (time_Add t pongWait) ts else None)"

definition read_pump :: "gotime \<Rightarrow> gotime list \<Rightarrow> gotime option" where
  "read_pump t0 pongs = read_until (time_Add t0 pongWait) pongs"

text \<open>The ticks of the write pump that starts at \<open>t\<close>.\<close>

fun ping_times :: "gotime \<Rightarrow> nat \<Rightarrow> gotime list" where
  "ping_times t 0 = []"
| "ping_times t (Suc n) = time_Add t pingPeriod # ping_times (time_Add t pingPeriod) n"

text \<open>Each ping is answered within \<open>d\<close>.\<close>

definition answered_within :: "int \<Rightarrow> gotime list \<Rightarrow> gotime list \<Rightarrow> bool" where
  "answered_within d pings pongs \<longleftrightarrow> list_all2 (\<lambda>p a. p \<le> a \<and> a \<le> p + d) pings pongs"

lemma periods: "sint pongWait = 60000000000" "sint pingPeriod = 54000000000"
  by code_simp+

lemma read_until_answered:
  assumes "answered_within d (ping_times t n) pongs" and "t + 54000000000 + d \<le> dl" and "d \<le> 6000000000"
  shows "\<exists>dl'. read_until dl pongs = Some dl' \<and> t + int n * 54000000000 + 54000000000 + d \<le> dl'"
  using assms
proof (induction n arbitrary: t dl pongs)
  case (Suc n)
  then obtain a as where a: "pongs = a # as" "t + 54000000000 \<le> a" "a \<le> t + 54000000000 + d"
      "answered_within d (ping_times (t + 54000000000) n) as"
    by (auto simp: answered_within_def list_all2_Cons1 time_Add_def periods)
  from Suc.IH [OF a(4), of "a + 60000000000"] a Suc.prems show ?case
    by (auto simp: time_Add_def periods algebra_simps)
qed (auto simp: answered_within_def)

text \<open>A client whose connection takes \<open>s\<close> to start its write pump and that answers each ping within \<open>d\<close>, together at most six
  seconds, is never timed out: after every number of pings the deadline lies beyond the next ping and its answer.\<close>

theorem answered_pings_keep_connection:
  assumes "0 \<le> s" "0 \<le> d" "s + d \<le> 6000000000" and "answered_within d (ping_times (t0 + s) n) pongs"
  shows "\<exists>dl. read_pump t0 pongs = Some dl \<and> t0 + s + (int n + 1) * sint pingPeriod + d \<le> dl"
  using read_until_answered [OF assms(4), of "t0 + 60000000000"] assms(1-3)
  by (auto simp: read_pump_def time_Add_def periods algebra_simps)

theorem answered_pings_keep_connection_witness:
  "\<exists>dl. read_pump 0 [60 * 10 ^ 9, 114 * 10 ^ 9] = Some dl \<and> 168 * 10 ^ 9 \<le> dl"
proof -
  have "answered_within (5 * 10 ^ 9) (ping_times (0 + 10 ^ 9) 2) [60 * 10 ^ 9, 114 * 10 ^ 9]"
    by (simp add: numeral_2_eq_2 answered_within_def time_Add_def periods)
  from answered_pings_keep_connection [OF _ _ _ this] show ?thesis by (auto simp: periods)
qed

end
