(* ===== verification/Connect.thy ===== *)
theory Connect
  imports Server
begin

text \<open>
  The set-up of the two clients: \<open>New\<close> of \<open>pkg/database/postgres.go\<close> and of \<open>pkg/redis/client.go\<close>, the text of the
  data source name, and the conversion of the pool sizes from the environment. What the drivers do with their
  configuration is theirs; the record \<open>drivers\<close> holds it as parameters.
\<close>

section \<open>Numbers from the environment\<close>

text \<open>\<open>int32(n)\<close>: the low half of the word.\<close>

definition to_int32 :: "int64 \<Rightarrow> 32 word" where
  "to_int32 n = word_of_int (sint n)"

section \<open>PostgreSQL\<close>

record db_config =
  dc_Host :: string
  dc_Port :: string
  dc_Name :: string
  dc_User :: string
  dc_Password :: string
  dc_MaxOpenConns :: "32 word"
  dc_MaxIdleConns :: "32 word"
  dc_ConnTimeout :: int64

definition dsn :: "db_config \<Rightarrow> string" where
  "dsn cfg =
    ''host='' @ dc_Host cfg @ '' port='' @ dc_Port cfg @ '' dbname='' @ dc_Name cfg @ '' user='' @ dc_User cfg @
    '' password='' @ dc_Password cfg @ '' sslmode=disable pool_max_conns='' @ show_int (sint (dc_MaxOpenConns cfg)) @
    '' pool_min_conns='' @ show_int (sint (dc_MaxIdleConns cfg)) @ '' connect_timeout=5''"

text \<open>
  The parsed configuration: what the driver took from the text (\<open>pc_parsed\<close>, of any type) and the three fields
  \<open>New\<close> sets.
\<close>

record 'p pool_config =
  pc_parsed :: 'p
  pc_HealthCheckPeriod :: int64
  pc_MaxConnLifetime :: int64
  pc_MaxConnIdleTime :: int64

text \<open>\<open>ParseConfig\<close> may refuse the text (\<open>None\<close>), \<open>NewWithConfig\<close> the configuration.\<close>

record 'p drivers =
  dr_ParseConfig :: "string \<Rightarrow> 'p pool_config option"
  dr_NewWithConfig :: "'p pool_config \<Rightarrow> bool"

section \<open>The process\<close>

text \<open>
  What the process holds: the world outside, the pool and the Redis client, whether the goroutine of the hub runs,
  the stage of \<open>main\<close>, and the number of requests accepted and not yet answered.
\<close>

datatype resource = Absent | Opened | Closed

datatype stage = Booting | Serving | Draining | Exited nat

record process =
  ps_world :: world
  ps_pool :: resource
  ps_redis :: resource
  ps_hub :: bool
  ps_stage :: stage
  ps_inflight :: nat

definition new_process :: "world \<Rightarrow> process" where
  "new_process w = \<lparr>ps_world = w, ps_pool = Absent, ps_redis = Absent, ps_hub = False, ps_stage = Booting, ps_inflight = 0\<rparr>"

definition on_world :: "(world, 'a) io \<Rightarrow> (process, 'a) io" where
  "on_world m p = (case m (ps_world p) of (r, w) \<Rightarrow> (r, p\<lparr>ps_world := w\<rparr>))"

definition modify_io :: "('s \<Rightarrow> 's) \<Rightarrow> ('s, unit) io" where
  "modify_io f s = (Inr (), f s)"

lemma on_world_run [io_run]: "on_world m p = (fst (m (ps_world p)), p\<lparr>ps_world := snd (m (ps_world p))\<rparr>)"
  by (simp add: on_world_def split: prod.splits)

lemma modify_io_run [io_run]: "modify_io f s = (Inr (), f s)"
  by (simp add: modify_io_def)

definition pool_settings :: "'p pool_config \<Rightarrow> 'p pool_config" where
  "pool_settings poolCfg = poolCfg\<lparr>pc_HealthCheckPeriod := 30 * second, pc_MaxConnLifetime := 3600 * second,
     pc_MaxConnIdleTime := 1800 * second\<rparr>"

text \<open>\<open>database.New\<close>: a pool that cannot be pinged is closed again.\<close>

definition database_New :: "env \<Rightarrow> 'p drivers \<Rightarrow> db_config \<Rightarrow> (process, 'p pool_config) io" where
  "database_New E D cfg =
    (case dr_ParseConfig D (dsn cfg) of
       None \<Rightarrow> throw (Wrap ''parse postgres config'' Driver)
     | Some parsed \<Rightarrow>
         (let poolCfg = pool_settings parsed
          in if \<not> dr_NewWithConfig D poolCfg then throw (Wrap ''create postgres pool'' Driver)
             else bind_io (modify_io (\<lambda>p. p\<lparr>ps_pool := Opened\<rparr>)) (\<lambda>_.
                  catch_io (on_world (sql E None ping))
                    (\<lambda>err. bind_io (modify_io (\<lambda>p. p\<lparr>ps_pool := Closed\<rparr>)) (\<lambda>_. throw (Wrap ''ping postgres'' err)))
                    (\<lambda>_. ret poolCfg))))"

text \<open>\<open>Pool.Stats\<close>, from the counters of the driver.\<close>

record pool_stat =
  st_TotalConns :: int64
  st_IdleConns :: int64
  st_AcquiredConns :: int64
  st_MaxConns :: int64

definition Stats :: "pool_stat \<Rightarrow> (string \<times> int64) list" where
  "Stats s = [(''total_connections'', st_TotalConns s), (''idle_connections'', st_IdleConns s),
     (''acquired'', st_AcquiredConns s), (''max_connections'', st_MaxConns s)]"

section \<open>Redis\<close>

record redis_config =
  rc_Host :: string
  rc_Port :: string
  rc_Password :: string
  rc_DB :: int64

record redis_options =
  ro_Addr :: string
  ro_Password :: string
  ro_DB :: int64
  ro_PoolSize :: int64
  ro_MinIdleConns :: int64
  ro_ConnMaxIdleTime :: int64
  ro_DialTimeout :: int64
  ro_ReadTimeout :: int64
  ro_WriteTimeout :: int64

definition redis_options_of :: "redis_config \<Rightarrow> redis_options" where
  "redis_options_of cfg = \<lparr>ro_Addr = rc_Host cfg @ '':'' @ rc_Port cfg, ro_Password = rc_Password cfg, ro_DB = rc_DB cfg,
     ro_PoolSize = 20, ro_MinIdleConns = 5, ro_ConnMaxIdleTime = 300 * second, ro_DialTimeout = 5 * second,
     ro_ReadTimeout = 3 * second, ro_WriteTimeout = 3 * second\<rparr>"

text \<open>\<open>redis.New\<close>: a client that cannot be pinged is left as it is.\<close>

definition redis_New :: "env \<Rightarrow> redis_config \<Rightarrow> (process, redis_options) io" where
  "redis_New E cfg =
    bind_io (modify_io (\<lambda>p. p\<lparr>ps_redis := Opened\<rparr>)) (\<lambda>_.
    catch_io (on_world (redis_call E (\<lambda>t m. (Inr (), m)))) (\<lambda>err. throw (Wrap ''ping redis'' err)) (\<lambda>_. ret (redis_options_of cfg)))"

section \<open>What is opened\<close>

lemma ping_outcome:
  "sql E None ping w = (if fate E (w_calls w) = Up then Inr () else Inl Driver, w\<lparr>w_calls := Suc (w_calls w)\<rparr>)"
  "redis_call E (\<lambda>t m. (Inr (), m)) w = (if fate E (w_calls w) = Up then Inr () else Inl Driver, w\<lparr>w_calls := Suc (w_calls w)\<rparr>)"
  by (simp_all add: sql_def redis_call_def ping_def Let_def split: fault.splits)

text \<open>A pool is open after \<open>database.New\<close> exactly if it returned one; a failed \<open>redis.New\<close> leaves its client open.\<close>

lemma database_New_opens:
  assumes "database_New E D cfg p = (r, p')" and "ps_pool p \<noteq> Opened"
  shows "ps_pool p' = Opened \<longleftrightarrow> (\<exists>pc. r = Inr pc)"
  using assms by (auto simp: database_New_def io_run ping_outcome Let_def split: option.splits if_splits)

lemma redis_New_opens: "ps_redis (snd (redis_New E cfg p)) = Opened"
  by (simp add: redis_New_def io_run ping_outcome)

section \<open>The data source name\<close>

text \<open>
  The values stand unquoted in a text whose keywords are separated by spaces. Without spaces in them the text
  determines every value; with a space it does not.
\<close>

lemma split_at_space:
  assumes "CHR '' '' \<notin> set a" "CHR '' '' \<notin> set b" and "a @ CHR '' '' # x = b @ CHR '' '' # y"
  shows "a = b \<and> x = y"
  using assms by (induction a arbitrary: b) (auto simp: Cons_eq_append_conv append_eq_Cons_conv)

definition plain_config :: "db_config \<Rightarrow> bool" where
  "plain_config cfg \<longleftrightarrow> (\<forall>s \<in> {dc_Host cfg, dc_Port cfg, dc_Name cfg, dc_User cfg, dc_Password cfg}. CHR '' '' \<notin> set s)"

lemma show_nat_no_space: "CHR '' '' \<notin> set (show_nat n)"
proof (induction n rule: show_nat.induct)
  case (1 n)
  have "CHR '' '' \<noteq> digit k" if "k < 10" for k
  proof -
    have "digit_val (CHR '' '') = None" by (simp add: digit_val_def)
    with digit_val_digit [OF that] show ?thesis by auto
  qed
  with 1 show ?case by (subst show_nat.simps) auto
qed

lemma show_int_no_space: "CHR '' '' \<notin> set (show_int i)"
  by (simp add: show_int_def show_nat_no_space)

lemma show_int32_inject: "show_int (sint (a :: 32 word)) = show_int (sint b) \<longleftrightarrow> a = b"
proof -
  have ok: "int64_ok (sint c)" for c :: "32 word"
    using sint_lt [of c] sint_ge [of c] by (simp add: int64_ok_def)
  have "sint a = sint b" if "show_int (sint a) = show_int (sint b)"
    using ok [of a] ok [of b] ParseInt_show_int [OF ok [of a]] ParseInt_show_int [OF ok [of b]] that
    by (metis option.inject sint_word_of_int64)
  then show ?thesis by (auto intro: signed_word_eqI)
qed

lemma dsn_determines:
  assumes "plain_config a" "plain_config b" and eq: "dsn a = dsn b"
  shows "a\<lparr>dc_ConnTimeout := 0\<rparr> = b\<lparr>dc_ConnTimeout := 0\<rparr>"
proof -
  have f: "dc_Host a = dc_Host b" "dc_Port a = dc_Port b" "dc_Name a = dc_Name b" "dc_User a = dc_User b"
      "dc_Password a = dc_Password b" "show_int (sint (dc_MaxOpenConns a)) = show_int (sint (dc_MaxOpenConns b))"
      "show_int (sint (dc_MaxIdleConns a)) = show_int (sint (dc_MaxIdleConns b))"
    using assms by (auto simp: dsn_def plain_config_def show_int_no_space dest!: split_at_space [rotated 2])
  then show ?thesis by (cases a; cases b) (simp add: show_int32_inject)
qed

lemma dsn_ambiguous:
  "dsn \<lparr>dc_Host = h, dc_Port = p, dc_Name = n, dc_User = ''app'', dc_Password = ''x password=y'', dc_MaxOpenConns = o1,
         dc_MaxIdleConns = i, dc_ConnTimeout = t\<rparr> =
   dsn \<lparr>dc_Host = h, dc_Port = p, dc_Name = n, dc_User = ''app password=x'', dc_Password = ''y'', dc_MaxOpenConns = o1,
         dc_MaxIdleConns = i, dc_ConnTimeout = t\<rparr>"
  by (simp add: dsn_def)

text \<open>A pool size is reduced to 32 bits without a word, and one that is no number becomes zero.\<close>

lemma pool_size_wraps: "to_int32 (Atoi_value ''4294967321'') = 25" "to_int32 (Atoi_value ''99999999999999999999'') = -1"
    "to_int32 (Atoi_value ''ten'') = 0"
  by (simp_all add: to_int32_def Atoi_value_def digit_val_def)

end
