(* ===== verification/Process.thy ===== *)
theory Process
  imports Connect System_Claims
begin

text \<open>
  The life of the server process, \<open>main\<close> of \<open>cmd/server/main.go\<close>: the start-up from the environment to the listening
  server, the requests it accepts, the signal, the draining, the deferred clean-up and the exit.
\<close>

section \<open>Start-up\<close>

datatype log_level = LevelDebug | LevelInfo

definition logLevel :: "server \<Rightarrow> log_level" where
  "logLevel S = (if getEnv S ''LOG_LEVEL'' ''info'' = ''debug'' then LevelDebug else LevelInfo)"

text \<open>\<open>mustEnv\<close> as a step of \<open>main\<close>. An error of \<open>boot\<close> stands for the log line and \<open>os.Exit(1)\<close>.\<close>

definition require_env :: "server \<Rightarrow> string \<Rightarrow> (process, string) io" where
  "require_env S key = (case mustEnv S key of
     None \<Rightarrow> throw (Errorf (''required environment variable not set: '' @ key)) | Some v \<Rightarrow> ret v)"

definition db_config_of :: "server \<Rightarrow> string \<Rightarrow> db_config" where
  "db_config_of S password =
    (let maxOpen = Atoi_value (getEnv S ''DB_MAX_OPEN_CONNS'' ''25''); maxIdle = Atoi_value (getEnv S ''DB_MAX_IDLE_CONNS'' ''5'')
     in \<lparr>dc_Host = getEnv S ''DB_HOST'' ''localhost'', dc_Port = getEnv S ''DB_PORT'' ''5432'', dc_Name = getEnv S ''DB_NAME'' ''cbdc_db'',
         dc_User = getEnv S ''DB_USER'' ''cbdc_app'', dc_Password = password, dc_MaxOpenConns = to_int32 maxOpen,
         dc_MaxIdleConns = to_int32 maxIdle, dc_ConnTimeout = 5 * second\<rparr>)"

definition redis_config_of :: "server \<Rightarrow> redis_config" where
  "redis_config_of S = \<lparr>rc_Host = getEnv S ''REDIS_HOST'' ''localhost'', rc_Port = getEnv S ''REDIS_PORT'' ''6379'',
     rc_Password = getEnv S ''REDIS_PASSWORD'' '''', rc_DB = 0\<rparr>"

record http_server =
  hs_Addr :: string
  hs_ReadTimeout :: int64
  hs_WriteTimeout :: int64
  hs_IdleTimeout :: int64
  hs_ReadHeaderTimeout :: int64

definition http_server_of :: "server \<Rightarrow> http_server" where
  "http_server_of S = \<lparr>hs_Addr = '':'' @ getEnv S ''APP_PORT'' ''8080'', hs_ReadTimeout = 15 * second,
     hs_WriteTimeout = 30 * second, hs_IdleTimeout = 60 * second, hs_ReadHeaderTimeout = 5 * second\<rparr>"

text \<open>What \<open>main\<close> knows when the server listens.\<close>

record 'p wiring =
  rn_pool :: "'p pool_config"
  rn_redis :: redis_options
  rn_jwtSecret :: string
  rn_signingKey :: string
  rn_http :: http_server

text \<open>The two connections, the database first; its password is asked for before anything is opened.\<close>

definition open_connections :: "server \<Rightarrow> 'p drivers \<Rightarrow> (process, 'p pool_config \<times> redis_options) io" where
  "open_connections S D =
    bind_io (require_env S ''DB_PASSWORD'') (\<lambda>password.
    bind_io (database_New (sv_env S) D (db_config_of S password)) (\<lambda>dbPool.
    bind_io (redis_New (sv_env S) (redis_config_of S)) (\<lambda>redisClient. ret (dbPool, redisClient))))"

definition boot :: "server \<Rightarrow> 'p drivers \<Rightarrow> (process, 'p wiring) io" where
  "boot S D =
    bind_io (open_connections S D) (\<lambda>(dbPool, redisClient).
    bind_io (require_env S ''JWT_SECRET'') (\<lambda>jwtSecret.
    bind_io (require_env S ''SIGNING_KEY'') (\<lambda>signingKey.
    bind_io (modify_io (\<lambda>p. p\<lparr>ps_hub := True\<rparr>)) (\<lambda>_.
    ret \<lparr>rn_pool = dbPool, rn_redis = redisClient, rn_jwtSecret = jwtSecret, rn_signingKey = signingKey,
         rn_http = http_server_of S\<rparr>))))"

definition start :: "server \<Rightarrow> 'p drivers \<Rightarrow> process \<Rightarrow> 'p wiring option \<times> process" where
  "start S D p =
    (case boot S D p of
       (Inl err, p1) \<Rightarrow> (None, p1\<lparr>ps_stage := Exited 1\<rparr>)
     | (Inr rn, p1) \<Rightarrow> (Some rn, p1\<lparr>ps_stage := Serving\<rparr>))"

section \<open>Serving and stopping\<close>

text \<open>
  \<open>Shutdown\<close> returns when no request is in flight; then the deferred calls run, the last first: the hub is cancelled,
  the Redis client and the pool are closed. \<open>os.Exit\<close> runs none of them.
\<close>

definition deferred_calls :: "process \<Rightarrow> process" where
  "deferred_calls p = p\<lparr>ps_hub := False, ps_redis := Closed, ps_pool := Closed\<rparr>"

text \<open>
  One event in the life of the process: a request is accepted; one in flight is answered; the listener fails; a signal
  arrives and \<open>Shutdown\<close> closes the listener; it returns; it gives up after 30 seconds; or a goroutine of the hub
  panics, which no \<open>Recoverer\<close> sees.
\<close>

inductive process_step :: "server \<Rightarrow> 'p wiring \<Rightarrow> process \<Rightarrow> process \<Rightarrow> bool" for S rn where
  accept: "ps_stage p = Serving \<Longrightarrow> process_step S rn p (p\<lparr>ps_inflight := Suc (ps_inflight p)\<rparr>)"
| answer: "ps_stage p \<in> {Serving, Draining} \<Longrightarrow> ps_inflight p = Suc n \<Longrightarrow>
    process_step S rn p (p\<lparr>ps_inflight := n, ps_world := serve_one S (rn_jwtSecret rn) (rn_signingKey rn) a (ps_world p)\<rparr>)"
| listen_error: "ps_stage p = Serving \<Longrightarrow> process_step S rn p (p\<lparr>ps_stage := Exited 1\<rparr>)"
| signal: "ps_stage p = Serving \<Longrightarrow> process_step S rn p (p\<lparr>ps_stage := Draining\<rparr>)"
| drained: "ps_stage p = Draining \<Longrightarrow> ps_inflight p = 0 \<Longrightarrow> process_step S rn p ((deferred_calls p)\<lparr>ps_stage := Exited 0\<rparr>)"
| deadline: "ps_stage p = Draining \<Longrightarrow> process_step S rn p (p\<lparr>ps_stage := Exited 1\<rparr>)"
| crash: "ps_stage p \<in> {Serving, Draining} \<Longrightarrow> ps_hub p \<Longrightarrow> process_step S rn p (p\<lparr>ps_stage := Exited 2\<rparr>)"

inductive_cases process_stepE: "process_step S rn p p'"

section \<open>Lemmas\<close>

lemmas boot_defs = start_def boot_def open_connections_def require_env_def mustEnv_def secrets_def database_New_def redis_New_def Let_def

definition pool_accepted :: "server \<Rightarrow> 'p drivers \<Rightarrow> bool" where
  "pool_accepted S D \<longleftrightarrow>
     (case dr_ParseConfig D (dsn (db_config_of S (sv_getenv S ''DB_PASSWORD''))) of
        None \<Rightarrow> False | Some pc \<Rightarrow> dr_NewWithConfig D (pool_settings pc))"

definition ready :: "process \<Rightarrow> bool" where
  "ready p \<longleftrightarrow> ps_stage p \<in> {Serving, Draining} \<and> ps_pool p = Opened \<and> ps_redis p = Opened \<and> ps_hub p"

lemma start_world:
  "w_db (ps_world (snd (start S D p))) = w_db (ps_world p) \<and> w_redis (ps_world (snd (start S D p))) = w_redis (ps_world p) \<and>
   ps_inflight (snd (start S D p)) = ps_inflight p"
  by (auto simp: boot_defs io_run ping_outcome split: option.splits)

lemma start_some:
  assumes "start S D p = (Some rn, p1)"
  shows "ready p1" "ps_stage p1 = Serving" "secrets S = Some (rn_jwtSecret rn, rn_signingKey rn)"
  using assms by (auto simp: boot_defs io_run ping_outcome ready_def split: option.splits if_splits)

lemma start_none: "start S D p = (None, p1) \<Longrightarrow> ps_stage p1 = Exited 1"
  by (auto simp: boot_defs io_run ping_outcome split: option.splits if_splits)

lemma start_succeeds:
  "(\<exists>rn. fst (start S D (new_process w)) = Some rn) \<longleftrightarrow> secrets S \<noteq> None \<and> pool_accepted S D \<and>
     fate (sv_env S) (w_calls w) = Up \<and> fate (sv_env S) (Suc (w_calls w)) = Up"
  by (auto simp: boot_defs io_run ping_outcome new_process_def pool_accepted_def split: option.splits)

text \<open>A process that has exited does nothing more; one that is ready stays ready until it exits.\<close>

lemma exited_stuck: "process_step S rn p q \<Longrightarrow> ps_stage p \<noteq> Exited n"
  by (auto elim: process_stepE)

lemma ready_step: "process_step S rn p q \<Longrightarrow> ready p \<Longrightarrow> ready q \<or> (\<exists>n. ps_stage q = Exited n)"
  by (auto simp: ready_def elim!: process_stepE)

lemma step_world:
  "process_step S rn p q \<Longrightarrow>
   \<exists>as. ps_world q = serve_all S (rn_jwtSecret rn) (rn_signingKey rn) as (ps_world p)"
proof (induction rule: process_step.induct)
  case (answer p n a)
  then show ?case by (intro exI [of _ "[a]"]) (simp add: serve_all_def)
qed (rule exI [of _ "[]"], simp add: serve_all_def deferred_calls_def)+

definition clean_exit :: "process \<Rightarrow> bool" where
  "clean_exit p \<longleftrightarrow> ps_stage p = Exited 0 \<and> ps_inflight p = 0 \<and> ps_pool p = Closed \<and> ps_redis p = Closed \<and> \<not> ps_hub p"

lemma step_exit: "process_step S rn p q \<Longrightarrow> ps_stage q = Exited 0 \<Longrightarrow> clean_exit q"
  by (auto simp: clean_exit_def deferred_calls_def elim!: process_stepE)

lemma run_world:
  "rtranclp (process_step S rn) p q \<Longrightarrow>
   \<exists>as. ps_world q = serve_all S (rn_jwtSecret rn) (rn_signingKey rn) as (ps_world p)"
proof (induction rule: rtranclp_induct)
  case base
  show ?case by (rule exI [of _ "[]"]) (simp add: serve_all_def)
next
  case (step q q')
  then obtain as bs where "ps_world q = serve_all S (rn_jwtSecret rn) (rn_signingKey rn) as (ps_world p)"
      "ps_world q' = serve_all S (rn_jwtSecret rn) (rn_signingKey rn) bs (ps_world q)"
    using step_world by blast
  then show ?case by (intro exI [of _ "as @ bs"]) (simp add: serve_all_def)
qed

lemma run_ready:
  "rtranclp (process_step S rn) p q \<Longrightarrow> ready p \<Longrightarrow> ready q \<or> clean_exit q \<or> (\<exists>n. ps_stage q = Exited (Suc n))"
proof (induction rule: rtranclp_induct)
  case (step q q')
  then have "ready q" using exited_stuck by (metis clean_exit_def)
  then show ?case using ready_step [OF step.hyps(2)] step_exit [OF step.hyps(2)] by (metis not0_implies_Suc)
qed simp

text \<open>While it drains, every step brings the process nearer to its exit.\<close>

lemma draining_steps: "(process_step S rn ^^ k) p q \<Longrightarrow> ps_stage p = Draining \<Longrightarrow> k \<le> Suc (ps_inflight p)"
proof (induction k arbitrary: p)
  case (Suc k)
  from relpowp_Suc_D2 [OF Suc.prems(1)] obtain p1 where step: "process_step S rn p p1" and rest: "(process_step S rn ^^ k) p1 q"
    by blast
  show ?case
  proof (cases "ps_stage p1 = Draining")
    case True
    with step Suc.prems(2) have "ps_inflight p = Suc (ps_inflight p1)" by (auto simp: deferred_calls_def elim!: process_stepE)
    with Suc.IH [OF rest True] show ?thesis by simp
  next
    case False
    with step Suc.prems(2) obtain n where "ps_stage p1 = Exited n" by (auto elim!: process_stepE)
    with rest have "k = 0" by (cases k) (auto simp del: relpowp.simps dest!: relpowp_Suc_D2 dest: exited_stuck)
    then show ?thesis by simp
  qed
qed simp

lemma draining_ends:
  assumes "ps_stage p = Draining"
  shows "\<exists>q. (process_step S rn ^^ Suc (ps_inflight p)) p q \<and> clean_exit q"
  using assms
proof (induction "ps_inflight p" arbitrary: p)
  case 0
  then have "process_step S rn p ((deferred_calls p)\<lparr>ps_stage := Exited 0\<rparr>)" by (intro drained) simp_all
  with step_exit [OF this] 0 show ?case by (auto simp: relpowp_1)
next
  case (Suc n)
  let ?p = "p\<lparr>ps_inflight := n, ps_world := serve_one S (rn_jwtSecret rn) (rn_signingKey rn) undefined (ps_world p)\<rparr>"
  from Suc.hyps(1) [of ?p] Suc.prems obtain q where "(process_step S rn ^^ Suc n) ?p q" "clean_exit q" by auto
  moreover have "process_step S rn p ?p" using Suc by (intro answer) simp_all
  ultimately show ?case using relpowp_Suc_I2 Suc.hyps(2) by metis
qed

end
