(* ===== verification/Process_Claims.thy ===== *)
theory Process_Claims
  imports Process
begin

text \<open>
  The properties of the life of the server: when it starts, what it holds while it serves, and how it ends.
\<close>

section \<open>A process\<close>

definition sample_drivers :: "string drivers" where
  "sample_drivers = \<lparr>dr_ParseConfig = (\<lambda>s. Some \<lparr>pc_parsed = s, pc_HealthCheckPeriod = 0, pc_MaxConnLifetime = 0, pc_MaxConnIdleTime = 0\<rparr>),
     dr_NewWithConfig = (\<lambda>_. True)\<rparr>"

definition configured_server :: server where
  "configured_server = sample_server\<lparr>sv_getenv := (\<lambda>k. if k \<in> {''DB_PASSWORD'', ''JWT_SECRET'', ''SIGNING_KEY''} then ''secret'' else '''')\<rparr>"

section \<open>The properties\<close>

text \<open>C35: The server comes to listen exactly if the three secrets are set, the drivers take the configuration and both
  pings are answered. Then both connections are open, the hub runs and the secrets are those of the environment;
  otherwise the process exits with status 1. No table is touched and no request accepted on the way.\<close>

theorem server_starts:
  assumes "start S D (new_process w) = (x, p)"
  shows "((\<exists>rn. x = Some rn) \<longleftrightarrow> secrets S \<noteq> None \<and> pool_accepted S D \<and>
           fate (sv_env S) (w_calls w) = Up \<and> fate (sv_env S) (Suc (w_calls w)) = Up) \<and>
    (case x of None \<Rightarrow> ps_stage p = Exited 1
     | Some rn \<Rightarrow> ps_stage p = Serving \<and> ready p \<and> secrets S = Some (rn_jwtSecret rn, rn_signingKey rn)) \<and>
    w_db (ps_world p) = w_db w \<and> ps_inflight p = 0"
proof -
  have "(\<exists>rn. x = Some rn) \<longleftrightarrow> secrets S \<noteq> None \<and> pool_accepted S D \<and>
      fate (sv_env S) (w_calls w) = Up \<and> fate (sv_env S) (Suc (w_calls w)) = Up"
    using start_succeeds [of S D w] assms by simp
  moreover have "w_db (ps_world p) = w_db w" "ps_inflight p = 0"
    using start_world [of S D "new_process w"] assms by (simp_all add: new_process_def)
  moreover have "case x of None \<Rightarrow> ps_stage p = Exited 1
     | Some rn \<Rightarrow> ps_stage p = Serving \<and> ready p \<and> secrets S = Some (rn_jwtSecret rn, rn_signingKey rn)"
  proof (cases x)
    case None
    with assms start_none [of S D "new_process w" p] show ?thesis by simp
  next
    case (Some rn)
    with assms start_some [of S D "new_process w" rn p] show ?thesis by simp
  qed
  ultimately show ?thesis by blast
qed



section \<open>Witnesses\<close>

lemma configured_starts:
  obtains rn p where "start configured_server sample_drivers (new_process sample_world) = (Some rn, p)" "ps_stage p = Serving"
      "ps_inflight p = 0"
proof -
  have "secrets configured_server \<noteq> None" "pool_accepted configured_server sample_drivers" "fate (sv_env configured_server) n = Up" for n
    by (simp_all add: secrets_def mustEnv_def pool_accepted_def configured_server_def sample_drivers_def sample_server_def sample_env_def)
  then obtain rn where "fst (start configured_server sample_drivers (new_process sample_world)) = Some rn"
    using start_succeeds [of configured_server sample_drivers sample_world] by auto
  then obtain p where p: "start configured_server sample_drivers (new_process sample_world) = (Some rn, p)"
    by (metis prod.collapse)
  then show thesis using that [OF p] start_some [OF p] start_world [of configured_server sample_drivers "new_process sample_world"]
    by (simp add: new_process_def)
qed

theorem server_starts_witness:
  "\<exists>rn p. start configured_server sample_drivers (new_process sample_world) = (Some rn, p) \<and> ready p \<and> rn_jwtSecret rn = ''secret''"
proof -
  obtain rn p where p: "start configured_server sample_drivers (new_process sample_world) = (Some rn, p)" by (rule configured_starts)
  have "secrets configured_server = Some (''secret'', ''secret'')" by (simp add: secrets_def mustEnv_def configured_server_def)
  with server_starts [OF p] p show ?thesis by auto
qed

lemma one_request_in_flight:
  obtains rn p0 p where "start configured_server sample_drivers (new_process sample_world) = (Some rn, p0)"
    "rtranclp (process_step configured_server rn) p0 p" "ps_stage p = Draining" "ps_inflight p = 1"
proof -
  obtain rn p0 where p0: "start configured_server sample_drivers (new_process sample_world) = (Some rn, p0)" "ps_stage p0 = Serving"
      "ps_inflight p0 = 0" by (rule configured_starts)
  let ?step = "process_step configured_server rn" and ?p1 = "p0\<lparr>ps_inflight := Suc (ps_inflight p0)\<rparr>"
  have "?step p0 ?p1" using accept [of p0 configured_server rn] p0(2) by simp
  moreover have "?step ?p1 (?p1\<lparr>ps_stage := Draining\<rparr>)" by (rule signal) (simp add: p0(2))
  ultimately have "rtranclp ?step p0 (?p1\<lparr>ps_stage := Draining\<rparr>)" by (rule converse_rtranclp_into_rtranclp [OF _ r_into_rtranclp])
  from that [OF p0(1) this] p0(3) show thesis by simp
qed



end
