(* ===== verification/Seed_Process.thy ===== *)
theory Seed_Process
  imports Process Seed_Claims
begin

text \<open>
  The process around the demo data program, \<open>main\<close> of \<open>cmd/seed/main.go\<close>: its database connection, the run, the
  clean-up and the exit; and the passwords it hands out.
\<close>

section \<open>The process\<close>

definition seed_db_config :: "(string \<Rightarrow> string) \<Rightarrow> string \<Rightarrow> db_config" where
  "seed_db_config getenv password =
    \<lparr>dc_Host = seed_getEnv getenv ''DB_HOST'' ''localhost'', dc_Port = seed_getEnv getenv ''DB_PORT'' ''5432'',
     dc_Name = seed_getEnv getenv ''DB_NAME'' ''cbdc_db'', dc_User = seed_getEnv getenv ''DB_USER'' ''cbdc_app'',
     dc_Password = password, dc_MaxOpenConns = 5, dc_MaxIdleConns = 2, dc_ConnTimeout = 5 * second\<rparr>"

definition seed_connect :: "env \<Rightarrow> 'p drivers \<Rightarrow> (string \<Rightarrow> string) \<Rightarrow> (process, 'p pool_config) io" where
  "seed_connect E D getenv =
    (case seed_mustEnv getenv ''DB_PASSWORD'' of
       None \<Rightarrow> throw (Errorf ''required env var not set: DB_PASSWORD'')
     | Some password \<Rightarrow> database_New E D (seed_db_config getenv password))"

text \<open>An error anywhere ends the process with status 1, the pool as it is; otherwise the pool is closed.\<close>

definition seed_process :: "env \<Rightarrow> 'p drivers \<Rightarrow> auth_lib \<Rightarrow> (string \<Rightarrow> string) \<Rightarrow> (string \<times> int64) list \<Rightarrow>
    (string \<times> string) list \<Rightarrow> process \<Rightarrow> process" where
  "seed_process E D L getenv bo mo p =
    (case bind_io (seed_connect E D getenv) (\<lambda>db. on_world (seed_main E L getenv bo mo)) p of
       (Inl err, p1) \<Rightarrow> p1\<lparr>ps_stage := Exited 1\<rparr>
     | (Inr _, p1) \<Rightarrow> p1\<lparr>ps_pool := Closed, ps_stage := Exited 0\<rparr>)"

lemma seed_connect_world: "w_db (ps_world (snd (seed_connect E D getenv p))) = w_db (ps_world p)"
  by (auto simp: seed_connect_def database_New_def io_run ping_outcome Let_def split: option.splits)

lemma seed_process_keeps:
  assumes "books (w_db w)" "well_formed (w_db w)"
  shows "books (w_db (ps_world (seed_process E D L getenv bo mo (new_process w)))) \<and>
    well_formed (w_db (ps_world (seed_process E D L getenv bo mo (new_process w))))"
proof (cases "seed_connect E D getenv (new_process w)")
  case (Pair r p1)
  have db: "w_db (ps_world p1) = w_db w" using seed_connect_world [of E D getenv "new_process w"] Pair by (simp add: new_process_def)
  obtain x w2 where run: "seed_main E L getenv bo mo (ps_world p1) = (x, w2)" by fastforce
  note kept = sd_run [OF sd.main_kept assms [folded db] run]
  show ?thesis
    using kept assms db run Pair by (auto simp: seed_process_def io_run split: sum.splits)
qed

section \<open>The passwords\<close>

text \<open>Three of the demo passwords have nine characters: registration, which asks for ten, would refuse them.\<close>

lemma demo_passwords_too_short:
  "map su_Email (filter (\<lambda>u. length (su_Password u) < 10) seed_users) = [''bob@example.com'', ''carol@example.com'', ''cafe@example.com'']"
  by (simp add: seed_users_def)

lemma demo_password_refused:
  "u \<in> set seed_users \<Longrightarrow> su_Email u = ''bob@example.com'' \<Longrightarrow> validatePassword L (su_Password u) = Some (Auth ErrWeakPassword)"
  by (auto simp: seed_users_def validatePassword_def)

end
