(* ===== verification/Spec2Isabelle.thy ===== *)
theory Spec2Isabelle
  imports Prelude GoStd Currency Errors Database Ledger Ledger_Inv Ledger_Props Samples Ledger_Claims Redis Audit_Log Crypto Http Payment Hub Payment_Claims
    Admin Admin_Claims Utf8 Auth Auth_Props Auth_Claims QRCode QRCode_Claims Middleware Middleware_Claims Wallet Wallet_Claims
    Merchant Merchant_Props Merchant_Up Merchant_Claims Server System Schema System_Claims Seed Seed_Claims Interleaving Locking
    Cluster Pumps Connect Process Process_Claims Seed_Process
begin

text \<open>
  A verification library for the backend of the CBDC payment gateway simulator (\<open>src/backend\<close>, Go): an HTTP server
  that keeps wallets of digital dollars in PostgreSQL, lets an administrator issue money, users pay each other,
  merchants be paid by QR codes, and browsers follow it over WebSockets; and the program that fills its tables with
  demo data.

  \<^bold>\<open>The program and its state.\<close> The server is a chain: router and middleware (\<open>cmd/server/main.go\<close>,
  \<open>internal/middleware\<close>), one handler per route (\<open>internal/*/handler.go\<close>), a service behind it (\<open>service.go\<close>), a
  repository of SQL statements behind that (\<open>repository.go\<close>). All that lasts is in PostgreSQL and Redis. \<open>Database\<close>
  models it as one record \<open>world\<close>: the tables of \<open>backend/migrations\<close> as lists of rows in the order of insertion, the
  key space of Redis, the events handed to the hub, the webhooks called, and the number of service calls so far. The
  record \<open>env\<close> is what surrounds the process, indexed by that number: the clock, the fate of each call (it works, it
  fails, or it works and its reply is lost), the UUIDs and random bytes drawn. A theorem without a word about \<open>fate\<close>
  therefore holds under every pattern of failures.

  A Go function that fails or touches the world is a function \<open>world \<Rightarrow> (gerror + 'a) \<times> world\<close> (\<open>Errors\<close>): \<open>Inl\<close> for
  the error it returns, with the sentinel errors of each package as a datatype and \<open>Wrap\<close> for \<open>fmt.Errorf\<close> with
  \<open>%w\<close>. \<open>bind_io\<close>, \<open>catch_io\<close>, \<open>ignore_io\<close> are the three ways the code treats an error. An \<open>int64\<close> is a 64-bit word,
  read by \<open>sint\<close>, whose sums wrap around in Go and are an error in SQL.

  \<^bold>\<open>Foundations.\<close>
  \<^item> \<open>Prelude\<close>: 64-bit arithmetic (\<open>int64_simps\<close>), tables and their updates (\<open>upd_where\<close>), sums over rows.
  \<^item> \<open>GoStd\<close>, \<open>Utf8\<close>: the functions of \<open>strconv\<close>, \<open>fmt\<close>, \<open>strings\<close>, \<open>time\<close> and \<open>unicode/utf8\<close> that the code computes with.
  \<^item> \<open>Errors\<close>: errors and effects, with the collections \<open>io_run\<close> (run an effect), \<open>io_eq\<close> (invert an outcome) and
    \<open>keeps_intros\<close> (invariants along an effect).
  \<^item> \<open>Database\<close>: world, environment, one SQL statement (\<open>sql\<close>), one transaction (\<open>with_tx\<close>), which tables a statement
    leaves alone. \<open>Redis\<close>: \<open>pkg/redis/client.go\<close> and the 24-hour cache of \<open>pkg/idempotency\<close>.
  \<^item> \<open>Currency\<close>: \<open>pkg/currency/format.go\<close> and the second formatter of \<open>internal/auth/models.go\<close>. \<open>Crypto\<close>:
    \<open>pkg/crypto\<close>, with SHA-256 and HMAC written out over bytes. \<open>Http\<close>: requests, responses and \<open>pkg/response\<close>.
    \<open>Audit_Log\<close>: \<open>internal/audit\<close>. \<open>Samples\<close>: the small installation of the witnesses.

  \<^bold>\<open>Components.\<close> Each package has a theory with its models, statements, service and handlers, and a theory
  \<open>_Claims\<close> with its properties.
  \<^item> \<open>Ledger\<close> (\<open>internal/ledger\<close>): \<open>Transfer\<close> and \<open>Issue\<close>, every lock, check and write in order. \<open>Ledger_Inv\<close> defines
    \<open>books\<close>: every transaction is settled and booked by a debit and a credit of its amount (an issuance by the credit
    alone), every balance is the sum of its wallet's entries and every entry carries the running balance, keys are
    unique, and the money in circulation is the money issued. \<open>Ledger_Props\<close> gives the abstract account map and the
    refinement: when no call fails, both functions compute exactly the abstract operation, error by error. \<open>Locking\<close> lets
    their transactions overlap under the row locks, lock by lock: serializable, and free of deadlock by the order of locks.
  \<^item> \<open>Payment\<close> (\<open>internal/payment\<close>), \<open>Admin\<close> (\<open>internal/admin\<close>): payments and issuance with cache, audit entry and event.
    They call the ledger through the locales \<open>ledger_transferer\<close> and \<open>ledger_issuer\<close>.
  \<^item> \<open>Auth\<close> (\<open>internal/auth\<close>): registration, login with lockout, refresh tokens with rotation, access tokens.
    \<open>Auth_Props\<close> has the history of sessions as a step relation.
  \<^item> \<open>Wallet\<close> (\<open>internal/wallet\<close>): balances, histories by pages, the search with its SQL pattern.
  \<^item> \<open>QRCode\<close> (\<open>pkg/qrcode\<close>), \<open>Merchant\<close> (\<open>internal/merchant\<close>): signed payment URIs; profiles, payment requests and the
    payment of a scanned code. \<open>Merchant_Props\<close> states the service against its interfaces, \<open>Merchant_Up\<close> follows a
    request from its creation to its payment when no call fails.
  \<^item> \<open>Middleware\<close> (\<open>internal/middleware\<close>): bearer tokens, roles, rate limits.
  \<^item> \<open>Hub\<close> (\<open>internal/websocket\<close>): the event loop, the broadcasts and the pumps of the clients as an inductive step
    relation \<open>hub_step\<close> in which the goroutines interleave freely. \<open>Cluster\<close> puts any number of backends on one Redis
    channel (\<open>cluster_step\<close>), whose subscriptions may lose messages; \<open>Pumps\<close> has the deadlines and pings of a connection.
  \<^item> \<open>Server\<close> (\<open>cmd/server/main.go\<close> and the \<open>Routes\<close> of the handlers): configuration, the table of routes with the
    middleware around each, the answer to one request (\<open>serve\<close>).
  \<^item> \<open>Connect\<close> (\<open>New\<close> of \<open>pkg/database\<close> and \<open>pkg/redis\<close>), \<open>Process\<close> (\<open>main\<close>): the record \<open>process\<close> is what the server
    process holds; \<open>start\<close> takes it from the environment to the listening server, \<open>process_step\<close> through requests, signal,
    draining and exit, with \<open>serve_one\<close> as the answer to a request. \<open>Process_Claims\<close> has the properties.
  \<^item> \<open>Seed\<close>, \<open>Seed_Process\<close> (\<open>cmd/seed/main.go\<close>): the demo data program and the process around it.

  \<^bold>\<open>Properties of the whole.\<close> \<open>System\<close> proves once, in the locales \<open>safe_accounts\<close>, \<open>safe_tables\<close> and \<open>safe_system\<close>,
  that a property of the tables which every SQL statement keeps is kept by every handler behind its middleware and so
  by every sequence of requests. \<open>Schema\<close> interprets them on the books, on the integrity of the schema (\<open>well_formed\<close>:
  keys, references, ranges, the marks of paid requests), on the growth of the records (\<open>grown\<close>) and on the life cycle of
  payment requests (\<open>evolved\<close>); \<open>System_Claims\<close> draws the consequences for the server, and the gate that tokens and
  roles are. \<open>Interleaving\<close> takes the payment of a QR code apart at its transfer and lets any number of payments and
  other requests overlap (\<open>qr_interleave\<close>). \<open>Seed_Claims\<close> does the same as \<open>System_Claims\<close> for the demo data, with
  \<open>safe_upserts\<close> and \<open>safe_seed\<close>.

  \<^bold>\<open>What the lemmas show\<close>, in the order of importance: no request and no failure unbalances the books or the schema;
  a payment moves the requested amount once or nothing, and an error has moved nothing unless the reply of a commit
  was lost; no money is issued without an administrator's token and never more than the limit; sessions, locks, tokens
  and roles guard what they are meant to guard; a QR payment pays a signed, open request of an active merchant; the
  hub delivers to the owner of a wallet only, once for each call; the process serves only while its connections are
  open and always ends after the signal; pages, searches, formats and URIs are what they promise to be. Lemmas that
  are no properties of their own record where the code differs from its comments, for instance
  \<open>Send_replay_reports_zero\<close>, \<open>Issue_twice_mints_twice\<close>, \<open>relock_after_expiry\<close>, \<open>retry_after_empty\<close>,
  \<open>stale_seed_loses_money\<close>, \<open>dsn_ambiguous\<close>, \<open>pool_size_wraps\<close>, \<open>lost_reply_delivers_twice\<close> and \<open>demo_passwords_too_short\<close>.

  \<^bold>\<open>Bounds.\<close> The loops of the program are structural recursions, or functions with a termination proof (the digits of
  \<open>itoa\<close>, \<open>padLeft\<close>, the blocks of SHA-256, trimming, decoding of UTF-8); none takes fuel. \<open>root_word\<close> computes 40 bits of
  a root, enough for the fractional words of the SHA-256 constants, whose integer parts are below 8. \<open>whole_seconds\<close>
  treats the conversion of a duration as exact, which it is below \<open>2 ^ 23\<close> seconds. The hub's channels have the
  capacities of the source. The fuel of \<open>dec_claims\<close> belongs to the sample JWT library of the witnesses and is one more
  than the length of the token.

  \<^bold>\<open>Parameters.\<close> Code that is not in the repository is an argument: bcrypt, the JWT package and the Unicode tables
  (\<open>auth_lib\<close>), the UUID package and PostgreSQL's \<open>inet\<close> (\<open>env\<close>), its collation (\<open>collation\<close>), router, standard
  middleware, CORS and WebSocket upgrade (\<open>server\<close>), what the drivers make of their configuration (\<open>drivers\<close>), the order of \<open>range\<close> over a map (\<open>seed_main\<close>). What is relied on is
  a named hypothesis (\<open>uuid_lib_ok\<close>, \<open>jwt_round_trip\<close>, \<open>jwt_asks_key\<close>), shown to be satisfiable where it is used.

  \<^bold>\<open>Not modelled.\<close> The log lines (only their level is); the inside of the connection pool, of the router and of the HTTP
  server, whose own timeouts are kept as configuration; JSON at the level of bytes (a body is its tree; a handler decodes
  the tree; a message on the channel of the hub is its event); the frames of a WebSocket, and connections taken over by
  the upgrade, which \<open>Shutdown\<close> does not wait for; the generated API documentation and the front end.
  Outside \<open>Interleaving\<close> and \<open>Locking\<close> the requests of the server run one after the other, and a database transaction is
  one step; \<open>Locking\<close> shows over the abstract accounts why the row locks of the ledger allow that. What an interleaving
  can do to a read outside a transaction is shown by \<open>one_request_paid_twice\<close> and \<open>stale_seed_loses_money\<close>.
\<close>

end
